(* ===== verification/Prelude.thy ===== *)
theory Prelude
  imports Complex_Main "HOL-Library.Char_ord" "HOL-Library.List_Lexorder"
begin

text \<open>
  Shared vocabulary of the development: results and panics, the part of Rust's string library
  the program uses, tables as row lists, and the interfaces (locales) that several
  components implement: codecs of wire enumerations, bounded caches, relations a composition keeps and machines with an
  invariant.

  A Rust \<open>&str\<close> is its UTF-8 bytes: a HOL \<open>string\<close> whose characters are bytes, so
  \<open>length\<close> is \<open>str::len\<close>, and byte slicing that misses a character boundary is a panic.
\<close>

section \<open>Fact collections and results\<close>

named_theorems str_facts \<open>rules about byte strings\<close>
named_theorems tbl_facts \<open>rules about tables as row lists\<close>

datatype 'a outcome = Panic | Ret 'a

fun bind_outcome :: "'a outcome \<Rightarrow> ('a \<Rightarrow> 'b outcome) \<Rightarrow> 'b outcome" where
  "bind_outcome Panic f = Panic"
| "bind_outcome (Ret x) f = f x"

lemma bind_outcome_Ret_iff:
  "bind_outcome m f = Ret y \<longleftrightarrow> (\<exists>x. m = Ret x \<and> f x = Ret y)"
  by (cases m) auto

text \<open>A step on a state that may panic keeps the state it has reached.\<close>

definition and_then :: "'s \<times> 'a outcome \<Rightarrow> ('s \<Rightarrow> 'a \<Rightarrow> 's \<times> 'b outcome) \<Rightarrow> 's \<times> 'b outcome" where
  "and_then r f = (case r of (s, Panic) \<Rightarrow> (s, Panic) | (s, Ret x) \<Rightarrow> f s x)"

lemma and_then_simps [simp]: "and_then (s, Panic) f = (s, Panic)" "and_then (s, Ret x) f = f s x"
  by (simp_all add: and_then_def)

lemma and_then_Ret_iff: "and_then r f = (s', Ret y) \<longleftrightarrow> (\<exists>s x. r = (s, Ret x) \<and> f s x = (s', Ret y))"
  by (auto simp: and_then_def split: prod.split outcome.split)

text \<open>A relation that every step of a task keeps between the state before and after.\<close>

locale preserved =
  fixes R :: "'s \<Rightarrow> 's \<Rightarrow> bool"
  assumes kept_refl: "R s s"
    and kept_trans: "R s s1 \<Longrightarrow> R s1 s2 \<Longrightarrow> R s s2"
begin

lemma and_then_kept:
  assumes "R s (fst r)" "\<And>s' x. r = (s', Ret x) \<Longrightarrow> R s' (fst (f s' x))"
  shows "R s (fst (and_then r f))"
proof (cases r)
  case (Pair s' o')
  then show ?thesis using assms kept_trans by (cases o') auto
qed

end

text \<open>Rust's \<open>Result::unwrap_or\<close> on a sum whose left side is the error.\<close>

fun unwrap_or :: "'e + 'a \<Rightarrow> 'a \<Rightarrow> 'a" where
  "unwrap_or (Inl e) d = d"
| "unwrap_or (Inr x) d = x"

section \<open>Machine integers\<close>

text \<open>Unsigned machine integers are naturals; the width is written where a bound is used.\<close>

abbreviation u32_size :: nat where "u32_size \<equiv> 4294967296"
abbreviation u64_size :: nat where "u64_size \<equiv> 18446744073709551616"
abbreviation i64_size :: nat where "i64_size \<equiv> 9223372036854775808"

definition saturating_add_u64 :: "nat \<Rightarrow> nat \<Rightarrow> nat" where
  "saturating_add_u64 a b = min (a + b) (u64_size - 1)"

text \<open>The cast \<open>as i64\<close> of a \<open>u64\<close> reads the same 64 bits as two's complement.\<close>

definition as_i64 :: "nat \<Rightarrow> int" where
  "as_i64 n = (let m = int n mod int u64_size
     in if m < int i64_size then m else m - int u64_size)"

lemma as_i64_small [simp]: "n < i64_size \<Longrightarrow> as_i64 n = int n"
  by (simp add: as_i64_def Let_def)

section \<open>Byte strings\<close>

fun strip_prefix :: "string \<Rightarrow> string \<Rightarrow> string option" where
  "strip_prefix [] s = Some s"
| "strip_prefix (p # ps) [] = None"
| "strip_prefix (p # ps) (c # cs) = (if p = c then strip_prefix ps cs else None)"

definition starts_with :: "string \<Rightarrow> string \<Rightarrow> bool" where
  "starts_with s p \<longleftrightarrow> strip_prefix p s \<noteq> None"

text \<open>\<open>str::find\<close> with a string pattern: the least byte index where it occurs.\<close>

fun find_sub :: "string \<Rightarrow> string \<Rightarrow> nat option" where
  "find_sub p [] = (if p = [] then Some 0 else None)"
| "find_sub p (c # cs) =
     (if starts_with (c # cs) p then Some 0 else map_option Suc (find_sub p cs))"

definition contains :: "string \<Rightarrow> string \<Rightarrow> bool" where
  "contains s p \<longleftrightarrow> find_sub p s \<noteq> None"

text \<open>\<open>str::rfind\<close> with an ASCII character pattern: the greatest byte index.\<close>

fun rfind_char :: "char \<Rightarrow> string \<Rightarrow> nat option" where
  "rfind_char x [] = None"
| "rfind_char x (c # cs) =
     (case rfind_char x cs of
        Some i \<Rightarrow> Some (Suc i)
      | None \<Rightarrow> if c = x then Some 0 else None)"

lemma strip_prefix_Some_iff [str_facts]: "strip_prefix p s = Some r \<longleftrightarrow> s = p @ r"
  by (induction p s rule: strip_prefix.induct) auto

lemma strip_prefix_append [simp]: "strip_prefix p (p @ r) = Some r"
  by (simp add: strip_prefix_Some_iff)

lemma starts_with_iff: "starts_with s p \<longleftrightarrow> (\<exists>r. s = p @ r)"
  by (auto simp: starts_with_def strip_prefix_Some_iff)

lemma find_sub_Some:
  "find_sub p s = Some i \<Longrightarrow> s = take i s @ p @ drop (i + length p) s \<and> i + length p \<le> length s"
proof (induction p s arbitrary: i rule: find_sub.induct)
  case (1 p)
  then show ?case by (auto split: if_splits)
next
  case (2 p c cs)
  show ?case
  proof (cases "starts_with (c # cs) p")
    case True
    then obtain r where r: "c # cs = p @ r" by (auto simp: starts_with_iff)
    have "i = 0" using True 2(2) by simp
    with r show ?thesis by simp
  next
    case False
    with 2(2) obtain j where "find_sub p cs = Some j" and "i = Suc j" by auto
    with 2(1)[OF False] show ?thesis by auto
  qed
qed

lemma find_sub_None_iff: "find_sub p s = None \<longleftrightarrow> (\<nexists>u v. s = u @ p @ v)"
proof (induction p s rule: find_sub.induct)
  case (1 p)
  then show ?case by auto
next
  case (2 p c cs)
  show ?case
  proof (cases "starts_with (c # cs) p")
    case True
    then have "\<exists>v. c # cs = [] @ p @ v" by (simp add: starts_with_iff)
    with True show ?thesis by (metis find_sub.simps(2) option.distinct(1))
  next
    case False
    then have "(\<exists>u v. c # cs = u @ p @ v) \<longleftrightarrow> (\<exists>u v. cs = u @ p @ v)"
      by (metis Cons_eq_append_conv append_Cons append_Nil starts_with_iff)
    with False 2 show ?thesis by simp
  qed
qed

lemma contains_iff [str_facts]: "contains s p \<longleftrightarrow> (\<exists>u v. s = u @ p @ v)"
  by (metis contains_def find_sub_None_iff)

text \<open>No occurrence starts before the index that \<open>find_sub\<close> returns.\<close>

lemma find_sub_least:
  "find_sub p s = Some i \<Longrightarrow> j < i \<Longrightarrow> \<not> starts_with (drop j s) p"
proof (induction p s arbitrary: i j rule: find_sub.induct)
  case (1 p)
  then show ?case by (auto split: if_splits)
next
  case (2 p c cs)
  from 2(2,3) have ns: "\<not> starts_with (c # cs) p" by (auto split: if_splits)
  with 2(2) obtain k where k: "find_sub p cs = Some k" "i = Suc k" by auto
  show ?case
  proof (cases j)
    case 0
    with ns show ?thesis by simp
  next
    case (Suc j')
    with 2(1)[OF ns k(1)] 2(3) k(2) show ?thesis by simp
  qed
qed

lemma find_subI:
  "starts_with (drop i s) p \<Longrightarrow> \<forall>j < i. \<not> starts_with (drop j s) p \<Longrightarrow> i \<le> length s
   \<Longrightarrow> find_sub p s = Some i"
proof (induction s arbitrary: i)
  case Nil
  then show ?case by (auto simp: starts_with_iff)
next
  case (Cons c cs)
  show ?case
  proof (cases i)
    case 0
    with Cons.prems(1) show ?thesis by simp
  next
    case (Suc k)
    have first: "\<not> starts_with (c # cs) p" using Cons.prems(2) Suc by force
    have "\<forall>j < k. \<not> starts_with (drop j cs) p"
      using Cons.prems(2) Suc by (metis Suc_less_eq drop_Suc_Cons)
    then have "find_sub p cs = Some k"
      using Cons.prems(1,3) Suc by (intro Cons.IH) auto
    with first Suc show ?thesis by simp
  qed
qed

lemma find_sub_char_append:
  "x \<notin> set s \<Longrightarrow> find_sub [x] (s @ x # r) = Some (length s)"
  by (induction s) (auto simp: starts_with_iff)

lemma find_sub_char_None_iff: "find_sub [x] s = None \<longleftrightarrow> x \<notin> set s"
  by (simp add: find_sub_None_iff) (metis in_set_conv_decomp)

lemma rfind_char_Some:
  "rfind_char x s = Some i \<Longrightarrow> i < length s \<and> s ! i = x \<and> x \<notin> set (drop (Suc i) s)"
proof (induction s arbitrary: i)
  case Nil
  then show ?case by simp
next
  case (Cons c cs)
  show ?case
  proof (cases "rfind_char x cs")
    case None
    have "x \<notin> set cs" using None by (induction cs) (auto split: option.splits if_splits)
    with Cons.prems None show ?thesis by (auto split: if_splits)
  next
    case (Some k)
    with Cons show ?thesis by auto
  qed
qed

section \<open>UTF-8 structure\<close>

text \<open>
  A continuation byte is \<open>10xxxxxx\<close>. \<open>chars\<close> groups a string into its characters: each
  lead byte with the continuation bytes after it. On valid UTF-8 this is \<open>str::chars\<close>.
\<close>

definition is_cont :: "char \<Rightarrow> bool" where
  "is_cont c \<longleftrightarrow> 128 \<le> (of_char c :: nat) \<and> (of_char c :: nat) < 192"

function chars :: "string \<Rightarrow> string list" where
  "chars [] = []"
| "chars (c # cs) = (c # takeWhile is_cont cs) # chars (dropWhile is_cont cs)"
  by pat_completeness auto
termination
  by (relation "measure length") (auto simp: le_imp_less_Suc length_dropWhile_le)

definition is_char_boundary :: "string \<Rightarrow> nat \<Rightarrow> bool" where
  "is_char_boundary s i \<longleftrightarrow> i = 0 \<or> i = length s \<or> (i < length s \<and> \<not> is_cont (s ! i))"

definition utf8_width :: "char \<Rightarrow> nat option" where
  "utf8_width c = (let b = (of_char c :: nat) in
     if b < 128 then Some 1
     else if b < 194 then None
     else if b < 224 then Some 2
     else if b < 240 then Some 3
     else if b < 245 then Some 4
     else None)"

definition valid_utf8 :: "string \<Rightarrow> bool" where
  "valid_utf8 s \<longleftrightarrow> (\<forall>g \<in> set (chars s). utf8_width (hd g) = Some (length g))"

lemma concat_chars [simp]: "concat (chars s) = s"
  by (induction s rule: chars.induct) auto

lemma chars_nonempty: "g \<in> set (chars s) \<Longrightarrow> g \<noteq> []"
  by (induction s rule: chars.induct) auto

lemma length_chars_le: "length (chars s) \<le> length s"
proof (induction s rule: chars.induct)
  case (2 c cs)
  have "length (dropWhile is_cont cs) \<le> length cs" by (rule length_dropWhile_le)
  with 2 show ?case by simp
qed simp

text \<open>A valid string is the concatenation of well-formed characters, and splits between them.\<close>

definition wf_char :: "string \<Rightarrow> bool" where
  "wf_char g \<longleftrightarrow> g \<noteq> [] \<and> \<not> is_cont (hd g) \<and> (\<forall>c \<in> set (tl g). is_cont c)"

lemma takeWhile_cont_stop: "r = [] \<or> \<not> is_cont (hd r) \<Longrightarrow> \<forall>c \<in> set t. is_cont c \<Longrightarrow>
    takeWhile is_cont (t @ r) = t \<and> dropWhile is_cont (t @ r) = r"
  by (cases r) auto

lemma concat_wf_hd: "\<forall>g \<in> set gs. wf_char g \<Longrightarrow> concat gs = [] \<or> \<not> is_cont (hd (concat gs))"
  by (cases gs) (auto simp: wf_char_def hd_append)

lemma chars_append: "\<forall>g \<in> set gs. wf_char g \<Longrightarrow> r = [] \<or> \<not> is_cont (hd r) \<Longrightarrow>
    chars (concat gs @ r) = gs @ chars r"
proof (induction gs)
  case (Cons g gs)
  then obtain c t where g: "g = c # t" "\<not> is_cont c" "\<forall>x \<in> set t. is_cont x"
    by (cases g) (auto simp: wf_char_def)
  have "concat gs @ r = [] \<or> \<not> is_cont (hd (concat gs @ r))"
    using concat_wf_hd [of gs] Cons.prems by (auto simp: hd_append)
  from takeWhile_cont_stop [OF this g(3)] show ?case using g Cons by simp
qed simp

lemma chars_concat: "\<forall>g \<in> set gs. wf_char g \<Longrightarrow> chars (concat gs) = gs"
  using chars_append [of gs "[]"] by simp

lemma chars_tl_cont: "g \<in> set (chars s) \<Longrightarrow> c \<in> set (tl g) \<Longrightarrow> is_cont c"
  by (induction s rule: chars.induct) (auto dest: set_takeWhileD)

lemma utf8_width_hd: "utf8_width c = Some n \<Longrightarrow> \<not> is_cont c"
  by (auto simp: utf8_width_def is_cont_def Let_def split: if_splits)

lemma valid_utf8_chars: "valid_utf8 s \<Longrightarrow> \<forall>g \<in> set (chars s). wf_char g"
  by (auto simp: valid_utf8_def wf_char_def dest: utf8_width_hd chars_nonempty chars_tl_cont)

lemma valid_utf8_concat:
  "\<forall>g \<in> set gs. wf_char g \<and> utf8_width (hd g) = Some (length g) \<Longrightarrow> valid_utf8 (concat gs)"
  by (simp add: valid_utf8_def chars_concat)

text \<open>Byte slicing: \<open>&s[..i]\<close> and \<open>&s[i..]\<close> panic off a boundary or past the end.\<close>

definition slice_to :: "string \<Rightarrow> nat \<Rightarrow> string outcome" where
  "slice_to s i = (if is_char_boundary s i then Ret (take i s) else Panic)"

definition slice_from :: "string \<Rightarrow> nat \<Rightarrow> string outcome" where
  "slice_from s i = (if is_char_boundary s i then Ret (drop i s) else Panic)"

text \<open>A boundary of a valid string falls between two of its characters.\<close>

lemma boundary_chars:
  "\<forall>g \<in> set gs. wf_char g \<Longrightarrow> is_char_boundary (concat gs) k \<Longrightarrow> k \<le> length (concat gs) \<Longrightarrow>
   \<exists>n. take k (concat gs) = concat (take n gs) \<and> drop k (concat gs) = concat (drop n gs)"
proof (induction gs arbitrary: k)
  case (Cons g gs)
  consider "k = 0" | "0 < k" "k < length g" | "length g \<le> k" by linarith
  then show ?case
  proof cases
    case 1
    then show ?thesis by (intro exI [of _ 0]) simp
  next
    case 2
    have "wf_char g" using Cons.prems(1) by simp
    moreover have "concat (g # gs) ! k \<in> set (tl g)"
      using 2 by (cases g) (auto simp: nth_append nth_Cons split: nat.splits)
    ultimately have "is_cont (concat (g # gs) ! k)" by (simp add: wf_char_def)
    then show ?thesis using Cons.prems(2) 2 by (simp add: is_char_boundary_def)
  next
    case 3
    then have "is_char_boundary (concat gs) (k - length g)" "k - length g \<le> length (concat gs)"
      using Cons.prems(2,3) by (auto simp: is_char_boundary_def nth_append)
    then obtain n where "take (k - length g) (concat gs) = concat (take n gs)"
        "drop (k - length g) (concat gs) = concat (drop n gs)"
      using Cons.IH Cons.prems(1) by fastforce
    then show ?thesis using 3 by (intro exI [of _ "Suc n"]) simp
  qed
qed simp

lemma valid_split:
  assumes "valid_utf8 s" "is_char_boundary s k" "k \<le> length s"
  shows "valid_utf8 (take k s)" "valid_utf8 (drop k s)"
proof -
  have wf: "\<forall>g \<in> set (chars s). wf_char g \<and> utf8_width (hd g) = Some (length g)"
    using valid_utf8_chars [OF assms(1)] assms(1) by (simp add: valid_utf8_def)
  obtain n where "take k s = concat (take n (chars s))" "drop k s = concat (drop n (chars s))"
    using boundary_chars [of "chars s" k] wf assms(2,3) by auto
  then show "valid_utf8 (take k s)" "valid_utf8 (drop k s)"
    using wf by (metis in_set_takeD valid_utf8_concat, metis in_set_dropD valid_utf8_concat)
qed

section \<open>White space and letter case\<close>

text \<open>The Unicode property \<open>White_Space\<close>, as UTF-8 encodings.\<close>

definition white_space :: "string list" where
  "white_space = map (\<lambda>c. [c]) [CHR 0x09, CHR 0x0A, CHR 0x0B, CHR 0x0C, CHR 0x0D, CHR '' '']
     @ map (\<lambda>c. [CHR 0xC2, c]) [CHR 0x85, CHR 0xA0]
     @ [[CHR 0xE1, CHR 0x9A, CHR 0x80]]
     @ map (\<lambda>c. [CHR 0xE2, CHR 0x80, c])
         [CHR 0x80, CHR 0x81, CHR 0x82, CHR 0x83, CHR 0x84, CHR 0x85, CHR 0x86, CHR 0x87,
          CHR 0x88, CHR 0x89, CHR 0x8A, CHR 0xA8, CHR 0xA9, CHR 0xAF]
     @ [[CHR 0xE2, CHR 0x81, CHR 0x9F], [CHR 0xE3, CHR 0x80, CHR 0x80]]"

definition is_ws :: "string \<Rightarrow> bool" where
  "is_ws g \<longleftrightarrow> g \<in> set white_space"

definition trim_start :: "string \<Rightarrow> string" where
  "trim_start s = concat (dropWhile is_ws (chars s))"

definition trim_end :: "string \<Rightarrow> string" where
  "trim_end s = concat (rev (dropWhile is_ws (rev (chars s))))"

definition trim :: "string \<Rightarrow> string" where
  "trim s = trim_end (trim_start s)"

definition ascii_lower :: "char \<Rightarrow> char" where
  "ascii_lower c = (let b = (of_char c :: nat) in
     if 65 \<le> b \<and> b \<le> 90 then char_of (b + 32) else c)"

text \<open>
  \<open>str::to_lowercase\<close> maps an ASCII character by its code and any other character by the
  Unicode tables, which are the parameter \<open>ulow\<close> (one encoded character to its lower case).
\<close>

definition lower_char :: "(string \<Rightarrow> string) \<Rightarrow> string \<Rightarrow> string" where
  "lower_char ulow g = (case g of
      [c] \<Rightarrow> if (of_char c :: nat) < 128 then [ascii_lower c] else ulow g
    | _ \<Rightarrow> ulow g)"

definition to_lowercase :: "(string \<Rightarrow> string) \<Rightarrow> string \<Rightarrow> string" where
  "to_lowercase ulow s = concat (map (lower_char ulow) (chars s))"

definition eq_ignore_ascii_case :: "string \<Rightarrow> string \<Rightarrow> bool" where
  "eq_ignore_ascii_case s t \<longleftrightarrow> map ascii_lower s = map ascii_lower t"

abbreviation is_ascii :: "string \<Rightarrow> bool" where
  "is_ascii s \<equiv> \<forall>c \<in> set s. (of_char c :: nat) < 128"

lemma takeWhile_cont_ascii: "is_ascii s \<Longrightarrow> takeWhile is_cont s = []"
  by (cases s) (auto simp: is_cont_def)

lemma dropWhile_cont_ascii: "is_ascii s \<Longrightarrow> dropWhile is_cont s = s"
  by (cases s) (auto simp: is_cont_def)

lemma chars_ascii [str_facts]: "is_ascii s \<Longrightarrow> chars s = map (\<lambda>c. [c]) s"
  by (induction s) (auto simp: takeWhile_cont_ascii dropWhile_cont_ascii)

lemma to_lowercase_ascii [str_facts]: "is_ascii s \<Longrightarrow> to_lowercase ulow s = map ascii_lower s"
proof -
  assume a: "is_ascii s"
  then have "concat (map (\<lambda>c. lower_char ulow [c]) s) = map ascii_lower s"
    by (induction s) (auto simp: lower_char_def)
  with a show ?thesis by (simp add: to_lowercase_def chars_ascii comp_def)
qed

lemma length_concat_dropWhile_le: "length (concat (dropWhile P gs)) \<le> length (concat gs)"
  by (induction gs) auto

lemma length_trim_start_le: "length (trim_start s) \<le> length s"
  using length_concat_dropWhile_le [of is_ws "chars s"] by (simp add: trim_start_def)

lemma concat_dropWhile_suffix: "\<exists>u. concat gs = u @ concat (dropWhile P gs)"
proof (induction gs)
  case (Cons g gs)
  then obtain u where "concat gs = u @ concat (dropWhile P gs)" by blast
  then have "concat (g # gs) = (if P g then g @ u else []) @ concat (dropWhile P (g # gs))" by simp
  then show ?case by blast
qed simp

lemma trim_start_suffix: "\<exists>u. s = u @ trim_start s"
  using concat_dropWhile_suffix [of "chars s" is_ws] by (simp add: trim_start_def)

lemma trim_start_split: "s = concat (takeWhile is_ws (chars s)) @ trim_start s"
  by (metis concat_append concat_chars takeWhile_dropWhile_id trim_start_def)

lemma trim_start_valid: "valid_utf8 s \<Longrightarrow> valid_utf8 (trim_start s)"
  unfolding trim_start_def
  by (rule valid_utf8_concat) (use valid_utf8_chars [of s] in \<open>auto simp: valid_utf8_def dest: set_dropWhileD\<close>)

lemma trim_start_shorter:
  assumes "valid_utf8 s" "s \<noteq> []" "is_ws [hd s]"
  shows "length (trim_start s) < length s"
proof -
  obtain c t where s: "s = c # t" using assms(2) by (cases s) auto
  have wf: "\<forall>g \<in> set (chars s). utf8_width (hd g) = Some (length g)" using assms(1) by (simp add: valid_utf8_def)
  have "c \<in> {CHR 0x09, CHR 0x0A, CHR 0x0B, CHR 0x0C, CHR 0x0D, CHR '' ''}"
    using assms(3) s by (auto simp: is_ws_def white_space_def)
  then have "utf8_width c = Some 1" by (auto simp: utf8_width_def)
  moreover have "utf8_width c = Some (length (c # takeWhile is_cont t))" using wf s by simp
  ultimately have "takeWhile is_cont t = []" by simp
  then have "chars s = [c] # chars (dropWhile is_cont t)" using s by simp
  then have "trim_start s = concat (dropWhile is_ws (chars (dropWhile is_cont t)))"
    using assms(3) s by (simp add: trim_start_def)
  moreover have "length \<dots> \<le> length (dropWhile is_cont t)"
    using length_concat_dropWhile_le [of is_ws "chars (dropWhile is_cont t)"] by simp
  moreover have "length (dropWhile is_cont t) \<le> length t" by (rule length_dropWhile_le)
  ultimately show ?thesis using s by simp
qed

section \<open>Decimal numerals\<close>

fun show_nat :: "nat \<Rightarrow> string" where
  "show_nat n = (if n < 10 then [char_of (48 + n)]
     else show_nat (n div 10) @ [char_of (48 + n mod 10)])"

declare show_nat.simps [simp del]

lemma show_nat_digit: "n < 10 \<Longrightarrow> show_nat n = [char_of (48 + n)]"
  by (simp add: show_nat.simps)

lemma show_nat_digits: "c \<in> set (show_nat n) \<Longrightarrow> 48 \<le> (of_char c :: nat) \<and> (of_char c :: nat) < 58"
proof (induction n rule: show_nat.induct)
  case (1 n)
  show ?case
  proof (cases "n < 10")
    case True
    then show ?thesis using 1(2) by (simp add: show_nat_digit)
  next
    case False
    have "n mod 10 < 10" by simp
    with False 1 show ?thesis by (auto simp: show_nat.simps [of n])
  qed
qed

definition read_nat :: "string \<Rightarrow> nat" where
  "read_nat s = foldl (\<lambda>a c. 10 * a + (of_char c - 48)) 0 s"

lemma read_show_nat: "read_nat (show_nat n) = n"
proof (induction n rule: show_nat.induct)
  case (1 n)
  show ?case
  proof (cases "n < 10")
    case True
    then show ?thesis by (simp add: show_nat_digit read_nat_def)
  next
    case False
    have "n mod 10 < 10" by simp
    with False 1 show ?thesis by (simp add: show_nat.simps [of n] read_nat_def)
  qed
qed

lemma show_nat_inject: "show_nat m = show_nat n \<longleftrightarrow> m = n"
  by (metis read_show_nat)

section \<open>Tables as lists of rows\<close>

text \<open>The database errors that the program's statements can meet (\<open>rusqlite::Error\<close>).\<close>

datatype sql_error = QueryReturnedNoRows | ConstraintViolation | ToSqlConversionFailure

text \<open>An unsigned value is bound as a 64-bit signed integer: \<open>ToSql for u64\<close>.\<close>

definition sql_u64 :: "nat \<Rightarrow> bool" where
  "sql_u64 n \<longleftrightarrow> n < i64_size"

text \<open>
  A table is the list of its rows in rowid order. \<open>tbl_find\<close> is a point query,
  \<open>tbl_update\<close> an \<open>UPDATE .. WHERE\<close>, \<open>tbl_delete\<close> a \<open>DELETE .. WHERE\<close>,
  \<open>tbl_count\<close> the number of rows a statement touches; \<open>unique_on\<close> is a \<open>UNIQUE\<close>
  constraint.
\<close>

abbreviation tbl_find :: "('r \<Rightarrow> bool) \<Rightarrow> 'r list \<Rightarrow> 'r option" where
  "tbl_find P rows \<equiv> List.find P rows"

definition tbl_update :: "('r \<Rightarrow> bool) \<Rightarrow> ('r \<Rightarrow> 'r) \<Rightarrow> 'r list \<Rightarrow> 'r list" where
  "tbl_update P f rows = map (\<lambda>r. if P r then f r else r) rows"

definition tbl_delete :: "('r \<Rightarrow> bool) \<Rightarrow> 'r list \<Rightarrow> 'r list" where
  "tbl_delete P rows = filter (\<lambda>r. \<not> P r) rows"

definition tbl_count :: "('r \<Rightarrow> bool) \<Rightarrow> 'r list \<Rightarrow> nat" where
  "tbl_count P rows = length (filter P rows)"

definition unique_on :: "('r \<Rightarrow> 'k) \<Rightarrow> 'r list \<Rightarrow> bool" where
  "unique_on key rows \<longleftrightarrow> distinct (map key rows)"

lemma tbl_find_None [tbl_facts]: "tbl_find P rows = None \<longleftrightarrow> (\<forall>r \<in> set rows. \<not> P r)"
  by (auto simp: find_None_iff)

lemma tbl_find_key_None: "tbl_find (\<lambda>r. key r = k) rows = None \<longleftrightarrow> k \<notin> key ` set rows"
  by (force simp: find_None_iff)

lemma tbl_find_SomeD: "tbl_find P rows = Some r \<Longrightarrow> r \<in> set rows \<and> P r"
  by (auto simp: find_Some_iff)

lemma tbl_find_append [tbl_facts]:
  "tbl_find P (xs @ ys) = (case tbl_find P xs of None \<Rightarrow> tbl_find P ys | Some r \<Rightarrow> Some r)"
  by (induction xs) auto

lemma tbl_find_unique:
  "unique_on key rows \<Longrightarrow> r \<in> set rows \<Longrightarrow> tbl_find (\<lambda>x. key x = key r) rows = Some r"
  by (induction rows) (auto simp: unique_on_def image_iff)

lemma tbl_find_update:
  "(\<And>r. P (f r) \<longleftrightarrow> P r) \<Longrightarrow> tbl_find P (tbl_update Q f rows)
     = map_option (\<lambda>r. if Q r then f r else r) (tbl_find P rows)"
  by (induction rows) (auto simp: tbl_update_def)

lemma tbl_find_update_same [tbl_facts]:
  "(\<And>r. P (f r) \<longleftrightarrow> P r) \<Longrightarrow> tbl_find P (tbl_update P f rows) = map_option f (tbl_find P rows)"
  by (induction rows) (auto simp: tbl_update_def)

lemma tbl_find_delete_same [tbl_facts]: "tbl_find P (tbl_delete P rows) = None"
  by (simp add: tbl_find_None tbl_delete_def)

lemma tbl_find_delete_other:
  "(\<And>r. P r \<Longrightarrow> \<not> Q r) \<Longrightarrow> tbl_find P (tbl_delete Q rows) = tbl_find P rows"
  by (induction rows) (auto simp: tbl_delete_def)

lemma set_tbl_update: "set (tbl_update P f rows) = (\<lambda>r. if P r then f r else r) ` set rows"
  by (simp add: tbl_update_def)

lemma set_tbl_delete: "set (tbl_delete P rows) = {r \<in> set rows. \<not> P r}"
  by (auto simp: tbl_delete_def)

lemma length_tbl_update [simp]: "length (tbl_update P f rows) = length rows"
  by (simp add: tbl_update_def)

lemma tbl_count_0 [tbl_facts]: "tbl_count P rows = 0 \<longleftrightarrow> (\<forall>r \<in> set rows. \<not> P r)"
  by (auto simp: tbl_count_def filter_empty_conv)

lemma tbl_update_none: "(\<forall>r \<in> set rows. \<not> P r) \<Longrightarrow> tbl_update P f rows = rows"
  by (simp add: tbl_update_def map_idI)

lemma tbl_delete_none: "(\<forall>r \<in> set rows. \<not> P r) \<Longrightarrow> tbl_delete P rows = rows"
  by (simp add: tbl_delete_def)

lemma map_tbl_update_key: "(\<And>r. key (f r) = key r) \<Longrightarrow> map key (tbl_update P f rows) = map key rows"
  by (simp add: tbl_update_def)

lemma unique_on_update [tbl_facts]:
  "(\<And>r. key (f r) = key r) \<Longrightarrow> unique_on key rows \<Longrightarrow> unique_on key (tbl_update P f rows)"
  by (simp add: unique_on_def map_tbl_update_key)

lemma unique_on_delete [tbl_facts]: "unique_on key rows \<Longrightarrow> unique_on key (tbl_delete P rows)"
  by (simp add: unique_on_def tbl_delete_def distinct_map_filter)

lemma unique_on_append_row [tbl_facts]:
  "unique_on key (rows @ [r]) \<longleftrightarrow> unique_on key rows \<and> key r \<notin> key ` set rows"
  by (auto simp: unique_on_def)

lemma unique_on_Nil [simp]: "unique_on key []"
  by (simp add: unique_on_def)

section \<open>Interfaces\<close>

text \<open>
  A codec: what a component writes as text it can read back. Every enumeration that the
  program stores in a text column or puts on the wire provides one (\<open>Display\<close> and
  \<open>FromStr\<close>).
\<close>

locale codec =
  fixes enc :: "'a \<Rightarrow> string"
    and dec :: "string \<Rightarrow> 'e + 'a"
  assumes dec_enc: "dec (enc x) = Inr x"
begin

lemma enc_inject: "enc x = enc y \<longleftrightarrow> x = y"
  by (metis dec_enc sum.inject(2))

lemma unwrap_or_enc: "unwrap_or (dec (enc x)) d = x"
  by (simp add: dec_enc)

lemma surj_dec: "\<exists>s. dec s = Inr x"
  using dec_enc by blast

end

text \<open>
  A codec that reads nothing but what it writes: then the stored text is determined by the
  value, and every other text is an error.
\<close>

locale exact_codec = codec +
  assumes dec_sound: "dec s = Inr x \<Longrightarrow> s = enc x"
begin

lemma dec_eq_iff: "dec s = Inr x \<longleftrightarrow> s = enc x"
  using dec_enc dec_sound by blast

lemma dec_error_iff: "(\<exists>e. dec s = Inl e) \<longleftrightarrow> s \<notin> range enc"
  by (cases "dec s") (auto simp: dec_enc dest: dec_sound)

end

text \<open>
  A machine with an invariant: the initial states satisfy it and every event keeps it, so
  it holds after every run.
\<close>

locale machine =
  fixes step :: "'s \<Rightarrow> 'e \<Rightarrow> 's"
    and inv :: "'s \<Rightarrow> bool"
  assumes step_inv: "inv s \<Longrightarrow> inv (step s e)"
begin

lemma run_inv: "inv s \<Longrightarrow> inv (foldl step s es)"
  by (induction es arbitrary: s) (auto intro: step_inv)

lemma run_prefix_inv: "inv s \<Longrightarrow> inv (foldl step s (take n es))"
  by (rule run_inv)

end

text \<open>
  A bounded cache: a finite map that never grows past its capacity. An insertion makes its
  own key readable and changes no other key's value, though it may evict; a removal forgets
  one key. \<open>cinv\<close> is the representation invariant.
\<close>

locale bounded_cache =
  fixes lookup :: "'c \<Rightarrow> 'k \<Rightarrow> 'v option"
    and insert :: "'k \<Rightarrow> 'v \<Rightarrow> 'c \<Rightarrow> 'c"
    and remove :: "'k \<Rightarrow> 'c \<Rightarrow> 'c"
    and csize :: "'c \<Rightarrow> nat"
    and cap :: nat
    and cinv :: "'c \<Rightarrow> bool"
  assumes lookup_insert_same: "cinv c \<Longrightarrow> lookup (insert k v c) k = Some v"
    and lookup_insert_other:
      "cinv c \<Longrightarrow> k' \<noteq> k \<Longrightarrow> lookup (insert k v c) k' = Some w \<Longrightarrow> lookup c k' = Some w"
    and lookup_remove: "cinv c \<Longrightarrow> lookup (remove k c) k' = (if k' = k then None else lookup c k')"
    and cinv_insert: "cinv c \<Longrightarrow> cinv (insert k v c)"
    and cinv_remove: "cinv c \<Longrightarrow> cinv (remove k c)"
    and csize_bound: "cinv c \<Longrightarrow> csize c \<le> cap"
begin

definition agrees :: "('k \<Rightarrow> 'v \<Rightarrow> bool) \<Rightarrow> 'c \<Rightarrow> bool" where
  "agrees R c \<longleftrightarrow> (\<forall>k v. lookup c k = Some v \<longrightarrow> R k v)"

text \<open>A cache that agrees with its source keeps agreeing when a true entry is stored.\<close>

lemma agrees_insert: "cinv c \<Longrightarrow> agrees R c \<Longrightarrow> R k v \<Longrightarrow> agrees R (insert k v c)"
  by (metis agrees_def lookup_insert_other lookup_insert_same option.inject)

lemma agrees_remove: "cinv c \<Longrightarrow> agrees R c \<Longrightarrow> agrees R (remove k c)"
  by (auto simp: agrees_def lookup_remove split: if_splits)

text \<open>Dropping a key before its source row changes restores agreement with the new source.\<close>

lemma agrees_remove_changed:
  "cinv c \<Longrightarrow> agrees R c \<Longrightarrow> (\<And>k' v. k' \<noteq> k \<Longrightarrow> R k' v \<Longrightarrow> R' k' v) \<Longrightarrow> agrees R' (remove k c)"
  by (auto simp: agrees_def lookup_remove split: if_splits)

lemma agrees_mono: "agrees R c \<Longrightarrow> (\<And>k v. R k v \<Longrightarrow> R' k v) \<Longrightarrow> agrees R' c"
  by (auto simp: agrees_def)

end

end
