(* ===== verification/Core.thy ===== *)
theory Core
  imports Prelude
begin

text \<open>
  The crates \<open>skynet-core\<close> and \<open>skynet-protocol\<close>: configuration, the error type and its wire
  codes, user roles, session keys, the JSON frames of the WebSocket protocol and the
  handshake payloads. A \<open>serde_json::Value\<close> is the tree \<open>json\<close>.
\<close>

section \<open>Constants\<close>

definition PROTOCOL_VERSION :: nat where "PROTOCOL_VERSION = 3"
definition DEFAULT_PORT :: nat where "DEFAULT_PORT = 18789"
definition DEFAULT_BIND :: string where "DEFAULT_BIND = ''127.0.0.1''"
definition MAX_PAYLOAD_BYTES :: nat where "MAX_PAYLOAD_BYTES = 128 * 1024"
definition HANDSHAKE_TIMEOUT_MS :: nat where "HANDSHAKE_TIMEOUT_MS = 10000"
definition HEARTBEAT_INTERVAL_SECS :: nat where "HEARTBEAT_INTERVAL_SECS = 30"

section \<open>JSON values\<close>

datatype json =
    JNull
  | JBool bool
  | JInt int
  | JFloat rat
  | JStr string
  | JArr "json list"
  | JObj "(string \<times> json) list"

text \<open>\<open>Value::get\<close> with a string key, and the typed readers.\<close>

fun jget :: "string \<Rightarrow> json \<Rightarrow> json option" where
  "jget k (JObj m) = map_of m k"
| "jget k _ = None"

fun as_str :: "json \<Rightarrow> string option" where
  "as_str (JStr s) = Some s"
| "as_str _ = None"

fun as_bool :: "json \<Rightarrow> bool option" where
  "as_bool (JBool b) = Some b"
| "as_bool _ = None"

fun as_array :: "json \<Rightarrow> json list option" where
  "as_array (JArr xs) = Some xs"
| "as_array _ = None"

text \<open>\<open>Map::insert\<close>.\<close>

definition jinsert :: "string \<Rightarrow> json \<Rightarrow> (string \<times> json) list \<Rightarrow> (string \<times> json) list" where
  "jinsert k v m = (k, v) # filter (\<lambda>e. fst e \<noteq> k) m"

lemma map_of_jinsert [simp]: "map_of (jinsert k v m) j = (if j = k then Some v else map_of m j)"
proof -
  have "j \<noteq> k \<Longrightarrow> map_of (filter (\<lambda>e. fst e \<noteq> k) m) j = map_of m j"
    by (induction m) auto
  then show ?thesis by (simp add: jinsert_def)
qed

section \<open>Errors\<close>

datatype skynet_error =
    Config string
  | AuthFailed string
  | Protocol string
  | MethodNotFound string
  | PermissionDenied string
  | UserNotFound string
  | Database string
  | LlmProvider string
  | ChannelErr string string
  | Serialization string
  | Io string
  | PayloadTooLarge nat nat
  | Timeout nat
  | Internal string

fun code :: "skynet_error \<Rightarrow> string" where
  "code (Config _) = ''CONFIG_ERROR''"
| "code (AuthFailed _) = ''AUTH_FAILED''"
| "code (Protocol _) = ''PROTOCOL_ERROR''"
| "code (MethodNotFound _) = ''METHOD_NOT_FOUND''"
| "code (PermissionDenied _) = ''PERMISSION_DENIED''"
| "code (UserNotFound _) = ''USER_NOT_FOUND''"
| "code (Database _) = ''DATABASE_ERROR''"
| "code (LlmProvider _) = ''LLM_PROVIDER_ERROR''"
| "code (ChannelErr _ _) = ''CHANNEL_ERROR''"
| "code (Serialization _) = ''SERIALIZATION_ERROR''"
| "code (Io _) = ''IO_ERROR''"
| "code (PayloadTooLarge _ _) = ''PAYLOAD_TOO_LARGE''"
| "code (Timeout _) = ''TIMEOUT''"
| "code (Internal _) = ''INTERNAL_ERROR''"

fun skynet_error_display :: "skynet_error \<Rightarrow> string" where
  "skynet_error_display (Config m) = ''Configuration error: '' @ m"
| "skynet_error_display (AuthFailed m) = ''Authentication failed: '' @ m"
| "skynet_error_display (Protocol m) = ''WebSocket protocol error: '' @ m"
| "skynet_error_display (MethodNotFound m) = ''Method not found: '' @ m"
| "skynet_error_display (PermissionDenied r) = ''Permission denied: '' @ r"
| "skynet_error_display (UserNotFound i) = ''User not found: '' @ i"
| "skynet_error_display (Database m) = ''Database error: '' @ m"
| "skynet_error_display (LlmProvider m) = ''LLM provider error: '' @ m"
| "skynet_error_display (ChannelErr c r) = ''Channel error ('' @ c @ ''): '' @ r"
| "skynet_error_display (Serialization m) = ''Serialization error: '' @ m"
| "skynet_error_display (Io m) = ''I/O error: '' @ m"
| "skynet_error_display (PayloadTooLarge n k) =
     ''Payload too large: '' @ show_nat n @ '' bytes (max '' @ show_nat k @ '')''"
| "skynet_error_display (Timeout ms) = ''Request timeout after '' @ show_nat ms @ ''ms''"
| "skynet_error_display (Internal m) = ''Internal error: '' @ m"

section \<open>User roles\<close>

datatype user_role = Admin | User | Child

definition is_admin :: "user_role \<Rightarrow> bool" where
  "is_admin r \<longleftrightarrow> r = Admin"

definition is_child :: "user_role \<Rightarrow> bool" where
  "is_child r \<longleftrightarrow> r = Child"

fun role_to_string :: "user_role \<Rightarrow> string" where
  "role_to_string Admin = ''admin''"
| "role_to_string User = ''user''"
| "role_to_string Child = ''child''"

definition role_from_str :: "string \<Rightarrow> string + user_role" where
  "role_from_str s =
     (if s = ''admin'' then Inr Admin
      else if s = ''user'' then Inr User
      else if s = ''child'' then Inr Child
      else Inl (''unknown role: '' @ s))"

definition default_role :: user_role where
  "default_role = User"

interpretation role_codec: exact_codec role_to_string role_from_str
proof
  show "role_from_str (role_to_string x) = Inr x" for x
    by (cases x) (simp_all add: role_from_str_def)
  show "role_from_str s = Inr x \<Longrightarrow> s = role_to_string x" for s x
    by (auto simp: role_from_str_def split: if_splits)
qed

text \<open>The hierarchy admin > user > child.\<close>

instantiation user_role :: linorder
begin

fun role_rank :: "user_role \<Rightarrow> nat" where
  "role_rank Child = 0"
| "role_rank User = 1"
| "role_rank Admin = 2"

definition less_eq_user_role :: "user_role \<Rightarrow> user_role \<Rightarrow> bool" where
  "less_eq_user_role a b \<longleftrightarrow> role_rank a \<le> role_rank b"

definition less_user_role :: "user_role \<Rightarrow> user_role \<Rightarrow> bool" where
  "less_user_role a b \<longleftrightarrow> role_rank a < role_rank b"

instance
proof
  fix x y z :: user_role
  show "x < y \<longleftrightarrow> x \<le> y \<and> \<not> y \<le> x" by (auto simp: less_eq_user_role_def less_user_role_def)
  show "x \<le> x" by (simp add: less_eq_user_role_def)
  show "x \<le> y \<Longrightarrow> y \<le> z \<Longrightarrow> x \<le> z" by (simp add: less_eq_user_role_def)
  show "x \<le> y \<Longrightarrow> y \<le> x \<Longrightarrow> x = y"
    by (cases x; cases y) (auto simp: less_eq_user_role_def)
  show "x \<le> y \<or> y \<le> x" by (auto simp: less_eq_user_role_def)
qed

end

section \<open>Session keys of the core crate\<close>

definition for_user :: "string \<Rightarrow> string \<Rightarrow> string \<Rightarrow> string" where
  "for_user user_id agent_id session = ''user:'' @ user_id @ '':agent:'' @ agent_id @ '':'' @ session"

section \<open>Configuration\<close>

datatype auth_mode = ModeToken | ModePassword | ModeTailscale | ModeDeviceToken
  | ModeTrustedProxy | ModeNone

record auth_config =
  auth_mode_of :: auth_mode
  auth_token :: "string option"
  auth_password :: "string option"

record gateway_config =
  port :: nat
  bind :: string
  auth :: auth_config

record agent_config =
  agent_model :: string
  soul_path :: "string option"

datatype webhook_auth_mode = HmacSha256 | BearerToken | WebhookNoAuth

record webhook_source_config =
  source_name :: string
  source_secret :: "string option"
  source_auth_mode :: webhook_auth_mode

record webhooks_config =
  webhooks_enabled :: bool
  webhook_sources :: "webhook_source_config list"

text \<open>
  A provider slot is its key, where it has one, and its base URL; Discord is its token and
  its two switches.
\<close>

record anthropic_config =
  anthropic_api_key :: string
  anthropic_base_url :: string

record openai_provider_config =
  openai_api_key :: string
  openai_base_url :: string

record ollama_config =
  ollama_base_url :: string

record providers_config =
  anthropic :: "anthropic_config option"
  openai :: "openai_provider_config option"
  ollama :: "ollama_config option"

record discord_config =
  discord_bot_token :: string
  require_mention :: bool
  dm_allowed :: bool

record channels_config =
  telegram_bot_token :: "string option"
  discord :: "discord_config option"

record skynet_config =
  gateway :: gateway_config
  agent :: agent_config
  database_path :: string
  providers :: providers_config
  channels :: channels_config
  webhooks :: webhooks_config

text \<open>\<open>home\<close> is the environment variable \<open>HOME\<close>.\<close>

definition default_db_path :: "string option \<Rightarrow> string" where
  "default_db_path home = (case home of None \<Rightarrow> ''.'' | Some h \<Rightarrow> h) @ ''/.skynet/skynet.db''"

definition default_config_path :: "string option \<Rightarrow> string" where
  "default_config_path home = (case home of None \<Rightarrow> ''.'' | Some h \<Rightarrow> h) @ ''/.skynet/skynet.toml''"

definition default_config :: "string option \<Rightarrow> skynet_config" where
  "default_config home =
     \<lparr> gateway = \<lparr> port = DEFAULT_PORT, bind = DEFAULT_BIND,
         auth = \<lparr> auth_mode_of = ModeToken, auth_token = Some ''change-me'',
           auth_password = None \<rparr> \<rparr>,
       agent = \<lparr> agent_model = ''claude-sonnet-4-6'', soul_path = None \<rparr>,
       database_path = default_db_path home,
       providers = \<lparr> anthropic = None, openai = None, ollama = None \<rparr>,
       channels = \<lparr> telegram_bot_token = None, discord = None \<rparr>,
       webhooks = \<lparr> webhooks_enabled = False, webhook_sources = [] \<rparr> \<rparr>"

section \<open>Frames\<close>

record req_frame =
  req_frame_type :: string
  req_id :: string
  req_method :: string
  req_params :: "json option"

record error_shape =
  err_code :: string
  err_message :: string

record res_frame =
  res_frame_type :: string
  res_id :: string
  res_ok :: bool
  res_payload :: "json option"
  res_error :: "error_shape option"

definition ResFrame_ok :: "string \<Rightarrow> json \<Rightarrow> res_frame" where
  "ResFrame_ok i payload =
     \<lparr> res_frame_type = ''res'', res_id = i, res_ok = True, res_payload = Some payload,
       res_error = None \<rparr>"

definition ResFrame_err :: "string \<Rightarrow> string \<Rightarrow> string \<Rightarrow> res_frame" where
  "ResFrame_err i c m =
     \<lparr> res_frame_type = ''res'', res_id = i, res_ok = False, res_payload = None,
       res_error = Some \<lparr> err_code = c, err_message = m \<rparr> \<rparr>"

record state_version =
  presence :: "nat option"
  health :: "nat option"

record event_frame =
  ev_frame_type :: string
  ev_event :: string
  ev_payload :: "json option"
  ev_seq :: "nat option"
  ev_state_version :: "state_version option"

definition EventFrame_new :: "string \<Rightarrow> json \<Rightarrow> event_frame" where
  "EventFrame_new e payload =
     \<lparr> ev_frame_type = ''event'', ev_event = e, ev_payload = Some payload, ev_seq = None,
       ev_state_version = None \<rparr>"

definition with_seq :: "event_frame \<Rightarrow> nat \<Rightarrow> event_frame" where
  "with_seq f n = f\<lparr>ev_seq := Some n\<rparr>"

record inbound_frame =
  in_frame_type :: string
  in_rest :: "(string \<times> json) list"

text \<open>
  The derived \<open>Deserialize\<close> of \<open>ReqFrame\<close> from an object: \<open>type\<close>, \<open>id\<close> and \<open>method\<close>
  are strings; \<open>params\<close> may be absent, and \<open>null\<close> reads as absent.
\<close>

definition req_of_object :: "(string \<times> json) list \<Rightarrow> req_frame option" where
  "req_of_object m =
     (case (map_of m ''type'', map_of m ''id'', map_of m ''method'') of
        (Some (JStr t), Some (JStr i), Some (JStr me)) \<Rightarrow>
          Some \<lparr> req_frame_type = t, req_id = i, req_method = me,
                 req_params = (case map_of m ''params'' of
                     None \<Rightarrow> None | Some JNull \<Rightarrow> None | Some p \<Rightarrow> Some p) \<rparr>
      | _ \<Rightarrow> None)"

definition as_req :: "inbound_frame \<Rightarrow> req_frame option" where
  "as_req f =
     (if in_frame_type f \<noteq> ''req'' then None
      else req_of_object (jinsert ''type'' (JStr ''req'') (in_rest f)))"

section \<open>Handshake payloads\<close>

datatype auth_payload =
    AuthToken string
  | AuthPassword string
  | TailscaleWhois
  | DeviceToken string
  | TrustedProxy string
  | AuthNone

record connect_params =
  cp_auth :: auth_payload
  cp_client_info :: "(string option \<times> string option \<times> string option) option"

section \<open>Facts about the core types\<close>

lemma res_frame_shape:
  "res_payload (ResFrame_ok i p) = Some p" "res_error (ResFrame_ok i p) = None"
  "res_payload (ResFrame_err i c m) = None"
  "res_error (ResFrame_err i c m) = Some \<lparr> err_code = c, err_message = m \<rparr>"
  "res_ok (ResFrame_ok i p)" "\<not> res_ok (ResFrame_err i c m)"
  "res_id (ResFrame_ok i p) = i" "res_id (ResFrame_err i c m) = i"
  by (simp_all add: ResFrame_ok_def ResFrame_err_def)

lemma as_req_Some_type: "as_req f = Some r \<Longrightarrow> in_frame_type f = ''req'' \<and> req_frame_type r = ''req''"
  by (auto simp: as_req_def req_of_object_def split: if_splits option.splits json.splits)

text \<open>
  The error codes of the wire protocol identify the kind of error: two errors share a code
  only when they are the same variant of \<open>SkynetError\<close>.
\<close>

fun variant :: "skynet_error \<Rightarrow> nat" where
  "variant (Config _) = 0"
| "variant (AuthFailed _) = 1"
| "variant (Protocol _) = 2"
| "variant (MethodNotFound _) = 3"
| "variant (PermissionDenied _) = 4"
| "variant (UserNotFound _) = 5"
| "variant (Database _) = 6"
| "variant (LlmProvider _) = 7"
| "variant (ChannelErr _ _) = 8"
| "variant (Serialization _) = 9"
| "variant (Io _) = 10"
| "variant (PayloadTooLarge _ _) = 11"
| "variant (Timeout _) = 12"
| "variant (Internal _) = 13"

lemma code_eq_iff: "code e = code e' \<longleftrightarrow> variant e = variant e'"
  by (cases e; cases e') simp_all

end
