(* ===== verification/Users.thy ===== *)
theory Users
  imports Core
begin

text \<open>
  The crate \<open>skynet-users\<close>: the user and identity tables, the resolver with its bounded cache
  (\<open>resolver.rs\<close>), permission checks and the daily token budget (\<open>permissions.rs\<close>).
  Identifiers and time stamps that the code draws from \<open>uuid\<close> and \<open>chrono\<close> are arguments;
  the JSON text of the interests column is written and read by the parameter \<open>J\<close>.
\<close>

section \<open>Types\<close>

datatype content_filter = FilterOff | Moderate | Strict

fun filter_to_string :: "content_filter \<Rightarrow> string" where
  "filter_to_string FilterOff = ''off''"
| "filter_to_string Moderate = ''moderate''"
| "filter_to_string Strict = ''strict''"

definition filter_from_str :: "string \<Rightarrow> string + content_filter" where
  "filter_from_str s =
     (if s = ''off'' then Inr FilterOff
      else if s = ''moderate'' then Inr Moderate
      else if s = ''strict'' then Inr Strict
      else Inl (''unknown content_filter: '' @ s))"

interpretation filter_codec: exact_codec filter_to_string filter_from_str
proof
  show "filter_from_str (filter_to_string x) = Inr x" for x
    by (cases x) (simp_all add: filter_from_str_def)
  show "filter_from_str s = Inr x \<Longrightarrow> s = filter_to_string x" for s x
    by (auto simp: filter_from_str_def split: if_splits)
qed

record user =
  u_id :: string
  display_name :: string
  u_role :: user_role
  language :: string
  tone :: string
  interests :: "string list"
  age :: "nat option"
  timezone :: string
  can_install_software :: bool
  can_use_browser :: bool
  can_exec_commands :: bool
  u_content_filter :: content_filter
  max_tokens_per_day :: "nat option"
  requires_admin_approval :: bool
  total_messages :: nat
  total_tokens_used :: nat
  tokens_used_today :: nat
  tokens_reset_date :: "string option"
  first_seen_at :: string
  last_seen_at :: string
  u_created_at :: string
  u_updated_at :: string

record user_identity =
  i_id :: string
  i_user_id :: string
  i_channel :: string
  i_identifier :: string
  i_verified :: bool
  i_linked_by :: "string option"
  i_linked_at :: string
  i_created_at :: string

datatype user_error =
    UNotFound string
  | UAlreadyExists string
  | UDatabaseError sql_error
  | UInvalidRole string
  | UPermissionDenied string
  | UBudgetExceeded nat nat

section \<open>Tables\<close>

text \<open>A row of \<open>users\<close> as stored: enumerations are text, flags are integers.\<close>

record user_row =
  r_id :: string
  r_display_name :: string
  r_role :: string
  r_language :: string
  r_tone :: string
  r_interests :: string
  r_age :: "nat option"
  r_timezone :: string
  r_can_install_software :: int
  r_can_use_browser :: int
  r_can_exec_commands :: int
  r_content_filter :: string
  r_max_tokens_per_day :: "nat option"
  r_requires_admin_approval :: int
  r_total_messages :: nat
  r_total_tokens_used :: nat
  r_tokens_used_today :: nat
  r_tokens_reset_date :: "string option"
  r_first_seen_at :: string
  r_last_seen_at :: string
  r_created_at :: string
  r_updated_at :: string

record json_codec =
  jenc :: "string list \<Rightarrow> string"
  jdec :: "string \<Rightarrow> string list option"

text \<open>The connection: both tables, and whether SQLite enforces foreign keys on it.\<close>

record users_db =
  users :: "user_row list"
  identities :: "user_identity list"
  foreign_keys :: bool

definition row_to_user :: "json_codec \<Rightarrow> user_row \<Rightarrow> user" where
  "row_to_user J r =
     \<lparr> u_id = r_id r, display_name = r_display_name r,
       u_role = unwrap_or (role_from_str (r_role r)) default_role,
       language = r_language r, tone = r_tone r,
       interests = (case jdec J (r_interests r) of None \<Rightarrow> [] | Some xs \<Rightarrow> xs),
       age = r_age r, timezone = r_timezone r,
       can_install_software = (r_can_install_software r \<noteq> 0),
       can_use_browser = (r_can_use_browser r \<noteq> 0),
       can_exec_commands = (r_can_exec_commands r \<noteq> 0),
       u_content_filter = unwrap_or (filter_from_str (r_content_filter r)) Moderate,
       max_tokens_per_day = r_max_tokens_per_day r,
       requires_admin_approval = (r_requires_admin_approval r \<noteq> 0),
       total_messages = r_total_messages r, total_tokens_used = r_total_tokens_used r,
       tokens_used_today = r_tokens_used_today r, tokens_reset_date = r_tokens_reset_date r,
       first_seen_at = r_first_seen_at r, last_seen_at = r_last_seen_at r,
       u_created_at = r_created_at r, u_updated_at = r_updated_at r \<rparr>"

definition user_params_ok :: "user \<Rightarrow> bool" where
  "user_params_ok u \<longleftrightarrow>
     (case max_tokens_per_day u of None \<Rightarrow> True | Some n \<Rightarrow> sql_u64 n) \<and>
     sql_u64 (total_messages u) \<and> sql_u64 (total_tokens_used u) \<and> sql_u64 (tokens_used_today u)"

definition user_to_row :: "json_codec \<Rightarrow> user \<Rightarrow> user_row" where
  "user_to_row J u =
     \<lparr> r_id = u_id u, r_display_name = display_name u, r_role = role_to_string (u_role u),
       r_language = language u, r_tone = tone u, r_interests = jenc J (interests u),
       r_age = age u, r_timezone = timezone u,
       r_can_install_software = of_bool (can_install_software u),
       r_can_use_browser = of_bool (can_use_browser u),
       r_can_exec_commands = of_bool (can_exec_commands u),
       r_content_filter = filter_to_string (u_content_filter u),
       r_max_tokens_per_day = max_tokens_per_day u,
       r_requires_admin_approval = of_bool (requires_admin_approval u),
       r_total_messages = total_messages u, r_total_tokens_used = total_tokens_used u,
       r_tokens_used_today = tokens_used_today u, r_tokens_reset_date = tokens_reset_date u,
       r_first_seen_at = first_seen_at u, r_last_seen_at = last_seen_at u,
       r_created_at = u_created_at u, r_updated_at = u_updated_at u \<rparr>"

definition insert_user_row :: "json_codec \<Rightarrow> users_db \<Rightarrow> user \<Rightarrow> user_error + users_db" where
  "insert_user_row J db u =
     (if \<not> user_params_ok u then Inl (UDatabaseError ToSqlConversionFailure)
      else if u_id u \<in> r_id ` set (users db) then Inl (UDatabaseError ConstraintViolation)
      else Inr (db\<lparr>users := users db @ [user_to_row J u]\<rparr>))"

definition create_user ::
    "json_codec \<Rightarrow> string \<Rightarrow> string \<Rightarrow> users_db \<Rightarrow> string \<Rightarrow> user_role \<Rightarrow> user_error + users_db \<times> user" where
  "create_user J uid now db name role =
     (let u = \<lparr> u_id = uid, display_name = name, u_role = role, language = ''en'',
         tone = ''friendly'', interests = [], age = None, timezone = ''UTC'',
         can_install_software = False, can_use_browser = False, can_exec_commands = False,
         u_content_filter = Moderate, max_tokens_per_day = None,
         requires_admin_approval = False, total_messages = 0, total_tokens_used = 0,
         tokens_used_today = 0, tokens_reset_date = None, first_seen_at = now,
         last_seen_at = now, u_created_at = now, u_updated_at = now \<rparr>
      in case insert_user_row J db u of
           Inl e \<Rightarrow> Inl e
         | Inr db' \<Rightarrow> Inr (db', u))"

definition get_user :: "json_codec \<Rightarrow> users_db \<Rightarrow> string \<Rightarrow> user option" where
  "get_user J db user_id =
     map_option (row_to_user J) (tbl_find (\<lambda>r. r_id r = user_id) (users db))"

definition update_user_row :: "json_codec \<Rightarrow> string \<Rightarrow> user \<Rightarrow> user_row \<Rightarrow> user_row" where
  "update_user_row J now u r = (user_to_row J u)
     \<lparr> r_id := r_id r, r_first_seen_at := r_first_seen_at r, r_created_at := r_created_at r,
       r_updated_at := now \<rparr>"

definition update_user :: "json_codec \<Rightarrow> string \<Rightarrow> users_db \<Rightarrow> user \<Rightarrow> user_error + users_db" where
  "update_user J now db u =
     (if \<not> user_params_ok u then Inl (UDatabaseError ToSqlConversionFailure)
      else Inr (db\<lparr>users := tbl_update (\<lambda>r. r_id r = u_id u) (update_user_row J now u) (users db)\<rparr>))"

definition add_identity ::
    "string \<Rightarrow> string \<Rightarrow> users_db \<Rightarrow> string \<Rightarrow> string \<Rightarrow> string \<Rightarrow> user_error + users_db \<times> user_identity" where
  "add_identity iid now db user_id channel identifier =
     (let i = \<lparr> i_id = iid, i_user_id = user_id, i_channel = channel, i_identifier = identifier,
         i_verified = False, i_linked_by = None, i_linked_at = now, i_created_at = now \<rparr>
      in if iid \<in> i_id ` set (identities db)
            \<or> (channel, identifier) \<in> (\<lambda>x. (i_channel x, i_identifier x)) ` set (identities db)
            \<or> (foreign_keys db \<and> user_id \<notin> r_id ` set (users db))
         then Inl (UDatabaseError ConstraintViolation)
         else Inr (db\<lparr>identities := identities db @ [i]\<rparr>, i))"

text \<open>The join of \<open>users\<close> and \<open>user_identities\<close>; \<open>query_row\<close> takes its first row.\<close>

definition find_user_by_identity ::
    "json_codec \<Rightarrow> users_db \<Rightarrow> string \<Rightarrow> string \<Rightarrow> user option" where
  "find_user_by_identity J db channel identifier =
     (case concat (map (\<lambda>i. filter (\<lambda>r. r_id r = i_user_id i) (users db))
              (filter (\<lambda>i. i_channel i = channel \<and> i_identifier i = identifier) (identities db))) of
        [] \<Rightarrow> None
      | r # _ \<Rightarrow> Some (row_to_user J r))"

section \<open>Well-formed databases\<close>

abbreviation ident_key :: "user_identity \<Rightarrow> string \<times> string" where
  "ident_key i \<equiv> (i_channel i, i_identifier i)"

definition users_wf :: "users_db \<Rightarrow> bool" where
  "users_wf db \<longleftrightarrow> unique_on r_id (users db) \<and> unique_on ident_key (identities db)
     \<and> (\<forall>i \<in> set (identities db). i_user_id i \<in> r_id ` set (users db))"

text \<open>The owner the tables give to an external account.\<close>

definition owner :: "users_db \<Rightarrow> string \<times> string \<Rightarrow> string option" where
  "owner db k = map_option i_user_id (tbl_find (\<lambda>i. ident_key i = k) (identities db))"

lemma row_roundtrip:
  "jdec J (jenc J (interests u)) = Some (interests u) \<Longrightarrow> row_to_user J (user_to_row J u) = u"
  by (simp add: row_to_user_def user_to_row_def role_codec.unwrap_or_enc
      filter_codec.unwrap_or_enc)

lemma row_to_user_id [simp]: "u_id (row_to_user J r) = r_id r"
  by (simp add: row_to_user_def)

lemma get_user_Some_iff:
  "get_user J db x = Some u \<longleftrightarrow> (\<exists>r. tbl_find (\<lambda>r. r_id r = x) (users db) = Some r \<and> u = row_to_user J r)"
  by (auto simp: get_user_def)

lemma get_user_id: "get_user J db x = Some u \<Longrightarrow> u_id u = x"
  by (auto simp: get_user_def dest: tbl_find_SomeD)

lemma get_user_None_iff: "get_user J db x = None \<longleftrightarrow> x \<notin> r_id ` set (users db)"
  by (auto simp: get_user_def tbl_find_None)

lemma filter_unique_key:
  assumes "unique_on key rows"
  shows "filter (\<lambda>r. key r = k) rows
     = (case tbl_find (\<lambda>r. key r = k) rows of None \<Rightarrow> [] | Some r \<Rightarrow> [r])"
  using assms
proof (induction rows)
  case (Cons r rows)
  then have u: "unique_on key rows" by (simp add: unique_on_def)
  show ?case
  proof (cases "key r = k")
    case True
    with Cons.prems have "filter (\<lambda>r. key r = k) rows = []"
      by (auto simp: unique_on_def filter_empty_conv image_iff)
    with True show ?thesis by simp
  next
    case False
    with Cons.IH [OF u] show ?thesis by simp
  qed
qed simp

text \<open>On a well-formed database the join is: find the owner, then load that user.\<close>

lemma find_user_by_identity_owner:
  assumes "users_wf db"
  shows "find_user_by_identity J db ch idn
     = (case owner db (ch, idn) of None \<Rightarrow> None | Some uid \<Rightarrow> get_user J db uid)"
proof -
  have uk: "unique_on ident_key (identities db)" and ui: "unique_on r_id (users db)"
    using assms by (auto simp: users_wf_def)
  show ?thesis
    using filter_unique_key [OF uk, of "(ch, idn)"]
    by (auto simp: find_user_by_identity_def owner_def get_user_def
        filter_unique_key [OF ui] split: option.splits)
qed

lemma owner_exists: "users_wf db \<Longrightarrow> owner db k = Some uid \<Longrightarrow> \<exists>u. get_user J db uid = Some u"
  by (auto simp: owner_def users_wf_def get_user_def dest!: tbl_find_SomeD)
     (metis get_user_None_iff get_user_def image_eqI not_Some_eq option.map_disc_iff)

lemma owner_None_iff: "owner db k = None \<longleftrightarrow> k \<notin> ident_key ` set (identities db)"
  by (auto simp: owner_def tbl_find_None)

section \<open>Creating users and identities\<close>

lemma create_user_ok:
  "uid \<notin> r_id ` set (users db) \<Longrightarrow>
   \<exists>u. create_user J uid now db name role = Inr (db\<lparr>users := users db @ [user_to_row J u]\<rparr>, u)
     \<and> u_id u = uid \<and> display_name u = name \<and> u_role u = role \<and> interests u = []"
  by (auto simp: create_user_def insert_user_row_def user_params_ok_def sql_u64_def Let_def)

lemma create_user_shape:
  "create_user J uid now db name role = Inr (db', u) \<Longrightarrow>
     db' = db\<lparr>users := users db @ [user_to_row J u]\<rparr> \<and> uid \<notin> r_id ` set (users db) \<and> u_id u = uid"
  by (auto simp: create_user_def insert_user_row_def Let_def split: if_splits)

lemma add_identity_shape:
  "add_identity iid now db uid ch idn = Inr (db', i) \<Longrightarrow>
     db' = db\<lparr>identities := identities db @ [i]\<rparr> \<and> ident_key i = (ch, idn) \<and> i_user_id i = uid
     \<and> i_id i = iid \<and> iid \<notin> i_id ` set (identities db) \<and> owner db (ch, idn) = None"
  by (auto simp: add_identity_def Let_def owner_None_iff split: if_splits)

lemma add_identity_ok:
  "iid \<notin> i_id ` set (identities db) \<Longrightarrow> owner db (ch, idn) = None
   \<Longrightarrow> uid \<in> r_id ` set (users db) \<Longrightarrow> \<exists>db' i. add_identity iid now db uid ch idn = Inr (db', i)"
  by (auto simp: add_identity_def Let_def owner_None_iff)

lemma owner_add:
  "owner (db\<lparr>identities := identities db @ [i]\<rparr>) k
     = (case owner db k of None \<Rightarrow> if ident_key i = k then Some (i_user_id i) else None | Some u \<Rightarrow> Some u)"
  by (auto simp: owner_def tbl_find_append split: option.splits)

lemma users_wf_create:
  "users_wf db \<Longrightarrow> uid \<notin> r_id ` set (users db) \<Longrightarrow> u_id u = uid
   \<Longrightarrow> users_wf (db\<lparr>users := users db @ [user_to_row J u]\<rparr>)"
  by (auto simp: users_wf_def unique_on_append_row user_to_row_def)

lemma users_wf_identity:
  "users_wf db \<Longrightarrow> owner db (ident_key i) = None \<Longrightarrow> i_user_id i \<in> r_id ` set (users db)
   \<Longrightarrow> users_wf (db\<lparr>identities := identities db @ [i]\<rparr>)"
  by (auto simp: users_wf_def unique_on_append_row owner_None_iff)

lemmas users_shapes = create_user_shape add_identity_shape

section \<open>Properties\<close>

text \<open>What \<open>update_user\<close> stores, \<open>get_user\<close> reads back: the profile given, with the row's own
  identifier and creation times and the new update time; no other user's profile changes, and
  a profile of an unknown user is not inserted.\<close>
theorem update_user_roundtrip:
  assumes "user_params_ok u" "jdec J (jenc J (interests u)) = Some (interests u)"
  shows "\<exists>db'. update_user J now db u = Inr db'
    \<and> get_user J db' (u_id u) = map_option (\<lambda>old. u\<lparr>first_seen_at := first_seen_at old,
         u_created_at := u_created_at old, u_updated_at := now\<rparr>) (get_user J db (u_id u))
    \<and> (\<forall>x. x \<noteq> u_id u \<longrightarrow> get_user J db' x = get_user J db x)
    \<and> map r_id (users db') = map r_id (users db) \<and> identities db' = identities db"
proof -
  let ?f = "update_user_row J now u" and ?P = "\<lambda>r. r_id r = u_id u"
  let ?db = "db\<lparr>users := tbl_update ?P ?f (users db)\<rparr>"
  have keep: "r_id (?f r) = r_id r" for r by (simp add: update_user_row_def)
  have row: "row_to_user J (?f r) = u\<lparr>first_seen_at := r_first_seen_at r, u_created_at := r_created_at r,
      u_updated_at := now\<rparr>" if "r_id r = u_id u" for r
    using that assms(2) by (simp add: update_user_row_def row_to_user_def user_to_row_def
        role_codec.unwrap_or_enc filter_codec.unwrap_or_enc)
  have own: "get_user J ?db (u_id u) = map_option (\<lambda>old. u\<lparr>first_seen_at := first_seen_at old,
         u_created_at := u_created_at old, u_updated_at := now\<rparr>) (get_user J db (u_id u))"
  proof (cases "tbl_find ?P (users db)")
    case None
    then show ?thesis using keep by (simp add: get_user_def tbl_find_update_same)
  next
    case (Some r)
    then have "r_id r = u_id u" by (auto dest: tbl_find_SomeD)
    then show ?thesis using Some keep row [of r]
      by (simp add: get_user_def tbl_find_update_same)
        (simp add: row_to_user_def)
  qed
  have other: "get_user J ?db x = get_user J db x" if "x \<noteq> u_id u" for x
  proof (cases "tbl_find (\<lambda>r. r_id r = x) (users db)")
    case (Some r)
    then have "r_id r = x" by (auto dest: tbl_find_SomeD)
    then show ?thesis using Some that keep by (simp add: get_user_def tbl_find_update)
  qed (simp add: get_user_def tbl_find_update keep)
  show ?thesis using assms(1) own other keep
    by (intro exI [of _ ?db]) (simp add: update_user_def map_tbl_update_key)
qed

theorem update_user_roundtrip_witness:
  fixes J :: json_codec
  defines "J \<equiv> \<lparr>jenc = (\<lambda>_. ''[]''), jdec = (\<lambda>_. Some [])\<rparr>"
  shows "\<exists>db u db'. create_user J ''a'' ''t0'' \<lparr>users = [], identities = [], foreign_keys = True\<rparr> ''Ann'' User
      = Inr (db, u) \<and> update_user J ''t1'' db (u\<lparr>tone := ''dry''\<rparr>) = Inr db'
      \<and> map_option tone (get_user J db' ''a'') = Some ''dry''"
proof -
  obtain u where u: "create_user J ''a'' ''t0'' \<lparr>users = [], identities = [], foreign_keys = True\<rparr> ''Ann'' User
      = Inr (\<lparr>users = [user_to_row J u], identities = [], foreign_keys = True\<rparr>, u)" "u_id u = ''a''"
      "interests u = []" "user_params_ok u"
    by (simp add: create_user_def insert_user_row_def user_params_ok_def sql_u64_def Let_def)
  let ?db = "\<lparr>users = [user_to_row J u], identities = [], foreign_keys = True\<rparr>"
  have "user_params_ok (u\<lparr>tone := ''dry''\<rparr>)" using u(4) by (simp add: user_params_ok_def)
  moreover have "jdec J (jenc J (interests (u\<lparr>tone := ''dry''\<rparr>))) = Some (interests (u\<lparr>tone := ''dry''\<rparr>))"
    using u(3) by (simp add: J_def)
  moreover have "\<exists>old. get_user J ?db ''a'' = Some old"
    using u(2) by (simp add: get_user_def user_to_row_def)
  ultimately show ?thesis
    using update_user_roundtrip [of "u\<lparr>tone := ''dry''\<rparr>" J "''t1''" ?db] u(1,2) by fastforce
qed

end
