(* ===== verification/Resolver.thy ===== *)
theory Resolver
  imports Users "HOL-Library.AList"
begin

text \<open>
  \<open>resolver.rs\<close>: the map from an external account (channel, identifier) to a user, with the
  in-process cache (a map and its insertion order) in front of the tables. The cache is an
  instance of \<open>bounded_cache\<close>; that it agrees with the identity table is what makes its fast
  path return the same user as the tables would.
\<close>

section \<open>The cache\<close>

type_synonym account = "string \<times> string"

definition CACHE_MAX :: nat where "CACHE_MAX = 256"

text \<open>\<open>cmap\<close> is the hash map (its entry order is never read), \<open>corder\<close> the key vector.\<close>

record resolver_cache =
  cmap :: "(account \<times> string) list"
  corder :: "account list"

definition cache_lookup :: "resolver_cache \<Rightarrow> account \<Rightarrow> string option" where
  "cache_lookup c key = map_of (cmap c) key"

definition cache_remove :: "account \<Rightarrow> resolver_cache \<Rightarrow> resolver_cache" where
  "cache_remove key c =
     c\<lparr>cmap := filter (\<lambda>e. fst e \<noteq> key) (cmap c), corder := filter (\<lambda>k. k \<noteq> key) (corder c)\<rparr>"

text \<open>\<open>drain(..n)\<close> panics when the vector is shorter than \<open>n\<close>.\<close>

definition cache_evict :: "resolver_cache \<Rightarrow> resolver_cache outcome" where
  "cache_evict c =
     (if length (cmap c) \<ge> CACHE_MAX then
        (let evict_count = CACHE_MAX div 2 in
         if length (corder c) < evict_count then Panic
         else (let to_remove = take evict_count (corder c) in
           Ret (c\<lparr>cmap := filter (\<lambda>e. fst e \<notin> set to_remove) (cmap c),
                  corder := drop evict_count (corder c)\<rparr>)))
      else Ret c)"

definition cache_insert :: "account \<Rightarrow> string \<Rightarrow> resolver_cache \<Rightarrow> resolver_cache outcome" where
  "cache_insert key user_id c =
     (if key \<in> fst ` set (cmap c)
      then Ret (c\<lparr>cmap := AList.update key user_id (cmap c)\<rparr>)
      else bind_outcome (cache_evict c) (\<lambda>c'.
        Ret (c'\<lparr>corder := corder c' @ [key], cmap := (key, user_id) # cmap c'\<rparr>)))"

definition invalidate_user :: "string \<Rightarrow> resolver_cache \<Rightarrow> resolver_cache" where
  "invalidate_user user_id c =
     (let gone = filter (\<lambda>k. map_of (cmap c) k = Some user_id) (corder c) in
      c\<lparr>cmap := filter (\<lambda>e. fst e \<notin> set gone) (cmap c),
        corder := filter (\<lambda>k. map_of (cmap c) k \<noteq> Some user_id) (corder c)\<rparr>)"

definition empty_cache :: resolver_cache where
  "empty_cache = \<lparr>cmap = [], corder = []\<rparr>"

text \<open>The two parallel structures hold the same keys, each once, and at most \<open>CACHE_MAX\<close>.\<close>

definition cache_wf :: "resolver_cache \<Rightarrow> bool" where
  "cache_wf c \<longleftrightarrow> distinct (map fst (cmap c)) \<and> distinct (corder c)
     \<and> set (corder c) = fst ` set (cmap c) \<and> length (cmap c) \<le> CACHE_MAX"

lemma cache_wf_empty: "cache_wf empty_cache"
  by (simp add: cache_wf_def empty_cache_def)

lemma same_keys_length:
  assumes "distinct (map fst m)" "distinct ks" "fst ` set m = set ks"
  shows "length m = length ks"
proof -
  have "length m = card (set (map fst m))" using distinct_card [OF assms(1)] by simp
  also have "\<dots> = length ks" using distinct_card [OF assms(2)] assms(3) by simp
  finally show ?thesis .
qed

lemma cache_wf_lengths: "cache_wf c \<Longrightarrow> length (corder c) = length (cmap c)"
  using same_keys_length [of "cmap c" "corder c"] by (simp add: cache_wf_def)

lemma map_of_filter_key:
  "map_of (filter (\<lambda>e. Q (fst e)) m) k = (if Q k then map_of m k else None)"
  by (induction m) auto

lemma distinct_filter_fst: "distinct (map fst m) \<Longrightarrow> distinct (map fst (filter P m))"
  by (simp add: distinct_map_filter)

lemma fst_set_filter_key: "fst ` set (filter (\<lambda>e. Q (fst e)) m) = {k \<in> fst ` set m. Q k}"
  by auto

lemma cache_lookup_remove:
  "cache_lookup (cache_remove key c) k = (if k = key then None else cache_lookup c k)"
  by (simp add: cache_lookup_def cache_remove_def map_of_filter_key [of "\<lambda>k. k \<noteq> key"])

lemma cache_wf_remove:
  assumes "cache_wf c" shows "cache_wf (cache_remove key c)"
  using assms
  by (auto simp: cache_wf_def cache_remove_def distinct_filter_fst
      fst_set_filter_key [of "\<lambda>k. k \<noteq> key"] intro: order.trans [OF length_filter_le])

text \<open>Eviction never panics on a well-formed cache, and leaves room for one more entry.\<close>

lemma cache_evict_ok:
  assumes wf: "cache_wf c"
  shows "\<exists>c'. cache_evict c = Ret c' \<and> cache_wf c' \<and> length (cmap c') < CACHE_MAX
     \<and> set (corder c') \<subseteq> set (corder c)
     \<and> (\<forall>k. cache_lookup c' k = (if k \<in> set (corder c') then cache_lookup c k else None))"
proof (cases "length (cmap c) \<ge> CACHE_MAX")
  case False
  have "\<forall>k. cache_lookup c k = (if k \<in> set (corder c) then cache_lookup c k else None)"
    using wf by (auto simp: cache_lookup_def cache_wf_def map_of_eq_None_iff)
  with False wf show ?thesis by (auto simp: cache_evict_def)
next
  case True
  let ?n = "CACHE_MAX div 2"
  let ?c = "c\<lparr>cmap := filter (\<lambda>e. fst e \<notin> set (take ?n (corder c))) (cmap c),
    corder := drop ?n (corder c)\<rparr>"
  have len: "length (corder c) = CACHE_MAX" and dm: "distinct (map fst (cmap c))"
    and dord: "distinct (corder c)" and keys: "set (corder c) = fst ` set (cmap c)"
    using wf True by (auto simp: cache_wf_def cache_wf_lengths)
  have split: "set (corder c) = set (take ?n (corder c)) \<union> set (drop ?n (corder c))"
    by (metis append_take_drop_id set_append)
  have disj: "set (take ?n (corder c)) \<inter> set (drop ?n (corder c)) = {}"
    using dord by (rule set_take_disj_set_drop_if_distinct) simp
  have kept: "fst ` set (cmap ?c) = set (corder ?c)"
  proof -
    have "fst ` set (cmap ?c) = {k \<in> fst ` set (cmap c). k \<notin> set (take ?n (corder c))}"
      using fst_set_filter_key [of "\<lambda>k. k \<notin> set (take ?n (corder c))" "cmap c"] by simp
    also have "\<dots> = set (corder ?c)" using keys split disj by auto
    finally show ?thesis .
  qed
  have dk: "distinct (map fst (cmap ?c))" using dm by (simp add: distinct_filter_fst)
  have "length (cmap ?c) = length (corder ?c)"
    using dord by (intro same_keys_length [OF dk _ kept]) simp
  then have small: "length (cmap ?c) < CACHE_MAX" using len by (simp add: CACHE_MAX_def)
  have wf': "cache_wf ?c" using kept dk dord small by (auto simp: cache_wf_def)
  have look: "cache_lookup ?c k = (if k \<in> set (corder ?c) then cache_lookup c k else None)" for k
  proof -
    have "map_of (cmap c) k = None" if "k \<notin> set (corder c)"
      using that keys by (simp add: map_of_eq_None_iff)
    moreover have "cache_lookup ?c k = (if k \<notin> set (take ?n (corder c)) then map_of (cmap c) k else None)"
      using map_of_filter_key [of "\<lambda>k. k \<notin> set (take ?n (corder c))" "cmap c" k]
      by (simp add: cache_lookup_def)
    ultimately show ?thesis using split disj by (auto simp: cache_lookup_def)
  qed
  have ev: "cache_evict c = Ret ?c" using True len by (simp add: cache_evict_def Let_def CACHE_MAX_def)
  have sub: "set (corder ?c) \<subseteq> set (corder c)" by (auto dest: in_set_dropD)
  show ?thesis using ev wf' small look sub by blast
qed

text \<open>The total insertion the interface talks about; \<open>cache_insert_ok\<close> shows no panic.\<close>

definition cache_put :: "account \<Rightarrow> string \<Rightarrow> resolver_cache \<Rightarrow> resolver_cache" where
  "cache_put key user_id c = (case cache_insert key user_id c of Ret c' \<Rightarrow> c' | Panic \<Rightarrow> c)"

lemma cache_insert_ok:
  assumes wf: "cache_wf c"
  shows "\<exists>c'. cache_insert key v c = Ret c' \<and> cache_wf c' \<and> cache_lookup c' key = Some v
     \<and> (\<forall>k w. k \<noteq> key \<longrightarrow> cache_lookup c' k = Some w \<longrightarrow> cache_lookup c k = Some w)"
proof (cases "key \<in> fst ` set (cmap c)")
  case True
  let ?m = "AList.update key v (cmap c)"
  have keys: "map fst ?m = map fst (cmap c)" using True by (simp add: update_keys)
  then have "fst ` set ?m = fst ` set (cmap c)" and "length ?m = length (cmap c)"
    by (metis list.set_map, metis length_map)
  with wf True keys show ?thesis
    by (simp add: cache_insert_def cache_wf_def cache_lookup_def update_conv')
next
  case False
  obtain c' where c': "cache_evict c = Ret c'" "cache_wf c'" "length (cmap c') < CACHE_MAX"
      "set (corder c') \<subseteq> set (corder c)"
      "\<forall>k. cache_lookup c' k = (if k \<in> set (corder c') then cache_lookup c k else None)"
    using cache_evict_ok [OF wf] by blast
  have new: "key \<notin> set (corder c')" using False c'(4) wf by (auto simp: cache_wf_def)
  let ?r = "c'\<lparr>corder := corder c' @ [key], cmap := (key, v) # cmap c'\<rparr>"
  have "cache_insert key v c = Ret ?r" using False c'(1) by (simp add: cache_insert_def)
  moreover have "cache_wf ?r" using c'(2,3) new by (auto simp: cache_wf_def)
  moreover have "cache_lookup ?r key = Some v" by (simp add: cache_lookup_def)
  moreover have "k \<noteq> key \<Longrightarrow> cache_lookup ?r k = cache_lookup c' k" for k
    by (simp add: cache_lookup_def)
  ultimately show ?thesis using c'(5) by (metis option.distinct(1))
qed

lemma cache_put_Ret: "cache_wf c \<Longrightarrow> cache_insert key v c = Ret (cache_put key v c)"
  using cache_insert_ok [of c key v] by (auto simp: cache_put_def)

interpretation resolver_cache: bounded_cache
  cache_lookup cache_put cache_remove "\<lambda>c. length (cmap c)" CACHE_MAX cache_wf
proof
  fix c :: resolver_cache and k k' :: account and v w :: string
  assume wf: "cache_wf c"
  note put = cache_insert_ok [OF wf] cache_put_Ret [OF wf]
  show "cache_lookup (cache_put k v c) k = Some v" using put by (metis outcome.inject)
  show "cache_wf (cache_put k v c)" using put by (metis outcome.inject)
  show "k' \<noteq> k \<Longrightarrow> cache_lookup (cache_put k v c) k' = Some w \<Longrightarrow> cache_lookup c k' = Some w"
    using put by (metis outcome.inject)
  show "cache_lookup (cache_remove k c) k' = (if k' = k then None else cache_lookup c k')"
    by (rule cache_lookup_remove)
  show "cache_wf (cache_remove k c)" using wf by (rule cache_wf_remove)
  show "length (cmap c) \<le> CACHE_MAX" using wf by (simp add: cache_wf_def)
qed

lemma cache_wf_invalidate:
  assumes "cache_wf c" shows "cache_wf (invalidate_user uid c)"
proof -
  let ?g = "set (filter (\<lambda>k. map_of (cmap c) k = Some uid) (corder c))"
  have "fst ` set (filter (\<lambda>e. fst e \<notin> ?g) (cmap c))
      = set (filter (\<lambda>k. map_of (cmap c) k \<noteq> Some uid) (corder c))"
    using assms by (auto simp: fst_set_filter_key [of "\<lambda>k. k \<notin> ?g"] cache_wf_def)
  then show ?thesis using assms
    by (auto simp: cache_wf_def invalidate_user_def Let_def distinct_filter_fst
        intro: order.trans [OF length_filter_le])
qed

lemma cache_lookup_invalidate:
  assumes "cache_wf c"
  shows "cache_lookup (invalidate_user uid c) k
     = (if cache_lookup c k = Some uid then None else cache_lookup c k)"
proof -
  let ?g = "set (filter (\<lambda>k. map_of (cmap c) k = Some uid) (corder c))"
  have "k \<in> ?g \<longleftrightarrow> map_of (cmap c) k = Some uid"
    using assms by (auto simp: cache_wf_def dest!: map_of_SomeD intro: rev_image_eqI)
  moreover have "map_of (filter (\<lambda>e. fst e \<notin> ?g) (cmap c)) k
      = (if k \<notin> ?g then map_of (cmap c) k else None)"
    by (rule map_of_filter_key)
  ultimately show ?thesis
    by (simp only: cache_lookup_def invalidate_user_def Let_def resolver_cache.select_convs
        resolver_cache.update_convs resolver_cache.simps if_not_P) simp
qed

end
