(* ===== verification/UserResolver.thy ===== *)
theory UserResolver
  imports Resolver
begin

text \<open>
  The operations of \<open>UserResolver\<close> over the tables and the cache. The result of a call is the
  new state with its \<open>Result\<close>, or a panic.
\<close>

section \<open>State and operations\<close>

datatype resolved_user = Known user | NewlyCreated user bool

fun resolved_user_user :: "resolved_user \<Rightarrow> user" where
  "resolved_user_user (Known u) = u"
| "resolved_user_user (NewlyCreated u _) = u"

record user_resolver =
  rdb :: users_db
  rcache :: resolver_cache

text \<open>What one call draws from the clock and from \<open>Uuid::now_v7\<close>.\<close>

record mint =
  mint_user_id :: string
  mint_user_now :: string
  mint_ident_id :: string
  mint_ident_now :: string

definition resolve_slow ::
    "json_codec \<Rightarrow> mint \<Rightarrow> user_resolver \<Rightarrow> string \<Rightarrow> string
      \<Rightarrow> (user_resolver \<times> (user_error + resolved_user)) outcome" where
  "resolve_slow J m st channel identifier =
     (let key = (channel, identifier) in
      case find_user_by_identity J (rdb st) channel identifier of
        Some u \<Rightarrow> bind_outcome (cache_insert key (u_id u) (rcache st)) (\<lambda>c.
          Ret (st\<lparr>rcache := c\<rparr>, Inr (Known u)))
      | None \<Rightarrow>
          (case create_user J (mint_user_id m) (mint_user_now m) (rdb st)
                  (channel @ '':'' @ identifier) User of
             Inl e \<Rightarrow> Ret (st, Inl e)
           | Inr (db1, u) \<Rightarrow>
               (case add_identity (mint_ident_id m) (mint_ident_now m) db1 (u_id u) channel identifier of
                  Inl e \<Rightarrow> Ret (st\<lparr>rdb := db1\<rparr>, Inl e)
                | Inr (db2, _) \<Rightarrow>
                    bind_outcome (cache_insert key (u_id u) (rcache st)) (\<lambda>c.
                      Ret (st\<lparr>rdb := db2, rcache := c\<rparr>, Inr (NewlyCreated u True))))))"

definition resolve ::
    "json_codec \<Rightarrow> mint \<Rightarrow> user_resolver \<Rightarrow> string \<Rightarrow> string
      \<Rightarrow> (user_resolver \<times> (user_error + resolved_user)) outcome" where
  "resolve J m st channel identifier =
     (let key = (channel, identifier) in
      case cache_lookup (rcache st) key of
        Some user_id \<Rightarrow>
          (case get_user J (rdb st) user_id of
             Some u \<Rightarrow> Ret (st, Inr (Known u))
           | None \<Rightarrow> resolve_slow J m (st\<lparr>rcache := cache_remove key (rcache st)\<rparr>) channel identifier)
      | None \<Rightarrow> resolve_slow J m st channel identifier)"

definition relink :: "string \<Rightarrow> string \<Rightarrow> string \<Rightarrow> user_identity \<Rightarrow> user_identity" where
  "relink target admin now i = i\<lparr>i_user_id := target, i_linked_by := Some admin, i_linked_at := now\<rparr>"

definition link_identity ::
    "json_codec \<Rightarrow> mint \<Rightarrow> user_resolver \<Rightarrow> string \<Rightarrow> string \<Rightarrow> string \<Rightarrow> string
      \<Rightarrow> user_resolver \<times> (user_error + unit)" where
  "link_identity J m st admin_id channel identifier target_user_id =
     (let db = rdb st; key = (channel, identifier); P = (\<lambda>i. ident_key i = key) in
      case get_user J db admin_id of
        None \<Rightarrow> (st, Inl (UNotFound admin_id))
      | Some admin \<Rightarrow>
          if \<not> is_admin (u_role admin)
          then (st, Inl (UPermissionDenied ''only admins can re-link identities''))
          else
            (let rows = tbl_count P (identities db) in
             if rows > 0 \<and> foreign_keys db \<and> target_user_id \<notin> r_id ` set (users db)
             then (st, Inl (UDatabaseError ConstraintViolation))
             else
               (let db1 = db\<lparr>identities := tbl_update P (relink target_user_id admin_id (mint_user_now m))
                      (identities db)\<rparr>
                in if rows = 0 then
                     (case add_identity (mint_ident_id m) (mint_ident_now m) db1 target_user_id
                             channel identifier of
                        Inl e \<Rightarrow> (st\<lparr>rdb := db1\<rparr>, Inl e)
                      | Inr (db2, _) \<Rightarrow>
                          (st\<lparr>rdb := db2, rcache := cache_remove key (rcache st)\<rparr>, Inr ()))
                   else (st\<lparr>rdb := db1, rcache := cache_remove key (rcache st)\<rparr>, Inr ()))))"

definition resolver_new :: "users_db \<Rightarrow> user_resolver" where
  "resolver_new db = \<lparr>rdb = db, rcache = empty_cache\<rparr>"

section \<open>The invariant: tables are well formed and the cache tells what they tell\<close>

definition coherent :: "users_db \<Rightarrow> resolver_cache \<Rightarrow> bool" where
  "coherent db c \<longleftrightarrow> (\<forall>k uid. cache_lookup c k = Some uid \<longrightarrow> owner db k = Some uid)"

lemma coherent_agrees: "coherent db c = resolver_cache.agrees (\<lambda>k uid. owner db k = Some uid) c"
  by (simp add: coherent_def resolver_cache.agrees_def)

definition resolver_wf :: "user_resolver \<Rightarrow> bool" where
  "resolver_wf st \<longleftrightarrow> users_wf (rdb st) \<and> foreign_keys (rdb st) \<and> cache_wf (rcache st)
     \<and> coherent (rdb st) (rcache st)"

lemma resolver_wf_new: "users_wf db \<Longrightarrow> foreign_keys db \<Longrightarrow> resolver_wf (resolver_new db)"
  using cache_wf_empty
  by (simp add: resolver_wf_def resolver_new_def coherent_def cache_lookup_def empty_cache_def)

lemma owner_users_irrelevant [simp]: "owner (db\<lparr>users := us\<rparr>) k = owner db k"
  by (simp add: owner_def)

lemma coherent_put:
  "cache_wf c \<Longrightarrow> coherent db c \<Longrightarrow> owner db k = Some uid \<Longrightarrow> coherent db (cache_put k uid c)"
  unfolding coherent_agrees by (rule resolver_cache.agrees_insert)

lemma coherent_remove: "cache_wf c \<Longrightarrow> coherent db c \<Longrightarrow> coherent db (cache_remove k c)"
  unfolding coherent_agrees by (rule resolver_cache.agrees_remove)

lemma coherent_mono:
  "coherent db c \<Longrightarrow> (\<And>k uid. owner db k = Some uid \<Longrightarrow> owner db' k = Some uid) \<Longrightarrow> coherent db' c"
  by (auto simp: coherent_def)

lemmas cache_put_facts = cache_put_Ret resolver_cache.cinv_insert coherent_put
  resolver_cache.lookup_insert_same

lemma resolve_slow_known:
  assumes wf: "resolver_wf st" and own: "owner (rdb st) (ch, idn) = Some uid"
  shows "\<exists>u. get_user J (rdb st) uid = Some u
    \<and> resolve_slow J m st ch idn = Ret (st\<lparr>rcache := cache_put (ch, idn) uid (rcache st)\<rparr>, Inr (Known u))
    \<and> resolver_wf (st\<lparr>rcache := cache_put (ch, idn) uid (rcache st)\<rparr>)"
proof -
  have dbwf: "users_wf (rdb st)" "cache_wf (rcache st)" "coherent (rdb st) (rcache st)"
    using wf by (auto simp: resolver_wf_def)
  obtain u where u: "get_user J (rdb st) uid = Some u" using owner_exists [OF dbwf(1) own] by blast
  then have uid: "u_id u = uid" by (rule get_user_id)
  have "find_user_by_identity J (rdb st) ch idn = Some u"
    using find_user_by_identity_owner [OF dbwf(1)] own u by simp
  then have "resolve_slow J m st ch idn
      = Ret (st\<lparr>rcache := cache_put (ch, idn) uid (rcache st)\<rparr>, Inr (Known u))"
    using cache_put_Ret [OF dbwf(2)] uid by (simp add: resolve_slow_def Let_def)
  with u wf dbwf own show ?thesis
    by (auto simp: resolver_wf_def intro: cache_put_facts)
qed

lemma resolve_slow_new:
  assumes wf: "resolver_wf st" and own: "owner (rdb st) (ch, idn) = None"
    and fresh: "mint_user_id m \<notin> r_id ` set (users (rdb st))"
      "mint_ident_id m \<notin> i_id ` set (identities (rdb st))"
  shows "\<exists>st' u. resolve_slow J m st ch idn = Ret (st', Inr (NewlyCreated u True)) \<and> resolver_wf st'
    \<and> u_id u = mint_user_id m \<and> u_role u = User
    \<and> users (rdb st') = users (rdb st) @ [user_to_row J u]
    \<and> owner (rdb st') = (owner (rdb st))((ch, idn) \<mapsto> mint_user_id m)
    \<and> cache_lookup (rcache st') (ch, idn) = Some (mint_user_id m)"
proof -
  have dbwf: "users_wf (rdb st)" "cache_wf (rcache st)" "coherent (rdb st) (rcache st)"
    using wf by (auto simp: resolver_wf_def)
  have none: "find_user_by_identity J (rdb st) ch idn = None"
    using find_user_by_identity_owner [OF dbwf(1)] own by simp
  obtain u where u: "create_user J (mint_user_id m) (mint_user_now m) (rdb st) (ch @ '':'' @ idn) User
      = Inr (rdb st\<lparr>users := users (rdb st) @ [user_to_row J u]\<rparr>, u)"
      "u_id u = mint_user_id m" "u_role u = User"
    using create_user_ok [OF fresh(1)] by blast
  let ?db1 = "rdb st\<lparr>users := users (rdb st) @ [user_to_row J u]\<rparr>"
  have mem: "mint_user_id m \<in> r_id ` set (users ?db1)" using u(2) by (simp add: user_to_row_def)
  obtain db' i where a: "add_identity (mint_ident_id m) (mint_ident_now m) ?db1 (u_id u) ch idn
      = Inr (db', i)"
    using add_identity_ok [of "mint_ident_id m" ?db1 ch idn "mint_user_id m" "mint_ident_now m"]
      own fresh(2) mem u(2) by auto
  then have i: "add_identity (mint_ident_id m) (mint_ident_now m) ?db1 (u_id u) ch idn
      = Inr (?db1\<lparr>identities := identities ?db1 @ [i]\<rparr>, i)"
      "ident_key i = (ch, idn)" "i_user_id i = mint_user_id m"
    using add_identity_shape [OF a] u(2) by auto
  let ?db2 = "?db1\<lparr>identities := identities ?db1 @ [i]\<rparr>"
  let ?st = "st\<lparr>rdb := ?db2, rcache := cache_put (ch, idn) (mint_user_id m) (rcache st)\<rparr>"
  have own2: "owner ?db2 = (owner (rdb st))((ch, idn) \<mapsto> mint_user_id m)"
    using owner_add [of ?db1 i] i(2,3) own by (auto simp: fun_eq_iff split: option.splits)
  have "users_wf ?db1" using dbwf(1) fresh(1) u(2) by (rule users_wf_create)
  then have wf2: "users_wf ?db2"
    using i(2,3) own mem by (intro users_wf_identity) simp_all
  have coh: "coherent ?db2 (rcache st)"
    using dbwf(3) by (rule coherent_mono) (use own own2 in auto)
  have "resolver_wf ?st"
    using wf wf2 cache_put_facts(2) [OF dbwf(2)] cache_put_facts(3) [OF dbwf(2) coh] own2
    by (simp add: resolver_wf_def)
  moreover have "resolve_slow J m st ch idn = Ret (?st, Inr (NewlyCreated u True))"
    using none u i cache_put_Ret [OF dbwf(2)] by (simp add: resolve_slow_def Let_def)
  moreover have "cache_lookup (rcache ?st) (ch, idn) = Some (mint_user_id m)"
    using resolver_cache.lookup_insert_same [OF dbwf(2)] by simp
  ultimately show ?thesis using u(2,3) own2 by (intro exI conjI) (assumption | simp)+
qed

text \<open>On a coherent state the fast path and the slow path answer alike.\<close>

lemma resolve_known:
  assumes wf: "resolver_wf st" and own: "owner (rdb st) (ch, idn) = Some uid"
  shows "\<exists>st' u. resolve J m st ch idn = Ret (st', Inr (Known u)) \<and> resolver_wf st'
    \<and> rdb st' = rdb st \<and> get_user J (rdb st) uid = Some u"
proof (cases "cache_lookup (rcache st) (ch, idn)")
  case None
  then have "resolve J m st ch idn = resolve_slow J m st ch idn" by (simp add: resolve_def)
  with resolve_slow_known [OF wf own] show ?thesis by (metis user_resolver.select_convs(1)
      user_resolver.surjective user_resolver.update_convs(2))
next
  case (Some x)
  with wf own have "x = uid" by (auto simp: resolver_wf_def coherent_def)
  moreover obtain u where "get_user J (rdb st) uid = Some u"
    using wf owner_exists [OF _ own] by (auto simp: resolver_wf_def)
  ultimately show ?thesis using Some wf by (auto simp: resolve_def)
qed

lemma resolve_unknown:
  assumes wf: "resolver_wf st" and own: "owner (rdb st) (ch, idn) = None"
  shows "resolve J m st ch idn = resolve_slow J m st ch idn"
proof -
  have "cache_lookup (rcache st) (ch, idn) = None"
    using wf own by (cases "cache_lookup (rcache st) (ch, idn)") (auto simp: resolver_wf_def coherent_def)
  then show ?thesis by (simp add: resolve_def)
qed

section \<open>Every operation keeps the invariant\<close>

lemma resolve_slow_wf:
  assumes wf: "resolver_wf st"
  shows "\<exists>st' r. resolve_slow J m st ch idn = Ret (st', r) \<and> resolver_wf st'
    \<and> (\<forall>k. k \<noteq> (ch, idn) \<longrightarrow> owner (rdb st') k = owner (rdb st) k)"
proof (cases "owner (rdb st) (ch, idn)")
  case (Some uid)
  then show ?thesis using resolve_slow_known [OF wf Some, of J m] by fastforce
next
  case None
  have none: "find_user_by_identity J (rdb st) ch idn = None"
    using find_user_by_identity_owner [of "rdb st" J ch idn] wf None by (simp add: resolver_wf_def)
  show ?thesis
  proof (cases "create_user J (mint_user_id m) (mint_user_now m) (rdb st) (ch @ '':'' @ idn) User")
    case (Inl e)
    then show ?thesis using wf none by (simp add: resolve_slow_def Let_def)
  next
    case (Inr p)
    obtain db1 u where p: "p = (db1, u)" by (cases p)
    note cu = create_user_shape [OF Inr [unfolded p]]
    show ?thesis
    proof (cases "mint_ident_id m \<in> i_id ` set (identities (rdb st))")
      case False
      then show ?thesis using resolve_slow_new [OF wf None, of m J] cu by fastforce
    next
      case True
      then have err: "add_identity (mint_ident_id m) (mint_ident_now m) db1 (u_id u) ch idn
          = Inl (UDatabaseError ConstraintViolation)"
        using cu by (simp add: add_identity_def Let_def)
      have "users_wf db1" using cu users_wf_create [of "rdb st" "u_id u" u J] wf
        by (simp add: resolver_wf_def)
      moreover have "coherent db1 (rcache st)"
        using wf cu by (auto simp: resolver_wf_def coherent_def)
      ultimately have "resolver_wf (st\<lparr>rdb := db1\<rparr>)" using wf cu by (simp add: resolver_wf_def)
      moreover have "resolve_slow J m st ch idn
          = Ret (st\<lparr>rdb := db1\<rparr>, Inl (UDatabaseError ConstraintViolation))"
        using none Inr p err by (simp add: resolve_slow_def Let_def)
      ultimately show ?thesis using cu by simp
    qed
  qed
qed

lemma resolve_wf:
  assumes wf: "resolver_wf st"
  shows "\<exists>st' r. resolve J m st ch idn = Ret (st', r) \<and> resolver_wf st'
    \<and> (\<forall>k. k \<noteq> (ch, idn) \<longrightarrow> owner (rdb st') k = owner (rdb st) k)"
proof (cases "owner (rdb st) (ch, idn)")
  case None
  then show ?thesis using resolve_unknown [OF wf None] resolve_slow_wf [OF wf] by metis
next
  case (Some uid)
  then show ?thesis using resolve_known [OF wf Some, of J m] by fastforce
qed

lemma owner_relink:
  "owner (db\<lparr>identities := tbl_update (\<lambda>i. ident_key i = key) (relink t a now) (identities db)\<rparr>) k
     = (if k = key then map_option (\<lambda>_. t) (owner db key) else owner db k)"
  using tbl_find_update [of "\<lambda>i. ident_key i = k" "relink t a now" "\<lambda>i. ident_key i = key"
      "identities db"] tbl_find_SomeD [of "\<lambda>i. ident_key i = k" "identities db"]
  by (auto simp: owner_def relink_def option.map_comp intro!: map_option_cong)

lemma users_wf_relink:
  "users_wf db \<Longrightarrow> t \<in> r_id ` set (users db) \<or> owner db key = None \<Longrightarrow>
   users_wf (db\<lparr>identities := tbl_update (\<lambda>i. ident_key i = key) (relink t a now) (identities db)\<rparr>)"
  by (auto simp: users_wf_def relink_def set_tbl_update owner_None_iff intro!: unique_on_update)

lemma relink_none:
  assumes "owner db key = None"
  shows "db\<lparr>identities := tbl_update (\<lambda>i. ident_key i = key) f (identities db)\<rparr> = db"
proof -
  have "\<forall>i \<in> set (identities db). \<not> ident_key i = key"
    using assms unfolding owner_None_iff by blast
  then show ?thesis using tbl_update_none [of "identities db" "\<lambda>i. ident_key i = key" f] by simp
qed

lemma rows_owner:
  "tbl_count (\<lambda>i. i_channel i = ch \<and> i_identifier i = idn) (identities db) = 0
     \<longleftrightarrow> owner db (ch, idn) = None"
  by (auto simp: tbl_count_0 owner_None_iff)

lemma link_identity_wf:
  assumes wf: "resolver_wf st"
  shows "resolver_wf (fst (link_identity J m st admin ch idn target))"
proof -
  let ?db = "rdb st" and ?P = "\<lambda>i. ident_key i = (ch, idn)"
  let ?db1 = "?db\<lparr>identities := tbl_update ?P (relink target admin (mint_user_now m)) (identities ?db)\<rparr>"
  have dbwf: "users_wf ?db" "foreign_keys ?db" "cache_wf (rcache st)" "coherent ?db (rcache st)"
    using wf by (auto simp: resolver_wf_def)
  let ?c = "cache_remove (ch, idn) (rcache st)"
  have cwf: "cache_wf ?c" using dbwf(3) by (rule cache_wf_remove)
  have coh: "coherent db' ?c" if "\<And>k. k \<noteq> (ch, idn) \<Longrightarrow> owner db' k = owner ?db k" for db'
    using dbwf(4) that by (auto simp: coherent_def cache_lookup_remove split: if_splits)
  show ?thesis
  proof (cases "owner ?db (ch, idn) = None")
    case True
    then have same: "?db1 = ?db" by (rule relink_none)
    show ?thesis
    proof (cases "add_identity (mint_ident_id m) (mint_ident_now m) ?db target ch idn")
      case (Inl e)
      then show ?thesis using wf same True
        by (simp add: link_identity_def Let_def rows_owner split: option.splits)
    next
      case (Inr p)
      obtain db2 i where p: "p = (db2, i)" by (cases p)
      note sh = add_identity_shape [OF Inr [unfolded p]]
      have mem: "target \<in> r_id ` set (users ?db)" using Inr dbwf(2)
        by (auto simp: add_identity_def Let_def split: if_splits)
      have "users_wf db2" using sh users_wf_identity [OF dbwf(1), of i] mem True by simp
      moreover have "coherent db2 ?c" using sh owner_add [of ?db i] True
        by (intro coh) (auto split: option.splits)
      ultimately show ?thesis using wf cwf same True Inr p sh
        by (simp add: link_identity_def Let_def rows_owner resolver_wf_def split: option.splits)
    qed
  next
    case False
    have "coherent ?db1 ?c"
      by (rule coh) (use owner_relink [where db = ?db and key = "(ch, idn)"] in simp)
    then have "target \<in> r_id ` set (users ?db) \<Longrightarrow> resolver_wf (st\<lparr>rdb := ?db1, rcache := ?c\<rparr>)"
      using users_wf_relink [OF dbwf(1), of target "(ch, idn)"] cwf dbwf(2)
      by (simp add: resolver_wf_def)
    then show ?thesis using wf False dbwf(2) rows_owner [where ch = ch and idn = idn and db = ?db]
      by (auto simp: link_identity_def Let_def split: option.splits)
  qed
qed

lemma invalidate_wf: "resolver_wf st \<Longrightarrow> resolver_wf (st\<lparr>rcache := invalidate_user uid (rcache st)\<rparr>)"
  by (auto simp: resolver_wf_def cache_wf_invalidate coherent_def cache_lookup_invalidate
      split: if_splits)

section \<open>The resolver as a machine\<close>

datatype resolver_event =
    EvResolve mint string string
  | EvLink mint string string string string
  | EvInvalidate string

fun resolver_step :: "json_codec \<Rightarrow> user_resolver \<Rightarrow> resolver_event \<Rightarrow> user_resolver" where
  "resolver_step J st (EvResolve m ch idn) =
     (case resolve J m st ch idn of Ret (st', _) \<Rightarrow> st' | Panic \<Rightarrow> st)"
| "resolver_step J st (EvLink m a ch idn t) = fst (link_identity J m st a ch idn t)"
| "resolver_step J st (EvInvalidate uid) = st\<lparr>rcache := invalidate_user uid (rcache st)\<rparr>"

interpretation resolver_machine: machine "resolver_step J" resolver_wf for J
proof
  fix st e assume wf: "resolver_wf st"
  show "resolver_wf (resolver_step J st e)"
  proof (cases e)
    case (EvResolve m ch idn)
    then show ?thesis using resolve_wf [OF wf, of J m ch idn] by auto
  next
    case EvLink
    then show ?thesis using link_identity_wf [OF wf] by simp
  next
    case EvInvalidate
    then show ?thesis using invalidate_wf [OF wf] by simp
  qed
qed

section \<open>Who owns an account after an event\<close>

fun relinks :: "string \<times> string \<Rightarrow> resolver_event \<Rightarrow> bool" where
  "relinks k (EvLink m a ch idn t) \<longleftrightarrow> k = (ch, idn)"
| "relinks k _ \<longleftrightarrow> False"

lemma link_owner:
  assumes "k \<noteq> (ch, idn)"
  shows "owner (rdb (fst (link_identity J m st a ch idn t))) k = owner (rdb st) k"
proof -
  let ?db1 = "rdb st\<lparr>identities := tbl_update (\<lambda>i. ident_key i = (ch, idn))
    (relink t a (mint_user_now m)) (identities (rdb st))\<rparr>"
  have o1: "owner ?db1 k = owner (rdb st) k"
    using assms owner_relink [where key = "(ch, idn)"] by simp
  have "owner db2 k = owner ?db1 k"
    if "add_identity (mint_ident_id m) (mint_ident_now m) ?db1 t ch idn = Inr (db2, i)" for db2 i
  proof -
    note sh = add_identity_shape [OF that]
    show ?thesis using sh assms owner_add [of ?db1 i k] by (auto split: option.splits)
  qed
  with o1 show ?thesis by (auto simp: link_identity_def Let_def split: option.splits sum.splits)
qed

lemma step_owner:
  assumes wf: "resolver_wf st" and own: "owner (rdb st) k = Some uid" and nr: "\<not> relinks k e"
  shows "owner (rdb (resolver_step J st e)) k = Some uid"
proof (cases e)
  case (EvResolve m ch idn)
  show ?thesis
  proof (cases "k = (ch, idn)")
    case True
    then show ?thesis using resolve_known [OF wf, of ch idn uid J m] own EvResolve by auto
  next
    case False
    then show ?thesis using resolve_wf [OF wf, of J m ch idn] own EvResolve by (cases k) auto
  qed
next
  case (EvLink m a ch idn t)
  then show ?thesis using link_owner [of k ch idn J m st a t] nr own by simp
next
  case (EvInvalidate x)
  then show ?thesis using own by simp
qed

lemma run_owner:
  assumes "resolver_wf st" "owner (rdb st) k = Some uid" "\<forall>e \<in> set es. \<not> relinks k e"
  shows "resolver_wf (foldl (resolver_step J) st es)
    \<and> owner (rdb (foldl (resolver_step J) st es)) k = Some uid"
  using assms
proof (induction es arbitrary: st)
  case (Cons e es)
  then show ?case using step_owner [of st k uid e J] resolver_machine.step_inv [of st J e] by auto
qed simp

lemma resolve_owner:
  assumes wf: "resolver_wf st" and r: "resolve J m st ch idn = Ret (st', Inr ru)"
  shows "resolver_wf st' \<and> owner (rdb st') (ch, idn) = Some (u_id (resolved_user_user ru))"
proof (cases "owner (rdb st) (ch, idn)")
  case (Some uid)
  then show ?thesis using resolve_known [OF wf Some, of J m] r by (auto dest: get_user_id)
next
  case None
  note slow = r [unfolded resolve_unknown [OF wf None]]
  have none: "find_user_by_identity J (rdb st) ch idn = None"
    using find_user_by_identity_owner [of "rdb st" J ch idn] wf None by (simp add: resolver_wf_def)
  have "mint_user_id m \<notin> r_id ` set (users (rdb st)) \<and> mint_ident_id m \<notin> i_id ` set (identities (rdb st))"
    using slow none by (auto simp: resolve_slow_def Let_def bind_outcome_Ret_iff
        dest!: users_shapes split: sum.splits)
  then show ?thesis using resolve_slow_new [OF wf None, of m J] slow by auto
qed

lemma link_identity_admin:
  assumes wf: "resolver_wf st" and adm: "get_user J (rdb st) a = Some ad" "u_role ad = Admin"
    and tgt: "t \<in> r_id ` set (users (rdb st))"
    and fresh: "mint_ident_id m \<notin> i_id ` set (identities (rdb st))"
  shows "\<exists>st'. link_identity J m st a ch idn t = (st', Inr ()) \<and> resolver_wf st'
    \<and> owner (rdb st') = (owner (rdb st))((ch, idn) \<mapsto> t)
    \<and> cache_lookup (rcache st') (ch, idn) = None"
proof -
  let ?db = "rdb st"
  let ?db1 = "?db\<lparr>identities := tbl_update (\<lambda>i. ident_key i = (ch, idn))
    (relink t a (mint_user_now m)) (identities ?db)\<rparr>"
  have fk: "foreign_keys ?db" "cache_wf (rcache st)" using wf by (auto simp: resolver_wf_def)
  have lk: "cache_lookup (cache_remove (ch, idn) (rcache st)) (ch, idn) = None"
    by (simp add: cache_lookup_remove)
  have w: "resolver_wf (fst (link_identity J m st a ch idn t))" by (rule link_identity_wf [OF wf])
  show ?thesis
  proof (cases "owner ?db (ch, idn) = None")
    case False
    then obtain x where x: "owner ?db (ch, idn) = Some x" by blast
    have "link_identity J m st a ch idn t
        = (st\<lparr>rdb := ?db1, rcache := cache_remove (ch, idn) (rcache st)\<rparr>, Inr ())"
      using adm tgt x rows_owner [of ch idn ?db]
      by (simp add: link_identity_def Let_def is_admin_def)
    moreover have "owner ?db1 = (owner ?db)((ch, idn) \<mapsto> t)"
      using False owner_relink [where key = "(ch, idn)"] by (auto simp: fun_eq_iff)
    ultimately show ?thesis using w lk by simp
  next
    case True
    then have same: "?db1 = ?db" by (rule relink_none)
    obtain db2 i where ai: "add_identity (mint_ident_id m) (mint_ident_now m) ?db t ch idn = Inr (db2, i)"
      using add_identity_ok [OF fresh True tgt] by blast
    note sh = add_identity_shape [OF ai]
    have "link_identity J m st a ch idn t
        = (st\<lparr>rdb := db2, rcache := cache_remove (ch, idn) (rcache st)\<rparr>, Inr ())"
      using adm ai same True rows_owner [of ch idn ?db]
      by (simp add: link_identity_def Let_def is_admin_def)
    moreover have "owner db2 = (owner ?db)((ch, idn) \<mapsto> t)"
      using sh True owner_add [of ?db i] by (auto simp: fun_eq_iff split: option.splits)
    ultimately show ?thesis using w lk by simp
  qed
qed

section \<open>Properties\<close>

text \<open>
  A concrete database for the witnesses: an administrator and one known account.
\<close>

definition sample_json :: json_codec where
  "sample_json = \<lparr>jenc = (\<lambda>_. ''[]''), jdec = (\<lambda>_. Some [])\<rparr>"

definition sample_mint :: "string \<Rightarrow> mint" where
  "sample_mint s = \<lparr>mint_user_id = ''u'' @ s, mint_user_now = ''t'', mint_ident_id = ''i'' @ s,
     mint_ident_now = ''t''\<rparr>"

definition sample_db :: users_db where
  "sample_db = (case create_user sample_json ''root'' ''t0'' \<lparr>users = [], identities = [], foreign_keys = True\<rparr>
      ''Root'' Admin of Inl _ \<Rightarrow> \<lparr>users = [], identities = [], foreign_keys = True\<rparr> | Inr (db, _) \<Rightarrow> db)"

lemmas sample_defs = sample_db_def sample_json_def sample_mint_def create_user_def insert_user_row_def
  user_params_ok_def sql_u64_def user_to_row_def

lemma sample_db_wf: "users_wf sample_db" "foreign_keys sample_db"
  by (simp_all add: sample_defs users_wf_def unique_on_def Let_def)

text \<open>C2: After any sequence of resolutions, re-links and cache invalidations that starts from a
  new resolver on well-formed tables, the tables are well formed, the cache holds at most 256
  entries and every cached answer is the owner the tables give; and no call of \<open>resolve\<close>
  panics in such a state.\<close>
theorem resolver_run_coherent:
  assumes "users_wf db" "foreign_keys db"
    and st: "st = foldl (resolver_step J) (resolver_new db) es"
  shows "users_wf (rdb st) \<and> size (cmap (rcache st)) \<le> CACHE_MAX
    \<and> {(k, uid). cache_lookup (rcache st) k = Some uid} \<subseteq> {(k, uid). owner (rdb st) k = Some uid}
    \<and> resolve J m st ch idn \<noteq> Panic"
proof -
  have wf: "resolver_wf st" unfolding st
    by (rule resolver_machine.run_inv) (rule resolver_wf_new [OF assms(1,2)])
  then show ?thesis using resolve_wf [OF wf, of J m ch idn] resolver_cache.csize_bound
    by (auto simp: resolver_wf_def coherent_def)
qed

theorem resolver_run_coherent_witness:
  "let es = [EvResolve (sample_mint ''1'') ''discord'' ''42'', EvLink (sample_mint ''2'') ''root'' ''ws'' ''7'' ''root''];
       st = foldl (resolver_step sample_json) (resolver_new sample_db) es
   in users_wf (rdb st) \<and> size (cmap (rcache st)) \<le> CACHE_MAX
     \<and> {(k, uid). cache_lookup (rcache st) k = Some uid} \<subseteq> {(k, uid). owner (rdb st) k = Some uid}
     \<and> resolve sample_json (sample_mint ''3'') st ''ws'' ''8'' \<noteq> Panic"
  unfolding Let_def by (rule resolver_run_coherent [OF sample_db_wf refl])

text \<open>Resolution is stable: once an account has resolved to a user, every later resolution of
  the same account returns that user as known and changes no table, whatever resolutions,
  re-links of other accounts and cache invalidations happened in between.\<close>
theorem resolve_stable:
  assumes "resolver_wf st" "resolve J m st ch idn = Ret (st1, Inr ru)"
    "\<forall>e \<in> set es. \<not> relinks (ch, idn) e"
    and st2: "st2 = foldl (resolver_step J) st1 es"
  shows "\<exists>st3 u. resolve J m' st2 ch idn = Ret (st3, Inr (Known u)) \<and> rdb st3 = rdb st2
    \<and> u_id u = u_id (resolved_user_user ru) \<and> get_user J (rdb st2) (u_id u) = Some u"
proof -
  let ?uid = "u_id (resolved_user_user ru)"
  have "resolver_wf st2 \<and> owner (rdb st2) (ch, idn) = Some ?uid"
    unfolding st2 using resolve_owner [OF assms(1,2)] assms(3) by (intro run_owner) auto
  then obtain st3 u where "resolve J m' st2 ch idn = Ret (st3, Inr (Known u))" "rdb st3 = rdb st2"
      "get_user J (rdb st2) ?uid = Some u"
    using resolve_known [of st2 ch idn ?uid J m'] by blast
  then show ?thesis using get_user_id by fastforce
qed

theorem resolve_stable_witness:
  "\<exists>st1 ru st3 u. resolve sample_json (sample_mint ''1'') (resolver_new sample_db) ''discord'' ''42''
       = Ret (st1, Inr ru)
    \<and> resolve sample_json (sample_mint ''2'') (foldl (resolver_step sample_json) st1
         [EvResolve (sample_mint ''3'') ''ws'' ''7'', EvInvalidate ''u1'']) ''discord'' ''42''
       = Ret (st3, Inr (Known u)) \<and> u_id u = u_id (resolved_user_user ru)"
proof -
  have wf: "resolver_wf (resolver_new sample_db)" by (rule resolver_wf_new [OF sample_db_wf])
  have "owner (rdb (resolver_new sample_db)) (''discord'', ''42'') = None"
    by (simp add: resolver_new_def sample_defs owner_def Let_def)
  moreover have "mint_user_id (sample_mint ''1'') \<notin> r_id ` set (users (rdb (resolver_new sample_db)))"
    "mint_ident_id (sample_mint ''1'') \<notin> i_id ` set (identities (rdb (resolver_new sample_db)))"
    by (simp_all add: resolver_new_def sample_defs Let_def)
  ultimately obtain st1 ru where r: "resolve sample_json (sample_mint ''1'') (resolver_new sample_db)
      ''discord'' ''42'' = Ret (st1, Inr ru)"
    using resolve_slow_new [OF wf] resolve_unknown [OF wf] by metis
  have "\<forall>e \<in> set [EvResolve (sample_mint ''3'') ''ws'' ''7'', EvInvalidate ''u1''].
      \<not> relinks (''discord'', ''42'') e" by simp
  from resolve_stable [OF wf r this refl] r show ?thesis by blast
qed

text \<open>C3: Only an administrator re-links an account. A call by anyone else is refused and changes
  nothing; a call by an administrator for an existing target makes the target the owner of that
  account, of no other, and drops the account's cached answer.\<close>
theorem link_identity_authority:
  assumes "resolver_wf st" "t \<in> r_id ` set (users (rdb st))"
    "mint_ident_id m \<notin> i_id ` set (identities (rdb st))"
  shows "if \<exists>ad. get_user J (rdb st) a = Some ad \<and> u_role ad = Admin
    then \<exists>st'. link_identity J m st a ch idn t = (st', Inr ())
      \<and> owner (rdb st') = (owner (rdb st))((ch, idn) \<mapsto> t)
      \<and> cache_lookup (rcache st') (ch, idn) = None
    else \<exists>e. link_identity J m st a ch idn t = (st, Inl e)
      \<and> (e = UNotFound a \<or> e = UPermissionDenied ''only admins can re-link identities'')"
proof (cases "\<exists>ad. get_user J (rdb st) a = Some ad \<and> u_role ad = Admin")
  case True
  then show ?thesis using link_identity_admin [OF assms(1) _ _ assms(2,3), of J a _ ch idn] by fastforce
next
  case False
  then show ?thesis by (auto simp: link_identity_def Let_def is_admin_def split: option.split)
qed

theorem link_identity_authority_witness:
  "\<exists>st'. link_identity sample_json (sample_mint ''1'') (resolver_new sample_db) ''root'' ''ws'' ''7'' ''root''
      = (st', Inr ()) \<and> owner (rdb st') = (owner sample_db)((''ws'', ''7'') \<mapsto> ''root'')"
proof -
  have wf: "resolver_wf (resolver_new sample_db)" by (rule resolver_wf_new [OF sample_db_wf])
  have t: "''root'' \<in> r_id ` set (users (rdb (resolver_new sample_db)))"
    and f: "mint_ident_id (sample_mint ''1'') \<notin> i_id ` set (identities (rdb (resolver_new sample_db)))"
    and a: "\<exists>ad. get_user sample_json (rdb (resolver_new sample_db)) ''root'' = Some ad \<and> u_role ad = Admin"
    by (simp_all add: resolver_new_def sample_defs Let_def get_user_def row_to_user_def
        role_codec.unwrap_or_enc del: role_to_string.simps)
  have "rdb (resolver_new sample_db) = sample_db" by (simp add: resolver_new_def)
  with link_identity_authority [OF wf t f, of sample_json "''root''" "''ws''" "''7''"] a
  show ?thesis by fastforce
qed

end
