(* ===== verification/Permissions.thy ===== *)
theory Permissions
  imports Users
begin

text \<open>
  Permission checks and the daily token budget (\<open>skynet-users/src/permissions.rs\<close>).
  The clock enters as \<open>today\<close> (the UTC date as the code formats it) and \<open>now\<close>.
\<close>

section \<open>Permission checks\<close>

datatype permission =
    InstallSoftware | ExecuteCommands | UseBrowser | SendMessages | AccessMemory
  | AccessAllMemory | ManageUsers | ApproveRequests | ViewCostReports

datatype permission_check =
    Allowed
  | Denied string
  | NeedsApproval string
  | BudgetExceeded nat nat

definition maybe_needs_approval :: "user \<Rightarrow> string \<Rightarrow> permission_check" where
  "maybe_needs_approval u action_type =
     (if requires_admin_approval u then NeedsApproval action_type else Allowed)"

definition check :: "user \<Rightarrow> permission \<Rightarrow> permission_check" where
  "check u p =
     (if u_role u = Admin then Allowed
      else if u_role u = Child then
        (case p of
           SendMessages \<Rightarrow> Allowed
         | AccessMemory \<Rightarrow> Allowed
         | _ \<Rightarrow> Denied ''child accounts cannot perform this action'')
      else
        (case p of
           SendMessages \<Rightarrow> Allowed
         | AccessMemory \<Rightarrow> Allowed
         | InstallSoftware \<Rightarrow>
             if can_install_software u then maybe_needs_approval u ''install_software''
             else Denied ''install_software not enabled for this user''
         | ExecuteCommands \<Rightarrow>
             if can_exec_commands u then maybe_needs_approval u ''exec_commands''
             else Denied ''exec_commands not enabled for this user''
         | UseBrowser \<Rightarrow>
             if can_use_browser u then Allowed
             else Denied ''use_browser not enabled for this user''
         | AccessAllMemory \<Rightarrow> Denied ''admin role required''
         | ManageUsers \<Rightarrow> Denied ''admin role required''
         | ApproveRequests \<Rightarrow> Denied ''admin role required''
         | ViewCostReports \<Rightarrow> Denied ''admin role required''))"

section \<open>The token budget\<close>

definition charge_row :: "nat \<Rightarrow> string \<Rightarrow> nat \<Rightarrow> string \<Rightarrow> user_row \<Rightarrow> user_row" where
  "charge_row new_total today tokens now r = r
     \<lparr> r_tokens_used_today := new_total, r_tokens_reset_date := Some today,
       r_total_tokens_used := r_total_tokens_used r + tokens, r_updated_at := now \<rparr>"

definition record_token_usage ::
    "string \<Rightarrow> string \<Rightarrow> users_db \<Rightarrow> string \<Rightarrow> nat \<Rightarrow> users_db \<times> (user_error + permission_check)" where
  "record_token_usage today now db user_id tokens =
     (case tbl_find (\<lambda>r. r_id r = user_id) (users db) of
        None \<Rightarrow> (db, Inl (UDatabaseError QueryReturnedNoRows))
      | Some r \<Rightarrow>
          (let reset_needed = r_tokens_reset_date r \<noteq> Some today;
               used_today = (if reset_needed then 0 else r_tokens_used_today r);
               new_total = saturating_add_u64 used_today tokens
           in if \<not> sql_u64 new_total \<or> \<not> sql_u64 tokens
              then (db, Inl (UDatabaseError ToSqlConversionFailure))
              else
                (db\<lparr>users := tbl_update (\<lambda>r. r_id r = user_id)
                        (charge_row new_total today tokens now) (users db)\<rparr>,
                 Inr (case r_max_tokens_per_day r of
                        Some cap \<Rightarrow> if new_total > cap then BudgetExceeded new_total cap else Allowed
                      | None \<Rightarrow> Allowed))))"

text \<open>A day's counter: what the row says was used today, which is nothing after a date change.\<close>

definition used_on :: "string \<Rightarrow> user_row \<Rightarrow> nat" where
  "used_on today r = (if r_tokens_reset_date r = Some today then r_tokens_used_today r else 0)"

definition day_usage :: "string \<Rightarrow> users_db \<Rightarrow> string \<Rightarrow> nat" where
  "day_usage today db uid =
     (case tbl_find (\<lambda>r. r_id r = uid) (users db) of None \<Rightarrow> 0 | Some r \<Rightarrow> used_on today r)"

definition day_limit :: "users_db \<Rightarrow> string \<Rightarrow> nat option" where
  "day_limit db uid =
     (case tbl_find (\<lambda>r. r_id r = uid) (users db) of None \<Rightarrow> None | Some r \<Rightarrow> r_max_tokens_per_day r)"

text \<open>A run of charges on one day, each with the clock reading it saw.\<close>

fun charge_all :: "string \<Rightarrow> users_db \<Rightarrow> (string \<times> string \<times> nat) list \<Rightarrow> users_db" where
  "charge_all today db [] = db"
| "charge_all today db ((now, uid, n) # cs) =
     charge_all today (fst (record_token_usage today now db uid n)) cs"

lemma charge_row_id [simp]: "r_id (charge_row t d n now r) = r_id r"
  by (simp add: charge_row_def)

lemma sql_u64_saturating: "sql_u64 (saturating_add_u64 a b) \<longleftrightarrow> a + b < i64_size"
  by (auto simp: sql_u64_def saturating_add_u64_def)

lemma find_charged:
  "tbl_find (\<lambda>r. r_id r = uid') (tbl_update (\<lambda>r. r_id r = uid) (charge_row t d n now) rows)
     = map_option (\<lambda>r. if uid' = uid then charge_row t d n now r else r)
         (tbl_find (\<lambda>r. r_id r = uid') rows)"
  using tbl_find_SomeD [of "\<lambda>r. r_id r = uid'" rows]
  by (auto simp: tbl_find_update intro!: map_option_cong)

lemma record_usage_fit:
  assumes "tbl_find (\<lambda>r. r_id r = uid) (users db) = Some r" "used_on today r + n < i64_size"
  shows "record_token_usage today now db uid n =
    (db\<lparr>users := tbl_update (\<lambda>r. r_id r = uid) (charge_row (used_on today r + n) today n now) (users db)\<rparr>,
     Inr (case r_max_tokens_per_day r of
            Some cap \<Rightarrow> if used_on today r + n > cap then BudgetExceeded (used_on today r + n) cap else Allowed
          | None \<Rightarrow> Allowed))"
  using assms
  by (auto simp: record_token_usage_def Let_def sql_u64_def saturating_add_u64_def used_on_def
      split: option.split)

lemma record_usage_unfit:
  assumes "tbl_find (\<lambda>r. r_id r = uid) (users db) = Some r" "\<not> used_on today r + n < i64_size"
  shows "record_token_usage today now db uid n = (db, Inl (UDatabaseError ToSqlConversionFailure))"
  using assms by (auto simp: record_token_usage_def Let_def sql_u64_saturating used_on_def)

lemma record_usage_missing:
  "uid \<notin> r_id ` set (users db) \<Longrightarrow>
   record_token_usage today now db uid n = (db, Inl (UDatabaseError QueryReturnedNoRows))"
proof -
  assume "uid \<notin> r_id ` set (users db)"
  then have "tbl_find (\<lambda>r. r_id r = uid) (users db) = None" by (auto simp: tbl_find_None)
  then show ?thesis by (simp add: record_token_usage_def)
qed

lemma record_usage_frame:
  "map r_id (users (fst (record_token_usage today now db uid n))) = map r_id (users db)"
  "day_limit (fst (record_token_usage today now db uid n)) uid' = day_limit db uid'"
  by (auto simp: record_token_usage_def Let_def day_limit_def find_charged charge_row_def
      map_tbl_update_key split: option.splits)

lemma day_usage_record:
  assumes "uid' \<in> r_id ` set (users db)"
  shows "day_usage today (fst (record_token_usage today now db uid n)) uid'
     = day_usage today db uid' + (if uid' = uid \<and> day_usage today db uid' + n < i64_size then n else 0)"
proof (cases "tbl_find (\<lambda>r. r_id r = uid) (users db)")
  case None
  then have "record_token_usage today now db uid n = (db, Inl (UDatabaseError QueryReturnedNoRows))"
    by (simp add: record_token_usage_def)
  then show ?thesis using None assms by (auto simp: tbl_find_None)
next
  case (Some r)
  show ?thesis
  proof (cases "used_on today r + n < i64_size")
    case True
    show ?thesis unfolding record_usage_fit [OF Some True]
      using Some True by (auto simp: day_usage_def find_charged charge_row_def used_on_def
          split: option.splits)
  next
    case False
    then show ?thesis using record_usage_unfit [OF Some False] Some
      by (auto simp: day_usage_def)
  qed
qed

text \<open>What one user was charged in a run.\<close>

definition charged :: "string \<Rightarrow> (string \<times> string \<times> nat) list \<Rightarrow> nat" where
  "charged uid cs = sum_list (map (\<lambda>(_, u, n). if u = uid then n else 0) cs)"

lemma charged_Cons: "charged uid ((now, u, n) # cs) = (if u = uid then n else 0) + charged uid cs"
  by (simp add: charged_def)

lemma charge_all_sum:
  assumes "uid \<in> r_id ` set (users db)" "day_usage today db uid + charged uid cs < i64_size"
  shows "day_usage today (charge_all today db cs) uid = day_usage today db uid + charged uid cs"
  using assms
proof (induction cs arbitrary: db)
  case Nil
  then show ?case by (simp add: charged_def)
next
  case (Cons c cs)
  obtain now u n where c: "c = (now, u, n)" by (cases c)
  let ?db = "fst (record_token_usage today now db u n)"
  have mem: "uid \<in> r_id ` set (users ?db)"
    using Cons.prems(1) record_usage_frame(1) [of today now db u n] by (metis set_map)
  have use: "day_usage today ?db uid = day_usage today db uid + (if u = uid then n else 0)"
    using day_usage_record [OF Cons.prems(1), of today now u n] Cons.prems(2) c
    by (auto simp: charged_Cons)
  show ?case using Cons.IH [OF mem] use Cons.prems(2) c by (simp add: charged_Cons)
qed

lemma charge_all_frame:
  "map r_id (users (charge_all today db cs)) = map r_id (users db)"
  "day_limit (charge_all today db cs) uid' = day_limit db uid'"
  by (induction cs arbitrary: db) (auto simp: record_usage_frame)

section \<open>Properties\<close>


text \<open>The budget is exact. After any run of charges on one day whose sum for the user fits
  a 64-bit signed integer, the next charge is answered \<open>BudgetExceeded\<close> exactly when all that was
  charged to that user on that day exceeds the cap, with that total; what other users were
  charged does not count, and what was used before the day does not count.\<close>
theorem budget_exact:
  assumes "uid \<in> r_id ` set (users db)"
    and "tot = day_usage today db uid + charged uid cs + n" "tot < i64_size"
  shows "snd (record_token_usage today now (charge_all today db cs) uid n)
     = Inr (case day_limit db uid of
              None \<Rightarrow> Allowed
            | Some cap \<Rightarrow> if tot > cap then BudgetExceeded tot cap else Allowed)"
proof -
  let ?db = "charge_all today db cs"
  have use: "day_usage today ?db uid = day_usage today db uid + charged uid cs"
    using charge_all_sum [OF assms(1), of today cs] assms(2,3) by simp
  have "uid \<in> r_id ` set (users ?db)"
    using assms(1) charge_all_frame(1) [of today db cs] by (metis set_map)
  then obtain r where r: "tbl_find (\<lambda>r. r_id r = uid) (users ?db) = Some r"
    using tbl_find_key_None [of r_id uid "users ?db"] by auto
  then have "used_on today r + n = tot" "day_limit db uid = r_max_tokens_per_day r"
    using use assms(2) charge_all_frame(2) [of today db cs uid] by (simp_all add: day_usage_def day_limit_def)
  then show ?thesis using record_usage_fit [OF r, of today n now] assms(3) by (simp split: option.split)
qed

definition budget_db :: users_db where
  "budget_db = (let row = \<lambda>i. \<lparr>r_id = i, r_display_name = i, r_role = ''user'', r_language = ''en'',
       r_tone = ''friendly'', r_interests = ''[]'', r_age = None, r_timezone = ''UTC'',
       r_can_install_software = 0, r_can_use_browser = 0, r_can_exec_commands = 0,
       r_content_filter = ''moderate'', r_max_tokens_per_day = Some 100, r_requires_admin_approval = 0,
       r_total_messages = 0, r_total_tokens_used = 900, r_tokens_used_today = 900,
       r_tokens_reset_date = Some ''2025-01-01'', r_first_seen_at = ''t'', r_last_seen_at = ''t'',
       r_created_at = ''t'', r_updated_at = ''t''\<rparr>
     in \<lparr>users = [row ''a'', row ''b''], identities = [], foreign_keys = True\<rparr>)"

theorem budget_exact_witness:
  "snd (record_token_usage ''2025-01-02'' ''t'' (charge_all ''2025-01-02'' budget_db
      [(''t'', ''a'', 60), (''t'', ''b'', 500)]) ''a'' 40) = Inr Allowed
   \<and> snd (record_token_usage ''2025-01-02'' ''t'' (charge_all ''2025-01-02'' budget_db
      [(''t'', ''a'', 60), (''t'', ''b'', 500)]) ''a'' 41) = Inr (BudgetExceeded 101 100)"
proof -
  have m: "''a'' \<in> r_id ` set (users budget_db)" by (simp add: budget_db_def Let_def)
  have u: "day_usage ''2025-01-02'' budget_db ''a'' = 0" "day_limit budget_db ''a'' = Some 100"
    "charged ''a'' [(''t'', ''a'', 60), (''t'', ''b'', 500)] = 60"
    by (simp_all add: budget_db_def Let_def day_usage_def used_on_def day_limit_def charged_def)
  show ?thesis
    using budget_exact [OF m, of 100 "''2025-01-02''" "[(''t'', ''a'', 60), (''t'', ''b'', 500)]" 40 "''t''"]
      budget_exact [OF m, of 101 "''2025-01-02''" "[(''t'', ''a'', 60), (''t'', ''b'', 500)]" 41 "''t''"] u
    by simp
qed

text \<open>A charge that fits is recorded even when it exceeds the cap: the user's usage of the day
  grows by it, from zero on a new day. It changes no limit and no other user's usage. A charge
  of a user that is not in the table, or that does not fit, changes nothing and is an error.\<close>
theorem record_usage_persists:
  assumes "db' = fst (record_token_usage today now db uid n)"
  shows "(if uid \<in> r_id ` set (users db) \<and> day_usage today db uid + n < i64_size
      then day_usage today db' uid = day_usage today db uid + n
      else db' = db \<and> (\<exists>e. snd (record_token_usage today now db uid n) = Inl (UDatabaseError e)))
    \<and> (\<forall>uid' \<in> r_id ` set (users db) - {uid}. day_usage today db' uid' = day_usage today db uid')
    \<and> day_limit db' = day_limit db"
proof -
  have "db' = db \<and> (\<exists>e. snd (record_token_usage today now db uid n) = Inl (UDatabaseError e))"
    if "\<not> (uid \<in> r_id ` set (users db) \<and> day_usage today db uid + n < i64_size)"
  proof (cases "tbl_find (\<lambda>r. r_id r = uid) (users db)")
    case None
    then show ?thesis using assms by (simp add: record_token_usage_def)
  next
    case (Some r)
    then have "\<not> used_on today r + n < i64_size"
      using that tbl_find_SomeD [OF Some] by (auto simp: day_usage_def)
    then show ?thesis using assms record_usage_unfit [OF Some] by simp
  qed
  then show ?thesis using assms day_usage_record [of _ db today now uid n] record_usage_frame(2)
    by (auto simp: fun_eq_iff)
qed

theorem record_usage_persists_witness:
  "day_usage ''2025-01-02'' (fst (record_token_usage ''2025-01-02'' ''t'' budget_db ''a'' 500)) ''a'' = 500
   \<and> snd (record_token_usage ''2025-01-02'' ''t'' budget_db ''a'' 500) = Inr (BudgetExceeded 500 100)"
proof -
  have "''a'' \<in> r_id ` set (users budget_db)" "day_usage ''2025-01-02'' budget_db ''a'' = 0"
    by (simp_all add: budget_db_def Let_def day_usage_def used_on_def)
  then have "day_usage ''2025-01-02'' (fst (record_token_usage ''2025-01-02'' ''t'' budget_db ''a'' 500)) ''a'' = 500"
    using record_usage_persists [OF refl, where today = "''2025-01-02''" and now = "''t''"
        and db = budget_db and uid = "''a''" and n = 500] by simp
  moreover have "snd (record_token_usage ''2025-01-02'' ''t'' budget_db ''a'' 500) = Inr (BudgetExceeded 500 100)"
    by (simp add: budget_db_def Let_def record_token_usage_def saturating_add_u64_def sql_u64_def)
  ultimately show ?thesis by simp
qed

end
