(* ===== verification/Sessions.thy ===== *)
theory Sessions
  imports Core
begin

text \<open>
  The crate \<open>skynet-sessions\<close>: session keys and their wire format (\<open>types.rs\<close>) and the
  session table with its operations (\<open>manager.rs\<close>, \<open>db.rs\<close>).
\<close>

section \<open>Session keys\<close>

record session_key =
  sk_user_id :: string
  sk_agent_id :: string
  sk_name :: string

datatype session_error =
    SNotFound string
  | SDatabase sql_error
  | SInvalidKey string
  | SLimitExceeded string nat

definition format_key :: "session_key \<Rightarrow> string" where
  "format_key k = ''user:'' @ sk_user_id k @ '':agent:'' @ sk_agent_id k @ '':'' @ sk_name k"

definition parse_key :: "string \<Rightarrow> session_error + session_key" where
  "parse_key s =
     (case strip_prefix ''user:'' s of
        None \<Rightarrow> Inl (SInvalidKey (''missing 'user:' prefix: '' @ s))
      | Some rest \<Rightarrow>
          (case find_sub '':agent:'' rest of
             None \<Rightarrow> Inl (SInvalidKey (''missing ':agent:' segment: '' @ s))
           | Some agent_pos \<Rightarrow>
               (let user_id = take agent_pos rest;
                    after_agent = drop (agent_pos + length '':agent:'') rest
                in case find_sub '':'' after_agent of
                     None \<Rightarrow> Inl (SInvalidKey (''missing session name segment: '' @ s))
                   | Some colon_pos \<Rightarrow>
                       (let agent_id = take colon_pos after_agent;
                            name = drop (colon_pos + 1) after_agent
                        in if user_id = [] \<or> agent_id = [] \<or> name = []
                           then Inl (SInvalidKey (''key components must not be empty: '' @ s))
                           else Inr \<lparr>sk_user_id = user_id, sk_agent_id = agent_id, sk_name = name\<rparr>))))"

text \<open>The keys whose format reads back: what \<open>parse\<close> needs of the components.\<close>

definition canonical :: "session_key \<Rightarrow> bool" where
  "canonical k \<longleftrightarrow> sk_user_id k \<noteq> [] \<and> sk_agent_id k \<noteq> [] \<and> sk_name k \<noteq> []
     \<and> CHR '':'' \<notin> set (sk_agent_id k) \<and> \<not> contains (sk_user_id k @ '':agent'') '':agent:''"

lemma parse_key_sound:
  assumes "parse_key s = Inr k"
  shows "format_key k = s \<and> canonical k"
proof -
  obtain rest where rest: "strip_prefix ''user:'' s = Some rest"
    using assms by (auto simp: parse_key_def split: option.splits)
  obtain p where p: "find_sub '':agent:'' rest = Some p"
    using assms rest by (auto simp: parse_key_def split: option.splits)
  let ?after = "drop (p + length '':agent:'') rest"
  obtain c where c: "find_sub '':'' ?after = Some c"
    using assms rest p by (auto simp: parse_key_def Let_def split: option.splits)
  have k: "k = \<lparr>sk_user_id = take p rest, sk_agent_id = take c ?after, sk_name = drop (c + 1) ?after\<rparr>"
    and ne: "take p rest \<noteq> []" "take c ?after \<noteq> []" "drop (c + 1) ?after \<noteq> []"
    using assms rest p c by (auto simp: parse_key_def Let_def split: if_splits)
  have s: "s = ''user:'' @ rest" using rest by (simp add: strip_prefix_Some_iff)
  have r: "rest = take p rest @ '':agent:'' @ ?after" and pl: "p + length '':agent:'' \<le> length rest"
    using find_sub_Some [OF p] by auto
  have a: "?after = take c ?after @ '':'' @ drop (c + 1) ?after"
    using find_sub_Some [OF c] by simp
  have "format_key k = s" using s r a k by (simp add: format_key_def)
  moreover have "CHR '':'' \<notin> set (take c ?after)"
  proof
    assume "CHR '':'' \<in> set (take c ?after)"
    then obtain j where j: "j < c" "j < length ?after" "?after ! j = CHR '':''"
      by (auto simp: in_set_conv_nth)
    then have "drop j ?after = '':'' @ drop (Suc j) ?after" by (metis Cons_nth_drop_Suc append_Cons append_Nil)
    then have "starts_with (drop j ?after) '':''" by (auto simp: starts_with_iff)
    then show False using find_sub_least [OF c j(1)] by simp
  qed
  moreover have "\<not> contains (take p rest @ '':agent'') '':agent:''"
  proof
    assume "contains (take p rest @ '':agent'') '':agent:''"
    then obtain u v where uv: "take p rest @ '':agent'' = u @ '':agent:'' @ v" by (auto simp: contains_iff)
    have "length (take p rest @ '':agent'') = length (u @ '':agent:'' @ v)" using uv by simp
    then have lu: "length u < p" using pl by simp
    have "rest = (take p rest @ '':agent'') @ '':'' @ ?after" using r by simp
    then have "rest = (u @ '':agent:'' @ v) @ '':'' @ ?after" using uv by simp
    then have "rest = u @ ('':agent:'' @ v @ '':'' @ ?after)" by (simp only: append_assoc)
    then have "drop (length u) rest = '':agent:'' @ v @ '':'' @ ?after"
      by (metis append_eq_conv_conj)
    then have "starts_with (drop (length u) rest) '':agent:''" by (auto simp: starts_with_iff)
    then show False using find_sub_least [OF p lu] by simp
  qed
  ultimately show ?thesis using k ne by (simp add: canonical_def)
qed

lemma take_drop_prefix: "j + n \<le> length w \<Longrightarrow> take n (drop j (w @ r)) = take n (drop j w)"
  by simp

lemma parse_format_canonical:
  assumes "canonical k"
  shows "parse_key (format_key k) = Inr k"
proof -
  let ?u = "sk_user_id k" and ?a = "sk_agent_id k" and ?n = "sk_name k"
  let ?rest = "?u @ '':agent:'' @ ?a @ '':'' @ ?n"
  have "find_sub '':agent:'' ?rest = Some (length ?u)"
  proof (rule find_subI)
    show "starts_with (drop (length ?u) ?rest) '':agent:''" by (auto simp: starts_with_iff)
    show "\<forall>j < length ?u. \<not> starts_with (drop j ?rest) '':agent:''"
    proof (intro allI impI notI)
      fix j assume j: "j < length ?u" and "starts_with (drop j ?rest) '':agent:''"
      then obtain r where r: "drop j ?rest = '':agent:'' @ r" by (auto simp: starts_with_iff)
      let ?w = "?u @ '':agent''"
      have "take 7 (drop j ?rest) = '':agent:''" using r by simp
      moreover have "?rest = ?w @ '':'' @ ?a @ '':'' @ ?n" by simp
      then have "take 7 (drop j ?rest) = take 7 (drop j ?w)"
        using take_drop_prefix [of j 7 ?w "'':'' @ ?a @ '':'' @ ?n"] j by (simp only: append_assoc) simp
      ultimately have "drop j ?w = '':agent:'' @ drop 7 (drop j ?w)" by (metis append_take_drop_id)
      then have "?w = take j ?w @ '':agent:'' @ drop 7 (drop j ?w)" by (metis append_take_drop_id)
      then show False using assms unfolding canonical_def contains_iff by blast
    qed
  qed simp
  moreover have "find_sub '':'' (?a @ '':'' @ ?n) = Some (length ?a)"
    using assms find_sub_char_append [of "CHR '':''" ?a ?n] by (simp add: canonical_def)
  ultimately show ?thesis using assms
    by (simp add: parse_key_def format_key_def canonical_def strip_prefix_append [of "''user:''", simplified])
qed

section \<open>The session table\<close>

text \<open>
  A row of \<open>sessions\<close>; counters are SQLite integers. The table has a primary key
  \<open>id\<close> and the unique column \<open>session_key\<close>.
\<close>

record session_row =
  sr_id :: string
  sr_session_key :: string
  sr_user_id :: string
  sr_agent_id :: string
  sr_name :: string
  sr_title :: "string option"
  sr_message_count :: int
  sr_total_tokens :: int
  sr_last_model :: "string option"
  sr_created_at :: string
  sr_updated_at :: string

record session =
  s_id :: string
  s_key :: session_key
  s_title :: "string option"
  s_message_count :: nat
  s_total_tokens :: nat
  s_last_model :: "string option"
  s_created_at :: string
  s_updated_at :: string

type_synonym sessions_db = "session_row list"

text \<open>The casts \<open>as u32\<close> and \<open>as u64\<close> keep the low bits.\<close>

definition row_to_session :: "session_row \<Rightarrow> session" where
  "row_to_session r =
     \<lparr> s_id = sr_id r,
       s_key = unwrap_or (parse_key (sr_session_key r))
         \<lparr>sk_user_id = sr_user_id r, sk_agent_id = sr_agent_id r, sk_name = sr_name r\<rparr>,
       s_title = sr_title r,
       s_message_count = nat (sr_message_count r mod int u32_size),
       s_total_tokens = nat (sr_total_tokens r mod int u64_size),
       s_last_model = sr_last_model r, s_created_at = sr_created_at r,
       s_updated_at = sr_updated_at r \<rparr>"

definition session_get :: "sessions_db \<Rightarrow> session_key \<Rightarrow> session option" where
  "session_get db key =
     map_option row_to_session (tbl_find (\<lambda>r. sr_session_key r = format_key key) db)"

text \<open>\<open>INSERT OR IGNORE\<close> skips a row that violates a uniqueness constraint.\<close>

definition insert_or_ignore :: "session_row \<Rightarrow> sessions_db \<Rightarrow> sessions_db" where
  "insert_or_ignore r db =
     (if sr_id r \<in> sr_id ` set db \<or> sr_session_key r \<in> sr_session_key ` set db then db
      else db @ [r])"

definition new_session_row :: "string \<Rightarrow> string \<Rightarrow> session_key \<Rightarrow> session_row" where
  "new_session_row sid now key =
     \<lparr> sr_id = sid, sr_session_key = format_key key, sr_user_id = sk_user_id key,
       sr_agent_id = sk_agent_id key, sr_name = sk_name key, sr_title = None,
       sr_message_count = 0, sr_total_tokens = 0, sr_last_model = None,
       sr_created_at = now, sr_updated_at = now \<rparr>"

text \<open>
  The slow path runs under its own lock, so other calls may have run since the first look:
  it is a step of its own.
\<close>

definition create_and_read ::
    "string \<Rightarrow> string \<Rightarrow> sessions_db \<Rightarrow> session_key \<Rightarrow> sessions_db \<times> (session_error + session)" where
  "create_and_read sid now db key =
     (let db' = insert_or_ignore (new_session_row sid now key) db in
      case tbl_find (\<lambda>r. sr_session_key r = format_key key) db' of
        None \<Rightarrow> (db', Inl (SDatabase QueryReturnedNoRows))
      | Some r \<Rightarrow> (db', Inr (row_to_session r)))"

definition get_or_create ::
    "string \<Rightarrow> string \<Rightarrow> sessions_db \<Rightarrow> session_key \<Rightarrow> sessions_db \<times> (session_error + session)" where
  "get_or_create sid now db key =
     (case session_get db key of
        Some s \<Rightarrow> (db, Inr s)
      | None \<Rightarrow> create_and_read sid now db key)"

text \<open>\<open>ORDER BY updated_at DESC\<close>; a negative \<open>LIMIT\<close> is no limit.\<close>

definition list_for_user :: "sessions_db \<Rightarrow> string \<Rightarrow> nat \<Rightarrow> session list" where
  "list_for_user db user_id limit =
     (let rows = rev (sort_key sr_updated_at (rev (filter (\<lambda>r. sr_user_id r = user_id) db)));
          n = as_i64 limit
      in map row_to_session (if n < 0 then rows else take (nat n) rows))"

definition bump_row :: "nat \<Rightarrow> string \<Rightarrow> string \<Rightarrow> session_row \<Rightarrow> session_row" where
  "bump_row tokens model now r = r
     \<lparr> sr_message_count := sr_message_count r + 1,
       sr_total_tokens := sr_total_tokens r + as_i64 tokens,
       sr_last_model := Some model, sr_updated_at := now \<rparr>"

definition update_stats ::
    "string \<Rightarrow> sessions_db \<Rightarrow> session_key \<Rightarrow> nat \<Rightarrow> string \<Rightarrow> sessions_db \<times> (session_error + unit)" where
  "update_stats now db key tokens model =
     (let P = (\<lambda>r. sr_session_key r = format_key key);
          db' = tbl_update P (bump_row tokens model now) db
      in if tbl_count P db = 0 then (db', Inl (SNotFound (format_key key))) else (db', Inr ()))"

definition delete_session :: "sessions_db \<Rightarrow> session_key \<Rightarrow> sessions_db \<times> (session_error + unit)" where
  "delete_session db key =
     (let P = (\<lambda>r. sr_session_key r = format_key key); db' = tbl_delete P db
      in if tbl_count P db = 0 then (db', Inl (SNotFound (format_key key))) else (db', Inr ()))"

section \<open>The table's invariant\<close>

definition row_key :: "session_row \<Rightarrow> session_key" where
  "row_key r = \<lparr>sk_user_id = sr_user_id r, sk_agent_id = sr_agent_id r, sk_name = sr_name r\<rparr>"

definition sessions_wf :: "sessions_db \<Rightarrow> bool" where
  "sessions_wf db \<longleftrightarrow> unique_on sr_id db \<and> unique_on sr_session_key db
     \<and> (\<forall>r \<in> set db. format_key (row_key r) = sr_session_key r)"

datatype session_event =
    EvGetOrCreate string string session_key
  | EvCreateAndRead string string session_key
  | EvUpdateStats string session_key nat string
  | EvDelete session_key

fun session_step :: "sessions_db \<Rightarrow> session_event \<Rightarrow> sessions_db" where
  "session_step db (EvGetOrCreate sid now k) = fst (get_or_create sid now db k)"
| "session_step db (EvCreateAndRead sid now k) = fst (create_and_read sid now db k)"
| "session_step db (EvUpdateStats now k n m) = fst (update_stats now db k n m)"
| "session_step db (EvDelete k) = fst (delete_session db k)"

lemma new_row_simps [simp]:
  "sr_id (new_session_row sid now k) = sid" "sr_session_key (new_session_row sid now k) = format_key k"
  "row_key (new_session_row sid now k) = k" "sr_updated_at (new_session_row sid now k) = now"
  "sr_message_count (new_session_row sid now k) = 0" "sr_total_tokens (new_session_row sid now k) = 0"
  "sr_created_at (new_session_row sid now k) = now"
  by (simp_all add: new_session_row_def row_key_def)

lemma bump_row_simps [simp]:
  "sr_id (bump_row n m now r) = sr_id r" "sr_session_key (bump_row n m now r) = sr_session_key r"
  "row_key (bump_row n m now r) = row_key r" "sr_created_at (bump_row n m now r) = sr_created_at r"
  "sr_message_count (bump_row n m now r) = sr_message_count r + 1"
  "sr_total_tokens (bump_row n m now r) = sr_total_tokens r + as_i64 n"
  by (simp_all add: bump_row_def row_key_def)

lemma fst_create_and_read: "fst (create_and_read sid now db k) = insert_or_ignore (new_session_row sid now k) db"
  by (simp add: create_and_read_def Let_def split: option.split)

lemma fst_get_or_create:
  "fst (get_or_create sid now db k)
     = (if format_key k \<in> sr_session_key ` set db then db
        else insert_or_ignore (new_session_row sid now k) db)"
proof (cases "tbl_find (\<lambda>r. sr_session_key r = format_key k) db")
  case None
  then show ?thesis
    by (simp add: get_or_create_def session_get_def fst_create_and_read)
      (simp add: tbl_find_key_None)
next
  case (Some r)
  then have "format_key k \<in> sr_session_key ` set db"
    using tbl_find_SomeD [OF Some] by force
  with Some show ?thesis by (simp add: get_or_create_def session_get_def)
qed

lemma fst_update_stats:
  "fst (update_stats now db k n m) = tbl_update (\<lambda>r. sr_session_key r = format_key k) (bump_row n m now) db"
  by (simp add: update_stats_def Let_def)

lemma fst_delete_session:
  "fst (delete_session db k) = tbl_delete (\<lambda>r. sr_session_key r = format_key k) db"
  by (simp add: delete_session_def Let_def)

lemmas session_fst = fst_create_and_read fst_get_or_create fst_update_stats fst_delete_session

lemma insert_or_ignore_wf:
  "sessions_wf db \<Longrightarrow> sessions_wf (insert_or_ignore (new_session_row sid now k) db)"
  by (auto simp: sessions_wf_def insert_or_ignore_def unique_on_append_row)

lemma session_step_wf: "sessions_wf db \<Longrightarrow> sessions_wf (session_step db e)"
proof (cases e)
  case EvUpdateStats
  assume "sessions_wf db"
  with EvUpdateStats show ?thesis
    by (auto simp: sessions_wf_def session_fst set_tbl_update intro!: unique_on_update)
next
  case EvDelete
  assume "sessions_wf db"
  with EvDelete show ?thesis
    by (auto simp: sessions_wf_def session_fst set_tbl_delete intro!: unique_on_delete)
qed (simp_all add: session_fst insert_or_ignore_wf)

interpretation sessions: machine session_step sessions_wf
  by unfold_locales (rule session_step_wf)

text \<open>The key a row is read with has the stored wire format, whichever branch reads it.\<close>

lemma row_to_session_key:
  assumes "sessions_wf db" "r \<in> set db"
  shows "format_key (s_key (row_to_session r)) = sr_session_key r"
proof (cases "parse_key (sr_session_key r)")
  case (Inl e)
  then show ?thesis using assms by (simp add: row_to_session_def sessions_wf_def row_key_def)
next
  case (Inr k)
  then show ?thesis using parse_key_sound [OF Inr] by (simp add: row_to_session_def)
qed

section \<open>What a run of events does to one session\<close>

abbreviation session_row_of :: "sessions_db \<Rightarrow> session_key \<Rightarrow> session_row option" where
  "session_row_of db k \<equiv> tbl_find (\<lambda>r. sr_session_key r = format_key k) db"

fun deletes :: "session_key \<Rightarrow> session_event \<Rightarrow> bool" where
  "deletes k (EvDelete k') \<longleftrightarrow> format_key k' = format_key k"
| "deletes k _ \<longleftrightarrow> False"

fun bumps :: "session_key \<Rightarrow> session_event \<Rightarrow> nat list" where
  "bumps k (EvUpdateStats now k' n m) = (if format_key k' = format_key k then [n] else [])"
| "bumps k _ = []"

lemma insert_or_ignore_find:
  "session_row_of db k = Some r \<Longrightarrow> session_row_of (insert_or_ignore row db) k = Some r"
  by (simp add: insert_or_ignore_def tbl_find_append)

lemma session_step_row:
  assumes "session_row_of db k = Some r" "\<not> deletes k e"
  shows "\<exists>r'. session_row_of (session_step db e) k = Some r' \<and> sr_id r' = sr_id r
    \<and> sr_created_at r' = sr_created_at r
    \<and> sr_message_count r' = sr_message_count r + int (length (bumps k e))
    \<and> sr_total_tokens r' = sr_total_tokens r + sum_list (map as_i64 (bumps k e))"
proof (cases e)
  case (EvUpdateStats now k' n m)
  have "sr_session_key r = format_key k" using assms(1) by (auto dest: tbl_find_SomeD)
  moreover have "session_row_of (session_step db e) k
      = map_option (\<lambda>r. if sr_session_key r = format_key k' then bump_row n m now r else r)
          (session_row_of db k)"
    unfolding EvUpdateStats session_step.simps fst_update_stats by (rule tbl_find_update) simp
  ultimately show ?thesis using assms EvUpdateStats by auto
next
  case (EvDelete k')
  have "session_row_of (session_step db e) k = session_row_of db k"
    unfolding EvDelete session_step.simps fst_delete_session
    using assms(2) EvDelete by (intro tbl_find_delete_other) auto
  then show ?thesis using assms EvDelete by simp
qed (use assms in \<open>auto simp: session_fst insert_or_ignore_find\<close>)

lemma session_run_row:
  assumes "session_row_of db k = Some r" "\<forall>e \<in> set es. \<not> deletes k e"
  shows "\<exists>r'. session_row_of (foldl session_step db es) k = Some r' \<and> sr_id r' = sr_id r
    \<and> sr_created_at r' = sr_created_at r
    \<and> sr_message_count r' = sr_message_count r + int (length (concat (map (bumps k) es)))
    \<and> sr_total_tokens r' = sr_total_tokens r + sum_list (map as_i64 (concat (map (bumps k) es)))"
  using assms
proof (induction es arbitrary: db r)
  case (Cons e es)
  obtain r1 where r1: "session_row_of (session_step db e) k = Some r1" "sr_id r1 = sr_id r"
      "sr_created_at r1 = sr_created_at r"
      "sr_message_count r1 = sr_message_count r + int (length (bumps k e))"
      "sr_total_tokens r1 = sr_total_tokens r + sum_list (map as_i64 (bumps k e))"
    using session_step_row [where db = db and k = k and r = r and e = e] Cons.prems by auto
  then show ?case using Cons.IH [OF r1(1)] Cons.prems(2) by (simp add: add.assoc)
qed simp

lemma sum_as_i64: "\<forall>n \<in> set ns. n < i64_size \<Longrightarrow> sum_list (map as_i64 ns) = int (sum_list ns)"
  by (induction ns) auto

lemma create_and_read_fresh:
  assumes "sid \<notin> sr_id ` set db" "format_key k \<notin> sr_session_key ` set db"
  shows "create_and_read sid now db k
    = (db @ [new_session_row sid now k], Inr (row_to_session (new_session_row sid now k)))"
proof -
  have "session_row_of db k = None" using assms(2) by (simp add: tbl_find_key_None)
  then show ?thesis using assms
    by (simp add: create_and_read_def insert_or_ignore_def tbl_find_append)
qed

lemma get_or_create_present:
  assumes "session_row_of db k = Some r"
  shows "get_or_create sid now db k = (db, Inr (row_to_session r))"
    "create_and_read sid now db k = (db, Inr (row_to_session r))"
    "session_get db k = Some (row_to_session r)"
proof -
  have "format_key k \<in> sr_session_key ` set db" using tbl_find_SomeD [OF assms] by force
  then show "create_and_read sid now db k = (db, Inr (row_to_session r))"
    using assms by (simp add: create_and_read_def insert_or_ignore_def)
qed (use assms in \<open>simp_all add: get_or_create_def session_get_def\<close>)

section \<open>Properties\<close>

text \<open>The session-key format. A text parses to a key exactly when it is the format of that key
  and the key is canonical: no part empty, no colon in the agent, and no \<open>:agent:\<close> inside
  \<open>user_id:agent\<close>. So parsing never invents a key, every text has at most one reading, and
  the name may contain colons.\<close>
theorem parse_key_iff:
  "(parse_key s = Inr k) = (format_key k = s \<and> canonical k)"
  using parse_key_sound parse_format_canonical by blast

text \<open>C36: A session is created once. From a well-formed table, the first
  \<open>get_or_create\<close> of an unknown key (with a fresh identifier) creates it; after any run of
  calls that does not delete it, getting or creating it again returns that row and changes nothing,
  its message count is the number of updates it received (as \<open>u32\<close>), its token total is
  their sum, and the key it carries has the requested wire format.\<close>
theorem session_lifecycle:
  assumes "sessions_wf db" "session_get db k = None" "sid \<notin> sr_id ` set db"
    and es: "\<forall>e \<in> set es. \<not> deletes k e"
    and tokens: "ns = concat (map (bumps k) es)" "sum_list ns < i64_size"
    and db': "db' = foldl session_step (fst (get_or_create sid now db k)) es"
  shows "\<exists>s. get_or_create sid' now' db' k = (db', Inr s) \<and> create_and_read sid' now' db' k = (db', Inr s)
    \<and> s_id s = sid \<and> s_created_at s = now \<and> format_key (s_key s) = format_key k
    \<and> s_message_count s = length ns mod u32_size \<and> s_total_tokens s = sum_list ns"
proof -
  have new: "format_key k \<notin> sr_session_key ` set db"
    using assms(2) by (simp add: session_get_def tbl_find_key_None)
  let ?row = "new_session_row sid now k" and ?db1 = "db @ [new_session_row sid now k]"
  have db1: "fst (get_or_create sid now db k) = ?db1"
    using new assms(3) by (simp add: fst_get_or_create insert_or_ignore_def)
  have "session_row_of db k = None" using new by (simp add: tbl_find_key_None)
  then have "session_row_of ?db1 k = Some ?row" by (simp add: tbl_find_append)
  then obtain r where r: "session_row_of db' k = Some r" "sr_id r = sid" "sr_created_at r = now"
      "sr_message_count r = int (length ns)" "sr_total_tokens r = sum_list (map as_i64 ns)"
    using session_run_row [where db = ?db1 and k = k and r = ?row and es = es] es db1 db' tokens(1) by auto
  have "\<forall>n \<in> set ns. n < i64_size" using tokens(2) member_le_sum_list [of _ ns]
    by (auto intro: le_less_trans)
  then have tot: "sr_total_tokens r = int (sum_list ns)" using r(5) sum_as_i64 by simp
  have "sessions_wf ?db1" using assms(1,3) new by (auto simp: sessions_wf_def unique_on_append_row)
  then have "sessions_wf db'" unfolding db' db1 by (rule sessions.run_inv)
  then have "format_key (s_key (row_to_session r)) = format_key k"
    using row_to_session_key [of db' r] tbl_find_SomeD [OF r(1)] by simp
  moreover have "nat (int (length ns) mod int u32_size) = length ns mod u32_size"
    by (simp add: nat_mod_as_int)
  ultimately show ?thesis using r tot tokens(2) get_or_create_present [OF r(1)]
    by (auto simp: row_to_session_def)
qed

definition sample_key :: "string \<Rightarrow> session_key" where
  "sample_key n = \<lparr>sk_user_id = ''u1'', sk_agent_id = ''main'', sk_name = n\<rparr>"

theorem session_lifecycle_witness:
  "\<exists>s. get_or_create ''y'' ''t9'' (foldl session_step (fst (get_or_create ''x'' ''t0'' [] (sample_key ''main'')))
       [EvUpdateStats ''t1'' (sample_key ''main'') 120 ''m'', EvGetOrCreate ''z'' ''t2'' (sample_key ''work''),
        EvDelete (sample_key ''work''), EvUpdateStats ''t3'' (sample_key ''main'') 30 ''m''])
       (sample_key ''main'') = (foldl session_step (fst (get_or_create ''x'' ''t0'' [] (sample_key ''main'')))
       [EvUpdateStats ''t1'' (sample_key ''main'') 120 ''m'', EvGetOrCreate ''z'' ''t2'' (sample_key ''work''),
        EvDelete (sample_key ''work''), EvUpdateStats ''t3'' (sample_key ''main'') 30 ''m''], Inr s)
     \<and> s_id s = ''x'' \<and> s_message_count s = 2 \<and> s_total_tokens s = 150"
proof -
  let ?k = "sample_key ''main''"
  let ?es = "[EvUpdateStats ''t1'' ?k 120 ''m'', EvGetOrCreate ''z'' ''t2'' (sample_key ''work''),
        EvDelete (sample_key ''work''), EvUpdateStats ''t3'' ?k 30 ''m'']"
  have ns: "concat (map (bumps ?k) ?es) = [120, 30]" and nd: "\<forall>e \<in> set ?es. \<not> deletes ?k e"
    by (simp_all add: sample_key_def format_key_def)
  have wf: "sessions_wf []" by (simp add: sessions_wf_def)
  have none: "session_get [] ?k = None" and fresh: "''x'' \<notin> sr_id ` set []"
    by (simp_all add: session_get_def)
  have v: "length [120::nat, 30] mod u32_size = 2" "sum_list [120::nat, 30] = 150" by simp_all
  have "sum_list [120::nat, 30] < i64_size" by simp
  from session_lifecycle [OF wf none fresh nd ns [symmetric] this refl, where now = "''t0''"
      and sid' = "''y''" and now' = "''t9''"]
  show ?thesis unfolding v by blast
qed

end
