(* ===== verification/Scheduler.thy ===== *)
theory Scheduler
  imports Core "HOL-Library.Multiset"
begin

text \<open>
  The crate \<open>skynet-scheduler\<close>: when a schedule next fires (\<open>schedule.rs\<close>), the job table and
  the engine's tick (\<open>engine.rs\<close>, \<open>types.rs\<close>, \<open>db.rs\<close>). An instant is the number of
  nanoseconds since the epoch.
\<close>

section \<open>Schedules and their next run\<close>

datatype schedule =
    Once int
  | Interval nat
  | Daily nat nat
  | Weekly nat nat nat
  | Cron string

text \<open>
  What the code uses of \<open>chrono\<close>: the range of instants, the date arithmetic (the instant at
  hour and minute of the UTC day of a given instant, absent for an invalid time of day), the
  weekday counted from Monday, and the text of an instant.
\<close>

record calendar =
  dt_min :: int
  dt_max :: int
  at_time :: "int \<Rightarrow> nat \<Rightarrow> nat \<Rightarrow> int option"
  weekday :: "int \<Rightarrow> nat"
  rfc3339 :: "int \<Rightarrow> string"

abbreviation second_ns :: int where "second_ns \<equiv> 1000000000"
abbreviation day_ns :: int where "day_ns \<equiv> 86400000000000"

text \<open>Adding a duration panics outside the range; so does a duration of too many seconds.\<close>

definition dt_add :: "calendar \<Rightarrow> int \<Rightarrow> int \<Rightarrow> int outcome" where
  "dt_add C t d = (if dt_min C \<le> t + d \<and> t + d \<le> dt_max C then Ret (t + d) else Panic)"

definition duration_seconds :: "int \<Rightarrow> int outcome" where
  "duration_seconds s = (if \<bar>s\<bar> \<le> 9223372036854775 then Ret (s * second_ns) else Panic)"

definition compute_next_run :: "calendar \<Rightarrow> schedule \<Rightarrow> int \<Rightarrow> int option outcome" where
  "compute_next_run C s t =
     (case s of
        Once instant \<Rightarrow> Ret (if instant > t then Some instant else None)
      | Interval every_secs \<Rightarrow>
          bind_outcome (duration_seconds (as_i64 every_secs)) (\<lambda>d.
            bind_outcome (dt_add C t d) (\<lambda>n. Ret (Some n)))
      | Daily hour minute \<Rightarrow>
          (case at_time C t hour minute of
             None \<Rightarrow> Ret None
           | Some candidate \<Rightarrow>
               if candidate > t then Ret (Some candidate)
               else bind_outcome (dt_add C candidate day_ns) (\<lambda>n. Ret (Some n)))
      | Weekly day hour minute \<Rightarrow>
          (let today_dow = int (weekday C t);
               target_dow = min (int day) 6;
               days_ahead = target_dow - today_dow
           in bind_outcome (dt_add C t ((if days_ahead < 0 then 7 + days_ahead else days_ahead) * day_ns))
             (\<lambda>candidate_day.
                (case at_time C candidate_day hour minute of
                   None \<Rightarrow> Ret None
                 | Some candidate \<Rightarrow>
                     if candidate > t then Ret (Some candidate)
                     else
                       (let days_ahead' = (if days_ahead \<le> 0 then 7 else 7 - days_ahead)
                        in bind_outcome (dt_add C candidate (days_ahead' * day_ns)) (\<lambda>n. Ret (Some n))))))
      | Cron _ \<Rightarrow> Ret None)"

text \<open>
  The documented behaviour of \<open>chrono\<close> that the scheduler relies on: UTC days have 86400
  seconds, the epoch is a Thursday, times of day outside 00:00 to 23:59 do not exist, and the
  text of instants in the range sorts like the instants.
\<close>

definition tod_ns :: "nat \<Rightarrow> nat \<Rightarrow> int" where
  "tod_ns h m = (int h * 3600 + int m * 60) * second_ns"

definition calendar_ok :: "calendar \<Rightarrow> bool" where
  "calendar_ok C \<longleftrightarrow>
     (\<forall>t h m. at_time C t h m =
        (if h < 24 \<and> m < 60 then Some (t div day_ns * day_ns + tod_ns h m) else None))
     \<and> (\<forall>t. weekday C t = nat ((t div day_ns + 3) mod 7))
     \<and> (\<forall>t u. dt_min C \<le> t \<and> t \<le> dt_max C \<and> dt_min C \<le> u \<and> u \<le> dt_max C
          \<longrightarrow> (rfc3339 C t \<le> rfc3339 C u) = (t \<le> u))"

text \<open>The instants a daily or weekly schedule names.\<close>

definition matches :: "schedule \<Rightarrow> int \<Rightarrow> bool" where
  "matches s t =
     (case s of
        Once instant \<Rightarrow> t = instant
      | Daily h m \<Rightarrow> h < 24 \<and> m < 60 \<and> t mod day_ns = tod_ns h m
      | Weekly d h m \<Rightarrow> h < 24 \<and> m < 60 \<and> t mod day_ns = tod_ns h m
          \<and> (t div day_ns + 3) mod 7 = min (int d) 6
      | _ \<Rightarrow> False)"

lemma tod_bounds: "h < 24 \<Longrightarrow> m < 60 \<Longrightarrow> 0 \<le> tod_ns h m \<and> tod_ns h m < day_ns"
  by (simp add: tod_ns_def)

text \<open>Instants are days and nanoseconds of the day.\<close>

lemma day_split:
  assumes "0 \<le> r" "r < day_ns"
  shows "(q * day_ns + r) div day_ns = q" "(q * day_ns + r) mod day_ns = r"
  using assms by (simp_all add: div_pos_pos_trivial)

lemma day_less:
  assumes "t mod day_ns = r" "u mod day_ns = r" "t < u"
  shows "t div day_ns < u div day_ns"
proof (rule ccontr)
  assume "\<not> t div day_ns < u div day_ns"
  then have "u div day_ns * day_ns \<le> t div day_ns * day_ns" by simp
  then show False using assms by (metis add_le_cancel_right div_mult_mod_eq not_less)
qed

lemma dt_add_Ret: "dt_add C t d = Ret n \<longleftrightarrow> n = t + d \<and> dt_min C \<le> n \<and> n \<le> dt_max C"
  by (auto simp: dt_add_def)

lemma at_time_ok:
  "calendar_ok C \<Longrightarrow> at_time C t h m =
     (if h < 24 \<and> m < 60 then Some (t div day_ns * day_ns + tod_ns h m) else None)"
  by (simp add: calendar_ok_def)

lemma next_run_daily:
  assumes ok: "calendar_ok C" and r: "compute_next_run C (Daily h m) t = Ret (Some n)"
  shows "t < n \<and> matches (Daily h m) n \<and> (\<forall>u. t < u \<and> u < n \<longrightarrow> \<not> matches (Daily h m) u)"
proof -
  let ?q = "t div day_ns" and ?r = "tod_ns h m"
  have hm: "h < 24" "m < 60" using r by (auto simp: compute_next_run_def at_time_ok [OF ok] split: if_splits)
  note b = tod_bounds [OF hm]
  let ?c = "?q * day_ns + ?r"
  obtain k where k: "n = (?q + k) * day_ns + ?r" "k = 0 \<and> ?c > t \<or> k = 1 \<and> ?c \<le> t"
  proof (cases "?c > t")
    case True
    then have "n = (?q + 0) * day_ns + ?r"
      using r hm by (simp add: compute_next_run_def at_time_ok [OF ok])
    with True show ?thesis using that by blast
  next
    case False
    then have "n = (?q + 1) * day_ns + ?r"
      using r hm by (auto simp: compute_next_run_def at_time_ok [OF ok] bind_outcome_Ret_iff dt_add_Ret
          algebra_simps)
    with False show ?thesis using that by force
  qed
  have dn: "n div day_ns = ?q + k" "n mod day_ns = ?r"
    unfolding k(1) using day_split [of ?r "?q + k"] b by blast+
  have "?q * day_ns \<le> t" "t < ?q * day_ns + day_ns"
    using div_mult_mod_eq [of t day_ns] pos_mod_bound [of day_ns t] pos_mod_sign [of day_ns t] by linarith+
  then have gt: "t < n" using k b by (auto simp: algebra_simps)
  have "False" if u: "t < u" "u < n" "u mod day_ns = ?r" for u
  proof -
    have "u div day_ns < ?q + k" using day_less [OF u(3) dn(2) u(2)] dn(1) by simp
    moreover have "?q \<le> u div day_ns" using u(1) by (simp add: zdiv_mono1)
    ultimately have "k = 1" "u div day_ns = ?q" using k(2) by auto
    then have "u = ?c" using u(3) by (metis div_mult_mod_eq)
    with u(1) k(2) \<open>k = 1\<close> show False by simp
  qed
  then show ?thesis using gt dn(2) hm unfolding matches_def schedule.case by blast
qed

lemma weekly_unfold:
  assumes "calendar_ok C" "h < 24" "m < 60"
    and da: "da = min (int d) 6 - (t div day_ns + 3) mod 7"
  shows "compute_next_run C (Weekly d h m) t =
    bind_outcome (dt_add C t ((if da < 0 then 7 + da else da) * day_ns)) (\<lambda>cd.
      let c = cd div day_ns * day_ns + tod_ns h m
      in if c > t then Ret (Some c)
         else bind_outcome (dt_add C c ((if da \<le> 0 then 7 else 7 - da) * day_ns)) (\<lambda>n. Ret (Some n)))"
proof -
  have wd: "int (weekday C t) = (t div day_ns + 3) mod 7" using assms(1) by (simp add: calendar_ok_def)
  show ?thesis
    unfolding compute_next_run_def schedule.case Let_def wd da [symmetric]
    by (simp add: at_time_ok [OF assms(1)] assms(2,3) cong: if_cong)
qed

lemma weekly_time_ok:
  "calendar_ok C \<Longrightarrow> compute_next_run C (Weekly d h m) t = Ret (Some n) \<Longrightarrow> h < 24 \<and> m < 60"
  by (auto simp: compute_next_run_def at_time_ok Let_def bind_outcome_Ret_iff split: if_splits)

lemma week_add: "(q + j + 3) mod 7 = ((q + 3) mod 7 + j mod 7) mod (7::int)"
  using mod_add_eq [of "q + 3" 7 j] by (simp add: algebra_simps)

lemma next_run_weekly:
  assumes ok: "calendar_ok C" and r: "compute_next_run C (Weekly d h m) t = Ret (Some n)"
  shows "t < n \<and> matches (Weekly d h m) n \<and> (\<forall>u. t < u \<and> u < n \<longrightarrow> \<not> matches (Weekly d h m) u)"
proof -
  let ?q = "t div day_ns" and ?r = "tod_ns h m" and ?g = "min (int d) 6"
  let ?w = "(?q + 3) mod 7"
  define k where "k = (?g - ?w) mod 7"
  have wd: "int (weekday C t) = ?w" using ok by (simp add: calendar_ok_def)
  have gw: "0 \<le> ?g" "?g \<le> 6" "0 \<le> ?w" "?w \<le> 6" by auto
  have kk: "(if ?g - ?w < 0 then 7 + (?g - ?w) else ?g - ?w) = k"
  proof (cases "?g - ?w < 0")
    case True
    have "k = (?g - ?w + 7) mod 7" unfolding k_def by simp
    also have "\<dots> = ?g - ?w + 7" using True gw by (intro mod_pos_pos_trivial) auto
    finally show ?thesis using True by simp
  next
    case False
    then show ?thesis unfolding k_def using gw by (simp add: mod_pos_pos_trivial)
  qed
  have k06: "0 \<le> k" "k \<le> 6" unfolding k_def using pos_mod_bound [of 7 "?g - ?w"] by auto
  have hm: "h < 24" "m < 60" using weekly_time_ok [OF ok r] by auto
  note b = tod_bounds [OF hm]
  let ?c = "(?q + k) * day_ns + ?r"
  have day: "(t + k * day_ns) div day_ns = ?q + k" by simp
  have tb: "?q * day_ns \<le> t" "t < ?q * day_ns + day_ns"
    using div_mult_mod_eq [of t day_ns] pos_mod_bound [of day_ns t] pos_mod_sign [of day_ns t] by linarith+
  have c_late: "?c > t" if "k \<noteq> 0"
  proof -
    have "1 * day_ns \<le> k * day_ns" using that k06 by (intro mult_right_mono) auto
    then show ?thesis using tb b by (simp add: algebra_simps)
  qed
  have core: "(if ?c > t then Ret (Some ?c)
      else bind_outcome (dt_add C ?c ((if ?g - ?w \<le> 0 then 7 else 7 - (?g - ?w)) * day_ns)) (\<lambda>n. Ret (Some n)))
      = Ret (Some n)"
    using r day unfolding weekly_unfold [OF ok hm refl] kk
    by (auto simp only: bind_outcome_Ret_iff dt_add_Ret Let_def day)
  obtain j where j: "n = (?q + j) * day_ns + ?r" "j = k \<and> ?c > t \<or> j = 7 \<and> k = 0 \<and> ?c \<le> t"
  proof (cases "?c > t")
    case True
    then show ?thesis using core that [of k] by simp
  next
    case False
    then have k0: "k = 0" using c_late by blast
    then have "?g - ?w \<le> 0" using kk by (simp split: if_splits)
    then have "n = ?c + 7 * day_ns" using core False
      by (simp add: bind_outcome_Ret_iff dt_add_Ret)
    then show ?thesis using that False k0 by (simp add: algebra_simps)
  qed
  have dn: "n div day_ns = ?q + j" "n mod day_ns = ?r"
    unfolding j(1) using day_split [of ?r "?q + j"] b by blast+
  have jmod: "j mod 7 = k" using j(2) k06 by auto
  have "(?q + j + 3) mod 7 = (?w + j mod 7) mod 7" by (rule week_add)
  also have "\<dots> = (?w + (?g - ?w) mod 7) mod 7" by (simp only: jmod k_def)
  also have "\<dots> = ?g mod 7" by (simp only: mod_add_right_eq) simp
  also have "\<dots> = ?g" using gw by (simp add: mod_pos_pos_trivial)
  finally have wn: "(n div day_ns + 3) mod 7 = ?g" using dn(1) by simp
  have gt: "t < n"
  proof (cases "j = k \<and> ?c > t")
    case True
    then show ?thesis using j(1) by simp
  next
    case False
    then have "j = 7" using j(2) by blast
    then show ?thesis using j(1) tb b by simp
  qed
  have "False" if u: "t < u" "u < n" "u mod day_ns = ?r" "(u div day_ns + 3) mod 7 = ?g" for u
  proof -
    let ?e = "u div day_ns"
    have lt: "?e < ?q + j" using day_less [OF u(3) dn(2) u(2)] dn(1) by simp
    have ge: "?q \<le> ?e" using u(1) by (simp add: zdiv_mono1)
    have "(?q + j + 3) mod 7 = (?e + 3) mod 7"
      by (rule trans [OF wn [unfolded dn(1)] u(4) [symmetric]])
    then have "7 dvd (?q + j + 3) - (?e + 3)" unfolding mod_eq_dvd_iff .
    then have "7 dvd ?q + j - ?e" by simp
    moreover have "0 < ?q + j - ?e" "?q + j - ?e \<le> 7" using lt ge j(2) k06 by auto
    ultimately have "?q + j - ?e = 7" using zdvd_imp_le [of 7 "?q + j - ?e"] by simp
    then have "j = 7" "?e = ?q" "k = 0" "?c \<le> t" using ge j(2) k06 by auto
    then have "u = ?c" using u(3) by (metis add.right_neutral div_mult_mod_eq)
    with u(1) \<open>?c \<le> t\<close> show False by simp
  qed
  then show ?thesis using gt dn(2) hm wn unfolding matches_def schedule.case by blast
qed

section \<open>Jobs\<close>

datatype job_status = Pending | Running | Completed | Failed | Missed

fun status_to_string :: "job_status \<Rightarrow> string" where
  "status_to_string Pending = ''pending''"
| "status_to_string Running = ''running''"
| "status_to_string Completed = ''completed''"
| "status_to_string Failed = ''failed''"
| "status_to_string Missed = ''missed''"

definition status_from_str :: "string \<Rightarrow> string + job_status" where
  "status_from_str s =
     (if s = ''pending'' then Inr Pending
      else if s = ''running'' then Inr Running
      else if s = ''completed'' then Inr Completed
      else if s = ''failed'' then Inr Failed
      else if s = ''missed'' then Inr Missed
      else Inl (''unknown job status: '' @ s))"

interpretation status_codec: exact_codec status_to_string status_from_str
proof
  show "status_from_str (status_to_string x) = Inr x" for x
    by (cases x) (simp_all add: status_from_str_def)
  show "status_from_str s = Inr x \<Longrightarrow> s = status_to_string x" for s x
    by (auto simp: status_from_str_def split: if_splits)
qed

record job =
  j_id :: string
  j_name :: string
  j_schedule :: schedule
  j_action :: string
  j_status :: job_status
  j_last_run :: "string option"
  j_next_run :: "string option"
  j_run_count :: nat
  j_max_runs :: "nat option"
  j_created_at :: string
  j_updated_at :: string

datatype scheduler_error =
    JDatabase sql_error
  | InvalidSchedule string
  | JobNotFound string
  | JLimitExceeded string

text \<open>A row of \<open>jobs\<close>: the schedule is JSON text and the status its display form.\<close>

record job_row =
  jr_id :: string
  jr_name :: string
  jr_schedule :: string
  jr_action :: string
  jr_status :: string
  jr_last_run :: "string option"
  jr_next_run :: "string option"
  jr_run_count :: nat
  jr_max_runs :: "nat option"
  jr_created_at :: string
  jr_updated_at :: string

text \<open>
  What the engine is given: the calendar, the JSON text of a schedule, and the order in which
  SQLite delivers the rows of a query without \<open>ORDER BY\<close>.
\<close>

record sched_env =
  cal :: calendar
  senc :: "schedule \<Rightarrow> string"
  sdec :: "string \<Rightarrow> schedule option"
  scan :: "job_row list \<Rightarrow> job_row list"

definition insert_job ::
    "sched_env \<Rightarrow> string \<Rightarrow> int \<Rightarrow> job_row list \<Rightarrow> string \<Rightarrow> schedule \<Rightarrow> string
      \<Rightarrow> (job_row list \<times> (scheduler_error + job)) outcome" where
  "insert_job E jid now db name s action =
     bind_outcome (compute_next_run (cal E) s now) (\<lambda>n.
       let now_str = rfc3339 (cal E) now; nxt = map_option (rfc3339 (cal E)) n in
       if jid \<in> jr_id ` set db then Ret (db, Inl (JDatabase ConstraintViolation))
       else Ret (db @ [\<lparr> jr_id = jid, jr_name = name, jr_schedule = senc E s, jr_action = action,
               jr_status = ''pending'', jr_last_run = None, jr_next_run = nxt, jr_run_count = 0,
               jr_max_runs = None, jr_created_at = now_str, jr_updated_at = now_str \<rparr>],
             Inr \<lparr> j_id = jid, j_name = name, j_schedule = s, j_action = action, j_status = Pending,
               j_last_run = None, j_next_run = nxt, j_run_count = 0, j_max_runs = None,
               j_created_at = now_str, j_updated_at = now_str \<rparr>))"

text \<open>The handle's operations and the engine's run the same statements.\<close>

definition handle_add_job where "handle_add_job = insert_job"
definition engine_add_job where "engine_add_job = insert_job"

definition remove_job :: "job_row list \<Rightarrow> string \<Rightarrow> job_row list \<times> (scheduler_error + unit)" where
  "remove_job db jid =
     (let db' = tbl_delete (\<lambda>r. jr_id r = jid) db in
      if tbl_count (\<lambda>r. jr_id r = jid) db = 0 then (db', Inl (JobNotFound jid)) else (db', Inr ()))"

definition row_to_job :: "sched_env \<Rightarrow> job_row \<Rightarrow> job option" where
  "row_to_job E r =
     (case sdec E (jr_schedule r) of
        None \<Rightarrow> None
      | Some s \<Rightarrow>
          (case status_from_str (jr_status r) of
             Inl _ \<Rightarrow> None
           | Inr st \<Rightarrow> Some \<lparr> j_id = jr_id r, j_name = jr_name r, j_schedule = s, j_action = jr_action r,
               j_status = st, j_last_run = jr_last_run r, j_next_run = jr_next_run r,
               j_run_count = jr_run_count r, j_max_runs = jr_max_runs r,
               j_created_at = jr_created_at r, j_updated_at = jr_updated_at r \<rparr>))"

definition list_jobs :: "sched_env \<Rightarrow> job_row list \<Rightarrow> job list" where
  "list_jobs E db = List.map_filter (row_to_job E) (sort_key jr_created_at db)"

definition engine_remove_job where "engine_remove_job = remove_job"
definition engine_list_jobs where "engine_list_jobs = list_jobs"

section \<open>The engine\<close>

text \<open>The sender side of the bounded delivery channel.\<close>

record channel =
  ch_buf :: "job list"
  ch_cap :: nat
  ch_closed :: bool

definition try_send :: "job \<Rightarrow> channel \<Rightarrow> channel" where
  "try_send j c =
     (if ch_closed c \<or> length (ch_buf c) \<ge> ch_cap c then c else c\<lparr>ch_buf := ch_buf c @ [j]\<rparr>)"

record engine =
  jobs :: "job_row list"
  fired_tx :: "channel option"

definition mark_missed_on_startup :: "sched_env \<Rightarrow> int \<Rightarrow> engine \<Rightarrow> engine" where
  "mark_missed_on_startup E now st =
     (let now_str = rfc3339 (cal E) now in
      st\<lparr>jobs := tbl_update
          (\<lambda>r. jr_status r = ''pending'' \<and> (case jr_next_run r of None \<Rightarrow> False | Some n \<Rightarrow> n < now_str))
          (\<lambda>r. r\<lparr>jr_status := ''missed'', jr_updated_at := now_str\<rparr>) (jobs st)\<rparr>)"

definition due :: "string \<Rightarrow> job_row \<Rightarrow> bool" where
  "due now_str r \<longleftrightarrow> jr_status r = ''pending''
     \<and> (case jr_next_run r of None \<Rightarrow> False | Some n \<Rightarrow> n \<le> now_str)"

text \<open>\<open>run_count + 1\<close> wraps at 32 bits in a release build.\<close>

definition next_after_fire :: "sched_env \<Rightarrow> int \<Rightarrow> job_row \<Rightarrow> schedule \<Rightarrow> string option outcome" where
  "next_after_fire E now r s =
     (let new_count = (jr_run_count r + 1) mod u32_size in
      if (case jr_max_runs r of None \<Rightarrow> False | Some m \<Rightarrow> new_count \<ge> m) then Ret None
      else bind_outcome (compute_next_run (cal E) s now) (\<lambda>n. Ret (map_option (rfc3339 (cal E)) n)))"

definition fired_row :: "string \<Rightarrow> nat \<Rightarrow> string option \<Rightarrow> job_row \<Rightarrow> job_row" where
  "fired_row now_str new_count nxt r = r
     \<lparr> jr_status := (if nxt = None then ''completed'' else ''pending''), jr_last_run := Some now_str,
       jr_next_run := nxt, jr_run_count := new_count, jr_updated_at := now_str \<rparr>"

definition fired_job :: "string \<Rightarrow> job_row \<Rightarrow> schedule \<Rightarrow> string option \<Rightarrow> job" where
  "fired_job now_str r s nxt =
     \<lparr> j_id = jr_id r, j_name = jr_name r, j_schedule = s, j_action = jr_action r,
       j_status = Pending, j_last_run = Some now_str, j_next_run = nxt,
       j_run_count = (jr_run_count r + 1) mod u32_size, j_max_runs = jr_max_runs r,
       j_created_at = [], j_updated_at = now_str \<rparr>"

definition process_due :: "sched_env \<Rightarrow> int \<Rightarrow> job_row \<Rightarrow> engine \<Rightarrow> engine outcome" where
  "process_due E now r st =
     (case sdec E (jr_schedule r) of
        None \<Rightarrow> Ret st
      | Some s \<Rightarrow>
          (let now_str = rfc3339 (cal E) now; new_count = (jr_run_count r + 1) mod u32_size in
           bind_outcome (next_after_fire E now r s) (\<lambda>nxt.
             Ret (st\<lparr> jobs := tbl_update (\<lambda>x. jr_id x = jr_id r) (fired_row now_str new_count nxt) (jobs st),
                     fired_tx := map_option (try_send (fired_job now_str r s nxt)) (fired_tx st) \<rparr>))))"

fun process_all :: "sched_env \<Rightarrow> int \<Rightarrow> job_row list \<Rightarrow> engine \<Rightarrow> engine outcome" where
  "process_all E now [] st = Ret st"
| "process_all E now (r # rs) st = bind_outcome (process_due E now r st) (process_all E now rs)"

definition tick :: "sched_env \<Rightarrow> int \<Rightarrow> engine \<Rightarrow> engine outcome" where
  "tick E now st =
     process_all E now (scan E (filter (due (rfc3339 (cal E) now)) (jobs st))) st"

section \<open>A tick, row by row\<close>

definition no_panic :: "sched_env \<Rightarrow> int \<Rightarrow> job_row \<Rightarrow> bool" where
  "no_panic E now r \<longleftrightarrow>
     (case sdec E (jr_schedule r) of None \<Rightarrow> True | Some s \<Rightarrow> next_after_fire E now r s \<noteq> Panic)"

text \<open>What firing makes of a row, and of the job sent out (none for an unreadable schedule).\<close>

definition fire_row :: "sched_env \<Rightarrow> int \<Rightarrow> job_row \<Rightarrow> job_row" where
  "fire_row E now r =
     (case sdec E (jr_schedule r) of
        None \<Rightarrow> r
      | Some s \<Rightarrow> (case next_after_fire E now r s of
            Panic \<Rightarrow> r
          | Ret nxt \<Rightarrow> fired_row (rfc3339 (cal E) now) ((jr_run_count r + 1) mod u32_size) nxt r))"

definition fire_job :: "sched_env \<Rightarrow> int \<Rightarrow> job_row \<Rightarrow> job option" where
  "fire_job E now r =
     (case sdec E (jr_schedule r) of
        None \<Rightarrow> None
      | Some s \<Rightarrow> (case next_after_fire E now r s of
            Panic \<Rightarrow> None | Ret nxt \<Rightarrow> Some (fired_job (rfc3339 (cal E) now) r s nxt)))"

definition send_all :: "job list \<Rightarrow> channel \<Rightarrow> channel" where
  "send_all js c = foldl (\<lambda>c j. try_send j c) c js"

lemma fire_row_id [simp]: "jr_id (fire_row E now r) = jr_id r"
  by (simp add: fire_row_def fired_row_def split: option.split outcome.split)

lemma tbl_update_row:
  "unique_on key rows \<Longrightarrow> r \<in> set rows \<Longrightarrow>
   tbl_update (\<lambda>x. key x = key r) f rows = map (\<lambda>x. if x = r then f r else x) rows"
  by (auto simp: tbl_update_def unique_on_def distinct_map dest: inj_onD)

lemma send_all_Nil [simp]: "send_all [] = (\<lambda>c. c)"
  by (simp add: send_all_def fun_eq_iff)

lemma send_all_Cons: "send_all (j # js) c = send_all js (try_send j c)"
  by (simp add: send_all_def)

lemma send_all_single [simp]: "send_all [j] = try_send j"
  by (simp add: send_all_Cons fun_eq_iff)

lemma process_due_row:
  assumes "unique_on jr_id (jobs st)" "r \<in> set (jobs st)" "no_panic E now r"
  shows "process_due E now r st = Ret (st\<lparr>
      jobs := map (\<lambda>x. if x = r then fire_row E now r else x) (jobs st),
      fired_tx := map_option (send_all (case fire_job E now r of None \<Rightarrow> [] | Some j \<Rightarrow> [j])) (fired_tx st)\<rparr>)"
proof (cases "sdec E (jr_schedule r)")
  case None
  have "fire_row E now r = r" using None by (simp add: fire_row_def)
  then have "map (\<lambda>x. if x = r then fire_row E now r else x) (jobs st) = jobs st" by (intro map_idI) simp
  then show ?thesis using None by (simp add: process_due_def fire_job_def option.map_ident)
next
  case (Some s)
  then obtain nxt where n: "next_after_fire E now r s = Ret nxt"
    using assms(3) by (cases "next_after_fire E now r s") (auto simp: no_panic_def)
  show ?thesis using Some n tbl_update_row [OF assms(1,2)]
    by (simp add: process_due_def fire_row_def fire_job_def Let_def cong: if_cong)
qed

lemma process_due_panic: "\<not> no_panic E now r \<Longrightarrow> process_due E now r st = Panic"
  by (auto simp: no_panic_def process_due_def Let_def split: option.splits)

lemma process_all_rows:
  assumes "unique_on jr_id (jobs st)" "distinct (map jr_id rs)" "set rs \<subseteq> set (jobs st)"
    "\<forall>r \<in> set rs. no_panic E now r"
  shows "process_all E now rs st = Ret (st\<lparr>
      jobs := map (\<lambda>x. if x \<in> set rs then fire_row E now x else x) (jobs st),
      fired_tx := map_option (send_all (List.map_filter (fire_job E now) rs)) (fired_tx st)\<rparr>)"
  using assms
proof (induction rs arbitrary: st)
  case Nil
  then show ?case by (simp add: map_filter_simps option.map_ident)
next
  case (Cons r rs)
  let ?jobs1 = "map (\<lambda>x. if x = r then fire_row E now r else x) (jobs st)"
  let ?js = "case fire_job E now r of None \<Rightarrow> [] | Some j \<Rightarrow> [j]"
  let ?st1 = "st\<lparr>jobs := ?jobs1, fired_tx := map_option (send_all ?js) (fired_tx st)\<rparr>"
  have st1: "process_due E now r st = Ret ?st1"
    by (rule process_due_row) (use Cons.prems in auto)
  have ids: "map (jr_id \<circ> (\<lambda>x. if x = r then fire_row E now r else x)) (jobs st) = map jr_id (jobs st)"
    by auto
  have fresh: "r \<notin> set rs" "\<And>x. x \<in> set rs \<Longrightarrow> jr_id x \<noteq> jr_id r"
    using Cons.prems(2) by (auto simp: image_iff)
  have "set rs \<subseteq> set ?jobs1" using Cons.prems(3) fresh(1) by (auto simp: image_iff)
  then have ih: "process_all E now rs ?st1 = Ret (?st1\<lparr>
      jobs := map (\<lambda>x. if x \<in> set rs then fire_row E now x else x) (jobs ?st1),
      fired_tx := map_option (send_all (List.map_filter (fire_job E now) rs)) (fired_tx ?st1)\<rparr>)"
    using Cons.prems by (intro Cons.IH) (simp_all add: unique_on_def ids)
  have "fire_row E now r \<notin> set rs" using fresh(2) [of "fire_row E now r"] by auto
  then have m: "map (\<lambda>x. if x \<in> set rs then fire_row E now x else x) ?jobs1
      = map (\<lambda>x. if x \<in> set (r # rs) then fire_row E now x else x) (jobs st)"
    using fresh(1) by auto
  have s: "send_all (List.map_filter (fire_job E now) rs) (send_all ?js c)
      = send_all (List.map_filter (fire_job E now) (r # rs)) c" for c
    by (simp add: send_all_def map_filter_simps split: option.split)
  have j: "jobs ?st1 = ?jobs1" "fired_tx ?st1 = map_option (send_all ?js) (fired_tx st)" by simp_all
  show ?case using st1 ih unfolding j m by (simp add: option.map_comp comp_def s)
qed

lemma process_all_panic: "process_all E now rs st = Ret st' \<Longrightarrow> \<forall>r \<in> set rs. no_panic E now r"
proof (induction rs arbitrary: st)
  case (Cons r rs)
  then obtain st1 where "process_due E now r st = Ret st1" "process_all E now rs st1 = Ret st'"
    by (auto simp: bind_outcome_Ret_iff)
  with Cons.IH process_due_panic [of E now r st] show ?case by fastforce
qed simp

lemma send_all_open:
  "\<not> ch_closed c \<Longrightarrow>
   send_all js c = c\<lparr>ch_buf := ch_buf c @ take (ch_cap c - length (ch_buf c)) js\<rparr>"
proof (induction js arbitrary: c)
  case (Cons j js)
  note s = send_all_Cons
  show ?case
  proof (cases "length (ch_buf c) < ch_cap c")
    case True
    then have "ch_cap c - length (ch_buf c) = Suc (ch_cap c - Suc (length (ch_buf c)))" by simp
    with True Cons show ?thesis by (simp add: s try_send_def)
  next
    case False
    with Cons show ?thesis by (simp add: s try_send_def)
  qed
qed (simp add: send_all_def)

definition scan_ok :: "sched_env \<Rightarrow> bool" where
  "scan_ok E \<longleftrightarrow> (\<forall>rows. mset (scan E rows) = mset rows)"

definition tick_row :: "sched_env \<Rightarrow> int \<Rightarrow> job_row \<Rightarrow> job_row" where
  "tick_row E now r = (if due (rfc3339 (cal E) now) r then fire_row E now r else r)"

definition due_rows :: "sched_env \<Rightarrow> int \<Rightarrow> engine \<Rightarrow> job_row list" where
  "due_rows E now st = filter (due (rfc3339 (cal E) now)) (jobs st)"

lemma scan_due:
  assumes "scan_ok E" "unique_on jr_id (jobs st)"
  shows "set (scan E (due_rows E now st)) = set (due_rows E now st)"
    "distinct (map jr_id (scan E (due_rows E now st)))"
proof -
  have m: "mset (scan E (due_rows E now st)) = mset (due_rows E now st)"
    using assms(1) by (simp add: scan_ok_def)
  then show "set (scan E (due_rows E now st)) = set (due_rows E now st)" by (rule mset_eq_setD)
  have "distinct (map jr_id (due_rows E now st))"
    using assms(2) by (simp add: unique_on_def due_rows_def distinct_map_filter)
  then show "distinct (map jr_id (scan E (due_rows E now st)))"
    using m by (metis mset_eq_imp_distinct_iff mset_map)
qed

lemma tick_rows:
  assumes "scan_ok E" "unique_on jr_id (jobs st)" "\<forall>r \<in> set (due_rows E now st). no_panic E now r"
  shows "tick E now st = Ret (st\<lparr>jobs := map (tick_row E now) (jobs st),
    fired_tx := map_option (send_all (List.map_filter (fire_job E now) (scan E (due_rows E now st))))
      (fired_tx st)\<rparr>)"
proof -
  note sd = scan_due [OF assms(1,2), of now]
  have sub: "set (scan E (due_rows E now st)) \<subseteq> set (jobs st)" using sd(1) by (auto simp: due_rows_def)
  have "map (\<lambda>x. if x \<in> set (scan E (due_rows E now st)) then fire_row E now x else x) (jobs st)
      = map (tick_row E now) (jobs st)"
    using sd(1) by (auto simp: due_rows_def tick_row_def)
  then show ?thesis using process_all_rows [OF assms(2) sd(2) sub] assms(3) sd(1)
    by (simp add: tick_def due_rows_def)
qed

section \<open>Runs of the engine\<close>

datatype sched_event = EvTick int | EvStartup int

fun sched_event_time :: "sched_event \<Rightarrow> int" where
  "sched_event_time (EvTick t) = t"
| "sched_event_time (EvStartup t) = t"

fun sched_step :: "sched_env \<Rightarrow> sched_event \<Rightarrow> engine \<Rightarrow> engine outcome" where
  "sched_step E (EvTick now) st = tick E now st"
| "sched_step E (EvStartup now) st = Ret (mark_missed_on_startup E now st)"

fun sched_run :: "sched_env \<Rightarrow> sched_event list \<Rightarrow> engine \<Rightarrow> engine outcome" where
  "sched_run E [] st = Ret st"
| "sched_run E (e # es) st = bind_outcome (sched_step E e st) (sched_run E es)"

definition miss_row :: "string \<Rightarrow> job_row \<Rightarrow> job_row" where
  "miss_row now_str r =
     (if jr_status r = ''pending'' \<and> (case jr_next_run r of None \<Rightarrow> False | Some n \<Rightarrow> n < now_str)
      then r\<lparr>jr_status := ''missed'', jr_updated_at := now_str\<rparr> else r)"

fun row_event :: "sched_env \<Rightarrow> job_row \<Rightarrow> sched_event \<Rightarrow> job_row" where
  "row_event E r (EvTick now) = tick_row E now r"
| "row_event E r (EvStartup now) = miss_row (rfc3339 (cal E) now) r"

lemma row_event_id [simp]: "jr_id (row_event E r e) = jr_id r"
  by (cases e) (simp_all add: tick_row_def miss_row_def)

lemma tick_Ret_rows:
  assumes "scan_ok E" "unique_on jr_id (jobs st)" "tick E now st = Ret st'"
  shows "jobs st' = map (tick_row E now) (jobs st)"
proof -
  have "\<forall>r \<in> set (due_rows E now st). no_panic E now r"
    using process_all_panic [OF assms(3) [unfolded tick_def]] scan_due(1) [OF assms(1,2), of now]
    by (simp add: due_rows_def)
  from tick_rows [OF assms(1,2) this] assms(3) show ?thesis by auto
qed

text \<open>Rows evolve independently: a run maps every row through its own events.\<close>

lemma sched_run_rows:
  assumes "scan_ok E" "unique_on jr_id (jobs st)" "sched_run E es st = Ret st'"
  shows "jobs st' = map (\<lambda>r. foldl (row_event E) r es) (jobs st)"
  using assms(2,3)
proof (induction es arbitrary: st)
  case (Cons e es)
  obtain st1 where st1: "sched_step E e st = Ret st1" "sched_run E es st1 = Ret st'"
    using Cons.prems(2) by (auto simp: bind_outcome_Ret_iff)
  have j: "jobs st1 = map (\<lambda>r. row_event E r e) (jobs st)"
  proof (cases e)
    case (EvTick now)
    then show ?thesis using st1(1) tick_Ret_rows [OF assms(1) Cons.prems(1)] by simp
  next
    case (EvStartup now)
    have "jobs (mark_missed_on_startup E now st) = map (miss_row (rfc3339 (cal E) now)) (jobs st)"
      by (auto simp: mark_missed_on_startup_def miss_row_def tbl_update_def Let_def)
    with EvStartup st1(1) show ?thesis by auto
  qed
  have "unique_on jr_id (jobs st1)" using Cons.prems(1) j by (simp add: unique_on_def comp_def)
  from Cons.IH [OF this st1(2)] show ?case using j by simp
qed simp

lemma row_event_stopped:
  "jr_status r \<noteq> ''pending'' \<Longrightarrow> foldl (row_event E) r es = r"
proof (induction es)
  case (Cons e es)
  have "row_event E r e = r" using Cons.prems by (cases e) (simp_all add: tick_row_def due_def miss_row_def)
  with Cons show ?case by simp
qed simp

section \<open>One-shot jobs\<close>

text \<open>The first event at which a pending one-shot job at \<open>a\<close> changes.\<close>

fun reaches :: "int \<Rightarrow> sched_event \<Rightarrow> bool" where
  "reaches a (EvTick t) \<longleftrightarrow> a \<le> t"
| "reaches a (EvStartup t) \<longleftrightarrow> a < t"

definition in_range :: "calendar \<Rightarrow> int \<Rightarrow> bool" where
  "in_range C t \<longleftrightarrow> dt_min C \<le> t \<and> t \<le> dt_max C"

lemma rfc_le: "calendar_ok C \<Longrightarrow> in_range C t \<Longrightarrow> in_range C u \<Longrightarrow> (rfc3339 C t \<le> rfc3339 C u) = (t \<le> u)"
  by (simp add: calendar_ok_def in_range_def)

lemma rfc_less: "calendar_ok C \<Longrightarrow> in_range C t \<Longrightarrow> in_range C u \<Longrightarrow> (rfc3339 C t < rfc3339 C u) = (t < u)"
  using rfc_le [of C t u] rfc_le [of C u t] by (metis linorder_not_less)

definition pending_once :: "sched_env \<Rightarrow> int \<Rightarrow> job_row \<Rightarrow> bool" where
  "pending_once E a r \<longleftrightarrow> jr_status r = ''pending'' \<and> sdec E (jr_schedule r) = Some (Once a)
     \<and> jr_next_run r = Some (rfc3339 (cal E) a) \<and> jr_run_count r = 0"

lemma once_event:
  assumes "calendar_ok (cal E)" "in_range (cal E) a" "in_range (cal E) (sched_event_time e)"
    and p: "pending_once E a r"
  shows "row_event E r e = (if reaches a e then
      (case e of
         EvTick t \<Rightarrow> fired_row (rfc3339 (cal E) t) 1 None r
       | EvStartup t \<Rightarrow> r\<lparr>jr_status := ''missed'', jr_updated_at := rfc3339 (cal E) t\<rparr>)
     else r)"
proof (cases e)
  case (EvTick t)
  have "a \<le> t \<Longrightarrow> next_after_fire E t r (Once a) = Ret None"
    using p by (simp add: next_after_fire_def compute_next_run_def pending_once_def Let_def)
  then show ?thesis using EvTick p assms
    by (simp add: tick_row_def due_def fire_row_def rfc_le pending_once_def)
next
  case (EvStartup t)
  then show ?thesis using p assms by (simp add: miss_row_def rfc_less pending_once_def)
qed

lemma once_run:
  assumes "calendar_ok (cal E)" "in_range (cal E) a" "\<forall>e \<in> set es. in_range (cal E) (sched_event_time e)"
    and p: "pending_once E a r"
  shows "foldl (row_event E) r es = (case List.find (reaches a) es of
       None \<Rightarrow> r
     | Some (EvTick t) \<Rightarrow> fired_row (rfc3339 (cal E) t) 1 None r
     | Some (EvStartup t) \<Rightarrow> r\<lparr>jr_status := ''missed'', jr_updated_at := rfc3339 (cal E) t\<rparr>)"
  using assms(3)
proof (induction es)
  case (Cons e es)
  show ?case
  proof (cases "reaches a e")
    case False
    then show ?thesis using Cons once_event [OF assms(1,2) _ p, of e] by simp
  next
    case True
    let ?r = "row_event E r e"
    have r: "?r = (case e of
         EvTick t \<Rightarrow> fired_row (rfc3339 (cal E) t) 1 None r
       | EvStartup t \<Rightarrow> r\<lparr>jr_status := ''missed'', jr_updated_at := rfc3339 (cal E) t\<rparr>)"
      using True Cons.prems once_event [OF assms(1,2) _ p, of e] by simp
    then have "jr_status ?r \<noteq> ''pending''" by (cases e) (simp_all add: fired_row_def)
    from row_event_stopped [OF this] show ?thesis using True r by (simp split: sched_event.split)
  qed
qed simp

end
