(* ===== verification/SchedulerProps.thy ===== *)
theory SchedulerProps
  imports Scheduler
begin

text \<open>
  The properties of the scheduler, over the lemmas of theory Scheduler, with a concrete
  environment for their witnesses: the calendar's own arithmetic, and instants written in
  unary, which sorts like the instants.
\<close>

section \<open>A concrete environment\<close>

definition unary :: "int \<Rightarrow> string" where
  "unary t = replicate (nat t) CHR ''x''"

definition sample_cal :: calendar where
  "sample_cal = \<lparr> dt_min = 0, dt_max = 1000000000000000000,
     at_time = (\<lambda>t h m. if h < 24 \<and> m < 60 then Some (t div day_ns * day_ns + tod_ns h m) else None),
     weekday = (\<lambda>t. nat ((t div day_ns + 3) mod 7)),
     rfc3339 = unary \<rparr>"

lemma replicate_le: "(replicate m (c::char) \<le> replicate n c) = (m \<le> n)"
proof (induction m arbitrary: n)
  case (Suc m)
  then show ?case by (cases n) simp_all
qed simp

lemma unary_le: "0 \<le> u \<Longrightarrow> (unary t \<le> unary u) = (t \<le> u)"
  by (simp add: unary_def replicate_le nat_le_eq_zle)

lemma unary_less: "0 \<le> t \<Longrightarrow> (unary t < unary u) = (t < u)"
  using unary_le [of t u] by (metis linorder_not_less unary_le)

lemma sample_cal_ok: "calendar_ok sample_cal"
  by (auto simp: calendar_ok_def sample_cal_def unary_le)

definition sample_row :: "string \<Rightarrow> string \<Rightarrow> int \<Rightarrow> job_row" where
  "sample_row i s n = \<lparr> jr_id = i, jr_name = i, jr_schedule = s, jr_action = ''{}'', jr_status = ''pending'',
     jr_last_run = None, jr_next_run = Some (unary n), jr_run_count = 0, jr_max_runs = None,
     jr_created_at = [], jr_updated_at = [] \<rparr>"

definition sample_env :: sched_env where
  "sample_env = \<lparr> cal = sample_cal, senc = (\<lambda>s. case s of Once _ \<Rightarrow> ''once'' | _ \<Rightarrow> ''daily''),
     sdec = (\<lambda>s. if s = ''once'' then Some (Once 5) else if s = ''daily'' then Some (Daily 8 30) else None),
     scan = rev \<rparr>"

definition sample_engine :: engine where
  "sample_engine = \<lparr> jobs = [sample_row ''a'' ''once'' 5, sample_row ''b'' ''daily'' 9, sample_row ''c'' ''junk'' 3],
     fired_tx = Some \<lparr>ch_buf = [], ch_cap = 256, ch_closed = False\<rparr> \<rparr>"

lemmas sample_sched = sample_env_def sample_engine_def sample_row_def sample_cal_def

lemma sample_engine_ok: "scan_ok sample_env" "unique_on jr_id (jobs sample_engine)"
  by (simp_all add: scan_ok_def unique_on_def sample_sched)

lemma weekly_invalid:
  assumes "calendar_ok C" "\<not> (h < 24 \<and> m < 60)"
    and da: "da = min (int d) 6 - (t div day_ns + 3) mod 7"
  shows "compute_next_run C (Weekly d h m) t =
    bind_outcome (dt_add C t ((if da < 0 then 7 + da else da) * day_ns)) (\<lambda>cd. Ret None)"
proof -
  have wd: "int (weekday C t) = (t div day_ns + 3) mod 7" using assms(1) by (simp add: calendar_ok_def)
  have "at_time C u h m = None" for u using assms(2) at_time_ok [OF assms(1), of u h m] by simp
  then show ?thesis unfolding compute_next_run_def schedule.case Let_def wd da [symmetric] by simp
qed

section \<open>Properties\<close>

text \<open>C38: The next run of a one-shot, daily or weekly schedule is the first instant strictly after
  the given one that the schedule names (that time of day, and that weekday, in UTC).\<close>
theorem next_run_least:
  assumes "calendar_ok C" "compute_next_run C s t = Ret (Some n)" "\<forall>k. s \<noteq> Interval k"
  shows "t < n \<and> matches s n \<and> (\<forall>u. t < u \<and> u < n \<longrightarrow> \<not> matches s u)"
proof (cases s)
  case (Once a)
  then show ?thesis using assms(2) by (auto simp: compute_next_run_def matches_def split: if_splits)
next
  case (Daily h m)
  then show ?thesis using next_run_daily [OF assms(1)] assms(2) by simp
next
  case (Weekly d h m)
  then show ?thesis using next_run_weekly [OF assms(1)] assms(2) by simp
qed (use assms in \<open>auto simp: compute_next_run_def\<close>)

theorem next_run_least_witness:
  "compute_next_run sample_cal (Daily 8 30) 0 = Ret (Some 30600000000000)
   \<and> \<not> matches (Daily 8 30) 30599999999999"
proof -
  have "compute_next_run sample_cal (Daily 8 30) 0 = Ret (Some 30600000000000)"
    by (simp add: compute_next_run_def sample_cal_def tod_ns_def)
  with next_run_least [OF sample_cal_ok this] show ?thesis by simp
qed

text \<open>When a schedule has a next run. In range, the computation returns; it returns no instant
  exactly for a one-shot time that is not in the future, an invalid time of day, and a cron
  expression; and an interval of at most 9223372036854775 seconds is that many seconds later.\<close>
theorem next_run_defined:
  assumes "calendar_ok C" "dt_min C \<le> t" "t + 8 * day_ns \<le> dt_max C"
    "\<forall>k. s = Interval k \<longrightarrow> k \<le> 9223372036854775 \<and> t + int k * second_ns \<le> dt_max C"
  shows "compute_next_run C s t \<noteq> Panic
    \<and> (compute_next_run C s t = Ret None) = (case s of
         Once a \<Rightarrow> a \<le> t | Interval _ \<Rightarrow> False
       | Daily h m \<Rightarrow> 24 \<le> h \<or> 60 \<le> m | Weekly _ h m \<Rightarrow> 24 \<le> h \<or> 60 \<le> m | Cron _ \<Rightarrow> True)
    \<and> (\<forall>k. s = Interval k \<longrightarrow> compute_next_run C s t = Ret (Some (t + int k * second_ns)))"
proof (cases s)
  case (Interval k)
  then have "as_i64 k = int k" using assms(4) by (intro as_i64_small) auto
  moreover have "0 \<le> int k * second_ns" by simp
  ultimately show ?thesis using Interval assms
    by (auto simp: compute_next_run_def duration_seconds_def dt_add_def)
next
  case (Daily h m)
  have "t div day_ns * day_ns \<le> t" "0 \<le> tod_ns h m"
    using div_mult_mod_eq [of t day_ns] pos_mod_sign [of day_ns t] by (linarith, simp add: tod_ns_def)
  moreover have "t < t div day_ns * day_ns + day_ns"
    using div_mult_mod_eq [of t day_ns] pos_mod_bound [of day_ns t] by linarith
  moreover have "h < 24 \<Longrightarrow> m < 60 \<Longrightarrow> tod_ns h m < day_ns" using tod_bounds by blast
  ultimately show ?thesis using Daily assms
    by (auto simp: compute_next_run_def at_time_ok dt_add_def)
next
  case (Weekly d h m)
  let ?da = "min (int d) 6 - (t div day_ns + 3) mod 7"
  define k where "k = (if ?da < 0 then 7 + ?da else ?da)"
  define j where "j = (if ?da \<le> 0 then 7 else 7 - ?da)"
  have w: "0 \<le> (t div day_ns + 3) mod 7" "(t div day_ns + 3) mod 7 < 7" by simp_all
  have k: "0 \<le> k" "k \<le> 6" "1 \<le> j" "j \<le> 7" using w by (auto simp: k_def j_def)
  have kd: "0 \<le> k * day_ns" "k * day_ns \<le> 6 * day_ns" "1 * day_ns \<le> j * day_ns" "j * day_ns \<le> 7 * day_ns"
    using k by auto
  show ?thesis
  proof (cases "h < 24 \<and> m < 60")
    case False
    have "compute_next_run C (Weekly d h m) t = bind_outcome (dt_add C t (k * day_ns)) (\<lambda>_. Ret None)"
      unfolding k_def by (rule weekly_invalid [OF assms(1) False refl])
    moreover have "dt_add C t (k * day_ns) = Ret (t + k * day_ns)"
      using kd assms(2,3) by (simp add: dt_add_def)
    ultimately show ?thesis using Weekly False by auto
  next
    case True
    let ?c = "(t + k * day_ns) div day_ns * day_ns + tod_ns h m"
    have "?c \<le> t \<longrightarrow> dt_min C \<le> ?c + j * day_ns \<and> ?c + j * day_ns \<le> dt_max C"
    proof
      assume "?c \<le> t"
      have "t + k * day_ns < (t + k * day_ns) div day_ns * day_ns + day_ns"
        using div_mult_mod_eq [of "t + k * day_ns" day_ns] pos_mod_bound [of day_ns "t + k * day_ns"]
        by linarith
      then show "dt_min C \<le> ?c + j * day_ns \<and> ?c + j * day_ns \<le> dt_max C"
        using \<open>?c \<le> t\<close> kd assms(2,3) tod_bounds [of h m] True by linarith
    qed
    moreover have "compute_next_run C (Weekly d h m) t = bind_outcome (dt_add C t (k * day_ns)) (\<lambda>cd.
      let c = cd div day_ns * day_ns + tod_ns h m
      in if c > t then Ret (Some c) else bind_outcome (dt_add C c (j * day_ns)) (\<lambda>n. Ret (Some n)))"
      unfolding k_def j_def using True by (intro weekly_unfold [OF assms(1)]) auto
    moreover have "dt_add C t (k * day_ns) = Ret (t + k * day_ns)"
      using kd assms(2,3) by (simp add: dt_add_def)
    ultimately show ?thesis using Weekly True by (auto simp: Let_def dt_add_def not_less)
  qed
qed (auto simp: compute_next_run_def)

theorem next_run_defined_witness:
  "compute_next_run sample_cal (Interval 60) 7 = Ret (Some 60000000007)"
  using next_run_defined [OF sample_cal_ok, of 7 "Interval 60"] by (simp add: sample_cal_def)

text \<open>C31: A tick fires exactly the due jobs, once each. Whatever the order in which the database
  delivers them, the tick returns, every due row with a readable schedule is replaced by its
  fired form and every other row is untouched; the jobs sent out are a permutation of the fired
  jobs, and the delivery channel keeps as many as it has room for, in that order.\<close>
theorem tick_exact:
  assumes "scan_ok E" "unique_on jr_id (jobs st)" "\<forall>r \<in> set (due_rows E now st). no_panic E now r"
    and c: "fired_tx st = Some c" "\<not> ch_closed c"
  shows "\<exists>st' c' js. tick E now st = Ret st' \<and> fired_tx st' = Some c'
    \<and> jobs st' = map (\<lambda>r. if due (rfc3339 (cal E) now) r then fire_row E now r else r) (jobs st)
    \<and> mset js = mset (List.map_filter (fire_job E now) (due_rows E now st))
    \<and> ch_buf c' = ch_buf c @ take (ch_cap c - length (ch_buf c)) js"
proof -
  let ?js = "List.map_filter (fire_job E now) (scan E (due_rows E now st))"
  have "mset ?js = image_mset (the \<circ> fire_job E now)
      (filter_mset (\<lambda>r. fire_job E now r \<noteq> None) (mset (scan E (due_rows E now st))))"
    by (simp add: List.map_filter_def)
  also have "\<dots> = mset (List.map_filter (fire_job E now) (due_rows E now st))"
    using assms(1) by (simp add: scan_ok_def List.map_filter_def)
  finally have m: "mset ?js = mset (List.map_filter (fire_job E now) (due_rows E now st))" .
  let ?c = "c\<lparr>ch_buf := ch_buf c @ take (ch_cap c - length (ch_buf c)) ?js\<rparr>"
  let ?st = "st\<lparr>jobs := map (tick_row E now) (jobs st), fired_tx := Some ?c\<rparr>"
  have "tick E now st = Ret ?st" using tick_rows [OF assms(1-3)] c by (simp add: send_all_open)
  with m show ?thesis
    by (intro exI [of _ ?st] exI [of _ ?c] exI [of _ ?js]) (simp add: tick_row_def)
qed

lemma sample_engine_calm: "\<forall>r \<in> set (due_rows sample_env 7 sample_engine). no_panic sample_env 7 r"
  by (simp add: due_rows_def due_def no_panic_def next_after_fire_def compute_next_run_def sample_sched
      unary_le)

theorem tick_exact_witness:
  "\<exists>st' c' js. tick sample_env 7 sample_engine = Ret st' \<and> fired_tx st' = Some c'
    \<and> map jr_status (jobs st') = [''completed'', ''pending'', ''pending'']
    \<and> length js = 1 \<and> ch_buf c' = take 256 js"
proof -
  obtain st' c' js where t: "tick sample_env 7 sample_engine = Ret st'" "fired_tx st' = Some c'"
    "jobs st' = map (\<lambda>r. if due (rfc3339 (cal sample_env) 7) r then fire_row sample_env 7 r else r)
       (jobs sample_engine)"
    "mset js = mset (List.map_filter (fire_job sample_env 7) (due_rows sample_env 7 sample_engine))"
    "ch_buf c' = ch_buf \<lparr>ch_buf = [], ch_cap = 256, ch_closed = False\<rparr>
       @ take (256 - length (ch_buf \<lparr>ch_buf = [], ch_cap = 256, ch_closed = False\<rparr>)) js"
    using tick_exact [OF sample_engine_ok sample_engine_calm,
      of "\<lparr>ch_buf = [], ch_cap = 256, ch_closed = False\<rparr>"] by (auto simp: sample_engine_def)
  have "map jr_status (jobs st') = [''completed'', ''pending'', ''pending'']"
    using t(3) by (simp add: due_def fire_row_def fired_row_def next_after_fire_def compute_next_run_def
        sample_sched unary_le unary_less)
  moreover have "length js = 1"
    using arg_cong [OF t(4), of size]
    by (simp add: due_rows_def due_def fire_job_def next_after_fire_def compute_next_run_def
        sample_sched unary_le unary_less map_filter_simps)
  ultimately show ?thesis using t(1,2,5) by auto
qed



text \<open>A job that is not pending is never run again: no tick and no startup changes its row. In
  particular a recurring job that a startup marks as missed stays missed for ever, since nothing
  computes its next run.\<close>
theorem stopped_job_stays_stopped:
  assumes "scan_ok E" "unique_on jr_id (jobs st)" "r \<in> set (jobs st)" "jr_status r \<noteq> ''pending''"
    "sched_run E es st = Ret st'"
  shows "r \<in> set (jobs st')"
  using sched_run_rows [OF assms(1,2,5)] row_event_stopped [OF assms(4), of E es] assms(3)
  by (metis (no_types, lifting) image_eqI list.set_map)

theorem stopped_job_stays_stopped_witness:
  "let st = mark_missed_on_startup sample_env 12 (sample_engine\<lparr>jobs := [sample_row ''b'' ''daily'' 9]\<rparr>)
   in map jr_status (jobs st) = [''missed'']
     \<and> (\<exists>st'. sched_run sample_env [EvTick 20, EvTick 100000] st = Ret st' \<and> hd (jobs st) \<in> set (jobs st'))"
proof -
  let ?st = "mark_missed_on_startup sample_env 12 (sample_engine\<lparr>jobs := [sample_row ''b'' ''daily'' 9]\<rparr>)"
  have j: "\<exists>x. jobs ?st = [x] \<and> jr_status x = ''missed''"
    by (simp add: mark_missed_on_startup_def tbl_update_def sample_sched unary_le unary_less Let_def)
  then obtain x where x: "jobs ?st = [x]" "jr_status x = ''missed''" by blast
  have run: "sched_run sample_env [EvTick 20, EvTick 100000] ?st = Ret ?st"
    using x by (simp add: tick_def due_def sample_env_def)
  have "x \<in> set (jobs ?st)"
    using stopped_job_stays_stopped [OF sample_engine_ok(1) _ _ _ run, of x] x by (simp add: unique_on_def)
  then show ?thesis using x run by (simp add: Let_def)
qed

end
