(* ===== verification/Safety.thy ===== *)
theory Safety
  imports Prelude
begin

text \<open>
  The command safety checker and the output truncation of \<open>skynet-terminal\<close>
  (\<open>safety.rs\<close>, \<open>truncate.rs\<close>).
\<close>

section \<open>The safety checker\<close>

definition ALLOWLIST_PREFIXES :: "string list" where
  "ALLOWLIST_PREFIXES =
     [''ls'', ''pwd'', ''echo'', ''cat'', ''head'', ''tail'', ''wc'', ''git log'', ''git status'',
      ''git diff'', ''git branch'', ''cargo check'', ''cargo test'', ''cargo clippy'', ''cargo build'',
      ''npm list'', ''npm info'', ''node --version'', ''rustc --version'', ''python --version'',
      ''python3 --version'', ''date'', ''whoami'', ''hostname'', ''uname'', ''find'', ''grep'', ''rg'',
      ''fd'']"

definition DENYLIST :: "(string \<times> string) list" where
  "DENYLIST =
     [(''rm -rf /'', ''Destructive: recursive forced removal from root or home''),
      (''rm -rf /*'', ''Destructive: recursive forced removal of all root children''),
      ('':(){ :|:& };:'', ''Fork bomb: will exhaust system resources''),
      (''| sh'', ''Unsafe: piping content directly into sh''),
      (''| bash'', ''Unsafe: piping content directly into bash''),
      (''|sh'', ''Unsafe: piping content directly into sh (no space variant)''),
      (''|bash'', ''Unsafe: piping content directly into bash (no space variant)''),
      (''dd if='', ''Destructive: raw disk I/O via dd''),
      (''mkfs'', ''Destructive: creates a new filesystem, wiping existing data''),
      (''> /dev/sda'', ''Destructive: writes directly to block device''),
      (''chmod 777 /'', ''Unsafe: world-writable permissions on root filesystem''),
      (''chown / '', ''Unsafe: changing ownership of root filesystem''),
      (''chown -r /'', ''Unsafe: recursive chown from root''),
      (''shutdown'', ''Unsafe: shuts down the system''),
      (''reboot'', ''Unsafe: reboots the system''),
      (''halt'', ''Unsafe: halts the system''),
      (''poweroff'', ''Unsafe: powers off the system''),
      (''kill -9 1'', ''Unsafe: kills PID 1 (init/systemd)''),
      (''kill -9 -1'', ''Unsafe: sends SIGKILL to every process''),
      (''> /etc/'', ''Destructive: overwrites a file under /etc''),
      (''>> /etc/'', ''Destructive: appends to a file under /etc''),
      (''import os; os.system'', ''Unsafe: Python os.system shell escape''),
      (''__import__('os')'', ''Unsafe: Python dynamic os import (shell escape pattern)''),
      (''sudo'', ''Blocked: sudo requires elevated permissions (not yet granted)'')]"

definition has_shell_operators :: "string \<Rightarrow> bool" where
  "has_shell_operators lower \<longleftrightarrow>
     contains lower ''|'' \<or> contains lower ''>'' \<or> contains lower '';'' \<or> contains lower ''&&''
     \<or> contains lower ''||'' \<or> contains lower ''$('' \<or> contains lower ''`''"

definition is_allowlisted :: "string \<Rightarrow> bool" where
  "is_allowlisted lower \<longleftrightarrow> list_ex (starts_with lower) ALLOWLIST_PREFIXES"

text \<open>The first denylist rule that matches, as the loop walks the table.\<close>

fun first_denied :: "string \<Rightarrow> (string \<times> string) list \<Rightarrow> (string \<times> string) option" where
  "first_denied lower [] = None"
| "first_denied lower ((pattern, reason) # rules) =
     (if contains lower pattern then Some (pattern, reason) else first_denied lower rules)"

definition check_command :: "(string \<Rightarrow> string) \<Rightarrow> string \<Rightarrow> string + unit" where
  "check_command ulow command =
     (let lower = to_lowercase ulow (trim command) in
      if \<not> has_shell_operators lower \<and> is_allowlisted lower then Inr ()
      else (case first_denied lower DENYLIST of
              Some (pattern, reason) \<Rightarrow> Inl (reason @ '' (matched pattern: `'' @ pattern @ ''`)'')
            | None \<Rightarrow> Inr ()))"

lemma first_denied_None_iff: "first_denied lower rules = None \<longleftrightarrow> (\<forall>(p, _) \<in> set rules. \<not> contains lower p)"
  by (induction lower rules rule: first_denied.induct) auto

lemma first_denied_Some:
  "first_denied lower rules = Some (p, why) \<Longrightarrow> (p, why) \<in> set rules \<and> contains lower p"
  by (induction lower rules rule: first_denied.induct) (auto split: if_splits)

section \<open>Letter case does not matter\<close>

lemma ascii_lower_idem [simp]: "ascii_lower (ascii_lower c) = ascii_lower c"
  by (simp add: ascii_lower_def Let_def)

lemma ascii_lower_small: "(of_char (ascii_lower c) :: nat) < 128 \<longleftrightarrow> (of_char c :: nat) < 128"
  by (simp add: ascii_lower_def Let_def)

lemma is_ws_small: "is_ws [c] \<Longrightarrow> (of_char c :: nat) < 65"
  by (auto simp: is_ws_def white_space_def)

lemma is_ws_lower: "is_ws [ascii_lower c] = is_ws [c]"
proof (cases "65 \<le> (of_char c :: nat) \<and> (of_char c :: nat) \<le> 90")
  case True
  then have "(of_char (ascii_lower c) :: nat) \<ge> 65" by (simp add: ascii_lower_def Let_def)
  then show ?thesis using True is_ws_small [of c] is_ws_small [of "ascii_lower c"] by auto
next
  case False
  then have "ascii_lower c = c" by (auto simp: ascii_lower_def Let_def)
  then show ?thesis by simp
qed

lemma trim_start_lower:
  assumes "is_ascii s"
  shows "trim_start (map ascii_lower s) = map ascii_lower (trim_start s)"
proof -
  have a: "is_ascii (map ascii_lower s)" using assms by (simp add: ascii_lower_small)
  have "concat (dropWhile is_ws (map (\<lambda>c. [c]) (map ascii_lower s)))
      = map ascii_lower (concat (dropWhile is_ws (map (\<lambda>c. [c]) s)))"
    by (induction s) (simp_all add: is_ws_lower map_concat comp_def)
  then show ?thesis by (simp only: trim_start_def chars_ascii [OF a] chars_ascii [OF assms])
qed

lemma trim_start_ascii: "is_ascii s \<Longrightarrow> is_ascii (trim_start s)"
  using trim_start_suffix [of s] by (metis UnCI set_append)

lemma trim_end_lower:
  assumes "is_ascii s"
  shows "trim_end (map ascii_lower s) = map ascii_lower (trim_end s)"
proof -
  have a: "is_ascii (map ascii_lower s)" using assms by (simp add: ascii_lower_small)
  have "dropWhile is_ws (map (\<lambda>c. [c]) (map ascii_lower t)) = map (map ascii_lower) (dropWhile is_ws (map (\<lambda>c. [c]) t))"
    for t by (induction t) (simp_all add: is_ws_lower comp_def)
  from this [of "rev s"] show ?thesis
    by (simp only: trim_end_def chars_ascii [OF a] chars_ascii [OF assms] rev_map map_concat)
qed

lemma trim_end_ascii: "is_ascii s \<Longrightarrow> is_ascii (trim_end s)"
proof -
  assume a: "is_ascii s"
  have "set s = \<Union> (set ` set (chars s))" by (metis concat_chars set_concat)
  then show ?thesis using a by (auto simp: trim_end_def dest!: set_dropWhileD)
qed

lemma trim_ascii: "is_ascii s \<Longrightarrow> is_ascii (trim s)"
  unfolding trim_def by (intro trim_end_ascii trim_start_ascii)

lemma trim_lower: "is_ascii s \<Longrightarrow> trim (map ascii_lower s) = map ascii_lower (trim s)"
  by (simp add: trim_def trim_start_lower trim_end_lower trim_start_ascii)

lemma lower_trim_ascii:
  "is_ascii s \<Longrightarrow> to_lowercase ulow (trim s) = trim (map ascii_lower s)"
  by (simp add: to_lowercase_ascii trim_ascii trim_lower)

section \<open>Truncation\<close>

definition DEFAULT_MAX_CHARS :: nat where "DEFAULT_MAX_CHARS = 30000"

definition truncation_marker :: "nat \<Rightarrow> string" where
  "truncation_marker omitted = [CHR 0x0A, CHR 0x0A] @ ''... [OUTPUT TRUNCATED: '' @ show_nat omitted
     @ '' chars omitted] ...'' @ [CHR 0x0A, CHR 0x0A]"

definition truncate_output :: "string \<Rightarrow> nat \<Rightarrow> string" where
  "truncate_output output max_chars =
     (if length output \<le> max_chars then output
      else
        (let cs = chars output; total = length cs in
         if total \<le> max_chars then output
         else
           (let half = max_chars div 2;
                head = concat (take half cs);
                tail = concat (drop (total - half) cs);
                omitted = total - max_chars
            in head @ truncation_marker omitted @ tail)))"

lemma truncate_short: "length (chars s) \<le> m \<Longrightarrow> truncate_output s m = s"
  by (simp add: truncate_output_def Let_def)

lemma truncate_long:
  "m < length (chars s) \<Longrightarrow> truncate_output s m = concat (take (m div 2) (chars s))
     @ truncation_marker (length (chars s) - m) @ concat (drop (length (chars s) - m div 2) (chars s))"
  using length_chars_le [of s] by (simp add: truncate_output_def Let_def)

lemma length_show_nat: "n < 10 ^ k \<Longrightarrow> 0 < k \<Longrightarrow> length (show_nat n) \<le> k"
proof (induction k arbitrary: n)
  case (Suc k)
  show ?case
  proof (cases "n < 10")
    case True
    then show ?thesis by (simp add: show_nat_digit)
  next
    case False
    then have "0 < k" using Suc.prems(1) by (cases k) auto
    moreover have "n div 10 < 10 ^ k" using Suc.prems(1) by (simp add: less_mult_imp_div_less mult.commute)
    ultimately show ?thesis using Suc.IH [of "n div 10"] False by (simp add: show_nat.simps [of n])
  qed
qed simp

lemma show_nat_ascii: "is_ascii (show_nat n)"
proof (induction n rule: show_nat.induct)
  case (1 n)
  have "48 + n mod 10 < 256" by simp
  show ?case
  proof (cases "n < 10")
    case True
    then show ?thesis by (simp add: show_nat_digit of_char_of)
  next
    case False
    moreover have "n mod 10 < 10" by simp
    ultimately show ?thesis using 1 by (simp add: show_nat.simps [of n] of_char_of)
  qed
qed

lemma valid_take: "valid_utf8 s \<Longrightarrow> chars (concat (take k (chars s))) = take k (chars s)"
  by (rule chars_concat) (use valid_utf8_chars [of s] in \<open>auto dest: in_set_takeD\<close>)

lemma valid_drop: "valid_utf8 s \<Longrightarrow> chars (concat (drop k (chars s))) = drop k (chars s)"
  by (rule chars_concat) (use valid_utf8_chars [of s] in \<open>auto dest: in_set_dropD\<close>)

lemma marker_ascii: "is_ascii (truncation_marker n)"
  using show_nat_ascii [of n] by (auto simp: truncation_marker_def)

lemma chars_truncated:
  assumes "valid_utf8 s" "m < length (chars s)"
  shows "chars (truncate_output s m) = take (m div 2) (chars s)
     @ map (\<lambda>c. [c]) (truncation_marker (length (chars s) - m)) @ drop (length (chars s) - m div 2) (chars s)"
proof -
  let ?mk = "truncation_marker (length (chars s) - m)"
  let ?tl = "drop (length (chars s) - m div 2) (chars s)"
  have wf: "\<forall>g \<in> set (chars s). wf_char g" by (rule valid_utf8_chars [OF assms(1)])
  have mk: "\<forall>g \<in> set (map (\<lambda>c. [c]) ?mk). wf_char g"
    using marker_ascii [of "length (chars s) - m"] by (auto simp: wf_char_def is_cont_def)
  have "\<forall>g \<in> set (take (m div 2) (chars s) @ map (\<lambda>c. [c]) ?mk @ ?tl). wf_char g"
    using wf mk by (auto dest: in_set_takeD in_set_dropD)
  from chars_concat [OF this] show ?thesis by (simp add: truncate_long [OF assms(2)])
qed

section \<open>Properties\<close>


lemma trim_id:
  assumes "is_ascii s" "s \<noteq> []" "65 \<le> (of_char (hd s) :: nat)" "65 \<le> (of_char (last s) :: nat)"
  shows "trim s = s"
proof -
  have ws: "65 \<le> (of_char c :: nat) \<Longrightarrow> \<not> is_ws [c]" for c using is_ws_small [of c] by linarith
  obtain c t where s: "s = c # t" using assms(2) by (cases s) auto
  have single: "concat (map (\<lambda>c. [c]) s) = s" for s :: string by simp
  have "trim_start s = s"
    unfolding trim_start_def chars_ascii [OF assms(1)] using assms(3) ws s by simp
  moreover have "dropWhile is_ws (rev (map (\<lambda>c. [c]) s)) = rev (map (\<lambda>c. [c]) s)"
  proof -
    obtain u d where u: "s = u @ [d]" using assms(2) by (metis append_butlast_last_id)
    then show ?thesis using assms(4) ws by simp
  qed
  then have "trim_end s = s"
    unfolding trim_end_def chars_ascii [OF assms(1)] by (simp only: rev_rev_ident single)
  ultimately show ?thesis by (simp add: trim_def)
qed

lemma lower_trim_ls: "to_lowercase ulow (trim (''ls'' @ [CHR 0x0A] @ ''sudo reboot'')) = ''ls'' @ [CHR 0x0A] @ ''sudo reboot''"
proof -
  let ?s = "''ls'' @ [CHR 0x0A] @ ''sudo reboot''"
  have t: "trim ?s = ?s" by (rule trim_id) simp_all
  have "to_lowercase ulow ?s = map ascii_lower ?s" by (rule to_lowercase_ascii) simp
  also have "\<dots> = ?s" by (simp add: ascii_lower_def)
  finally show ?thesis unfolding t .
qed


text \<open>Letter case does not matter: two ASCII commands that differ only in case get the same
  answer, whatever the Unicode lower-casing of other characters.\<close>
theorem check_command_case_insensitive:
  assumes "is_ascii s" "is_ascii t" "eq_ignore_ascii_case s t"
  shows "check_command ulow s = check_command ulow t"
  using assms by (simp add: check_command_def lower_trim_ascii eq_ignore_ascii_case_def)

theorem check_command_case_insensitive_witness:
  "check_command (\<lambda>c. c) ''SUDO Ls'' = check_command (\<lambda>c. c) ''sudo ls''"
  by (rule check_command_case_insensitive) (simp_all add: eq_ignore_ascii_case_def ascii_lower_def Let_def char_of_eq_iff)

text \<open>Truncation. A valid text of at most \<open>max_chars\<close> characters is returned as it is; a longer
  one keeps exactly its first and its last \<open>max_chars / 2\<close> characters around the marker, never
  splitting a character, and the result has at most \<open>max_chars\<close> characters plus the marker's own
  (at most 61 for a text below ten billion characters).\<close>
theorem truncate_output_keeps_ends:
  assumes "valid_utf8 s" "length (chars s) < 10 ^ 10"
  shows "if length (chars s) \<le> m then truncate_output s m = s
    else (\<exists>mk. chars (truncate_output s m) = take (m div 2) (chars s) @ mk
           @ drop (length (chars s) - m div 2) (chars s)
         \<and> concat mk = truncation_marker (length (chars s) - m) \<and> length mk \<le> 61)
      \<and> length (chars (truncate_output s m)) \<le> m + 61 \<and> valid_utf8 (truncate_output s m)"
proof (cases "length (chars s) \<le> m")
  case True
  then show ?thesis by (simp add: truncate_short)
next
  case False
  let ?mk = "truncation_marker (length (chars s) - m)"
  have ch: "chars (truncate_output s m) = take (m div 2) (chars s) @ map (\<lambda>c. [c]) ?mk
      @ drop (length (chars s) - m div 2) (chars s)"
    using chars_truncated [OF assms(1)] False by simp
  have "length (show_nat (length (chars s) - m)) \<le> 10"
    using assms(2) by (intro length_show_nat) auto
  then have len: "length ?mk \<le> 61" by (simp add: truncation_marker_def)
  have "\<forall>g \<in> set (map (\<lambda>c. [c]) ?mk). utf8_width (hd g) = Some (length g)"
    using marker_ascii [of "length (chars s) - m"] by (auto simp: utf8_width_def Let_def)
  then have "valid_utf8 (truncate_output s m)"
    unfolding valid_utf8_def ch using assms(1) by (auto simp: valid_utf8_def dest: in_set_takeD in_set_dropD)
  moreover have "length (chars (truncate_output s m)) \<le> m + 61" using len False by (simp add: ch)
  ultimately show ?thesis using False ch len by (auto intro!: exI [of _ "map (\<lambda>c. [c]) ?mk"])
qed

theorem truncate_output_keeps_ends_witness:
  "\<exists>mk. chars (truncate_output ''abcdefgh'' 5) = [''a'', ''b''] @ mk @ [''g'', ''h'']"
proof -
  have c: "chars ''abcdefgh'' = map (\<lambda>c. [c]) ''abcdefgh''" by (rule chars_ascii) simp
  have "valid_utf8 ''abcdefgh''" by (simp add: valid_utf8_def c utf8_width_def del: chars.simps)
  from truncate_output_keeps_ends [OF this, of 5] show ?thesis by (auto simp: c simp del: chars.simps)
qed

end
