(* ===== verification/Terminal.thy ===== *)
theory Terminal
  imports Safety "HOL-Library.AList"
begin

text \<open>
  The rest of \<open>skynet-terminal\<close>: PTY sessions with their output ring buffer (\<open>session.rs\<close>) and
  the manager of sessions, one-shot commands and background jobs (\<open>manager.rs\<close>, \<open>types.rs\<close>).
  What the operating system does (a pseudo terminal opens, a child exits) enters as an argument
  or as an event.
\<close>

section \<open>Types\<close>

datatype terminal_error =
    PtySpawn string
  | SessionNotFound string
  | IoError string
  | TTimeout nat
  | CommandBlocked string
  | TJobNotFound string

record exec_result =
  exit_code :: int
  stdout :: string
  stderr :: string

record exec_options =
  timeout_secs :: nat
  max_output_chars :: nat
  skip_safety :: bool

definition default_exec_options :: exec_options where
  "default_exec_options = \<lparr>timeout_secs = 30, max_output_chars = 30000, skip_safety = False\<rparr>"

definition effective_timeout_secs :: "exec_options \<Rightarrow> nat" where
  "effective_timeout_secs opts = min (timeout_secs opts) 300"

datatype bg_status = BgRunning | BgCompleted | BgFailed | BgTimedOut

record background_job =
  bj_id :: string
  bj_command :: string
  bj_started_at :: nat
  bj_status :: bg_status
  bj_result :: "exec_result option"

definition BackgroundJob_new :: "string \<Rightarrow> string \<Rightarrow> nat \<Rightarrow> background_job" where
  "BackgroundJob_new jid command now =
     \<lparr>bj_id = jid, bj_command = command, bj_started_at = now, bj_status = BgRunning, bj_result = None\<rparr>"

section \<open>PTY sessions\<close>

definition OUTPUT_BUF_MAX :: nat where "OUTPUT_BUF_MAX = 131072"

text \<open>
  \<open>reading\<close>: the reader thread is still in its loop; \<open>poisoned\<close>: it panicked while it held the
  buffer's mutex, after which every \<open>lock().unwrap()\<close> panics.
\<close>

record pty_session =
  shell :: string
  cwd :: string
  ps_created_at :: nat
  output_buf :: string
  poisoned :: bool
  reading :: bool
  alive :: bool

text \<open>What one \<open>read\<close> of the master gives: cleaned text, the end of file, or an error.\<close>

datatype reader_event = ReadText string | ReadEof | ReadError

definition push_output :: "string \<Rightarrow> pty_session \<Rightarrow> pty_session" where
  "push_output text s =
     (let buf = output_buf s @ text in
      if length buf > OUTPUT_BUF_MAX then
        (let excess = length buf - OUTPUT_BUF_MAX in
         if is_char_boundary buf excess then s\<lparr>output_buf := drop excess buf\<rparr>
         else s\<lparr>output_buf := buf, poisoned := True, reading := False\<rparr>)
      else s\<lparr>output_buf := buf\<rparr>)"

fun reader_step :: "pty_session \<Rightarrow> reader_event \<Rightarrow> pty_session" where
  "reader_step s (ReadText text) = (if reading s then push_output text s else s)"
| "reader_step s ReadEof = (if reading s then s\<lparr>reading := False, alive := False\<rparr> else s)"
| "reader_step s ReadError = (if reading s then s\<lparr>reading := False, alive := False\<rparr> else s)"

definition pty_new :: "string \<Rightarrow> string \<Rightarrow> nat \<Rightarrow> pty_session" where
  "pty_new sh dir now = \<lparr>shell = sh, cwd = dir, ps_created_at = now, output_buf = [], poisoned = False,
     reading = True, alive = True\<rparr>"

text \<open>What opening a terminal may meet at each of its steps: an error's text, or no error; no clock reading if the
  clock stands before 1970. An error after the spawn leaves the shell to the operating system.\<close>

record pty_faults =
  pf_openpty :: "string option"
  pf_spawn :: "string option"
  pf_writer :: "string option"
  pf_reader :: "string option"
  pf_clock :: "nat option"

definition pty_works :: "nat \<Rightarrow> pty_faults" where
  "pty_works now = \<lparr> pf_openpty = None, pf_spawn = None, pf_writer = None, pf_reader = None, pf_clock = Some now \<rparr>"

definition pty_open :: "pty_faults \<Rightarrow> string \<Rightarrow> string \<Rightarrow> terminal_error + pty_session" where
  "pty_open F sh dir =
     (case pf_openpty F of Some e \<Rightarrow> Inl (PtySpawn e) | None \<Rightarrow>
        (case pf_spawn F of Some e \<Rightarrow> Inl (PtySpawn e) | None \<Rightarrow>
           (case pf_writer F of Some e \<Rightarrow> Inl (PtySpawn e) | None \<Rightarrow>
              (case pf_reader F of Some e \<Rightarrow> Inl (PtySpawn e)
               | None \<Rightarrow> Inr (pty_new sh dir (case pf_clock F of None \<Rightarrow> 0 | Some now \<Rightarrow> now))))))"

lemma pty_open_works [simp]: "pty_open (pty_works now) sh dir = Inr (pty_new sh dir now)"
  by (simp add: pty_open_def pty_works_def)

lemma pty_open_cases:
  "(\<exists>e. pty_open F sh dir = Inl (PtySpawn e)) \<or> (\<exists>now. pty_open F sh dir = Inr (pty_new sh dir now))"
  by (auto simp: pty_open_def split: option.split)

text \<open>\<open>io_error\<close> is the error of \<open>write_all\<close> or of \<open>flush\<close>. Killing writes Ctrl-D and does not look at the outcome.\<close>

definition pty_write :: "string option \<Rightarrow> pty_session \<Rightarrow> string \<Rightarrow> terminal_error + unit" where
  "pty_write io_error s input = (case io_error of Some e \<Rightarrow> Inl (IoError e) | None \<Rightarrow> Inr ())"

definition pty_kill :: "string option \<Rightarrow> pty_session \<Rightarrow> terminal_error + unit" where
  "pty_kill io_error s = (let _ = pty_write io_error s [CHR 0x04] in Inr ())"

lemma pty_kill_ends [simp]: "pty_kill io_error s = Inr ()"
  by (simp add: pty_kill_def)

definition pty_read :: "pty_session \<Rightarrow> (pty_session \<times> string) outcome" where
  "pty_read s = (if poisoned s then Panic else Ret (s\<lparr>output_buf := []\<rparr>, output_buf s))"

definition pty_is_alive :: "pty_session \<Rightarrow> bool" where
  "pty_is_alive s = alive s"

text \<open>Without a panic the buffer is the newest part of what was read, at most its maximum.\<close>

definition newest :: "string \<Rightarrow> string" where
  "newest s = drop (length s - OUTPUT_BUF_MAX) s"

lemma push_output_newest:
  assumes "output_buf s = newest all" "\<not> poisoned (push_output text s)"
  shows "output_buf (push_output text s) = newest (all @ text)"
proof -
  have "drop (length (newest all @ text) - OUTPUT_BUF_MAX) (newest all @ text) = newest (all @ text)"
  proof (cases "length all \<le> OUTPUT_BUF_MAX")
    case True
    then show ?thesis by (simp add: newest_def)
  next
    case False
    let ?k = "length all - OUTPUT_BUF_MAX"
    have n: "newest all = drop ?k all" "length (newest all) = OUTPUT_BUF_MAX"
      using False by (simp_all add: newest_def)
    have "newest (all @ text) = drop (?k + length text) (all @ text)"
      using False by (simp add: newest_def)
    also have "\<dots> = drop (length text) (drop ?k (all @ text))" by (simp add: add.commute)
    also have "drop ?k (all @ text) = newest all @ text" using n by simp
    finally show ?thesis using n(2) by simp
  qed
  then show ?thesis using assms
    by (auto simp: push_output_def Let_def split: if_splits)
qed

section \<open>The manager\<close>

text \<open>
  A job is a shared cell (\<open>Arc<Mutex<BackgroundJob>>\<close>): \<open>cells\<close> are the allocations, \<open>jobs\<close> maps
  an identifier to its cell, and \<open>tasks\<close> are the cells whose detached task has not finished.
\<close>

record terminal_manager =
  sessions :: "(string \<times> pty_session) list"
  jobs :: "(string \<times> nat) list"
  cells :: "background_job list"
  tasks :: "nat list"

definition manager_new :: terminal_manager where
  "manager_new = \<lparr>sessions = [], jobs = [], cells = [], tasks = []\<rparr>"

definition or_else :: "'a option \<Rightarrow> 'a option \<Rightarrow> 'a option" where
  "or_else a b = (case a of None \<Rightarrow> b | Some x \<Rightarrow> Some x)"

definition opt_or :: "'a option \<Rightarrow> 'a \<Rightarrow> 'a" where
  "opt_or a d = (case a of None \<Rightarrow> d | Some x \<Rightarrow> x)"

definition create_session ::
    "string option \<Rightarrow> string option \<Rightarrow> string \<Rightarrow> pty_faults \<Rightarrow> terminal_manager
      \<Rightarrow> string option \<Rightarrow> string option \<Rightarrow> terminal_manager \<times> (terminal_error + string)" where
  "create_session env_shell env_dir sid F m sh dir =
     (let sh' = opt_or (or_else sh env_shell) ''/bin/bash'';
          dir' = opt_or (or_else dir env_dir) ''/''
      in case pty_open F sh' dir' of
           Inl e \<Rightarrow> (m, Inl e)
         | Inr s \<Rightarrow> (m\<lparr>sessions := AList.update sid s (sessions m)\<rparr>, Inr sid))"

definition get_session :: "terminal_manager \<Rightarrow> string \<Rightarrow> terminal_error + pty_session" where
  "get_session m sid =
     (case map_of (sessions m) sid of None \<Rightarrow> Inl (SessionNotFound sid) | Some s \<Rightarrow> Inr s)"

definition term_write :: "string option \<Rightarrow> terminal_manager \<Rightarrow> string \<Rightarrow> string \<Rightarrow> terminal_error + unit" where
  "term_write io_error m sid input =
     (case get_session m sid of
        Inl e \<Rightarrow> Inl e
      | Inr s \<Rightarrow> pty_write io_error s input)"

definition term_read :: "terminal_manager \<Rightarrow> string \<Rightarrow> (terminal_manager \<times> (terminal_error + string)) outcome" where
  "term_read m sid =
     (case get_session m sid of
        Inl e \<Rightarrow> Ret (m, Inl e)
      | Inr s \<Rightarrow> bind_outcome (pty_read s) (\<lambda>(s', out).
          Ret (m\<lparr>sessions := AList.update sid s' (sessions m)\<rparr>, Inr out)))"

definition term_kill :: "terminal_manager \<Rightarrow> string \<Rightarrow> terminal_manager \<times> (terminal_error + unit)" where
  "term_kill m sid =
     (case get_session m sid of
        Inl e \<Rightarrow> (m, Inl e)
      | Inr s \<Rightarrow> (case pty_kill None s of
          Inl e \<Rightarrow> (m, Inl e)
        | Inr _ \<Rightarrow> (m\<lparr>sessions := AList.delete sid (sessions m)\<rparr>, Inr ())))"

definition session_list :: "terminal_manager \<Rightarrow> (string \<times> string \<times> string \<times> nat \<times> bool) list" where
  "session_list m = map (\<lambda>(i, s). (i, shell s, cwd s, ps_created_at s, pty_is_alive s)) (sessions m)"

section \<open>One-shot commands\<close>

text \<open>How a spawned child ends, as the select between its result and the deadline sees it.\<close>

datatype child_outcome =
    SpawnFailed string
  | Exited "int option" string string
  | WaitFailed string
  | WaitPanicked
  | DeadlinePassed

text \<open>What the call does to the outside: processes started and killed.\<close>

datatype exec_effect = Spawn string | KillChild

definition exec ::
    "(string \<Rightarrow> string) \<Rightarrow> (string \<Rightarrow> string) \<Rightarrow> child_outcome \<Rightarrow> string \<Rightarrow> exec_options
      \<Rightarrow> exec_effect list \<times> (terminal_error + exec_result)" where
  "exec ulow strip_text child command opts =
     (case (if skip_safety opts then Inr () else check_command ulow command) of
        Inl reason \<Rightarrow> ([], Inl (CommandBlocked reason))
      | Inr _ \<Rightarrow>
          (let ms = effective_timeout_secs opts * 1000 in
           case child of
             SpawnFailed e \<Rightarrow> ([], Inl (PtySpawn (''spawn failed: '' @ e)))
           | Exited code out err \<Rightarrow>
               ([Spawn command], Inr \<lparr> exit_code = opt_or code (-1),
                  stdout = truncate_output (strip_text out) (max_output_chars opts),
                  stderr = truncate_output (strip_text err) (max_output_chars opts) \<rparr>)
           | WaitFailed e \<Rightarrow> ([Spawn command], Inl (IoError e))
           | WaitPanicked \<Rightarrow> ([Spawn command], Inl (PtySpawn ''wait task panicked unexpectedly''))
           | DeadlinePassed \<Rightarrow> ([Spawn command, KillChild], Inl (TTimeout ms))))"

lemma exec_spawns: "exec ulow st child command opts = (es, r) \<Longrightarrow> Spawn c \<in> set es \<Longrightarrow> \<not> skip_safety opts
    \<Longrightarrow> check_command ulow c = Inr ()"
  by (auto simp: exec_def Let_def split: sum.splits child_outcome.splits)

text \<open>The deprecated blocking call: \<open>output\<close> is an error or the exit code and both streams.\<close>

definition exec_oneshot ::
    "(string \<Rightarrow> string) \<Rightarrow> string + int option \<times> string \<times> string \<Rightarrow> terminal_error + exec_result" where
  "exec_oneshot strip_text output =
     (case output of
        Inl e \<Rightarrow> Inl (PtySpawn (''spawn failed: '' @ e))
      | Inr (code, out, err) \<Rightarrow>
          Inr \<lparr>exit_code = opt_or code (-1), stdout = strip_text out, stderr = strip_text err\<rparr>)"

section \<open>Background jobs\<close>

definition exec_background ::
    "(string \<Rightarrow> string) \<Rightarrow> string \<Rightarrow> nat \<Rightarrow> terminal_manager \<Rightarrow> string
      \<Rightarrow> terminal_manager \<times> (terminal_error + string)" where
  "exec_background ulow jid now m command =
     (case check_command ulow command of
        Inl reason \<Rightarrow> (m, Inl (CommandBlocked reason))
      | Inr _ \<Rightarrow>
          (let cell = length (cells m) in
           (m\<lparr> cells := cells m @ [BackgroundJob_new jid command now],
               jobs := AList.update jid cell (jobs m), tasks := tasks m @ [cell] \<rparr>, Inr jid)))"

text \<open>The detached task of a cell ends in one of three ways; each ends the task.\<close>

definition finish_job :: "(string \<Rightarrow> string) \<Rightarrow> child_outcome \<Rightarrow> background_job \<Rightarrow> background_job" where
  "finish_job strip_text child j =
     (case child of
        Exited code out err \<Rightarrow>
          j\<lparr> bj_status := BgCompleted, bj_result := Some \<lparr> exit_code = opt_or code (-1),
              stdout = strip_text out, stderr = strip_text err \<rparr> \<rparr>
      | SpawnFailed e \<Rightarrow>
          j\<lparr> bj_status := BgFailed, bj_result := Some \<lparr> exit_code = -1, stdout = [],
              stderr = ''spawn failed: '' @ e \<rparr> \<rparr>
      | WaitFailed e \<Rightarrow>
          j\<lparr> bj_status := BgFailed, bj_result := Some \<lparr> exit_code = -1, stdout = [],
              stderr = ''wait failed: '' @ e \<rparr> \<rparr>
      | _ \<Rightarrow> j)"

fun ends_task :: "child_outcome \<Rightarrow> bool" where
  "ends_task (Exited _ _ _) = True"
| "ends_task (SpawnFailed _) = True"
| "ends_task (WaitFailed _) = True"
| "ends_task _ = False"

definition task_done :: "(string \<Rightarrow> string) \<Rightarrow> nat \<Rightarrow> child_outcome \<Rightarrow> terminal_manager \<Rightarrow> terminal_manager" where
  "task_done strip_text cell child m =
     (if cell \<in> set (tasks m) \<and> ends_task child
      then m\<lparr> cells := (cells m)[cell := finish_job strip_text child (cells m ! cell)],
              tasks := filter (\<lambda>c. c \<noteq> cell) (tasks m) \<rparr>
      else m)"

definition job_status :: "terminal_manager \<Rightarrow> string \<Rightarrow> terminal_error + background_job" where
  "job_status m jid =
     (case map_of (jobs m) jid of None \<Rightarrow> Inl (TJobNotFound jid) | Some cell \<Rightarrow> Inr (cells m ! cell))"

definition job_list :: "terminal_manager \<Rightarrow> background_job list" where
  "job_list m = map (\<lambda>(_, cell). cells m ! cell) (jobs m)"

definition job_kill :: "terminal_manager \<Rightarrow> string \<Rightarrow> terminal_manager \<times> (terminal_error + unit)" where
  "job_kill m jid =
     (case map_of (jobs m) jid of
        None \<Rightarrow> (m, Inl (TJobNotFound jid))
      | Some cell \<Rightarrow>
          (if bj_status (cells m ! cell) = BgRunning
           then (m\<lparr>cells := (cells m)[cell := (cells m ! cell)\<lparr>bj_status := BgTimedOut\<rparr>]\<rparr>, Inr ())
           else (m, Inr ())))"

section \<open>The manager as a machine\<close>

datatype term_event =
    TCreate "string option" "string option" string pty_faults "string option" "string option"
  | TReader string reader_event
  | TRead string
  | TKill string
  | TExecBackground string nat string
  | TTaskDone nat child_outcome
  | TJobKill string

fun term_step :: "(string \<Rightarrow> string) \<Rightarrow> (string \<Rightarrow> string) \<Rightarrow> terminal_manager \<Rightarrow> term_event \<Rightarrow> terminal_manager" where
  "term_step ulow strip m (TCreate es ed sid F sh dir) = fst (create_session es ed sid F m sh dir)"
| "term_step ulow strip m (TReader sid e) = (case map_of (sessions m) sid of
     None \<Rightarrow> m | Some s \<Rightarrow> m\<lparr>sessions := AList.update sid (reader_step s e) (sessions m)\<rparr>)"
| "term_step ulow strip m (TRead sid) = (case term_read m sid of Ret (m', _) \<Rightarrow> m' | Panic \<Rightarrow> m)"
| "term_step ulow strip m (TKill sid) = fst (term_kill m sid)"
| "term_step ulow strip m (TExecBackground jid now c) = fst (exec_background ulow jid now m c)"
| "term_step ulow strip m (TTaskDone cell child) = task_done strip cell child m"
| "term_step ulow strip m (TJobKill jid) = fst (job_kill m jid)"

definition cell_wf :: "background_job \<Rightarrow> bool" where
  "cell_wf j \<longleftrightarrow> (bj_result j = None \<longleftrightarrow> bj_status j \<in> {BgRunning, BgTimedOut})"

definition term_wf :: "terminal_manager \<Rightarrow> bool" where
  "term_wf m \<longleftrightarrow> (\<forall>j \<in> set (cells m). cell_wf j)
     \<and> (\<forall>(i, c) \<in> set (jobs m). c < length (cells m) \<and> bj_id (cells m ! c) = i)
     \<and> set (tasks m) \<subseteq> {..<length (cells m)} \<and> distinct (map fst (jobs m))
     \<and> (\<forall>c < length (cells m). c \<in> set (tasks m) \<longleftrightarrow> bj_result (cells m ! c) = None)"

lemma term_wf_new: "term_wf manager_new"
  by (simp add: term_wf_def manager_new_def)

lemma set_update_subset: "set (AList.update k v xs) \<subseteq> insert (k, v) (set xs)"
  by (induction xs) auto

lemma finish_job_simps:
  "ends_task child \<Longrightarrow> cell_wf (finish_job strip child j)"
  "ends_task child \<Longrightarrow> bj_result (finish_job strip child j) \<noteq> None"
  "bj_id (finish_job strip child j) = bj_id j"
  by (auto simp: finish_job_def cell_wf_def split: child_outcome.splits)

lemma exec_background_wf: "term_wf m \<Longrightarrow> term_wf (fst (exec_background ulow jid now m c))"
proof -
  assume wf: "term_wf m"
  let ?m = "m\<lparr>cells := cells m @ [BackgroundJob_new jid c now],
      jobs := AList.update jid (length (cells m)) (jobs m), tasks := tasks m @ [length (cells m)]\<rparr>"
  have "term_wf ?m"
    unfolding term_wf_def
  proof (intro conjI)
    show "\<forall>j \<in> set (cells ?m). cell_wf j"
      using wf by (auto simp: term_wf_def cell_wf_def BackgroundJob_new_def)
    show "\<forall>(i, k) \<in> set (jobs ?m). k < length (cells ?m) \<and> bj_id (cells ?m ! k) = i"
    proof
      fix e assume "e \<in> set (jobs ?m)"
      then have "e = (jid, length (cells m)) \<or> e \<in> set (jobs m)"
        using set_update_subset [of jid "length (cells m)" "jobs m"] by auto
      then show "case e of (i, k) \<Rightarrow> k < length (cells ?m) \<and> bj_id (cells ?m ! k) = i"
        using wf by (auto simp: term_wf_def nth_append BackgroundJob_new_def)
    qed
    show "set (tasks ?m) \<subseteq> {..<length (cells ?m)}" using wf by (auto simp: term_wf_def)
    show "distinct (map fst (jobs ?m))" using wf by (simp add: term_wf_def distinct_update)
    show "\<forall>k < length (cells ?m). k \<in> set (tasks ?m) \<longleftrightarrow> bj_result (cells ?m ! k) = None"
      using wf by (auto simp: term_wf_def nth_append BackgroundJob_new_def less_Suc_eq)
  qed
  then show ?thesis using wf by (auto simp: exec_background_def Let_def split: sum.split)
qed

lemma task_done_wf: "term_wf m \<Longrightarrow> term_wf (task_done strip k child m)"
proof (cases "k \<in> set (tasks m) \<and> ends_task child")
  case True
  assume wf: "term_wf m"
  have k: "k < length (cells m)" using wf True by (auto simp: term_wf_def)
  have "\<forall>j \<in> set ((cells m)[k := finish_job strip child (cells m ! k)]). cell_wf j"
    using wf finish_job_simps(1) True by (auto simp: term_wf_def dest: set_update_subset_insert [THEN subsetD])
  then show ?thesis using wf True k finish_job_simps(2,3) [where child = child and strip = strip and j = "cells m ! k"]
    by (auto simp: term_wf_def task_done_def nth_list_update)
next
  case False
  assume "term_wf m"
  with False show ?thesis by (auto simp: task_done_def)
qed

lemma job_kill_wf: "term_wf m \<Longrightarrow> term_wf (fst (job_kill m jid))"
proof (cases "\<exists>k. map_of (jobs m) jid = Some k \<and> bj_status (cells m ! k) = BgRunning")
  case True
  assume wf: "term_wf m"
  then obtain k where k: "map_of (jobs m) jid = Some k" "bj_status (cells m ! k) = BgRunning"
    using True by blast
  then have kl: "k < length (cells m)" using wf by (auto simp: term_wf_def dest!: map_of_SomeD)
  let ?j = "(cells m ! k)\<lparr>bj_status := BgTimedOut\<rparr>"
  have "cell_wf (cells m ! k)" using wf kl by (simp add: term_wf_def)
  then have j: "cell_wf ?j" using k(2) by (simp add: cell_wf_def)
  have "\<forall>x \<in> set ((cells m)[k := ?j]). cell_wf x"
    using wf j by (auto simp: term_wf_def dest: set_update_subset_insert [THEN subsetD])
  then show ?thesis using wf k kl by (auto simp: term_wf_def job_kill_def nth_list_update)
next
  case False
  assume "term_wf m"
  with False show ?thesis by (auto simp: job_kill_def split: option.split)
qed

lemma term_wf_sessions: "term_wf (m\<lparr>sessions := ss\<rparr>) = term_wf m"
  by (simp add: term_wf_def)

lemmas session_ops = create_session_def pty_kill_def term_kill_def term_read_def get_session_def

interpretation terminal: machine "term_step ulow strip" term_wf for ulow strip
proof
  fix m e assume wf: "term_wf m"
  show "term_wf (term_step ulow strip m e)"
  proof (cases e)
    case (TRead sid)
    then show ?thesis using wf
      by (cases "map_of (sessions m) sid") (auto simp: session_ops pty_read_def term_wf_sessions)
  qed (use wf in \<open>auto simp: session_ops term_wf_sessions exec_background_wf task_done_wf job_kill_wf Let_def
      split: sum.split option.split\<close>)
qed

text \<open>A finished cell never changes again, and cells are never dropped.\<close>

lemma finished_cell_step:
  assumes "term_wf m" "k < length (cells m)" "bj_result (cells m ! k) \<noteq> None"
  shows "k < length (cells (term_step ulow strip m e)) \<and> cells (term_step ulow strip m e) ! k = cells m ! k"
proof (cases e)
  case (TRead sid)
  then show ?thesis using assms(2)
    by (cases "map_of (sessions m) sid") (auto simp: session_ops pty_read_def)
next
  case (TTaskDone j child)
  have "j \<in> set (tasks m) \<Longrightarrow> j \<noteq> k" using assms by (auto simp: term_wf_def)
  then show ?thesis using assms(2) TTaskDone by (auto simp: task_done_def)
next
  case (TJobKill jid)
  have "cell_wf (cells m ! k)" using assms(1,2) by (simp add: term_wf_def)
  then have "bj_status (cells m ! k) \<noteq> BgRunning" using assms(3) by (auto simp: cell_wf_def)
  then show ?thesis using assms(2) TJobKill
    by (auto simp: job_kill_def split: option.split) (metis nth_list_update_neq)
qed (use assms(2) in \<open>auto simp: session_ops exec_background_def nth_append Let_def split: sum.split option.split\<close>)

fun starts_job :: "string \<Rightarrow> term_event \<Rightarrow> bool" where
  "starts_job jid (TExecBackground jid' _ _) = (jid' = jid)"
| "starts_job jid _ = False"

lemma jobs_step: "\<not> starts_job jid e \<Longrightarrow> map_of (jobs (term_step ulow strip m e)) jid = map_of (jobs m) jid"
proof (cases e)
  case (TRead sid)
  then show ?thesis by (cases "map_of (sessions m) sid") (auto simp: session_ops pty_read_def)
qed (auto simp: session_ops exec_background_def task_done_def job_kill_def Let_def update_conv'
    split: sum.split option.split)

lemma finished_job_run:
  assumes "term_wf m" "job_status m jid = Inr j" "bj_result j \<noteq> None"
    "\<forall>e \<in> set es. \<not> starts_job jid e"
  shows "job_status (foldl (term_step ulow strip) m es) jid = Inr j"
  using assms
proof (induction es arbitrary: m)
  case (Cons e es)
  let ?m = "term_step ulow strip m e"
  obtain k where k: "map_of (jobs m) jid = Some k" "cells m ! k = j"
    using Cons.prems(2) by (auto simp: job_status_def split: option.splits)
  then have kl: "k < length (cells m)" using Cons.prems(1) by (auto simp: term_wf_def dest!: map_of_SomeD)
  have "job_status ?m jid = Inr j"
    using finished_cell_step [OF Cons.prems(1) kl, of ulow strip e] jobs_step [of jid e ulow strip m] k
      Cons.prems(3,4) by (simp add: job_status_def)
  then show ?case using Cons.IH [of ?m] Cons.prems terminal.step_inv [of m ulow strip e] by simp
qed simp

section \<open>Properties\<close>



text \<open>Background jobs. In every reachable state each tracked job has a result exactly when it is
  completed or failed, and carries the identifier it is filed under; and once a job has a
  result, no later call and no other job's end changes what \<open>job_status\<close> says of it, until a new
  job takes its identifier.\<close>
theorem background_job_lifecycle:
  assumes m: "m = foldl (term_step ulow strip) manager_new es"
    and j: "job_status m jid = Inr j"
    and later: "\<forall>e \<in> set es'. \<not> starts_job jid e"
  shows "bj_id j = jid \<and> (bj_result j = None) = (bj_status j = BgRunning \<or> bj_status j = BgTimedOut)
    \<and> (bj_result j \<noteq> None \<longrightarrow> job_status (foldl (term_step ulow strip) m es') jid = Inr j)"
proof -
  have wf: "term_wf m" unfolding m by (rule terminal.run_inv [OF term_wf_new])
  obtain k where k: "map_of (jobs m) jid = Some k" "cells m ! k = j"
    using j by (auto simp: job_status_def split: option.splits)
  then have "k < length (cells m) \<and> bj_id (cells m ! k) = jid"
    using wf by (auto simp: term_wf_def dest!: map_of_SomeD)
  then have "bj_id j = jid" "cell_wf j" using wf k by (auto simp: term_wf_def)
  then show ?thesis using finished_job_run [OF wf j _ later] by (auto simp: cell_wf_def)
qed

lemma sample_job: "check_command ulow ''make'' = Inr ()"
proof -
  have t: "trim ''make'' = ''make''" by (rule trim_id) simp_all
  have "to_lowercase ulow ''make'' = map ascii_lower ''make''" by (rule to_lowercase_ascii) simp
  then have l: "to_lowercase ulow (trim ''make'') = ''make''" unfolding t by (simp add: ascii_lower_def)
  have "first_denied ''make'' DENYLIST = None"
    by (simp add: DENYLIST_def contains_def starts_with_def)
  then show ?thesis by (simp add: check_command_def l Let_def)
qed

theorem background_job_lifecycle_witness:
  "\<exists>j. job_status (foldl (term_step (\<lambda>c. c) id) manager_new
       [TExecBackground ''j'' 7 ''make'', TTaskDone 0 (Exited (Some 0) ''ok'' []), TJobKill ''j'']) ''j'' = Inr j
     \<and> bj_status j = BgCompleted"
proof -
  let ?m = "foldl (term_step (\<lambda>c. c) id) manager_new
      [TExecBackground ''j'' 7 ''make'', TTaskDone 0 (Exited (Some 0) ''ok'' [])]"
  have "\<exists>j. job_status ?m ''j'' = Inr j \<and> bj_status j = BgCompleted \<and> bj_result j \<noteq> None"
    by (simp add: exec_background_def sample_job manager_new_def task_done_def finish_job_def job_status_def
        BackgroundJob_new_def Let_def)
  then obtain j where j: "job_status ?m ''j'' = Inr j" "bj_status j = BgCompleted" "bj_result j \<noteq> None" by blast
  from background_job_lifecycle [OF refl j(1), of "[TJobKill ''j'']"] j show ?thesis by auto
qed

text \<open>\<open>job_kill\<close> only relabels. A running job is marked \<open>TimedOut\<close> without a result while its
  task keeps waiting for the child, and when the child exits the job becomes \<open>Completed\<close> with
  the child's result, as if it had never been killed.\<close>
theorem job_kill_only_relabels:
  assumes "term_wf m" "job_status m jid = Inr j" "bj_status j = BgRunning"
  shows "\<exists>m' cell. job_kill m jid = (m', Inr ()) \<and> tasks m' = tasks m \<and> cell \<in> set (tasks m')
    \<and> job_status m' jid = Inr (j\<lparr>bj_status := BgTimedOut\<rparr>) \<and> bj_result j = None
    \<and> job_status (task_done strip cell (Exited code out err) m') jid
       = Inr (j\<lparr>bj_status := BgCompleted, bj_result := Some \<lparr>exit_code = opt_or code (-1),
            stdout = strip out, stderr = strip err\<rparr>\<rparr>)"
proof -
  obtain k where k: "map_of (jobs m) jid = Some k" "cells m ! k = j"
    using assms(2) by (auto simp: job_status_def split: option.splits)
  then have kl: "k < length (cells m)" using assms(1) by (auto simp: term_wf_def dest!: map_of_SomeD)
  have "cell_wf j" using assms(1) k kl by (auto simp: term_wf_def)
  then have none: "bj_result j = None" using assms(3) by (simp add: cell_wf_def)
  then have "k \<in> set (tasks m)" using assms(1) k kl by (auto simp: term_wf_def)
  then show ?thesis using k kl assms(3) none
    by (auto simp: job_kill_def job_status_def task_done_def finish_job_def intro!: exI [of _ k])
qed

theorem job_kill_only_relabels_witness:
  "\<exists>m' cell j. job_kill (term_step (\<lambda>c. c) id manager_new (TExecBackground ''j'' 7 ''make'')) ''j'' = (m', Inr ())
     \<and> job_status (task_done id cell (Exited (Some 0) ''ok'' []) m') ''j'' = Inr j \<and> bj_status j = BgCompleted"
proof -
  let ?m = "term_step (\<lambda>c. c) id manager_new (TExecBackground ''j'' 7 ''make'')"
  have wf: "term_wf ?m" by (rule terminal.step_inv [OF term_wf_new])
  have "\<exists>j. job_status ?m ''j'' = Inr j \<and> bj_status j = BgRunning"
    by (simp add: exec_background_def sample_job manager_new_def job_status_def BackgroundJob_new_def Let_def)
  then obtain j where "job_status ?m ''j'' = Inr j" "bj_status j = BgRunning" by blast
  from job_kill_only_relabels [OF wf this, of id "Some 0" "''ok''" "[]"] show ?thesis by fastforce
qed

lemma newest_length: "length (newest s) \<le> OUTPUT_BUF_MAX"
  by (simp add: newest_def)

lemma push_output_ascii:
  assumes "is_ascii (output_buf s)" "is_ascii text" "\<not> poisoned s"
  shows "\<not> poisoned (push_output text s) \<and> reading (push_output text s) = reading s
    \<and> is_ascii (output_buf (push_output text s))"
proof -
  let ?b = "output_buf s @ text"
  have "i < length ?b \<Longrightarrow> \<not> is_cont (?b ! i)" for i
    using assms(1,2) nth_mem [of i ?b] by (auto simp: is_cont_def)
  then have "is_char_boundary ?b (length ?b - OUTPUT_BUF_MAX)"
    by (auto simp: is_char_boundary_def OUTPUT_BUF_MAX_def)
  then show ?thesis using assms
    by (auto simp: push_output_def Let_def dest: in_set_dropD)
qed

lemma ring_run:
  "\<not> poisoned s \<Longrightarrow> reading s \<Longrightarrow> output_buf s = newest all \<Longrightarrow>
   (let s' = foldl reader_step s (map ReadText texts) in
     (poisoned s' \<or> reading s' \<and> output_buf s' = newest (all @ concat texts))
     \<and> (is_ascii (output_buf s) \<and> (\<forall>t \<in> set texts. is_ascii t) \<longrightarrow> \<not> poisoned s'))"
proof (induction texts arbitrary: s all)
  case (Cons t texts)
  let ?s = "push_output t s"
  have stuck: "poisoned (foldl reader_step x (map ReadText ts)) = poisoned x" if "\<not> reading x" for x ts
    using that by (induction ts) auto
  have st: "reader_step s (ReadText t) = ?s" using Cons.prems by simp
  show ?case
  proof (cases "poisoned ?s")
    case True
    then have "\<not> reading ?s" using Cons.prems(1) by (auto simp: push_output_def Let_def split: if_splits)
    then show ?thesis using True stuck st push_output_ascii [of s t] Cons.prems(1) by (auto simp: Let_def)
  next
    case False
    then have "reading ?s" using Cons.prems(2) by (auto simp: push_output_def Let_def split: if_splits)
    note IH = Cons.IH [OF False this push_output_newest [OF Cons.prems(3) False]]
    have asc: "is_ascii (output_buf ?s)" if "is_ascii (output_buf s)" "is_ascii t"
      using that push_output_ascii [of s t] Cons.prems(1) by blast
    have run: "foldl reader_step s (map ReadText (t # texts)) = foldl reader_step ?s (map ReadText texts)"
      by (simp only: list.map foldl.simps st)
    show ?thesis unfolding run Let_def
      using IH [unfolded Let_def] asc by (simp only: concat.simps append_assoc list.set_intros) force
  qed
qed (simp add: Let_def)

text \<open>The output buffer of a terminal. Unless the reader thread has panicked, the buffer is the
  newest part of all the text read so far, at most 131072 bytes of it; and while the output is
  ASCII the thread never panics.\<close>
theorem ring_buffer:
  assumes "s = foldl reader_step (pty_new sh dir now) (map ReadText texts)"
  shows "(poisoned s \<or> pty_read s = Ret (s\<lparr>output_buf := []\<rparr>, newest (concat texts)))
    \<and> length (newest (concat texts)) \<le> 131072
    \<and> (poisoned s \<longrightarrow> (\<exists>t \<in> set texts. \<not> is_ascii t))"
  using ring_run [of "pty_new sh dir now" "[]" texts] newest_length [of "concat texts"] assms
  by (auto simp: pty_new_def newest_def pty_read_def OUTPUT_BUF_MAX_def Let_def)

theorem ring_buffer_witness:
  "\<exists>s'. pty_read (foldl reader_step (pty_new ''/bin/bash'' ''/'' 0) (map ReadText [''ab'', ''cd'']))
     = Ret (s', ''abcd'')"
proof -
  let ?s = "foldl reader_step (pty_new ''/bin/bash'' ''/'' 0) (map ReadText [''ab'', ''cd''])"
  have "\<forall>t \<in> set [''ab'', ''cd'']. is_ascii t" by simp
  then show ?thesis using ring_buffer [of ?s "''/bin/bash''" "''/''" 0 "[''ab'', ''cd'']"]
    by (auto simp: newest_def OUTPUT_BUF_MAX_def)
qed

lemma second_byte: "0 < n \<Longrightarrow> concat (replicate n [a, b]) ! 1 = b"
  by (cases n) simp_all

lemma push_poison:
  assumes "length t = OUTPUT_BUF_MAX" "t ! 1 = c"
  shows "is_cont c \<Longrightarrow>
    let s = foldl reader_step (pty_new sh dir now) [ReadText t, ReadText [x]]
    in poisoned s \<and> pty_is_alive s \<and> pty_read s = Panic"
proof -
  assume c: "is_cont c"
  have l: "length t = 131072" using assms(1) by (simp add: OUTPUT_BUF_MAX_def)
  have "\<not> is_char_boundary (t @ [x]) 1" using c assms(2) l by (simp add: is_char_boundary_def nth_append)
  then show ?thesis using l by (simp add: push_output_def pty_new_def pty_read_def pty_is_alive_def
      OUTPUT_BUF_MAX_def Let_def)
qed

text \<open>The buffer is cut by bytes: when the cut falls inside a character the reader thread
  panics with the lock held. The session then reports itself alive for ever and every later read
  panics. Two reads suffice: 131072 bytes of a two-byte character, and one more byte.\<close>
theorem ring_buffer_panics:
  "let s = foldl reader_step (pty_new sh dir now)
       [ReadText (concat (replicate 65536 [CHR 0xC3, CHR 0xA9])), ReadText ''a'']
   in poisoned s \<and> pty_is_alive s \<and> pty_read s = Panic
     \<and> valid_utf8 (concat (replicate 65536 [CHR 0xC3, CHR 0xA9]))"
proof -
  let ?e = "[CHR 0xC3, CHR 0xA9]" and ?n = "65536 :: nat"
  define t where "t = concat (replicate ?n ?e)"
  have len: "length t = OUTPUT_BUF_MAX" by (simp add: t_def length_concat sum_list_replicate OUTPUT_BUF_MAX_def)
  have "0 < ?n" by simp
  then have nth: "t ! 1 = CHR 0xA9" unfolding t_def by (rule second_byte)
  have "\<forall>g \<in> set (replicate ?n ?e). wf_char g \<and> utf8_width (hd g) = Some (length g)"
    by (simp add: wf_char_def is_cont_def utf8_width_def)
  then have valid: "valid_utf8 t" unfolding t_def by (rule valid_utf8_concat)
  show ?thesis using push_poison [OF len nth, of sh dir now "CHR ''a''"] valid
    unfolding t_def [symmetric] by (simp add: Let_def is_cont_def)
qed

end
