(* ===== verification/Hooks.thy ===== *)
theory Hooks
  imports Core "HOL-Library.Multiset"
begin

text \<open>
  The crate \<open>skynet-hooks\<close>: the registry of hooks and the dispatch of an event to its Before and
  After hooks (\<open>engine.rs\<close>, \<open>types.rs\<close>). A handler is any function of the outside world
  \<open>'w\<close> and the context; what it does to the world is threaded through.
\<close>

section \<open>Types\<close>

datatype hook_event =
    MessageReceived | MessageSent | ToolCall | ToolResult | AgentStart | AgentComplete
  | SessionStart | SessionEnd | LlmInput | LlmOutput | LlmError

datatype hook_timing = Before | After

datatype hook_action = Allow | Block string | Modify json

record hook_context =
  hc_event :: hook_event
  hc_payload :: json
  hc_user_id :: "string option"
  hc_session_key :: "string option"
  hc_channel :: "string option"
  hc_timestamp :: nat

definition HookContext_new :: "nat \<Rightarrow> hook_event \<Rightarrow> json \<Rightarrow> hook_context" where
  "HookContext_new now e payload = \<lparr>hc_event = e, hc_payload = payload, hc_user_id = None,
     hc_session_key = None, hc_channel = None, hc_timestamp = now\<rparr>"

record hook_result =
  hr_action :: hook_action
  hr_duration_ms :: nat

definition HookResult_allow :: "nat \<Rightarrow> hook_result" where
  "HookResult_allow ms = \<lparr>hr_action = Allow, hr_duration_ms = ms\<rparr>"

definition HookResult_block :: "string \<Rightarrow> nat \<Rightarrow> hook_result" where
  "HookResult_block reason ms = \<lparr>hr_action = Block reason, hr_duration_ms = ms\<rparr>"

record 'w hook_definition =
  h_name :: string
  h_event :: hook_event
  h_timing :: hook_timing
  h_handler :: "'w \<Rightarrow> hook_context \<Rightarrow> 'w \<times> hook_result"
  h_priority :: int

definition HookDefinition_new where
  "HookDefinition_new name e t handler = \<lparr>h_name = name, h_event = e, h_timing = t, h_handler = handler,
     h_priority = 0\<rparr>"

definition with_priority :: "'w hook_definition \<Rightarrow> int \<Rightarrow> 'w hook_definition" where
  "with_priority h p = h\<lparr>h_priority := p\<rparr>"

section \<open>The engine\<close>

type_synonym 'w hook_engine = "'w hook_definition list"

definition register :: "'w hook_definition \<Rightarrow> 'w hook_engine \<Rightarrow> 'w hook_engine" where
  "register h hooks = sort_key h_priority (hooks @ [h])"

definition unregister :: "string \<Rightarrow> 'w hook_engine \<Rightarrow> 'w hook_engine" where
  "unregister name hooks = filter (\<lambda>h. h_name h \<noteq> name) hooks"

text \<open>
  The Before chain. It returns the world, the context with its payload as mutated, the names
  logged as completed, and the action.
\<close>

fun before_loop ::
    "'w hook_definition list \<Rightarrow> 'w \<Rightarrow> hook_context \<Rightarrow> 'w \<times> hook_context \<times> string list \<times> hook_action" where
  "before_loop [] w ctx = (w, ctx, [], Allow)"
| "before_loop (h # hs) w ctx =
     (let (w', r) = h_handler h w ctx in
      case hr_action r of
        Block reason \<Rightarrow> (w', ctx, [h_name h], Block reason)
      | Modify payload \<Rightarrow>
          (let (w'', ctx', lg, a) = before_loop hs w' (ctx\<lparr>hc_payload := payload\<rparr>)
           in (w'', ctx', h_name h # lg, a))
      | Allow \<Rightarrow>
          (let (w'', ctx', lg, a) = before_loop hs w' ctx in (w'', ctx', h_name h # lg, a)))"

definition emit_before ::
    "'w hook_engine \<Rightarrow> 'w \<Rightarrow> hook_context \<Rightarrow> 'w \<times> hook_context \<times> string list \<times> hook_action" where
  "emit_before hooks w ctx =
     before_loop (filter (\<lambda>h. h_event h = hc_event ctx \<and> h_timing h = Before) hooks) w ctx"

text \<open>The After hooks: one task per hook, each with its own copy of the context.\<close>

definition emit_after :: "'w hook_engine \<Rightarrow> hook_context \<Rightarrow> ('w hook_definition \<times> hook_context) list" where
  "emit_after hooks ctx =
     map (\<lambda>h. (h, ctx)) (filter (\<lambda>h. h_event h = hc_event ctx \<and> h_timing h = After) hooks)"

text \<open>The task of an After hook runs the handler and drops its action.\<close>

definition after_task :: "'w hook_definition \<times> hook_context \<Rightarrow> 'w \<Rightarrow> 'w" where
  "after_task t w = fst (h_handler (fst t) w (snd t))"

definition emit ::
    "'w hook_engine \<Rightarrow> 'w \<Rightarrow> hook_context
      \<Rightarrow> 'w \<times> ('w hook_definition \<times> hook_context) list \<times> string list \<times> hook_result" where
  "emit hooks w ctx =
     (let (w', ctx', lg, action) = emit_before hooks w ctx in
      case action of
        Block reason \<Rightarrow> (w', [], lg, \<lparr>hr_action = action, hr_duration_ms = 0\<rparr>)
      | _ \<Rightarrow> (w', emit_after hooks ctx', lg, \<lparr>hr_action = action, hr_duration_ms = 0\<rparr>))"

section \<open>The registry refines a list in registration order\<close>

datatype 'w hook_op = Register "'w hook_definition" | Unregister string

fun hook_step :: "'w hook_engine \<Rightarrow> 'w hook_op \<Rightarrow> 'w hook_engine" where
  "hook_step hooks (Register h) = register h hooks"
| "hook_step hooks (Unregister n) = unregister n hooks"

fun spec_step :: "'w hook_definition list \<Rightarrow> 'w hook_op \<Rightarrow> 'w hook_definition list" where
  "spec_step hs (Register h) = hs @ [h]"
| "spec_step hs (Unregister n) = filter (\<lambda>h. h_name h \<noteq> n) hs"

lemma sort_key_snoc: "sort_key f (sort_key f xs @ [x]) = sort_key f (xs @ [x])"
proof (rule properties_for_sort_key)
  show "mset (sort_key f (xs @ [x])) = mset (sort_key f xs @ [x])" by simp
  show "sorted (map f (sort_key f (xs @ [x])))" by simp
  show "filter (\<lambda>y. f k = f y) (sort_key f (xs @ [x])) = filter (\<lambda>y. f k = f y) (sort_key f xs @ [x])" for k
  proof -
    have "filter (\<lambda>y. f k = f y) (sort_key f zs) = filter (\<lambda>y. f k = f y) zs" for zs
      using sort_key_stable [of f "f k" zs] by (simp add: eq_commute [of "f k"])
    then show ?thesis by (simp only: filter_append)
  qed
qed

lemma hook_step_refines: "hook_step (sort_key h_priority hs) op = sort_key h_priority (spec_step hs op)"
  by (cases op) (simp_all only: hook_step.simps spec_step.simps register_def unregister_def sort_key_snoc
      filter_sort)

lemma hook_run_refines:
  "foldl hook_step (sort_key h_priority hs) ops = sort_key h_priority (foldl spec_step hs ops)"
  by (induction ops arbitrary: hs) (simp_all add: hook_step_refines)

section \<open>The chain\<close>

lemma before_loop_append:
  "before_loop (xs @ ys) w ctx =
     (let (w', ctx', lg, a) = before_loop xs w ctx in
      if a = Allow then (let (w'', ctx'', lg', a') = before_loop ys w' ctx' in (w'', ctx'', lg @ lg', a'))
      else (w', ctx', lg, a))"
proof (induction xs arbitrary: w ctx)
  case (Cons h xs)
  then show ?case
    by (cases "hr_action (snd (h_handler h w ctx))") (auto simp: Let_def split: prod.splits)
qed (simp add: Let_def split: prod.splits)

lemma before_loop_action: "before_loop hs w ctx = (w', ctx', lg, a) \<Longrightarrow> (\<forall>p. a \<noteq> Modify p)
    \<and> (\<exists>p. ctx' = ctx\<lparr>hc_payload := p\<rparr>)"
proof (induction hs arbitrary: w ctx lg)
  case Nil
  then show ?case by (auto intro: exI [of _ "hc_payload ctx"])
next
  case (Cons h hs)
  show ?case
  proof (cases "hr_action (snd (h_handler h w ctx))")
    case Allow
    then show ?thesis using Cons by (auto simp: Let_def split: prod.splits)
  next
    case (Block r)
    then show ?thesis using Cons.prems by (auto simp: Let_def intro: exI [of _ "hc_payload ctx"] split: prod.splits)
  next
    case (Modify p)
    then show ?thesis using Cons by (fastforce simp: Let_def split: prod.splits)
  qed
qed

lemma before_loop_log: "before_loop hs w ctx = (w', ctx', lg, a) \<Longrightarrow>
    (a = Allow \<longrightarrow> lg = map h_name hs) \<and> lg = take (length lg) (map h_name hs)"
proof (induction hs arbitrary: w ctx lg)
  case (Cons h hs)
  show ?case
  proof (cases "hr_action (snd (h_handler h w ctx))")
    case (Block r)
    then show ?thesis using Cons.prems by (auto simp: Let_def split: prod.splits)
  qed (use Cons in \<open>fastforce simp: Let_def split: prod.splits\<close>)+
qed simp

section \<open>Properties\<close>

text \<open>The registry implements its contract: after any registrations and removals the hooks are
  the registered ones that were not removed, in order of priority, and in order of
  registration within one priority.\<close>
theorem registry_refines:
  "foldl hook_step [] ops = sort_key h_priority (foldl spec_step [] ops)"
  using hook_run_refines [of "[]" ops] by simp


definition sample_hook :: "string \<Rightarrow> hook_timing \<Rightarrow> hook_action \<Rightarrow> int \<Rightarrow> nat hook_definition" where
  "sample_hook n t a p = \<lparr>h_name = n, h_event = ToolCall, h_timing = t,
     h_handler = (\<lambda>w _. (w + 1, \<lparr>hr_action = a, hr_duration_ms = 0\<rparr>)), h_priority = p\<rparr>"


end
