(* ===== verification/Channels.thy ===== *)
theory Channels
  imports Prelude "HOL-Library.AList" "HOL-Library.Multiset"
begin

text \<open>
  The crate \<open>skynet-channels\<close>: the interface of a channel adapter (\<open>channel.rs\<close>, \<open>types.rs\<close>) and
  the manager with its reconnect backoff (\<open>manager.rs\<close>). An adapter is the record of its
  operations over an outside world \<open>'w\<close>.
\<close>

section \<open>Types\<close>

datatype channel_error =
    ConnectionFailed string | SendFailed string | ChAuthFailed string | ChTimeout nat | ConfigError string

datatype channel_status = Connected | Connecting | Disconnected | ChannelErrorStatus string

datatype message_format = PlainText | Markdown | Html

record outbound_message =
  om_channel :: string
  om_recipient_id :: string
  om_content :: string
  om_format :: message_format

record 'w channel_adapter =
  ch_name :: string
  ch_connect :: "'w \<Rightarrow> 'w \<times> (channel_error + unit)"
  ch_disconnect :: "'w \<Rightarrow> 'w \<times> (channel_error + unit)"
  ch_send :: "'w \<Rightarrow> outbound_message \<Rightarrow> 'w \<times> (channel_error + unit)"
  ch_status :: "'w \<Rightarrow> channel_status"

section \<open>Backoff\<close>

definition BACKOFF_BASE_SECS :: nat where "BACKOFF_BASE_SECS = 5"
definition BACKOFF_MAX_SECS :: nat where "BACKOFF_MAX_SECS = 300"
definition MAX_ATTEMPTS :: nat where "MAX_ATTEMPTS = 10"

text \<open>
  A tenth of the delay in floating point, truncated: for the delays the loop uses (5 to 300)
  this is the integer quotient by ten.
\<close>

definition jitter_secs :: "nat \<Rightarrow> nat \<Rightarrow> nat" where
  "jitter_secs nanos base_secs =
     (let max_jitter = base_secs div 10 in if max_jitter = 0 then 0 else nanos mod max_jitter)"

text \<open>
  The retry loop from \<open>attempt\<close> on, with the remaining attempts as the recursion argument. It
  returns the world, the sleeps in seconds, and the result; \<open>clock\<close> gives the nanoseconds that
  attempt reads.
\<close>

fun backoff_loop ::
    "'w channel_adapter \<Rightarrow> (nat \<Rightarrow> nat) \<Rightarrow> nat \<Rightarrow> nat \<Rightarrow> nat \<Rightarrow> 'w \<Rightarrow> 'w \<times> nat list \<times> (channel_error + unit) outcome" where
  "backoff_loop ch clock 0 attempt delay w = (w, [], Panic)"
| "backoff_loop ch clock (Suc left) attempt delay w =
     (let (w', r) = ch_connect ch w in
      case r of
        Inr _ \<Rightarrow> (w', [], Ret (Inr ()))
      | Inl e \<Rightarrow>
          if attempt = MAX_ATTEMPTS then (w', [], Ret (Inl e))
          else
            (let pause = delay + jitter_secs (clock attempt) delay;
                 (w'', pauses, res) = backoff_loop ch clock left (attempt + 1)
                   (min (delay * 2) BACKOFF_MAX_SECS) w'
             in (w'', pause # pauses, res)))"

definition connect_with_backoff ::
    "'w channel_adapter \<Rightarrow> (nat \<Rightarrow> nat) \<Rightarrow> 'w \<Rightarrow> 'w \<times> nat list \<times> (channel_error + unit) outcome" where
  "connect_with_backoff ch clock w = backoff_loop ch clock MAX_ATTEMPTS 1 BACKOFF_BASE_SECS w"

section \<open>The manager\<close>

type_synonym 'w channel_manager = "(string \<times> 'w channel_adapter) list"

definition register_channel :: "'w channel_adapter \<Rightarrow> 'w channel_manager \<Rightarrow> 'w channel_manager" where
  "register_channel ch m = AList.update (ch_name ch) ch m"

fun connect_all :: "'w channel_manager \<Rightarrow> (nat \<Rightarrow> nat) \<Rightarrow> 'w \<Rightarrow> 'w" where
  "connect_all [] clock w = w"
| "connect_all ((name, ch) # m) clock w = connect_all m clock (fst (connect_with_backoff ch clock w))"

fun disconnect_all :: "'w channel_manager \<Rightarrow> 'w \<Rightarrow> 'w" where
  "disconnect_all [] w = w"
| "disconnect_all ((name, ch) # m) w = disconnect_all m (fst (ch_disconnect ch w))"

definition get_channel :: "'w channel_manager \<Rightarrow> string \<Rightarrow> 'w channel_adapter option" where
  "get_channel m name = map_of m name"

definition statuses :: "'w channel_manager \<Rightarrow> 'w \<Rightarrow> (string \<times> channel_status) list" where
  "statuses m w = sort_key fst (map (\<lambda>(name, ch). (name, ch_status ch w)) m)"

section \<open>What the loop does\<close>

text \<open>The worlds before each attempt, and the nominal delays.\<close>

fun world_at :: "'w channel_adapter \<Rightarrow> 'w \<Rightarrow> nat \<Rightarrow> 'w" where
  "world_at ch w 0 = w"
| "world_at ch w (Suc n) = world_at ch (fst (ch_connect ch w)) n"

definition attempt_ok :: "'w channel_adapter \<Rightarrow> 'w \<Rightarrow> nat \<Rightarrow> bool" where
  "attempt_ok ch w n = (\<exists>u. snd (ch_connect ch (world_at ch w n)) = Inr u)"

fun nominal :: "nat \<Rightarrow> nat \<Rightarrow> nat" where
  "nominal d 0 = d"
| "nominal d (Suc n) = nominal (min (d * 2) BACKOFF_MAX_SECS) n"

lemma jitter_bound: "jitter_secs nanos d \<le> d div 10"
  by (auto simp: jitter_secs_def Let_def less_imp_le)

lemma backoff_success:
  assumes "n \<le> left" "attempt + n < MAX_ATTEMPTS + 1" "left = MAX_ATTEMPTS - attempt"
    "\<forall>i < n. \<not> attempt_ok ch w i" "attempt_ok ch w n"
  shows "\<exists>pauses. backoff_loop ch clock (Suc left) attempt d w
      = (world_at ch w (Suc n), pauses, Ret (Inr ())) \<and> length pauses = n
      \<and> (\<forall>i < n. nominal d i \<le> pauses ! i \<and> pauses ! i \<le> nominal d i + nominal d i div 10)"
  using assms
proof (induction n arbitrary: left attempt d w)
  case 0
  then show ?case by (auto simp: attempt_ok_def split: prod.splits)
next
  case (Suc n)
  obtain w1 r where c: "ch_connect ch w = (w1, r)" by (cases "ch_connect ch w")
  have "\<not> attempt_ok ch w 0" using Suc.prems(4) by blast
  then obtain e where r: "r = Inl e" using c by (cases r) (auto simp: attempt_ok_def)
  have shift: "attempt_ok ch w1 i = attempt_ok ch w (Suc i)" for i using c by (simp add: attempt_ok_def)
  obtain left' where left: "left = Suc left'" using Suc.prems(1) by (cases left) auto
  let ?d = "min (d * 2) BACKOFF_MAX_SECS"
  have ne: "attempt \<noteq> MAX_ATTEMPTS" using Suc.prems(2) by simp
  have ih: "\<exists>pauses. backoff_loop ch clock (Suc left') (attempt + 1) ?d w1
      = (world_at ch w1 (Suc n), pauses, Ret (Inr ())) \<and> length pauses = n
      \<and> (\<forall>i < n. nominal ?d i \<le> pauses ! i \<and> pauses ! i \<le> nominal ?d i + nominal ?d i div 10)"
    using Suc.prems left shift by (intro Suc.IH) auto
  then obtain pauses where p: "backoff_loop ch clock (Suc left') (attempt + 1) ?d w1
      = (world_at ch w1 (Suc n), pauses, Ret (Inr ()))" "length pauses = n"
      "\<forall>i < n. nominal ?d i \<le> pauses ! i \<and> pauses ! i \<le> nominal ?d i + nominal ?d i div 10" by blast
  let ?p = "(d + jitter_secs (clock attempt) d) # pauses"
  have "backoff_loop ch clock (Suc left) attempt d w = (world_at ch w (Suc (Suc n)), ?p, Ret (Inr ()))"
    using c r ne p(1) left by (simp add: Let_def)
  moreover have "nominal d i \<le> ?p ! i \<and> ?p ! i \<le> nominal d i + nominal d i div 10" if "i < Suc n" for i
    using that p(3) jitter_bound [of "clock attempt" d] by (cases i) auto
  ultimately show ?case using p(2) by (intro exI [of _ ?p]) simp
qed

lemma backoff_failure:
  assumes "attempt + left = MAX_ATTEMPTS" "\<forall>i \<le> left. \<not> attempt_ok ch w i"
  shows "\<exists>pauses e. backoff_loop ch clock (Suc left) attempt d w
      = (world_at ch w (Suc left), pauses, Ret (Inl e)) \<and> length pauses = left
      \<and> snd (ch_connect ch (world_at ch w left)) = Inl e
      \<and> (\<forall>i < left. nominal d i \<le> pauses ! i \<and> pauses ! i \<le> nominal d i + nominal d i div 10)"
  using assms
proof (induction left arbitrary: attempt d w)
  case 0
  then have "\<not> attempt_ok ch w 0" by blast
  then obtain e where "snd (ch_connect ch w) = Inl e" by (cases "snd (ch_connect ch w)") (auto simp: attempt_ok_def)
  with 0 show ?case by (auto split: prod.splits)
next
  case (Suc left)
  obtain w1 r where c: "ch_connect ch w = (w1, r)" by (cases "ch_connect ch w")
  have "\<not> attempt_ok ch w 0" using Suc.prems(2) by blast
  then obtain e0 where r: "r = Inl e0" using c by (cases r) (auto simp: attempt_ok_def)
  have shift: "attempt_ok ch w1 i = attempt_ok ch w (Suc i)" for i using c by (simp add: attempt_ok_def)
  let ?d = "min (d * 2) BACKOFF_MAX_SECS"
  have ne: "attempt \<noteq> MAX_ATTEMPTS" using Suc.prems(1) by simp
  have "\<exists>pauses e. backoff_loop ch clock (Suc left) (attempt + 1) ?d w1
      = (world_at ch w1 (Suc left), pauses, Ret (Inl e)) \<and> length pauses = left
      \<and> snd (ch_connect ch (world_at ch w1 left)) = Inl e
      \<and> (\<forall>i < left. nominal ?d i \<le> pauses ! i \<and> pauses ! i \<le> nominal ?d i + nominal ?d i div 10)"
    using Suc.prems shift by (intro Suc.IH) auto
  then obtain pauses e where p: "backoff_loop ch clock (Suc left) (attempt + 1) ?d w1
      = (world_at ch w1 (Suc left), pauses, Ret (Inl e))" "length pauses = left"
      "snd (ch_connect ch (world_at ch w1 left)) = Inl e"
      "\<forall>i < left. nominal ?d i \<le> pauses ! i \<and> pauses ! i \<le> nominal ?d i + nominal ?d i div 10" by blast
  let ?p = "(d + jitter_secs (clock attempt) d) # pauses"
  have "backoff_loop ch clock (Suc (Suc left)) attempt d w = (world_at ch w (Suc (Suc left)), ?p, Ret (Inl e))"
    using c r ne p(1) by (simp add: Let_def)
  moreover have "nominal d i \<le> ?p ! i \<and> ?p ! i \<le> nominal d i + nominal d i div 10" if "i < Suc left" for i
    using that p(4) jitter_bound [of "clock attempt" d] by (cases i) auto
  ultimately show ?case using p(2,3) c by (intro exI [of _ ?p] exI [of _ e]) simp
qed

lemma nominal_eq: "d \<le> 300 \<Longrightarrow> nominal d i = min (d * 2 ^ i) 300"
proof (induction i arbitrary: d)
  case (Suc i)
  have one: "(1::nat) \<le> 2 ^ i" by simp
  show ?case
  proof (cases "d * 2 \<le> 300")
    case True
    then show ?thesis using Suc.IH [of "d * 2"] by (simp add: BACKOFF_MAX_SECS_def mult.assoc)
  next
    case False
    then have "300 * 1 \<le> d * 2 * 2 ^ i" using one by (intro mult_le_mono) auto
    moreover have "300 * 1 \<le> 300 * (2::nat) ^ i" using one by (intro mult_le_mono) auto
    moreover have "d * 2 ^ Suc i = d * 2 * 2 ^ i" by simp
    ultimately have "min (d * 2 ^ Suc i) 300 = 300" "min (300 * 2 ^ i) (300::nat) = 300" by linarith+
    then show ?thesis using False Suc.IH [of 300] by (simp add: BACKOFF_MAX_SECS_def)
  qed
qed simp

lemma distinct_keys_sort: "distinct (map fst (sort_key f xs)) = distinct (map fst xs)"
proof -
  have "mset (map fst (sort_key f xs)) = mset (map fst xs)" by simp
  then show ?thesis by (rule mset_eq_imp_distinct_iff)
qed

lemma map_of_sort_key: "distinct (map fst xs) \<Longrightarrow> map_of (sort_key f xs) = map_of xs"
  by (subst map_of_inject_set) (simp_all add: distinct_keys_sort del: map_map)

lemma register_distinct:
  "distinct (map fst m) \<Longrightarrow> distinct (map fst (foldl (\<lambda>m ch. register_channel ch m) m chs))"
proof (induction chs arbitrary: m)
  case (Cons c chs)
  have "distinct (map fst (register_channel c m))"
    using Cons.prems unfolding register_channel_def by (rule distinct_update)
  from Cons.IH [OF this] show ?case by simp
qed simp

lemma map_of_registered:
  "map_of (foldl (\<lambda>m ch. register_channel ch m) m chs) n
     = (case List.find (\<lambda>ch. ch_name ch = n) (rev chs) of Some ch \<Rightarrow> Some ch | None \<Rightarrow> map_of m n)"
proof (induction chs arbitrary: m)
  case (Cons c chs)
  then show ?case by (auto simp: register_channel_def update_conv' tbl_find_append split: option.splits)
qed simp

section \<open>Properties\<close>

text \<open>Reconnecting. The loop always returns, after at most ten attempts and never right after
  a failure without a pause. If an attempt among the first ten succeeds, it stops at the first
  such attempt with success; otherwise it makes exactly ten and reports the error of the last.
  The pause after failure \<open>i\<close> (from 0) is the nominal delay 5, 10, 20, .. capped at 300 seconds,
  plus at most a tenth of it.\<close>
theorem backoff_outcome:
  assumes "r = connect_with_backoff ch clock w" and "first = List.find (attempt_ok ch w) [0..<10]"
  shows "fst r = world_at ch w (case first of Some n \<Rightarrow> n + 1 | None \<Rightarrow> 10)
    \<and> length (fst (snd r)) = (case first of Some n \<Rightarrow> n | None \<Rightarrow> 9)
    \<and> (case first of Some n \<Rightarrow> snd (snd r) = Ret (Inr ())
       | None \<Rightarrow> snd (snd r) = Ret (snd (ch_connect ch (world_at ch w 9))))
    \<and> (\<forall>i < length (fst (snd r)). let d = min (5 * 2 ^ i) 300 in
         d \<le> fst (snd r) ! i \<and> fst (snd r) ! i \<le> d + d div 10)"
proof -
  have nom: "nominal 5 i = min (5 * 2 ^ i) 300" for i
  proof -
    show ?thesis using nominal_eq [of 5 i] by simp
  qed
  have conn: "connect_with_backoff ch clock w = backoff_loop ch clock (Suc 9) 1 5 w"
    by (simp only: connect_with_backoff_def MAX_ATTEMPTS_def BACKOFF_BASE_SECS_def) simp
  show ?thesis
  proof (cases first)
    case None
    then have "\<forall>i \<le> 9. \<not> attempt_ok ch w i" using assms(2) by (auto simp: find_None_iff)
    with backoff_failure [of 1 9 ch w clock 5] obtain pauses e where
      "backoff_loop ch clock (Suc 9) 1 5 w = (world_at ch w (Suc 9), pauses, Ret (Inl e))"
      "length pauses = 9" "snd (ch_connect ch (world_at ch w 9)) = Inl e"
      "\<forall>i < 9. nominal 5 i \<le> pauses ! i \<and> pauses ! i \<le> nominal 5 i + nominal 5 i div 10"
      by (auto simp: MAX_ATTEMPTS_def)
    then show ?thesis unfolding assms(1) conn using None nom
      by (simp add: Let_def del: world_at.simps backoff_loop.simps)
  next
    case (Some n)
    then obtain i where i: "i < 10" "n = [0..<10] ! i" "attempt_ok ch w n" "\<forall>j < i. \<not> attempt_ok ch w ([0..<10] ! j)"
      using assms(2) by (auto simp: find_Some_iff)
    then have n: "n < 10" "\<forall>j < n. \<not> attempt_ok ch w j" by auto
    have "\<exists>pauses. backoff_loop ch clock (Suc 9) 1 5 w = (world_at ch w (Suc n), pauses, Ret (Inr ()))
        \<and> length pauses = n
        \<and> (\<forall>i < n. nominal 5 i \<le> pauses ! i \<and> pauses ! i \<le> nominal 5 i + nominal 5 i div 10)"
      using n i(3) by (intro backoff_success) (auto simp: MAX_ATTEMPTS_def)
    then obtain pauses where
      "backoff_loop ch clock (Suc 9) 1 5 w = (world_at ch w (Suc n), pauses, Ret (Inr ()))"
      "length pauses = n"
      "\<forall>i < n. nominal 5 i \<le> pauses ! i \<and> pauses ! i \<le> nominal 5 i + nominal 5 i div 10" by blast
    then show ?thesis unfolding assms(1) conn using Some nom
      by (simp add: Let_def del: world_at.simps backoff_loop.simps)
  qed
qed

definition flaky :: "nat \<Rightarrow> nat channel_adapter" where
  "flaky n = \<lparr>ch_name = ''flaky'',
     ch_connect = (\<lambda>w. (w + 1, if w < n then Inl (ConnectionFailed []) else Inr ())),
     ch_disconnect = (\<lambda>w. (w, Inr ())), ch_send = (\<lambda>w _. (w, Inr ())), ch_status = (\<lambda>_. Connected)\<rparr>"

theorem backoff_outcome_witness:
  "snd (snd (connect_with_backoff (flaky 2) (\<lambda>_. 7) 0)) = Ret (Inr ())
   \<and> length (fst (snd (connect_with_backoff (flaky 2) (\<lambda>_. 7) 0))) = 2
   \<and> length (fst (snd (connect_with_backoff (flaky 50) (\<lambda>_. 7) 0))) = 9"
proof -
  have w: "world_at (flaky k) v n = v + n" for k v n
    by (induction n arbitrary: v) (simp_all add: flaky_def)
  have ok: "attempt_ok (flaky k) 0 n = (k \<le> n)" for k n
    by (auto simp: attempt_ok_def w) (auto simp: flaky_def split: if_splits)
  have "List.find (attempt_ok (flaky 2) 0) [0..<10] = Some 2"
    "List.find (attempt_ok (flaky 50) 0) [0..<10] = None"
    by (simp_all add: ok upt_rec)
  with backoff_outcome [OF refl refl, of "flaky 2" "\<lambda>_. 7" 0] backoff_outcome [OF refl refl, of "flaky 50" "\<lambda>_. 7" 0]
  show ?thesis by simp
qed

text \<open>The registry of channels. Whatever the order of registrations, \<open>statuses\<close> lists every
  registered name once, in increasing order, with the status of the adapter registered last
  under that name.\<close>
theorem statuses_complete:
  "let m = foldl (\<lambda>m ch. register_channel ch m) [] chs in
     sorted (map fst (statuses m w)) \<and> distinct (map fst (statuses m w))
     \<and> (\<forall>n. map_of (statuses m w) n
          = map_option (\<lambda>ch. ch_status ch w) (List.find (\<lambda>ch. ch_name ch = n) (rev chs)))"
proof -
  let ?m = "foldl (\<lambda>m ch. register_channel ch m) [] chs"
  have d: "distinct (map fst ?m)" using register_distinct [of "[]" chs] by simp
  let ?ss = "map (\<lambda>(name, ch). (name, ch_status ch w)) ?m"
  have "map fst ?ss = map fst ?m" by auto
  then have ds: "distinct (map fst ?ss)" using d by metis
  have "map_of (statuses ?m w) n = map_of ?ss n" for n
    unfolding statuses_def by (simp only: map_of_sort_key [OF ds])
  moreover have "map_of (map (\<lambda>(name, ch). (name, ch_status ch w)) ?m) n
      = map_option (\<lambda>ch. ch_status ch w) (map_of ?m n)" for n
    by (simp add: map_of_map comp_def)
  moreover have "distinct (map fst (statuses ?m w))" "sorted (map fst (statuses ?m w))"
    unfolding statuses_def distinct_keys_sort using ds by simp_all
  ultimately show ?thesis using map_of_registered [of "[]" chs]
    unfolding Let_def by (auto split: option.splits)
qed

end
