(* ===== verification/Discord.thy ===== *)
theory Discord
  imports Core
begin

text \<open>
  The crate \<open>skynet-discord\<close>: splitting a reply into messages (\<open>send.rs\<close>), which messages the bot
  answers and under which session (\<open>handler.rs\<close>), and the delivery of reminders
  (\<open>proactive.rs\<close>). Calls of the Discord library are arguments.
\<close>

section \<open>Splitting a reply\<close>

definition CHUNK_MAX :: nat where "CHUNK_MAX = 1950"

definition split_at :: "string \<Rightarrow> nat" where
  "split_at window =
     (case rfind_char (CHR 0x0A) window of
        Some i \<Rightarrow> i
      | None \<Rightarrow> (case rfind_char (CHR '' '') window of Some i \<Rightarrow> i | None \<Rightarrow> CHUNK_MAX))"

text \<open>
  The loop and what follows it. Slicing off a character boundary is a panic; a loop that does
  not end is the value None.
\<close>

partial_function (option) split_loop :: "string \<Rightarrow> string list outcome option" where
  "split_loop remaining =
     (if length remaining \<le> CHUNK_MAX
      then Some (Ret (if remaining = [] then [] else [remaining]))
      else if \<not> is_char_boundary remaining CHUNK_MAX then Some Panic
      else Option.bind (split_loop (trim_start (drop (split_at (take CHUNK_MAX remaining)) remaining)))
        (\<lambda>r. Some (bind_outcome r (\<lambda>cs. Ret (take (split_at (take CHUNK_MAX remaining)) remaining # cs)))))"

definition split_chunks :: "string \<Rightarrow> string list outcome option" where
  "split_chunks text = (if length text \<le> CHUNK_MAX then Some (Ret [text]) else split_loop text)"

text \<open>Sending stops at the first message that fails.\<close>

fun say_all :: "(string \<Rightarrow> string option) \<Rightarrow> string list \<Rightarrow> string list \<times> (string + unit)" where
  "say_all say [] = ([], Inr ())"
| "say_all say (c # cs) = (case say c of
     Some e \<Rightarrow> ([c], Inl e)
   | None \<Rightarrow> (let (sent, r) = say_all say cs in (c # sent, r)))"

definition send_chunked :: "(string \<Rightarrow> string option) \<Rightarrow> string \<Rightarrow> (string list \<times> (string + unit)) outcome option" where
  "send_chunked say text =
     map_option (\<lambda>r. bind_outcome r (\<lambda>cs. Ret (say_all say cs))) (split_chunks text)"

lemma split_at_cases:
  assumes "length w = CHUNK_MAX"
  shows "split_at w \<le> CHUNK_MAX \<and> (split_at w = CHUNK_MAX \<or>
    (split_at w < CHUNK_MAX \<and> w ! split_at w \<in> {CHR 0x0A, CHR '' ''}))"
proof -
  have "rfind_char x w = Some i \<Longrightarrow> i < length w \<and> w ! i = x" for x i
    using rfind_char_Some [of x w i] by auto
  then show ?thesis using assms by (auto simp: split_at_def intro: less_imp_le split: option.split)
qed

text \<open>One round: the rest is shorter and valid, and what lies between is white space.\<close>

definition blank :: "string \<Rightarrow> bool" where
  "blank s \<longleftrightarrow> (\<exists>gs. s = concat gs \<and> (\<forall>g \<in> set gs. is_ws g))"

lemma split_round:
  assumes v: "valid_utf8 s" and long: "CHUNK_MAX < length s" and b: "is_char_boundary s CHUNK_MAX"
  defines "k \<equiv> split_at (take CHUNK_MAX s)"
  defines "rest \<equiv> trim_start (drop k s)"
  shows "valid_utf8 rest" "length rest < length s" "length (take k s) \<le> CHUNK_MAX"
    "\<exists>gap. blank gap \<and> s = take k s @ gap @ rest"
proof -
  have lw: "length (take CHUNK_MAX s) = CHUNK_MAX" using long by simp
  note k = split_at_cases [OF lw, folded k_def]
  have kl: "k \<le> length s" using k long by auto
  have nth: "k < CHUNK_MAX \<Longrightarrow> s ! k \<in> {CHR 0x0A, CHR '' ''}" using k by auto
  have kb: "is_char_boundary s k"
  proof (cases "k < CHUNK_MAX")
    case True
    then show ?thesis using nth long by (auto simp: is_char_boundary_def is_cont_def)
  next
    case False
    then show ?thesis using k b by simp
  qed
  have vd: "valid_utf8 (drop k s)" by (rule valid_split(2) [OF v kb kl])
  then show "valid_utf8 rest" unfolding rest_def by (rule trim_start_valid)
  show "length (take k s) \<le> CHUNK_MAX" using k by auto
  show "length rest < length s"
  proof (cases "k = 0")
    case True
    have "s \<noteq> []" using long by auto
    then have "hd s = s ! 0" by (rule hd_conv_nth)
    then have "is_ws [hd (drop k s)]" "drop k s \<noteq> []"
      using True nth long by (auto simp: is_ws_def white_space_def CHUNK_MAX_def)
    then show ?thesis using trim_start_shorter [OF vd] unfolding rest_def using True by simp
  next
    case False
    then show ?thesis using length_trim_start_le [of "drop k s"] long unfolding rest_def by simp
  qed
  have "blank (concat (takeWhile is_ws (chars (drop k s))))"
    unfolding blank_def by (auto dest: set_takeWhileD)
  moreover have "s = take k s @ concat (takeWhile is_ws (chars (drop k s))) @ rest"
    using trim_start_split [of "drop k s"] unfolding rest_def by (metis append_take_drop_id)
  ultimately show "\<exists>gap. blank gap \<and> s = take k s @ gap @ rest" by blast
qed

text \<open>The text is its chunks with white space after each.\<close>

fun weave :: "string list \<Rightarrow> string list \<Rightarrow> string" where
  "weave (c # cs) (g # gs) = c @ g @ weave cs gs"
| "weave _ _ = []"

lemma split_loop_result:
  assumes "valid_utf8 s"
  shows "\<exists>r. split_loop s = Some r \<and> (\<forall>cs. r = Ret cs \<longrightarrow> (\<forall>c \<in> set cs. length c \<le> CHUNK_MAX)
     \<and> (\<exists>gaps. length gaps = length cs \<and> (\<forall>g \<in> set gaps. blank g) \<and> s = weave cs gaps))"
  using assms
proof (induction "length s" arbitrary: s rule: less_induct)
  case less
  have blank0: "blank []" unfolding blank_def by (rule exI [of _ "[]"]) simp
  consider "length s \<le> CHUNK_MAX" | "CHUNK_MAX < length s" "\<not> is_char_boundary s CHUNK_MAX"
    | "CHUNK_MAX < length s" "is_char_boundary s CHUNK_MAX" by linarith
  then show ?case
  proof cases
    case 1
    then show ?thesis using blank0 by (auto simp: split_loop.simps [of s] intro: exI [of _ "[[]]"])
  next
    case 2
    then show ?thesis by (simp add: split_loop.simps [of s])
  next
    case 3
    let ?k = "split_at (take CHUNK_MAX s)"
    let ?rest = "trim_start (drop ?k s)"
    note round = split_round [OF less.prems 3]
    obtain r where r: "split_loop ?rest = Some r" "\<And>cs. r = Ret cs \<Longrightarrow> (\<forall>c \<in> set cs. length c \<le> CHUNK_MAX)
       \<and> (\<exists>gaps. length gaps = length cs \<and> (\<forall>g \<in> set gaps. blank g) \<and> ?rest = weave cs gaps)"
      using less.hyps [OF round(2,1)] by blast
    obtain gap where gap: "blank gap" "s = take ?k s @ gap @ ?rest" using round(4) by blast
    have e: "split_loop s = Some (bind_outcome r (\<lambda>cs. Ret (take ?k s # cs)))"
      using 3 r(1) by (simp add: split_loop.simps [of s])
    show ?thesis
    proof (cases r)
      case Panic
      then show ?thesis using e by simp
    next
      case (Ret cs)
      obtain gaps where g: "length gaps = length cs" "\<forall>g \<in> set gaps. blank g" "?rest = weave cs gaps"
        using r(2) [OF Ret] by blast
      have "s = weave (take ?k s # cs) (gap # gaps)" using gap(2) g(3) by simp
      then show ?thesis using e Ret r(2) [OF Ret] round(3) gap(1) g(1,2)
        by (intro exI [of _ "Ret (take ?k s # cs)"]) (auto intro!: exI [of _ "gap # gaps"])
    qed
  qed
qed

lemma split_loop_ascii:
  assumes "is_ascii s"
  shows "\<exists>cs. split_loop s = Some (Ret cs)"
  using assms
proof (induction "length s" arbitrary: s rule: less_induct)
  case less
  have wf: "valid_utf8 s"
    using less.prems chars_ascii [OF less.prems] by (auto simp: valid_utf8_def utf8_width_def Let_def)
  show ?case
  proof (cases "length s \<le> CHUNK_MAX")
    case True
    then show ?thesis by (simp add: split_loop.simps [of s])
  next
    case False
    then have "(of_char (s ! CHUNK_MAX) :: nat) < 128" using less.prems by simp
    then have b: "is_char_boundary s CHUNK_MAX"
      using False by (simp add: is_char_boundary_def is_cont_def)
    let ?rest = "trim_start (drop (split_at (take CHUNK_MAX s)) s)"
    have long: "CHUNK_MAX < length s" using False by simp
    note round = split_round [OF wf long b]
    have "set ?rest \<subseteq> set s"
      using trim_start_suffix [of "drop (split_at (take CHUNK_MAX s)) s"]
      by (metis append_take_drop_id set_append sup_ge2 subset_trans)
    then obtain cs where "split_loop ?rest = Some (Ret cs)" using less.hyps [OF round(2)] less.prems by blast
    then show ?thesis using False b by (simp add: split_loop.simps [of s])
  qed
qed

section \<open>Which messages are answered\<close>

record discord_handler =
  dh_require_mention :: bool
  dh_dm_allowed :: bool
  dh_bot_id :: "nat option"

record discord_message =
  dm_author_bot :: bool
  dm_author_id :: nat
  dm_guild_id :: "nat option"
  dm_mentions :: "nat list"
  dm_content :: string

text \<open>\<open>ready\<close> stores the bot's identifier once (\<open>OnceLock::set\<close>).\<close>

definition ready :: "nat \<Rightarrow> discord_handler \<Rightarrow> discord_handler" where
  "ready me h = (if dh_bot_id h = None then h\<lparr>dh_bot_id := Some me\<rparr> else h)"

definition strip_mention :: "string \<Rightarrow> string" where
  "strip_mention s =
     (let trimmed = trim_start s in
      if starts_with trimmed ''<@'' then
        (case find_sub ''>'' trimmed of
           Some e \<Rightarrow> trim_start (drop (e + 1) trimmed)
         | None \<Rightarrow> trimmed)
      else trimmed)"

definition discord_session_key :: "discord_message \<Rightarrow> string" where
  "discord_session_key m =
     (case dm_guild_id m of
        Some gid \<Rightarrow> ''discord:guild_'' @ show_nat gid @ '':'' @ show_nat (dm_author_id m)
      | None \<Rightarrow> ''discord:dm:'' @ show_nat (dm_author_id m))"

text \<open>What \<open>message\<close> hands to the pipeline, if it gets that far: the session and the content.\<close>

definition message :: "discord_handler \<Rightarrow> discord_message \<Rightarrow> (string \<times> string) option" where
  "message h m =
     (if dm_author_bot m then None
      else if dm_guild_id m \<noteq> None \<and> dh_require_mention h
        \<and> (case dh_bot_id h of None \<Rightarrow> True | Some b \<Rightarrow> b \<notin> set (dm_mentions m)) then None
      else if dm_guild_id m = None \<and> \<not> dh_dm_allowed h then None
      else
        (let content = trim (strip_mention (dm_content m)) in
         if content = [] then None else Some (discord_session_key m, content)))"

section \<open>Delivering reminders\<close>

record reminder_delivery =
  rd_job_id :: string
  rd_channel_id :: "nat option"
  rd_message :: string
  rd_image_url :: "string option"

definition delivery_text :: "reminder_delivery \<Rightarrow> string" where
  "delivery_text d = (case rd_image_url d of
      Some url \<Rightarrow> rd_message d @ [CHR 0x0A] @ url
    | None \<Rightarrow> rd_message d)"

definition warning_sign :: string where
  "warning_sign = [CHR 0xE2, CHR 0x9A, CHR 0xA0, CHR 0xEF, CHR 0xB8, CHR 0x8F]"

text \<open>The messages the delivery task tries to send, in order; \<open>say\<close> gives the error of a send.\<close>

fun run_discord_delivery ::
    "(nat \<Rightarrow> string \<Rightarrow> string option) \<Rightarrow> reminder_delivery list \<Rightarrow> (nat \<times> string) list" where
  "run_discord_delivery say [] = []"
| "run_discord_delivery say (d # ds) =
     (case rd_channel_id d of
        None \<Rightarrow> run_discord_delivery say ds
      | Some ch \<Rightarrow>
          (case say ch (delivery_text d) of
             None \<Rightarrow> (ch, delivery_text d) # run_discord_delivery say ds
           | Some e \<Rightarrow>
               (ch, delivery_text d)
               # (ch, warning_sign @ '' Reminder `'' @ rd_job_id d @ ''` failed to deliver: `'' @ e @ ''`'')
               # run_discord_delivery say ds))"

section \<open>Properties\<close>

text \<open>Splitting a reply. For every valid text the loop ends. When it does not panic, every chunk
  has at most 1950 bytes and the text is the chunks, in order, with nothing but white space cut
  out between them; and an ASCII text never panics.\<close>
theorem split_chunks_faithful:
  assumes "valid_utf8 msg"
  shows "\<exists>r. split_chunks msg = Some r
    \<and> (\<forall>cs. r = Ret cs \<longrightarrow> (\<forall>c \<in> set cs. length c \<le> 1950)
        \<and> (\<exists>gaps. length gaps = length cs \<and> (\<forall>g \<in> set gaps. blank g) \<and> msg = weave cs gaps))
    \<and> (is_ascii msg \<longrightarrow> r \<noteq> Panic)"
proof (cases "length msg \<le> CHUNK_MAX")
  case True
  have "blank []" unfolding blank_def by (rule exI [of _ "[]"]) simp
  then show ?thesis using True
    by (auto simp: split_chunks_def CHUNK_MAX_def intro: exI [of _ "[[]]"])
next
  case False
  then show ?thesis using split_loop_result [OF assms] split_loop_ascii [of msg]
    by (auto simp: split_chunks_def CHUNK_MAX_def)
qed

theorem split_chunks_faithful_witness:
  "\<exists>cs. split_chunks (replicate 5000 CHR ''x'') = Some (Ret cs)
     \<and> (\<exists>gaps. length gaps = length cs \<and> replicate 5000 CHR ''x'' = weave cs gaps)"
proof -
  have a: "is_ascii (replicate 5000 CHR ''x'')" by simp
  then have "valid_utf8 (replicate 5000 CHR ''x'')"
    by (auto simp: valid_utf8_def chars_ascii utf8_width_def)
  from split_chunks_faithful [OF this] a show ?thesis by (metis outcome.exhaust)
qed

lemma pair_nth: "i < n \<Longrightarrow> concat (replicate n [a, b]) ! Suc (2 * i) = b \<and> Suc (2 * i) < 2 * n"
proof (induction n arbitrary: i)
  case (Suc n)
  then show ?case by (cases i) auto
qed simp

text \<open>The window of 1950 is in bytes, so a long text whose byte 1950 is inside a character makes
  the task panic: one ASCII letter followed by a thousand two-byte letters is a valid text of
  1001 characters on which \<open>split_chunks\<close> panics, and no reply is sent.\<close>
theorem split_chunks_panics:
  "let msg = CHR ''a'' # concat (replicate 1000 [CHR 0xC3, CHR 0xA9]) in
     valid_utf8 msg \<and> length (chars msg) = 1001
     \<and> split_chunks msg = Some Panic \<and> send_chunked say msg = Some Panic"
proof -
  let ?es = "replicate 1000 [CHR 0xC3, CHR 0xA9]"
  define msg where "msg = CHR ''a'' # concat ?es"
  have wf: "\<forall>g \<in> set ([CHR ''a''] # ?es). wf_char g \<and> utf8_width (hd g) = Some (length g)"
    by (simp add: wf_char_def is_cont_def utf8_width_def)
  have t: "msg = concat ([CHR ''a''] # ?es)" by (simp add: msg_def)
  have valid: "valid_utf8 msg" unfolding t by (rule valid_utf8_concat [OF wf])
  have "chars msg = [CHR ''a''] # ?es" unfolding t by (rule chars_concat) (use wf in blast)
  then have n: "length (chars msg) = 1001" by simp
  have len: "length msg = 2001" by (simp add: msg_def length_concat sum_list_replicate)
  have "msg ! 1950 = concat ?es ! Suc (2 * 974)" by (simp add: msg_def)
  also have "\<dots> = CHR 0xA9" using pair_nth [of 974 1000] by simp
  finally have "is_cont (msg ! 1950)" by (simp add: is_cont_def)
  then have "\<not> is_char_boundary msg CHUNK_MAX" using len by (simp add: is_char_boundary_def CHUNK_MAX_def)
  then have "split_chunks msg = Some Panic"
    using len by (simp add: split_chunks_def split_loop.simps [of msg] CHUNK_MAX_def)
  then show ?thesis using valid n by (simp add: Let_def send_chunked_def msg_def)
qed

lemma show_nat_no_colon: "CHR '':'' \<notin> set (show_nat n)"
  using show_nat_digits [of "CHR '':''" n] by auto

lemma colon_split: "x \<notin> set u \<Longrightarrow> x \<notin> set u' \<Longrightarrow> u @ x # v = u' @ x # v' \<Longrightarrow> u = u' \<and> v = v'"
proof (induction u arbitrary: u')
  case Nil
  then show ?case by (cases u') auto
next
  case (Cons a u)
  then show ?case by (cases u') auto
qed

text \<open>Conversations do not mix: two Discord messages share a session only when they come from
  the same author in the same guild, or from the same author in direct messages.\<close>
theorem discord_sessions_separate:
  "(discord_session_key m = discord_session_key m') =
     (dm_guild_id m = dm_guild_id m' \<and> dm_author_id m = dm_author_id m')"
proof (cases "dm_guild_id m"; cases "dm_guild_id m'")
  fix g g'
  assume g: "dm_guild_id m = Some g" "dm_guild_id m' = Some g'"
  have "(show_nat g @ CHR '':'' # show_nat (dm_author_id m) = show_nat g' @ CHR '':'' # show_nat (dm_author_id m'))
      = (g = g' \<and> dm_author_id m = dm_author_id m')"
    using colon_split [OF show_nat_no_colon show_nat_no_colon] show_nat_inject by blast
  then show ?thesis using g by (simp add: discord_session_key_def)
qed (simp_all add: discord_session_key_def show_nat_inject)

text \<open>The gate of the bot. A message reaches the pipeline exactly when a person wrote it, with
  some content besides white space and a leading mention, and either in a guild (mentioning the
  known bot, when mentions are required) or in a direct message while those are allowed.\<close>
theorem message_gate:
  "(message h m = Some (k, c)) =
     (k = discord_session_key m \<and> c = trim (strip_mention (dm_content m)) \<and> c \<noteq> []
      \<and> dm_author_bot m = False
      \<and> (case dm_guild_id m of
            None \<Rightarrow> dh_dm_allowed h
          | Some _ \<Rightarrow> dh_require_mention h = False
              \<or> (\<exists>b. dh_bot_id h = Some b \<and> b \<in> set (dm_mentions m))))"
  by (auto simp: message_def Let_def split: option.splits if_splits)

end
