(* ===== verification/Memory.thy ===== *)
theory Memory
  imports Prelude "HOL-Library.AList"
begin

text \<open>
  Long-term memory (\<open>crates/skynet-memory\<close>): the \<open>MemoryManager\<close> over the tables
  \<open>user_memory\<close>, \<open>conversations\<close>, \<open>knowledge\<close> and \<open>tool_calls\<close>, the two full-text indexes that
  the code mirrors by hand, and the cache of rendered user contexts (\<open>manager.rs\<close>, \<open>types.rs\<close>,
  \<open>db.rs\<close>).

  A table is the list of its rows in the order of their row identifiers. A full-text index is
  the list of the commands it was given, and \<open>fts_match\<close>, a parameter, is SQLite's FTS5 reading
  them: the identifiers of the matching rows, best first (none for a malformed query). A
  confidence is a finite double, hence a rational. An instant is a number of nanoseconds, and
  \<open>rfc\<close>, a parameter, writes it as the text the tables hold.
\<close>

section \<open>Data\<close>

datatype memory_category = Instruction | Preference | Fact | Context

fun category_to_string :: "memory_category \<Rightarrow> string" where
  "category_to_string Instruction = ''instruction''"
| "category_to_string Preference = ''preference''"
| "category_to_string Fact = ''fact''"
| "category_to_string Context = ''context''"

definition category_from_str :: "string \<Rightarrow> string + memory_category" where
  "category_from_str s =
     (if s = ''instruction'' then Inr Instruction
      else if s = ''preference'' then Inr Preference
      else if s = ''fact'' then Inr Fact
      else if s = ''context'' then Inr Context
      else Inl (''unknown memory category: '' @ s))"

datatype memory_source = UserSaid | Inferred | AdminSet

fun source_to_string :: "memory_source \<Rightarrow> string" where
  "source_to_string UserSaid = ''user_said''"
| "source_to_string Inferred = ''inferred''"
| "source_to_string AdminSet = ''admin_set''"

definition source_from_str :: "string \<Rightarrow> string + memory_source" where
  "source_from_str s =
     (if s = ''user_said'' then Inr UserSaid
      else if s = ''inferred'' then Inr Inferred
      else if s = ''admin_set'' then Inr AdminSet
      else Inl (''unknown memory source: '' @ s))"

interpretation category_codec: exact_codec category_to_string category_from_str
proof unfold_locales
  show "category_from_str (category_to_string x) = Inr x" for x
    by (cases x) (simp_all add: category_from_str_def)
  show "category_from_str s = Inr x \<Longrightarrow> s = category_to_string x" for s x
    by (auto simp: category_from_str_def split: if_splits)
qed

interpretation source_codec: exact_codec source_to_string source_from_str
proof unfold_locales
  show "source_from_str (source_to_string x) = Inr x" for x
    by (cases x) (simp_all add: source_from_str_def)
  show "source_from_str s = Inr x \<Longrightarrow> s = source_to_string x" for s x
    by (auto simp: source_from_str_def split: if_splits)
qed

datatype memory_error =
    MDatabase sql_error
  | MNotFound string string
  | MSerialization string

record user_memory =
  um_id :: nat
  um_user_id :: string
  um_category :: memory_category
  um_key :: string
  um_value :: string
  um_confidence :: rat
  um_source :: memory_source
  um_expires_at :: "string option"
  um_created_at :: string
  um_updated_at :: string

record conversation_message =
  cm_id :: nat
  cm_user_id :: "string option"
  cm_session_key :: string
  cm_channel :: string
  cm_role :: string
  cm_content :: string
  cm_model_used :: "string option"
  cm_tokens_in :: nat
  cm_tokens_out :: nat
  cm_cost_usd :: rat
  cm_created_at :: string

record knowledge_entry =
  ke_id :: nat
  ke_topic :: string
  ke_content :: string
  ke_tags :: string
  ke_created_at :: string
  ke_updated_at :: string

record user_context =
  cx_user_id :: string
  cx_rendered :: string
  cx_memory_count :: nat
  cx_built_at :: int

section \<open>Tables\<close>

text \<open>A row of \<open>user_memory\<close> holds its category and its source as text.\<close>

record memory_row =
  mr_id :: nat
  mr_user_id :: string
  mr_category :: string
  mr_key :: string
  mr_value :: string
  mr_confidence :: rat
  mr_source :: string
  mr_expires_at :: "string option"
  mr_created_at :: string
  mr_updated_at :: string

record tool_call_row =
  tc_tool_name :: string
  tc_session_key :: string
  tc_called_at :: string

datatype fts_cmd = FtsInsert nat "string list" | FtsDelete nat "string list"

text \<open>The \<open>_seq\<close> fields are the AUTOINCREMENT counters: the last identifier ever given out.\<close>

record memory_db =
  t_memory :: "memory_row list"
  t_memory_seq :: nat
  t_memory_fts :: "fts_cmd list"
  t_conversations :: "conversation_message list"
  t_conversations_seq :: nat
  t_knowledge :: "knowledge_entry list"
  t_knowledge_seq :: nat
  t_knowledge_fts :: "fts_cmd list"
  t_tool_calls :: "tool_call_row list"

definition init_db :: memory_db where
  "init_db = \<lparr> t_memory = [], t_memory_seq = 0, t_memory_fts = [], t_conversations = [],
     t_conversations_seq = 0, t_knowledge = [], t_knowledge_seq = 0, t_knowledge_fts = [],
     t_tool_calls = [] \<rparr>"

record memory_manager =
  mm_db :: memory_db
  mm_cache :: "(string \<times> user_context) list"

definition memory_manager_new :: "memory_db \<Rightarrow> memory_manager" where
  "memory_manager_new db = \<lparr> mm_db = db, mm_cache = [] \<rparr>"

definition row_to_memory :: "memory_row \<Rightarrow> user_memory" where
  "row_to_memory r =
     \<lparr> um_id = mr_id r, um_user_id = mr_user_id r,
       um_category = unwrap_or (category_from_str (mr_category r)) Context,
       um_key = mr_key r, um_value = mr_value r, um_confidence = mr_confidence r,
       um_source = unwrap_or (source_from_str (mr_source r)) Inferred,
       um_expires_at = mr_expires_at r, um_created_at = mr_created_at r,
       um_updated_at = mr_updated_at r \<rparr>"

section \<open>Rendering\<close>

definition MAX_CONTEXT_CHARS :: nat where "MAX_CONTEXT_CHARS = 6000"
definition CACHE_TTL_SECS :: int where "CACHE_TTL_SECS = 300"
definition MAX_CACHE_ENTRIES :: nat where "MAX_CACHE_ENTRIES = 256"

abbreviation newline :: char where "newline \<equiv> CHR 0x0A"

text \<open>\<open>char::to_uppercase\<close> on the ASCII first letter of a category, the only use of
  \<open>capitalize\<close>.\<close>

fun capitalize :: "string \<Rightarrow> string" where
  "capitalize [] = []"
| "capitalize (f # rest) =
     (if 97 \<le> (of_char f :: nat) \<and> (of_char f :: nat) \<le> 122 then char_of ((of_char f :: nat) - 32) # rest
      else f # rest)"

definition memory_line :: "user_memory \<Rightarrow> string" where
  "memory_line m = ''- '' @ um_key m @ '': '' @ um_value m @ [newline]"

definition category_header :: "string \<Rightarrow> string \<Rightarrow> string" where
  "category_header out cat =
     (if out = [] then [] else [newline]) @ ''## '' @ capitalize cat @ [newline]"

text \<open>The loop of \<open>render_context\<close>: the text so far and the current category.\<close>

fun render_loop :: "string \<Rightarrow> string \<Rightarrow> user_memory list \<Rightarrow> string" where
  "render_loop out current_cat [] = out"
| "render_loop out current_cat (m # ms) =
     (let cat = category_to_string (um_category m);
          out' = (if cat \<noteq> current_cat then out @ category_header out cat else out);
          line = memory_line m
      in if length out' + length line > MAX_CONTEXT_CHARS then out'
         else render_loop (out' @ line) cat ms)"

definition render_context :: "user_memory list \<Rightarrow> string" where
  "render_context memories = render_loop [] [] memories"

section \<open>The cache of user contexts\<close>

text \<open>\<open>TimeDelta::num_seconds\<close> rounds towards zero.\<close>

definition num_seconds :: "int \<Rightarrow> int" where
  "num_seconds d = (if d \<ge> 0 then d div 1000000000 else - (- d div 1000000000))"

definition get_cached :: "int \<Rightarrow> memory_manager \<Rightarrow> string \<Rightarrow> user_context option" where
  "get_cached now m user_id =
     (case map_of (mm_cache m) user_id of
        None \<Rightarrow> None
      | Some ctx \<Rightarrow> if num_seconds (now - cx_built_at ctx) < CACHE_TTL_SECS then Some ctx else None)"

definition cache_delete :: "string \<Rightarrow> (string \<times> user_context) list \<Rightarrow> (string \<times> user_context) list" where
  "cache_delete user_id c = AList.delete user_id c"

definition invalidate_cache :: "string \<Rightarrow> memory_manager \<Rightarrow> memory_manager" where
  "invalidate_cache user_id m = m\<lparr>mm_cache := cache_delete user_id (mm_cache m)\<rparr>"

text \<open>
  Storing a context: a full cache first loses an entry with the least \<open>built_at\<close>. Which one,
  when several have it, depends on the map's iteration order: \<open>tie\<close>, any number, picks it.
\<close>

definition oldest_keys :: "(string \<times> user_context) list \<Rightarrow> string list" where
  "oldest_keys c =
     map fst (filter (\<lambda>e. list_all (\<lambda>e'. cx_built_at (snd e) \<le> cx_built_at (snd e')) c) c)"

definition cache_store ::
    "nat \<Rightarrow> string \<Rightarrow> user_context \<Rightarrow> (string \<times> user_context) list \<Rightarrow> (string \<times> user_context) list" where
  "cache_store tie user_id ctx c =
     (let ks = oldest_keys c;
          c' = (if length c \<ge> MAX_CACHE_ENTRIES then cache_delete (ks ! (tie mod length ks)) c else c)
      in AList.update user_id ctx c')"

section \<open>User memories\<close>

definition memory_at :: "string \<Rightarrow> string \<Rightarrow> string \<Rightarrow> memory_row \<Rightarrow> bool" where
  "memory_at user_id cat key r \<longleftrightarrow> mr_user_id r = user_id \<and> mr_category r = cat \<and> mr_key r = key"

definition learn ::
    "string \<Rightarrow> memory_manager \<Rightarrow> string \<Rightarrow> memory_category \<Rightarrow> string \<Rightarrow> string \<Rightarrow> rat \<Rightarrow> memory_source
      \<Rightarrow> memory_manager \<times> (memory_error + unit)" where
  "learn now m user_id category key value confidence source =
     (let db = mm_db m; cat = category_to_string category; src = source_to_string source in
      case tbl_find (memory_at user_id cat key) (t_memory db) of
        Some r \<Rightarrow>
          if confidence < mr_confidence r then (m, Inr ())
          else
            (let db' = db\<lparr>
                 t_memory := tbl_update (\<lambda>x. mr_id x = mr_id r)
                   (\<lambda>x. x\<lparr>mr_value := value, mr_confidence := confidence, mr_source := src,
                     mr_updated_at := now\<rparr>) (t_memory db),
                 t_memory_fts := t_memory_fts db
                   @ [FtsDelete (mr_id r) [key, value], FtsInsert (mr_id r) [key, value]]\<rparr>
             in (invalidate_cache user_id (m\<lparr>mm_db := db'\<rparr>), Inr ()))
      | None \<Rightarrow>
          (let i = Suc (t_memory_seq db);
               r = \<lparr> mr_id = i, mr_user_id = user_id, mr_category = cat, mr_key = key,
                 mr_value = value, mr_confidence = confidence, mr_source = src,
                 mr_expires_at = None, mr_created_at = now, mr_updated_at = now \<rparr>;
               db' = db\<lparr>t_memory := t_memory db @ [r], t_memory_seq := i,
                 t_memory_fts := t_memory_fts db @ [FtsInsert i [key, value]]\<rparr>
           in (invalidate_cache user_id (m\<lparr>mm_db := db'\<rparr>), Inr ())))"

definition forget ::
    "memory_manager \<Rightarrow> string \<Rightarrow> memory_category \<Rightarrow> string \<Rightarrow> memory_manager \<times> (memory_error + unit)" where
  "forget m user_id category key =
     (let db = mm_db m; cat = category_to_string category in
      case tbl_find (memory_at user_id cat key) (t_memory db) of
        Some r \<Rightarrow>
          (let db' = db\<lparr>
               t_memory := tbl_delete (\<lambda>x. mr_id x = mr_id r) (t_memory db),
               t_memory_fts := t_memory_fts db @ [FtsDelete (mr_id r) [key, mr_value r]]\<rparr>
           in (invalidate_cache user_id (m\<lparr>mm_db := db'\<rparr>), Inr ()))
      | None \<Rightarrow> (m, Inl (MNotFound cat key)))"

text \<open>The join of the index with the table, best match first.\<close>

definition search ::
    "(fts_cmd list \<Rightarrow> string \<Rightarrow> nat list) \<Rightarrow> memory_db \<Rightarrow> string \<Rightarrow> string \<Rightarrow> nat
      \<Rightarrow> memory_error + user_memory list" where
  "search fts_match db user_id query limit =
     (if \<not> sql_u64 limit then Inl (MDatabase ToSqlConversionFailure)
      else Inr (map row_to_memory (take limit
        (List.map_filter (\<lambda>i. tbl_find (\<lambda>r. mr_id r = i \<and> mr_user_id r = user_id) (t_memory db))
          (fts_match (t_memory_fts db) query)))))"

text \<open>The \<open>ORDER BY\<close> of \<open>build_user_context\<close>; an unknown category (NULL) sorts first.\<close>

definition category_order :: "string \<Rightarrow> nat" where
  "category_order c =
     (if c = ''instruction'' then 1 else if c = ''preference'' then 2
      else if c = ''fact'' then 3 else if c = ''context'' then 4 else 0)"

definition current_memories :: "string \<Rightarrow> memory_db \<Rightarrow> string \<Rightarrow> user_memory list" where
  "current_memories now db user_id =
     map row_to_memory
       (sort_key (\<lambda>r. category_order (mr_category r))
         (sort_key (\<lambda>r. - mr_confidence r)
           (filter (\<lambda>r. mr_user_id r = user_id
               \<and> (case mr_expires_at r of None \<Rightarrow> True | Some e \<Rightarrow> now < e)) (t_memory db))))"

text \<open>The call reads the clock at \<open>t_check\<close> for the cache, at \<open>t\<close> for the query, and \<open>d\<close>
  nanoseconds later for the context's time stamp.\<close>

definition build_user_context ::
    "(int \<Rightarrow> string) \<Rightarrow> nat \<Rightarrow> int \<Rightarrow> int \<Rightarrow> nat \<Rightarrow> memory_manager \<Rightarrow> string
      \<Rightarrow> memory_manager \<times> (memory_error + user_context)" where
  "build_user_context rfc tie t_check t d m user_id =
     (case get_cached t_check m user_id of
        Some ctx \<Rightarrow> (m, Inr ctx)
      | None \<Rightarrow>
          (let memories = current_memories (rfc t) (mm_db m) user_id;
               ctx = \<lparr> cx_user_id = user_id, cx_rendered = render_context memories,
                 cx_memory_count = length memories, cx_built_at = t + int d \<rparr>
           in (m\<lparr>mm_cache := cache_store tie user_id ctx (mm_cache m)\<rparr>, Inr ctx)))"

section \<open>Conversations\<close>

definition save_message :: "memory_db \<Rightarrow> conversation_message \<Rightarrow> memory_db" where
  "save_message db msg =
     db\<lparr>t_conversations := t_conversations db @ [msg\<lparr>cm_id := Suc (t_conversations_seq db)\<rparr>],
       t_conversations_seq := Suc (t_conversations_seq db)\<rparr>"

definition count_turns :: "memory_db \<Rightarrow> string \<Rightarrow> nat" where
  "count_turns db session_key = tbl_count (\<lambda>r. cm_session_key r = session_key) (t_conversations db)"

text \<open>The turns of a session as the index on \<open>(session_key, created_at)\<close> holds them: by time, and
  by row identifier within one time. \<open>ASC\<close> walks it forwards and \<open>DESC\<close> backwards.\<close>

definition turns :: "memory_db \<Rightarrow> string \<Rightarrow> conversation_message list" where
  "turns db session_key =
     sort_key cm_created_at (filter (\<lambda>r. cm_session_key r = session_key) (t_conversations db))"

definition get_oldest_turns ::
    "memory_db \<Rightarrow> string \<Rightarrow> nat \<Rightarrow> memory_error + conversation_message list" where
  "get_oldest_turns db session_key limit =
     (if \<not> sql_u64 limit then Inl (MDatabase ToSqlConversionFailure)
      else Inr (take limit (turns db session_key)))"

definition delete_turns :: "memory_db \<Rightarrow> nat list \<Rightarrow> memory_db \<times> nat" where
  "delete_turns db ids =
     (if ids = [] then (db, 0)
      else (db\<lparr>t_conversations := tbl_delete (\<lambda>r. cm_id r \<in> set ids) (t_conversations db)\<rparr>,
        tbl_count (\<lambda>r. cm_id r \<in> set ids) (t_conversations db)))"

definition get_history ::
    "memory_db \<Rightarrow> string \<Rightarrow> nat \<Rightarrow> memory_error + conversation_message list" where
  "get_history db session_key limit =
     (if \<not> sql_u64 limit then Inl (MDatabase ToSqlConversionFailure)
      else Inr (rev (take limit (rev (turns db session_key)))))"

section \<open>The knowledge base\<close>

definition entry_columns :: "knowledge_entry \<Rightarrow> string list" where
  "entry_columns e = [ke_topic e, ke_content e, ke_tags e]"

definition knowledge_write :: "string \<Rightarrow> memory_db \<Rightarrow> string \<Rightarrow> string \<Rightarrow> string \<Rightarrow> memory_db" where
  "knowledge_write now db topic content tags =
     (case tbl_find (\<lambda>e. ke_topic e = topic) (t_knowledge db) of
        Some old \<Rightarrow>
          db\<lparr>t_knowledge := tbl_update (\<lambda>e. ke_id e = ke_id old)
               (\<lambda>e. e\<lparr>ke_content := content, ke_tags := tags, ke_updated_at := now\<rparr>) (t_knowledge db),
             t_knowledge_fts := t_knowledge_fts db
               @ [FtsDelete (ke_id old) [topic, ke_content old, ke_tags old],
                  FtsInsert (ke_id old) [topic, content, tags]]\<rparr>
      | None \<Rightarrow>
          (let i = Suc (t_knowledge_seq db);
               e = \<lparr> ke_id = i, ke_topic = topic, ke_content = content, ke_tags = tags,
                 ke_created_at = now, ke_updated_at = now \<rparr>
           in db\<lparr>t_knowledge := t_knowledge db @ [e], t_knowledge_seq := i,
                t_knowledge_fts := t_knowledge_fts db @ [FtsInsert i [topic, content, tags]]\<rparr>))"

definition knowledge_search ::
    "(fts_cmd list \<Rightarrow> string \<Rightarrow> nat list) \<Rightarrow> memory_db \<Rightarrow> string \<Rightarrow> nat
      \<Rightarrow> memory_error + knowledge_entry list" where
  "knowledge_search fts_match db query limit =
     (if \<not> sql_u64 limit then Inl (MDatabase ToSqlConversionFailure)
      else Inr (take limit (List.map_filter (\<lambda>i. tbl_find (\<lambda>e. ke_id e = i) (t_knowledge db))
        (fts_match (t_knowledge_fts db) query))))"

section \<open>Tool calls and hot topics\<close>

definition log_tool_call :: "string \<Rightarrow> memory_db \<Rightarrow> string \<Rightarrow> string \<Rightarrow> memory_db" where
  "log_tool_call now db tool_name session_key =
     db\<lparr>t_tool_calls := t_tool_calls db
       @ [\<lparr> tc_tool_name = tool_name, tc_session_key = session_key, tc_called_at = now \<rparr>]\<rparr>"

text \<open>\<open>datetime('now', '-N days')\<close> is the parameter \<open>cutoff\<close>. \<open>GROUP BY\<close> walks the index on the
  names, so equal counts come in the order of the names.\<close>

definition get_top_tools ::
    "(int \<Rightarrow> string) \<Rightarrow> memory_db \<Rightarrow> int \<Rightarrow> nat \<Rightarrow> memory_error + string list" where
  "get_top_tools cutoff db days limit =
     (if \<not> sql_u64 limit then Inl (MDatabase ToSqlConversionFailure)
      else
        (let names = map tc_tool_name (filter (\<lambda>r. cutoff days < tc_called_at r) (t_tool_calls db))
         in Inr (take limit (rev (sort_key (\<lambda>n. count_list names n) (rev (sort (remdups names))))))))"

text \<open>\<open>str::split\<close> with a character.\<close>

fun split_on :: "char \<Rightarrow> string \<Rightarrow> string list" where
  "split_on x [] = [[]]"
| "split_on x (c # cs) =
     (if c = x then [] # split_on x cs
      else (case split_on x cs of [] \<Rightarrow> [[c]] | p # ps \<Rightarrow> (c # p) # ps))"

definition topic_score :: "string list \<Rightarrow> knowledge_entry \<Rightarrow> nat" where
  "topic_score top_tools e =
     length (filter (\<lambda>tag. tag \<in> set top_tools) (map trim (split_on CHR '','' (ke_tags e))))"

text \<open>\<open>sort_by\<close> is stable, and its comparison puts the greater score first.\<close>

definition get_hot_topics :: "memory_db \<Rightarrow> string list \<Rightarrow> nat \<Rightarrow> knowledge_entry list" where
  "get_hot_topics db top_tools limit =
     (if top_tools = [] then []
      else
        (let entries = filter (\<lambda>e. ke_tags e \<noteq> []) (t_knowledge db);
             scored = filter (\<lambda>p. fst p > 0) (map (\<lambda>e. (topic_score top_tools e, e)) entries)
         in take limit (map snd (sort_key (\<lambda>p. - int (fst p)) scored))))"

section \<open>The manager as a machine\<close>

text \<open>Every call of the manager, with the clock readings it makes.\<close>

datatype memory_event =
    MLearn string string memory_category string string rat memory_source
  | MForget string memory_category string
  | MContext nat int int nat string
  | MSave conversation_message
  | MDelete "nat list"
  | MKnowledge string string string string
  | MToolCall string string string

fun memory_step :: "(int \<Rightarrow> string) \<Rightarrow> memory_manager \<Rightarrow> memory_event \<Rightarrow> memory_manager" where
  "memory_step rfc m (MLearn now u cat k v c src) = fst (learn now m u cat k v c src)"
| "memory_step rfc m (MForget u cat k) = fst (forget m u cat k)"
| "memory_step rfc m (MContext tie t_check t d u) = fst (build_user_context rfc tie t_check t d m u)"
| "memory_step rfc m (MSave msg) = m\<lparr>mm_db := save_message (mm_db m) msg\<rparr>"
| "memory_step rfc m (MDelete ids) = m\<lparr>mm_db := fst (delete_turns (mm_db m) ids)\<rparr>"
| "memory_step rfc m (MKnowledge now topic content tags) =
     m\<lparr>mm_db := knowledge_write now (mm_db m) topic content tags\<rparr>"
| "memory_step rfc m (MToolCall now tool sk) = m\<lparr>mm_db := log_tool_call now (mm_db m) tool sk\<rparr>"

end
