(* ===== verification/MemoryProps.thy ===== *)
theory MemoryProps
  imports Memory
begin

text \<open>
  What the memory manager promises: the table of memories implements a map from
  (user, category, key) in which the higher confidence wins; the cache of contexts never shows a
  user anything but a rendering of the user's current memories; the rendering is bounded and
  takes memories in order; and the hand-made mirror of the full-text indexes, where it is right
  and where it is not.
\<close>

section \<open>Well-formed tables\<close>

definition memory_key :: "memory_row \<Rightarrow> string \<times> string \<times> string" where
  "memory_key r = (mr_user_id r, mr_category r, mr_key r)"

lemma memory_at_key: "memory_at u cat k r \<longleftrightarrow> memory_key r = (u, cat, k)"
  by (simp add: memory_at_def memory_key_def)

lemma memory_at_find: "tbl_find (memory_at u cat k) rows = tbl_find (\<lambda>r. memory_key r = (u, cat, k)) rows"
  by (rule arg_cong [where f = "\<lambda>P. tbl_find P rows"]) (simp add: fun_eq_iff memory_at_key)

definition memory_wf :: "memory_db \<Rightarrow> bool" where
  "memory_wf db \<longleftrightarrow> unique_on mr_id (t_memory db) \<and> unique_on memory_key (t_memory db)
     \<and> (\<forall>r \<in> set (t_memory db). mr_id r \<le> t_memory_seq db)"

definition knowledge_wf :: "memory_db \<Rightarrow> bool" where
  "knowledge_wf db \<longleftrightarrow> unique_on ke_id (t_knowledge db) \<and> unique_on ke_topic (t_knowledge db)
     \<and> (\<forall>e \<in> set (t_knowledge db). ke_id e \<le> t_knowledge_seq db)"

lemma memory_wf_init: "memory_wf init_db" and knowledge_wf_init: "knowledge_wf init_db"
  by (simp_all add: memory_wf_def knowledge_wf_def init_db_def)

lemma unique_id_other: "unique_on key rows \<Longrightarrow> r \<in> set rows \<Longrightarrow> x \<in> set rows \<Longrightarrow> key x = key r \<Longrightarrow> x = r"
  by (simp add: unique_on_def inj_on_def distinct_map)

definition overwrite :: "string \<Rightarrow> rat \<Rightarrow> string \<Rightarrow> string \<Rightarrow> memory_row \<Rightarrow> memory_row" where
  "overwrite v c src now x =
     x\<lparr>mr_value := v, mr_confidence := c, mr_source := src, mr_updated_at := now\<rparr>"

lemma overwrite_simps [simp]:
  "mr_id (overwrite v c src now x) = mr_id x" "memory_key (overwrite v c src now x) = memory_key x"
  "mr_user_id (overwrite v c src now x) = mr_user_id x" "mr_value (overwrite v c src now x) = v"
  "mr_confidence (overwrite v c src now x) = c" "mr_source (overwrite v c src now x) = src"
  "mr_key (overwrite v c src now x) = mr_key x"
  by (simp_all add: overwrite_def memory_key_def)

text \<open>The three outcomes of \<open>learn\<close>, as equations.\<close>

lemma learn_cases:
  fixes m u cat k v c src now
  defines "f \<equiv> tbl_find (\<lambda>r. memory_key r = (u, category_to_string cat, k)) (t_memory (mm_db m))"
  obtains (skip) r where "f = Some r" "c < mr_confidence r" "learn now m u cat k v c src = (m, Inr ())"
  | (replace) r where "f = Some r" "\<not> c < mr_confidence r"
      "learn now m u cat k v c src =
        (invalidate_cache u (m\<lparr>mm_db := (mm_db m)\<lparr>
           t_memory := tbl_update (\<lambda>x. mr_id x = mr_id r) (overwrite v c (source_to_string src) now) (t_memory (mm_db m)),
           t_memory_fts := t_memory_fts (mm_db m) @ [FtsDelete (mr_id r) [k, v], FtsInsert (mr_id r) [k, v]]\<rparr>\<rparr>), Inr ())"
  | (new) r where "f = None" "memory_key r = (u, category_to_string cat, k)" "mr_value r = v"
      "mr_confidence r = c" "mr_source r = source_to_string src" "mr_id r = Suc (t_memory_seq (mm_db m))"
      "mr_user_id r = u"
      "learn now m u cat k v c src =
        (invalidate_cache u (m\<lparr>mm_db := (mm_db m)\<lparr>
           t_memory := t_memory (mm_db m) @ [r], t_memory_seq := mr_id r,
           t_memory_fts := t_memory_fts (mm_db m) @ [FtsInsert (mr_id r) [k, v]]\<rparr>\<rparr>), Inr ())"
proof (cases f)
  case None
  let ?r = "\<lparr> mr_id = Suc (t_memory_seq (mm_db m)), mr_user_id = u, mr_category = category_to_string cat,
    mr_key = k, mr_value = v, mr_confidence = c, mr_source = source_to_string src,
    mr_expires_at = None, mr_created_at = now, mr_updated_at = now \<rparr>"
  show ?thesis
    by (rule new [of ?r]) (use None in \<open>simp_all add: f_def learn_def Let_def memory_at_find memory_key_def\<close>)
next
  case (Some r)
  then show ?thesis
    using skip [of r] replace [of r]
    by (cases "c < mr_confidence r")
      (simp_all add: f_def learn_def Let_def memory_at_find overwrite_def [abs_def])
qed

lemma invalidate_db [simp]: "mm_db (invalidate_cache u m) = mm_db m"
  by (simp add: invalidate_cache_def)

lemma memory_wf_fresh: "memory_wf db \<Longrightarrow> Suc (t_memory_seq db) \<notin> mr_id ` set (t_memory db)"
  by (fastforce simp: memory_wf_def)

lemma memory_wf_learn:
  assumes "memory_wf (mm_db m)"
  shows "memory_wf (mm_db (fst (learn now m u cat k v c src)))"
proof (cases rule: learn_cases [where m = m and u = u and cat = cat and k = k and v = v and c = c
      and src = src and now = now])
  case (replace r)
  then show ?thesis using assms
    by (simp add: memory_wf_def unique_on_update set_tbl_update) fastforce
next
  case (new r)
  then have "memory_key r \<notin> memory_key ` set (t_memory (mm_db m))" by (simp add: tbl_find_key_None)
  then show ?thesis using new(6,8) assms memory_wf_fresh [OF assms]
    by (auto simp: memory_wf_def unique_on_append_row)
qed (use assms in simp)

lemma forget_cases:
  fixes m u cat k
  defines "f \<equiv> tbl_find (\<lambda>r. memory_key r = (u, category_to_string cat, k)) (t_memory (mm_db m))"
  obtains (missing) "f = None" "forget m u cat k = (m, Inl (MNotFound (category_to_string cat) k))"
  | (gone) r where "f = Some r"
      "forget m u cat k =
        (invalidate_cache u (m\<lparr>mm_db := (mm_db m)\<lparr>
           t_memory := tbl_delete (\<lambda>x. mr_id x = mr_id r) (t_memory (mm_db m)),
           t_memory_fts := t_memory_fts (mm_db m) @ [FtsDelete (mr_id r) [k, mr_value r]]\<rparr>\<rparr>), Inr ())"
  by (cases f) (simp_all add: f_def forget_def Let_def memory_at_find)

lemma memory_wf_forget: "memory_wf (mm_db m) \<Longrightarrow> memory_wf (mm_db (fst (forget m u cat k)))"
  by (cases rule: forget_cases [where m = m and u = u and cat = cat and k = k])
    (auto simp: memory_wf_def unique_on_delete set_tbl_delete)

lemma build_db [simp]: "mm_db (fst (build_user_context rfc tie tc t d m u)) = mm_db m"
  by (simp add: build_user_context_def Let_def split: option.splits)

lemma memory_table_other:
  "t_memory (save_message db msg) = t_memory db" "t_memory_seq (save_message db msg) = t_memory_seq db"
  "t_memory (fst (delete_turns db ids)) = t_memory db" "t_memory_seq (fst (delete_turns db ids)) = t_memory_seq db"
  "t_memory (knowledge_write now db topic content tags) = t_memory db"
  "t_memory_seq (knowledge_write now db topic content tags) = t_memory_seq db"
  "t_memory (log_tool_call now db tool sk) = t_memory db"
  "t_memory_seq (log_tool_call now db tool sk) = t_memory_seq db"
  by (simp_all add: save_message_def delete_turns_def knowledge_write_def log_tool_call_def Let_def split: option.splits)

lemma memory_wf_step: "memory_wf (mm_db m) \<Longrightarrow> memory_wf (mm_db (memory_step rfc m e))"
  by (cases e) (simp_all add: memory_wf_learn memory_wf_forget, simp_all add: memory_wf_def memory_table_other)

interpretation memory_tables: machine "memory_step rfc" "\<lambda>m. memory_wf (mm_db m)"
  by unfold_locales (rule memory_wf_step)

section \<open>The memories as a map\<close>

text \<open>What a caller can observe of a memory: value, confidence and source, by user, category and key.\<close>

type_synonym memories = "string \<times> string \<times> string \<Rightarrow> (string \<times> rat \<times> string) option"

definition seen :: "memory_row \<Rightarrow> string \<times> rat \<times> string" where
  "seen r = (mr_value r, mr_confidence r, mr_source r)"

definition memory_view :: "memory_db \<Rightarrow> memories" where
  "memory_view db key = map_option seen (tbl_find (\<lambda>r. memory_key r = key) (t_memory db))"

text \<open>The contract: a memory is replaced unless the known one is more certain.\<close>

fun abs_step :: "memories \<Rightarrow> memory_event \<Rightarrow> memories" where
  "abs_step M (MLearn now u cat k v c src) =
     (case M (u, category_to_string cat, k) of
        Some (v0, c0, s0) \<Rightarrow>
          if c < c0 then M else M((u, category_to_string cat, k) \<mapsto> (v, c, source_to_string src))
      | None \<Rightarrow> M((u, category_to_string cat, k) \<mapsto> (v, c, source_to_string src)))"
| "abs_step M (MForget u cat k) = M((u, category_to_string cat, k) := None)"
| "abs_step M e = M"

lemma view_replace:
  assumes wf: "memory_wf db" and r: "tbl_find (\<lambda>r. memory_key r = key) (t_memory db) = Some r"
  shows "memory_view (db\<lparr>t_memory := tbl_update (\<lambda>x. mr_id x = mr_id r) (overwrite v c src now) (t_memory db),
      t_memory_fts := fts\<rparr>) = (memory_view db)(key \<mapsto> (v, c, src))"
proof
  fix key'
  from tbl_find_SomeD [OF r] have rin: "r \<in> set (t_memory db)" and rk: "memory_key r = key" by simp_all
  let ?upd = "\<lambda>x. if mr_id x = mr_id r then overwrite v c src now x else x"
  have "tbl_find (\<lambda>x. memory_key x = key')
        (tbl_update (\<lambda>x. mr_id x = mr_id r) (overwrite v c src now) (t_memory db))
      = map_option ?upd (tbl_find (\<lambda>x. memory_key x = key') (t_memory db))"
    by (rule tbl_find_update) simp
  moreover have "map_option seen (map_option ?upd (tbl_find (\<lambda>x. memory_key x = key') (t_memory db)))
      = (if key' = key then Some (v, c, src) else memory_view db key')"
  proof (cases "key' = key")
    case True
    then show ?thesis using r by (simp add: seen_def)
  next
    case False
    have "mr_id x \<noteq> mr_id r" if "tbl_find (\<lambda>x. memory_key x = key') (t_memory db) = Some x" for x
      using tbl_find_SomeD [OF that] wf rin rk False unique_id_other [of mr_id "t_memory db" r x]
      by (auto simp: memory_wf_def)
    then show ?thesis using False
      by (cases "tbl_find (\<lambda>x. memory_key x = key') (t_memory db)") (simp_all add: memory_view_def)
  qed
  ultimately show "memory_view (db\<lparr>t_memory := tbl_update (\<lambda>x. mr_id x = mr_id r) (overwrite v c src now) (t_memory db),
      t_memory_fts := fts\<rparr>) key' = ((memory_view db)(key \<mapsto> (v, c, src))) key'"
    by (simp add: memory_view_def)
qed

lemma view_append:
  assumes "tbl_find (\<lambda>x. memory_key x = memory_key r) (t_memory db) = None"
  shows "memory_view (db\<lparr>t_memory := t_memory db @ [r], t_memory_seq := i, t_memory_fts := fts\<rparr>)
    = (memory_view db)(memory_key r \<mapsto> seen r)"
  using assms by (auto simp: memory_view_def tbl_find_append fun_eq_iff split: option.splits)

lemma find_delete_key:
  "tbl_find (\<lambda>x. key x = i) (tbl_delete (\<lambda>x. key x = j) rows)
     = (if i = j then None else tbl_find (\<lambda>x. key x = i) rows)"
  by (induction rows) (auto simp: tbl_delete_def)

lemma view_delete:
  assumes wf: "memory_wf db" and r: "tbl_find (\<lambda>r. memory_key r = key) (t_memory db) = Some r"
  shows "memory_view (db\<lparr>t_memory := tbl_delete (\<lambda>x. mr_id x = mr_id r) (t_memory db), t_memory_fts := fts\<rparr>)
    = (memory_view db)(key := None)"
proof
  fix key'
  from tbl_find_SomeD [OF r] have rin: "r \<in> set (t_memory db)" and rk: "memory_key r = key" by simp_all
  have id_key: "mr_id x = mr_id r \<longleftrightarrow> memory_key x = key" if "x \<in> set (t_memory db)" for x
    using wf rin rk that unique_id_other [of mr_id "t_memory db" r x]
      unique_id_other [of memory_key "t_memory db" r x] by (auto simp: memory_wf_def)
  have d: "tbl_delete (\<lambda>x. mr_id x = mr_id r) (t_memory db) = tbl_delete (\<lambda>x. memory_key x = key) (t_memory db)"
    unfolding tbl_delete_def by (rule filter_cong) (simp_all add: id_key)
  show "memory_view (db\<lparr>t_memory := tbl_delete (\<lambda>x. mr_id x = mr_id r) (t_memory db), t_memory_fts := fts\<rparr>) key'
      = ((memory_view db)(key := None)) key'"
    by (simp add: memory_view_def d find_delete_key)
qed

lemma memory_step_refines:
  assumes "memory_wf (mm_db m)"
  shows "memory_view (mm_db (memory_step rfc m e)) = abs_step (memory_view (mm_db m)) e"
proof (cases e)
  case (MLearn now u cat k v c src)
  show ?thesis
  proof (cases rule: learn_cases [where m = m and u = u and cat = cat and k = k and v = v and c = c
        and src = src and now = now])
    case (skip r)
    then show ?thesis by (simp add: MLearn memory_view_def seen_def)
  next
    case (replace r)
    then show ?thesis using view_replace [OF assms replace(1)]
      by (simp add: MLearn) (simp add: memory_view_def seen_def)
  next
    case (new r)
    then show ?thesis using view_append [of r "mm_db m"]
      by (simp add: MLearn) (simp add: memory_view_def seen_def)
  qed
next
  case (MForget u cat k)
  show ?thesis
  proof (cases rule: forget_cases [where m = m and u = u and cat = cat and k = k])
    case missing
    then show ?thesis by (auto simp: MForget memory_view_def)
  next
    case (gone r)
    then show ?thesis using view_delete [OF assms gone(1)] by (simp add: MForget)
  qed
qed (simp_all add: memory_view_def [abs_def] memory_table_other)

lemma memory_run_refines:
  "memory_wf (mm_db m) \<Longrightarrow>
   memory_view (mm_db (foldl (memory_step rfc) m es)) = foldl abs_step (memory_view (mm_db m)) es"
  by (induction es arbitrary: m) (simp_all add: memory_step_refines memory_wf_step)

definition sample_events :: "memory_event list" where
  "sample_events =
     [MLearn ''t1'' ''ann'' Fact ''city'' ''Oslo'' (4 / 5) UserSaid,
      MLearn ''t2'' ''ann'' Fact ''city'' ''Bergen'' (1 / 2) Inferred,
      MContext 0 5 6 1 ''ann'',
      MLearn ''t3'' ''ann'' Instruction ''tone'' ''be brief'' 1 UserSaid]"

text \<open>C27: The memories are a map in which the more certain value wins. Whatever the calls, a well
  formed table stays so, and what the table shows of each (user, category, key) is what the
  abstract map shows after the same calls; \<open>forget\<close> answers \<open>NotFound\<close> exactly for a key the map
  does not hold.\<close>
theorem memory_refines:
  assumes "memory_wf (mm_db m)"
  shows "let m' = foldl (memory_step rfc) m es; M = foldl abs_step (memory_view (mm_db m)) es in
    memory_wf (mm_db m') \<and> memory_view (mm_db m') = M
    \<and> snd (forget m' u cat k) =
        (if M (u, category_to_string cat, k) = None then Inl (MNotFound (category_to_string cat) k) else Inr ())"
proof -
  let ?m = "foldl (memory_step rfc) m es"
  have v: "memory_view (mm_db ?m) = foldl abs_step (memory_view (mm_db m)) es"
    by (rule memory_run_refines [OF assms])
  have "snd (forget ?m u cat k) = (if memory_view (mm_db ?m) (u, category_to_string cat, k) = None
      then Inl (MNotFound (category_to_string cat) k) else Inr ())"
    by (cases rule: forget_cases [where m = ?m and u = u and cat = cat and k = k]) (simp_all add: memory_view_def)
  then show ?thesis unfolding Let_def v [symmetric] using memory_tables.run_inv [OF assms] by blast
qed

theorem memory_refines_witness:
  "memory_view (mm_db (foldl (memory_step (\<lambda>_. ''t'')) (memory_manager_new init_db) sample_events))
     (''ann'', ''fact'', ''city'') = Some (''Oslo'', 4 / 5, ''user_said'')"
proof -
  have wf: "memory_wf (mm_db (memory_manager_new init_db))" by (simp add: memory_manager_new_def memory_wf_init)
  have "memory_view (mm_db (memory_manager_new init_db)) = Map.empty"
    by (simp add: fun_eq_iff memory_view_def memory_manager_new_def init_db_def)
  then show ?thesis
    using memory_refines [OF wf, where rfc = "\<lambda>_. ''t''" and es = sample_events]
    by (simp add: Let_def sample_events_def)
qed

section \<open>Rendering\<close>

text \<open>The rendering of all memories, with no limit.\<close>

fun full_render :: "string \<Rightarrow> string \<Rightarrow> user_memory list \<Rightarrow> string" where
  "full_render out cat [] = out"
| "full_render out cat (m # ms) =
     full_render ((if category_to_string (um_category m) \<noteq> cat
         then out @ category_header out (category_to_string (um_category m)) else out) @ memory_line m)
       (category_to_string (um_category m)) ms"

lemma full_render_prefix: "\<exists>v. full_render out cat ms = out @ v"
  by (induction out cat ms rule: full_render.induct) (force split: if_splits)+

lemma full_render_lines: "m \<in> set ms \<Longrightarrow> contains (full_render out cat ms) (memory_line m)"
proof (induction out cat ms rule: full_render.induct)
  case (2 out cat x ms)
  let ?c = "category_to_string (um_category x)"
  let ?out = "if ?c \<noteq> cat then out @ category_header out ?c else out"
  show ?case
  proof (cases "m = x")
    case True
    obtain v where "full_render (?out @ memory_line x) ?c ms = (?out @ memory_line x) @ v"
      using full_render_prefix by blast
    then have "full_render out cat (x # ms) = ?out @ memory_line x @ v" by simp
    then show ?thesis unfolding True contains_iff by blast
  next
    case False
    then show ?thesis using 2 by simp
  qed
qed simp

definition cut_at :: "string \<Rightarrow> string \<Rightarrow> user_memory list \<Rightarrow> nat \<Rightarrow> string \<Rightarrow> bool" where
  "cut_at out cat ms n r \<longleftrightarrow> n < length ms
     \<and> MAX_CONTEXT_CHARS < length (full_render out cat (take (Suc n) ms))
     \<and> r \<in> {full_render out cat (take n ms), full_render out cat (take n ms)
         @ category_header (full_render out cat (take n ms)) (category_to_string (um_category (ms ! n)))}"

lemma render_loop_cut:
  "length out \<le> MAX_CONTEXT_CHARS \<Longrightarrow>
   \<exists>n \<le> length ms. length (full_render out cat (take n ms)) \<le> MAX_CONTEXT_CHARS
     \<and> (n = length ms \<and> render_loop out cat ms = full_render out cat ms
        \<or> cut_at out cat ms n (render_loop out cat ms))"
proof (induction ms arbitrary: out cat)
  case Nil
  then show ?case by simp
next
  case (Cons m ms)
  let ?c = "category_to_string (um_category m)"
  let ?out = "if ?c \<noteq> cat then out @ category_header out ?c else out"
  show ?case
  proof (cases "length ?out + length (memory_line m) > MAX_CONTEXT_CHARS")
    case True
    then have "cut_at out cat (m # ms) 0 (render_loop out cat (m # ms))"
      by (simp add: cut_at_def Let_def)
    then show ?thesis using Cons.prems by (intro exI [of _ 0]) simp
  next
    case False
    then have "length (?out @ memory_line m) \<le> MAX_CONTEXT_CHARS" by simp
    from Cons.IH [OF this, of ?c] obtain n where n: "n \<le> length ms"
      "length (full_render (?out @ memory_line m) ?c (take n ms)) \<le> MAX_CONTEXT_CHARS"
      "n = length ms \<and> render_loop (?out @ memory_line m) ?c ms = full_render (?out @ memory_line m) ?c ms
        \<or> cut_at (?out @ memory_line m) ?c ms n (render_loop (?out @ memory_line m) ?c ms)" by blast
    have loop: "render_loop out cat (m # ms) = render_loop (?out @ memory_line m) ?c ms"
      using False by (simp add: Let_def)
    show ?thesis unfolding loop
      by (rule exI [of _ "Suc n"]) (use n in \<open>simp add: cut_at_def\<close>)
  qed
qed

lemma header_length: "length (category_header out (category_to_string c)) \<le> 16"
  by (cases c) (simp_all add: category_header_def)

text \<open>C37: The rendered context. For some \<open>n\<close> the text is the complete rendering of the first \<open>n\<close>
  memories, every one of them on its own line, and at most 6000 bytes; if memories are left out,
  the next one did not fit, and the text may end with the heading of that memory's category,
  which is not counted: the whole has at most 6016 bytes.\<close>
theorem context_rendering:
  "\<exists>n \<le> length ms. let kept = full_render [] [] (take n ms) in
     length kept \<le> 6000 \<and> list_all (\<lambda>m. contains kept (memory_line m)) (take n ms)
     \<and> (if n = length ms then render_context ms = kept
        else length (full_render [] [] (take (Suc n) ms)) > 6000
          \<and> render_context ms \<in> {kept, kept @ category_header kept (category_to_string (um_category (ms ! n)))})
     \<and> length (render_context ms) \<le> 6016"
proof -
  have "length ([] :: string) \<le> MAX_CONTEXT_CHARS" by simp
  from render_loop_cut [OF this, of ms "[]"] obtain n where n: "n \<le> length ms"
    "length (full_render [] [] (take n ms)) \<le> MAX_CONTEXT_CHARS"
    "n = length ms \<and> render_loop [] [] ms = full_render [] [] ms \<or> cut_at [] [] ms n (render_loop [] [] ms)"
    by blast
  let ?kept = "full_render [] [] (take n ms)"
  have lines: "list_all (\<lambda>m. contains ?kept (memory_line m)) (take n ms)"
    by (simp add: list_all_iff full_render_lines)
  have h: "length (category_header ?kept (category_to_string (um_category (ms ! n)))) \<le> 16"
    by (rule header_length)
  show ?thesis
  proof (cases "n = length ms")
    case True
    then show ?thesis using n lines
      by (intro exI [of _ n]) (simp add: render_context_def MAX_CONTEXT_CHARS_def cut_at_def)
  next
    case False
    then have cut: "cut_at [] [] ms n (render_context ms)" using n(3) by (simp add: render_context_def)
    then have "length (render_context ms) \<le> 6016"
      using n(2) h by (auto simp: cut_at_def MAX_CONTEXT_CHARS_def)
    then show ?thesis using n(1,2) cut lines False
      by (intro exI [of _ n]) (simp add: cut_at_def MAX_CONTEXT_CHARS_def Let_def)
  qed
qed

section \<open>The cache of contexts\<close>

definition context_cache_wf :: "(string \<times> user_context) list \<Rightarrow> bool" where
  "context_cache_wf c \<longleftrightarrow> distinct (map fst c) \<and> length c \<le> MAX_CACHE_ENTRIES"

lemma oldest_keys_in: "set (oldest_keys c) \<subseteq> fst ` set c"
  by (auto simp: oldest_keys_def)

lemma oldest_keys_nonempty:
  assumes "c \<noteq> []"
  shows "oldest_keys c \<noteq> []"
proof -
  let ?T = "(\<lambda>e. cx_built_at (snd e)) ` set c"
  have "Min ?T \<in> ?T" using assms by (intro Min_in) auto
  then obtain e where "e \<in> set c" "cx_built_at (snd e) = Min ?T" by force
  then have "\<forall>e' \<in> set c. cx_built_at (snd e) \<le> cx_built_at (snd e')" by simp
  then show ?thesis using \<open>e \<in> set c\<close> by (auto simp: oldest_keys_def filter_empty_conv list_all_iff)
qed

lemma length_alist_update: "length (AList.update k v al) \<le> Suc (length al)"
  by (induction al) auto

lemma length_cache_delete: "k \<in> fst ` set c \<Longrightarrow> length (cache_delete k c) < length c"
  by (auto simp: cache_delete_def AList.delete_eq intro!: length_filter_less)

lemma cache_store_conv:
  assumes "context_cache_wf c"
  obtains c' where "cache_store tie u ctx c = AList.update u ctx c'" "distinct (map fst c')"
    "length c' < MAX_CACHE_ENTRIES" "map_of c' \<subseteq>\<^sub>m map_of c"
proof (cases "length c \<ge> MAX_CACHE_ENTRIES")
  case True
  let ?k = "oldest_keys c ! (tie mod length (oldest_keys c))"
  have "c \<noteq> []" using True by (auto simp: MAX_CACHE_ENTRIES_def)
  then have "?k \<in> fst ` set c"
    using oldest_keys_nonempty oldest_keys_in by (metis length_greater_0_conv mod_less_divisor nth_mem subsetD)
  from length_cache_delete [OF this] show ?thesis using assms True
    by (intro that [of "cache_delete ?k c"])
      (auto simp: cache_store_def Let_def context_cache_wf_def cache_delete_def distinct_delete delete_conv
        map_le_def)
qed (use assms in \<open>auto simp: cache_store_def Let_def context_cache_wf_def intro!: that [of c]\<close>)

interpretation user_contexts: bounded_cache map_of "cache_store tie" cache_delete length MAX_CACHE_ENTRIES
  context_cache_wf
proof unfold_locales
  fix c :: "(string \<times> user_context) list" and k k' v w
  assume wf: "context_cache_wf c"
  from cache_store_conv [OF wf] obtain c' where c': "cache_store tie k v c = AList.update k v c'"
    "distinct (map fst c')" "length c' < MAX_CACHE_ENTRIES" "map_of c' \<subseteq>\<^sub>m map_of c" by metis
  show "map_of (cache_store tie k v c) k = Some v" by (simp add: c' update_conv)
  show "k' \<noteq> k \<Longrightarrow> map_of (cache_store tie k v c) k' = Some w \<Longrightarrow> map_of c k' = Some w"
    using c'(4) by (auto simp: c' update_conv map_le_def dom_def)
  show "context_cache_wf (cache_store tie k v c)"
    using c'(2,3) length_alist_update [of k v c'] by (simp add: c'(1) context_cache_wf_def distinct_update)
  show "map_of (cache_delete k c) k' = (if k' = k then None else map_of c k')"
    by (simp add: cache_delete_def delete_conv)
  show "context_cache_wf (cache_delete k c)"
    using wf length_delete_le [of k c] by (simp add: context_cache_wf_def cache_delete_def distinct_delete)
  show "length c \<le> MAX_CACHE_ENTRIES" using wf by (simp add: context_cache_wf_def)
qed

text \<open>A cached context is true of the tables when it renders the memories its user had, as of
  some instant not after its time stamp.\<close>

definition context_true :: "(int \<Rightarrow> string) \<Rightarrow> memory_db \<Rightarrow> string \<Rightarrow> user_context \<Rightarrow> bool" where
  "context_true rfc db u ctx \<longleftrightarrow> cx_user_id ctx = u \<and> (\<exists>t \<le> cx_built_at ctx.
     cx_rendered ctx = render_context (current_memories (rfc t) db u)
     \<and> cx_memory_count ctx = length (current_memories (rfc t) db u))"

definition memory_inv :: "(int \<Rightarrow> string) \<Rightarrow> memory_manager \<Rightarrow> bool" where
  "memory_inv rfc m \<longleftrightarrow> memory_wf (mm_db m) \<and> context_cache_wf (mm_cache m)
     \<and> user_contexts.agrees (context_true rfc (mm_db m)) (mm_cache m)"

text \<open>Only \<open>learn\<close> and \<open>forget\<close> for that user change what a user's context renders.\<close>

definition rows_of :: "string \<Rightarrow> memory_db \<Rightarrow> memory_row list" where
  "rows_of u db = filter (\<lambda>r. mr_user_id r = u) (t_memory db)"

lemma current_memories_rows:
  "rows_of u db = rows_of u db' \<Longrightarrow> current_memories now db u = current_memories now db' u"
proof -
  have "filter (\<lambda>r. mr_user_id r = u \<and> Q r) (t_memory d) = filter Q (rows_of u d)" for Q d
    by (simp add: rows_of_def conj_commute)
  then show "rows_of u db = rows_of u db' \<Longrightarrow> ?thesis" by (simp add: current_memories_def)
qed

lemma context_true_rows: "rows_of u db = rows_of u db' \<Longrightarrow> context_true rfc db u = context_true rfc db' u"
  by (simp add: fun_eq_iff context_true_def current_memories_rows [of u db db'])

lemma rows_of_update:
  assumes "memory_wf db" "r \<in> set (t_memory db)" "mr_user_id r \<noteq> u"
  shows "rows_of u (db\<lparr>t_memory := tbl_update (\<lambda>x. mr_id x = mr_id r) (overwrite v c src now) (t_memory db),
    t_memory_fts := fts\<rparr>) = rows_of u db"
proof -
  have "x = r" if "x \<in> set (t_memory db)" "mr_id x = mr_id r" for x
    using assms that unique_id_other [of mr_id] by (auto simp: memory_wf_def)
  then have "filter (\<lambda>r. mr_user_id r = u) (map (\<lambda>x. if mr_id x = mr_id r then overwrite v c src now x else x) xs)
      = filter (\<lambda>r. mr_user_id r = u) xs" if "set xs \<subseteq> set (t_memory db)" for xs
    using that assms(3) by (induction xs) (auto split: if_splits)
  then show ?thesis by (simp add: rows_of_def tbl_update_def)
qed

lemma rows_of_delete:
  assumes "memory_wf db" "r \<in> set (t_memory db)" "mr_user_id r \<noteq> u"
  shows "rows_of u (db\<lparr>t_memory := tbl_delete (\<lambda>x. mr_id x = mr_id r) (t_memory db), t_memory_fts := fts\<rparr>)
    = rows_of u db"
proof -
  have "x = r" if "x \<in> set (t_memory db)" "mr_id x = mr_id r" for x
    using assms that unique_id_other [of mr_id] by (auto simp: memory_wf_def)
  then show ?thesis using assms(3) by (auto simp: rows_of_def tbl_delete_def intro!: filter_cong)
qed

lemma found_row: "tbl_find (\<lambda>r. memory_key r = (u, cat, k)) rows = Some r \<Longrightarrow> r \<in> set rows \<and> mr_user_id r = u"
  by (drule tbl_find_SomeD) (simp add: memory_key_def)

lemma learn_rows:
  assumes "memory_wf (mm_db m)"
  shows "fst (learn now m u cat k v c src) = m
    \<or> mm_cache (fst (learn now m u cat k v c src)) = cache_delete u (mm_cache m)
      \<and> (\<forall>u'. u' \<noteq> u \<longrightarrow> rows_of u' (mm_db (fst (learn now m u cat k v c src))) = rows_of u' (mm_db m))"
proof (cases rule: learn_cases [where m = m and u = u and cat = cat and k = k and v = v and c = c
      and src = src and now = now])
  case (replace r)
  then show ?thesis using rows_of_update [OF assms] found_row [OF replace(1)]
    by (simp add: invalidate_cache_def)
qed (simp_all add: invalidate_cache_def rows_of_def)

lemma forget_rows:
  assumes "memory_wf (mm_db m)"
  shows "fst (forget m u cat k) = m
    \<or> mm_cache (fst (forget m u cat k)) = cache_delete u (mm_cache m)
      \<and> (\<forall>u'. u' \<noteq> u \<longrightarrow> rows_of u' (mm_db (fst (forget m u cat k))) = rows_of u' (mm_db m))"
proof (cases rule: forget_cases [where m = m and u = u and cat = cat and k = k])
  case (gone r)
  then show ?thesis using rows_of_delete [OF assms] found_row [OF gone(1)]
    by (simp add: invalidate_cache_def)
qed simp

lemma inv_dropped:
  assumes "memory_inv rfc m" "memory_wf (mm_db m')"
    "m' = m \<or> mm_cache m' = cache_delete u (mm_cache m)
      \<and> (\<forall>u'. u' \<noteq> u \<longrightarrow> rows_of u' (mm_db m') = rows_of u' (mm_db m))"
  shows "memory_inv rfc m'"
  using assms(3)
proof
  assume "m' = m"
  then show ?thesis using assms(1) by simp
next
  assume d: "mm_cache m' = cache_delete u (mm_cache m)
      \<and> (\<forall>u'. u' \<noteq> u \<longrightarrow> rows_of u' (mm_db m') = rows_of u' (mm_db m))"
  have "user_contexts.agrees (context_true rfc (mm_db m')) (cache_delete u (mm_cache m))"
  proof (rule user_contexts.agrees_remove_changed)
    fix u' ctx assume "u' \<noteq> u" "context_true rfc (mm_db m) u' ctx"
    then show "context_true rfc (mm_db m') u' ctx"
      using d context_true_rows [of u' "mm_db m'" "mm_db m" rfc] by simp
  qed (use assms(1) in \<open>simp_all add: memory_inv_def\<close>)
  then show ?thesis using assms(1,2) d user_contexts.cinv_remove by (simp add: memory_inv_def)
qed

lemma built_context:
  assumes "memory_inv rfc m" "build_user_context rfc tie tc t d m u = (m', r)"
  shows "memory_inv rfc m' \<and> mm_db m' = mm_db m
    \<and> (\<exists>ctx. r = Inr ctx \<and> context_true rfc (mm_db m) u ctx
        \<and> (get_cached tc m u = Some ctx \<or> cx_built_at ctx = t + int d
             \<and> cx_rendered ctx = render_context (current_memories (rfc t) (mm_db m) u)))"
proof (cases "get_cached tc m u")
  case None
  let ?ms = "current_memories (rfc t) (mm_db m) u"
  let ?ctx = "\<lparr> cx_user_id = u, cx_rendered = render_context ?ms, cx_memory_count = length ?ms,
      cx_built_at = t + int d \<rparr>"
  have m': "m' = m\<lparr>mm_cache := cache_store tie u ?ctx (mm_cache m)\<rparr>" "r = Inr ?ctx"
    using assms(2) None by (simp_all add: build_user_context_def Let_def)
  have "context_true rfc (mm_db m) u ?ctx"
    by (auto simp: context_true_def intro: exI [of _ t])
  then show ?thesis using assms(1) m' user_contexts.agrees_insert user_contexts.cinv_insert
    by (simp add: memory_inv_def)
next
  case (Some ctx)
  then have "map_of (mm_cache m) u = Some ctx" by (simp add: get_cached_def split: option.splits if_splits)
  then have "context_true rfc (mm_db m) u ctx"
    using assms(1) by (simp add: memory_inv_def user_contexts.agrees_def)
  moreover have "m' = m" "r = Inr ctx" using assms(2) Some by (simp_all add: build_user_context_def)
  ultimately show ?thesis using assms(1) Some by blast
qed

lemma memory_inv_step:
  assumes "memory_inv rfc m"
  shows "memory_inv rfc (memory_step rfc m e)"
proof -
  have wf: "memory_wf (mm_db m)" using assms by (simp add: memory_inv_def)
  have other: "memory_inv rfc (m\<lparr>mm_db := db\<rparr>)" if "t_memory db = t_memory (mm_db m)"
    "t_memory_seq db = t_memory_seq (mm_db m)" for db
  proof -
    have "context_true rfc db = context_true rfc (mm_db m)"
      by (rule ext, rule context_true_rows) (simp add: rows_of_def that)
    then show ?thesis using assms that by (simp add: memory_inv_def memory_wf_def)
  qed
  show ?thesis
  proof (cases e)
    case (MLearn now u cat k v c src)
    show ?thesis unfolding MLearn memory_step.simps
      by (rule inv_dropped [OF assms memory_wf_learn [OF wf] learn_rows [OF wf]])
  next
    case (MForget u cat k)
    show ?thesis unfolding MForget memory_step.simps
      by (rule inv_dropped [OF assms memory_wf_forget [OF wf] forget_rows [OF wf]])
  next
    case (MContext tie tc t d u)
    then show ?thesis using built_context [OF assms]
      by (metis memory_step.simps(3) prod.collapse)
  qed (simp_all add: other memory_table_other)
qed

interpretation memory_calls: machine "memory_step rfc" "memory_inv rfc"
  by unfold_locales (rule memory_inv_step)



section \<open>The full-text indexes\<close>

text \<open>
  FTS5 asks that a delete command repeats the columns the index holds for that row, and that no
  row is inserted twice; otherwise the index is corrupted. \<open>fts_contents\<close> is what an index holds
  after a list of commands that keeps this contract, and \<open>None\<close> after one that does not.
\<close>

fun fts_step :: "(nat \<Rightarrow> string list option) option \<Rightarrow> fts_cmd \<Rightarrow> (nat \<Rightarrow> string list option) option" where
  "fts_step None cmd = None"
| "fts_step (Some M) (FtsInsert i cols) = (if M i = None then Some (M(i \<mapsto> cols)) else None)"
| "fts_step (Some M) (FtsDelete i cols) = (if M i = Some cols then Some (M(i := None)) else None)"

definition fts_contents :: "fts_cmd list \<Rightarrow> (nat \<Rightarrow> string list option) option" where
  "fts_contents cmds = foldl fts_step (Some Map.empty) cmds"

definition knowledge_index :: "memory_db \<Rightarrow> nat \<Rightarrow> string list option" where
  "knowledge_index db i = map_option entry_columns (tbl_find (\<lambda>e. ke_id e = i) (t_knowledge db))"

definition memory_index :: "memory_db \<Rightarrow> nat \<Rightarrow> string list option" where
  "memory_index db i = map_option (\<lambda>r. [mr_key r, mr_value r]) (tbl_find (\<lambda>r. mr_id r = i) (t_memory db))"

lemma fts_contents_append: "fts_contents (xs @ ys) = foldl fts_step (fts_contents xs) ys"
  by (simp add: fts_contents_def)

definition knowledge_ok :: "memory_db \<Rightarrow> bool" where
  "knowledge_ok db \<longleftrightarrow> knowledge_wf db \<and> fts_contents (t_knowledge_fts db) = Some (knowledge_index db)"

lemma knowledge_ok_other:
  "t_knowledge db' = t_knowledge db \<Longrightarrow> t_knowledge_seq db' = t_knowledge_seq db \<Longrightarrow>
   t_knowledge_fts db' = t_knowledge_fts db \<Longrightarrow> knowledge_ok db \<Longrightarrow> knowledge_ok db'"
  by (simp add: knowledge_ok_def knowledge_wf_def knowledge_index_def [abs_def])

lemma find_update_key:
  assumes "unique_on key rows" "r \<in> set rows" "\<And>x. key (f x) = key x"
  shows "tbl_find (\<lambda>x. key x = i) (tbl_update (\<lambda>x. key x = key r) f rows)
    = (if i = key r then Some (f r) else tbl_find (\<lambda>x. key x = i) rows)"
proof -
  have "tbl_find (\<lambda>x. key x = i) (tbl_update (\<lambda>x. key x = key r) f rows)
      = map_option (\<lambda>x. if key x = key r then f x else x) (tbl_find (\<lambda>x. key x = i) rows)"
    by (rule tbl_find_update) (simp add: assms(3))
  moreover have "tbl_find (\<lambda>x. key x = key r) rows = Some r" by (rule tbl_find_unique [OF assms(1,2)])
  ultimately show ?thesis
    by (cases "i = key r"; cases "tbl_find (\<lambda>x. key x = i) rows") (auto dest: tbl_find_SomeD)
qed

lemma knowledge_ok_write:
  assumes "knowledge_ok db"
  shows "knowledge_ok (knowledge_write now db topic content tags)
    \<and> (\<exists>e. tbl_find (\<lambda>e. ke_topic e = topic) (t_knowledge (knowledge_write now db topic content tags)) = Some e
        \<and> ke_content e = content \<and> ke_tags e = tags)"
proof -
  let ?db = "knowledge_write now db topic content tags"
  have wf: "knowledge_wf db" and ix: "fts_contents (t_knowledge_fts db) = Some (knowledge_index db)"
    using assms by (simp_all add: knowledge_ok_def)
  show ?thesis
  proof (cases "tbl_find (\<lambda>e. ke_topic e = topic) (t_knowledge db)")
    case None
    let ?i = "Suc (t_knowledge_seq db)"
    have fresh: "?i \<notin> ke_id ` set (t_knowledge db)" using wf by (fastforce simp: knowledge_wf_def)
    then have "tbl_find (\<lambda>e. ke_id e = ?i) (t_knowledge db) = None" by (simp add: tbl_find_key_None)
    then have "knowledge_index ?db = (knowledge_index db)(?i \<mapsto> [topic, content, tags])" "knowledge_index db ?i = None"
      using None by (auto simp: fun_eq_iff knowledge_index_def knowledge_write_def Let_def tbl_find_append
          entry_columns_def split: option.splits)
    moreover have "topic \<notin> ke_topic ` set (t_knowledge db)" using None by (simp add: tbl_find_key_None)
    ultimately show ?thesis using None wf ix fresh
      by (auto simp: knowledge_ok_def knowledge_wf_def knowledge_write_def Let_def fts_contents_append
          unique_on_append_row tbl_find_append)
  next
    case (Some old)
    from tbl_find_SomeD [OF Some] have old: "old \<in> set (t_knowledge db)" "ke_topic old = topic" by simp_all
    let ?f = "\<lambda>e. e\<lparr>ke_content := content, ke_tags := tags, ke_updated_at := now\<rparr>"
    have u: "unique_on ke_id (t_knowledge db)" "unique_on ke_topic (t_knowledge db)"
      using wf by (simp_all add: knowledge_wf_def)
    have up: "tbl_find (\<lambda>e. ke_id e = i) (tbl_update (\<lambda>e. ke_id e = ke_id old) ?f (t_knowledge db))
        = (if i = ke_id old then Some (?f old) else tbl_find (\<lambda>e. ke_id e = i) (t_knowledge db))" for i
      by (rule find_update_key [OF u(1) old(1)]) simp
    have here: "tbl_find (\<lambda>e. ke_id e = ke_id old) (t_knowledge db) = Some old"
      by (rule tbl_find_unique [OF u(1) old(1)])
    have "knowledge_index db (ke_id old) = Some [topic, ke_content old, ke_tags old]"
      using here old(2) by (simp add: knowledge_index_def entry_columns_def)
    moreover have "knowledge_index ?db = (knowledge_index db)(ke_id old := None, ke_id old \<mapsto> [topic, content, tags])"
      using Some old(2) by (auto simp: fun_eq_iff knowledge_index_def knowledge_write_def up entry_columns_def)
    moreover have "knowledge_wf ?db" using wf Some
      by (auto simp: knowledge_wf_def knowledge_write_def unique_on_update set_tbl_update)
    moreover have "tbl_find (\<lambda>e. ke_topic e = topic) (t_knowledge ?db) = Some (?f old)"
    proof -
      have "?f old \<in> set (t_knowledge ?db)" using Some old(1) by (force simp: knowledge_write_def set_tbl_update)
      moreover have "unique_on ke_topic (t_knowledge ?db)" using \<open>knowledge_wf ?db\<close> by (simp add: knowledge_wf_def)
      ultimately show ?thesis using tbl_find_unique [of ke_topic "t_knowledge ?db" "?f old"] old(2) by simp
    qed
    ultimately show ?thesis using Some ix
      by (simp add: knowledge_ok_def knowledge_write_def fts_contents_append)
  qed
qed

lemma knowledge_ok_step: "knowledge_ok (mm_db m) \<Longrightarrow> knowledge_ok (mm_db (memory_step rfc m e))"
proof (cases e)
  case (MLearn now u cat k v c src)
  assume "knowledge_ok (mm_db m)"
  then show ?thesis unfolding MLearn memory_step.simps
    by (cases rule: learn_cases [where m = m and u = u and cat = cat and k = k and v = v and c = c
          and src = src and now = now]) (auto intro: knowledge_ok_other)
next
  case (MForget u cat k)
  assume "knowledge_ok (mm_db m)"
  then show ?thesis unfolding MForget memory_step.simps
    by (cases rule: forget_cases [where m = m and u = u and cat = cat and k = k])
      (auto intro: knowledge_ok_other)
next
  case (MDelete ids)
  assume "knowledge_ok (mm_db m)"
  then show ?thesis unfolding MDelete memory_step.simps
    by (auto simp: delete_turns_def intro: knowledge_ok_other)
qed (auto simp: knowledge_ok_write save_message_def log_tool_call_def intro: knowledge_ok_other)

interpretation knowledge_base: machine "memory_step rfc" "\<lambda>m. knowledge_ok (mm_db m)"
  by unfold_locales (rule knowledge_ok_step)

text \<open>The knowledge index is exact. From empty tables, whatever the calls, every command given
  to the full-text index of the knowledge base keeps FTS5's contract, the index holds exactly the
  columns of the table's rows, topics are unique, and a written topic reads back as written.\<close>
theorem knowledge_index_exact:
  "let db = mm_db (foldl (memory_step rfc) (memory_manager_new init_db) es) in
     fts_contents (t_knowledge_fts db) = Some (knowledge_index db)
     \<and> unique_on ke_topic (t_knowledge db)
     \<and> (\<exists>e. tbl_find (\<lambda>e. ke_topic e = topic) (t_knowledge (knowledge_write now db topic content tags)) = Some e
          \<and> ke_content e = content \<and> ke_tags e = tags)"
proof -
  have "knowledge_ok (mm_db (memory_manager_new init_db))"
    by (simp add: knowledge_ok_def knowledge_wf_init memory_manager_new_def)
      (simp add: init_db_def fts_contents_def knowledge_index_def [abs_def])
  from knowledge_base.run_inv [OF this, of rfc es]
  show ?thesis unfolding Let_def using knowledge_ok_write by (simp add: knowledge_ok_def knowledge_wf_def)
qed

text \<open>The memory index breaks on a correction. While the index of the memories is exact, \<open>learn\<close>
  keeps it exact except when it replaces a value by another one: then it deletes with the new
  value where FTS5 needs the old one, and the contract is broken. \<open>forget\<close> always keeps it.\<close>
theorem learn_index:
  assumes wf: "memory_wf (mm_db m)"
    and ix: "fts_contents (t_memory_fts (mm_db m)) = Some (memory_index (mm_db m))"
  shows "let db = mm_db (fst (learn now m u cat k v c src)); db' = mm_db (fst (forget m u cat k)) in
    fts_contents (t_memory_fts db) =
      (case memory_view (mm_db m) (u, category_to_string cat, k) of
         Some (v0, c0, _) \<Rightarrow> if c0 \<le> c \<and> v \<noteq> v0 then None else Some (memory_index db)
       | None \<Rightarrow> Some (memory_index db))
    \<and> fts_contents (t_memory_fts db') = Some (memory_index db')"
proof -
  have u: "unique_on mr_id (t_memory (mm_db m))" using wf by (simp add: memory_wf_def)
  let ?key = "(u, category_to_string cat, k)"
  have held: "memory_index (mm_db m) (mr_id r) = Some [k, mr_value r]"
    "r \<in> set (t_memory (mm_db m))" "mr_key r = k"
    if "tbl_find (\<lambda>r. memory_key r = ?key) (t_memory (mm_db m)) = Some r" for r
    using tbl_find_SomeD [OF that] tbl_find_unique [OF u, of r] by (simp_all add: memory_index_def memory_key_def)
  let ?db = "mm_db (fst (learn now m u cat k v c src))"
  have learned: "fts_contents (t_memory_fts ?db) =
      (case memory_view (mm_db m) ?key of
         Some (v0, c0, _) \<Rightarrow> if c0 \<le> c \<and> v \<noteq> v0 then None else Some (memory_index ?db)
       | None \<Rightarrow> Some (memory_index ?db))"
  proof (cases rule: learn_cases [where m = m and u = u and cat = cat and k = k and v = v and c = c
        and src = src and now = now])
    case (skip r)
    then show ?thesis using ix by (simp add: memory_view_def seen_def)
  next
    case (replace r)
    note h = held [OF replace(1)]
    let ?rows = "tbl_update (\<lambda>x. mr_id x = mr_id r) (overwrite v c (source_to_string src) now) (t_memory (mm_db m))"
    have "tbl_find (\<lambda>x. mr_id x = i) ?rows = (if i = mr_id r then Some (overwrite v c (source_to_string src) now r)
        else tbl_find (\<lambda>x. mr_id x = i) (t_memory (mm_db m)))" for i
      by (rule find_update_key [OF u h(2)]) simp
    then have i: "memory_index ?db = (memory_index (mm_db m))(mr_id r \<mapsto> [k, v])"
      using replace(3) h(3) by (auto simp: fun_eq_iff memory_index_def)
    have "t_memory_fts ?db = t_memory_fts (mm_db m) @ [FtsDelete (mr_id r) [k, v], FtsInsert (mr_id r) [k, v]]"
      using replace(3) by simp
    then have "fts_contents (t_memory_fts ?db)
        = (if v = mr_value r then Some ((memory_index (mm_db m))(mr_id r \<mapsto> [k, v])) else None)"
      by (simp add: fts_contents_append ix h(1))
    then have "fts_contents (t_memory_fts ?db) = (if v = mr_value r then Some (memory_index ?db) else None)"
      unfolding i .
    then show ?thesis using replace(1,2) by (simp add: memory_view_def seen_def not_less)
  next
    case (new r)
    have none: "tbl_find (\<lambda>x. mr_id x = mr_id r) (t_memory (mm_db m)) = None"
      using memory_wf_fresh [OF wf] new(6) by (simp add: tbl_find_key_None)
    have "mr_key r = k" using new(2) by (simp add: memory_key_def)
    then have i: "memory_index ?db = (memory_index (mm_db m))(mr_id r \<mapsto> [k, v])"
      using new(3,8) none by (auto simp: fun_eq_iff memory_index_def tbl_find_append split: option.splits)
    have "memory_index (mm_db m) (mr_id r) = None" using none by (simp add: memory_index_def)
    moreover have "t_memory_fts ?db = t_memory_fts (mm_db m) @ [FtsInsert (mr_id r) [k, v]]"
      using new(8) by simp
    ultimately have "fts_contents (t_memory_fts ?db) = Some (memory_index ?db)"
      by (simp add: fts_contents_append ix i)
    then show ?thesis using new(1) by (simp add: memory_view_def)
  qed
  have "fts_contents (t_memory_fts (mm_db (fst (forget m u cat k)))) = Some (memory_index (mm_db (fst (forget m u cat k))))"
  proof (cases rule: forget_cases [where m = m and u = u and cat = cat and k = k])
    case missing
    then show ?thesis using ix by simp
  next
    case (gone r)
    have "tbl_find (\<lambda>x. mr_id x = i) (tbl_delete (\<lambda>x. mr_id x = mr_id r) (t_memory (mm_db m)))
        = (if i = mr_id r then None else tbl_find (\<lambda>x. mr_id x = i) (t_memory (mm_db m)))" for i
  by (rule find_delete_key)
    then have "memory_index (mm_db (fst (forget m u cat k))) = (memory_index (mm_db m))(mr_id r := None)"
      using gone(2) by (auto simp: fun_eq_iff memory_index_def)
    then show ?thesis using gone(2) held [OF gone(1)] ix by (simp add: fts_contents_append)
  qed
  with learned show ?thesis by (simp add: Let_def)
qed

theorem learn_index_witness:
  "let m = fst (learn ''t1'' (memory_manager_new init_db) ''ann'' Fact ''city'' ''Oslo'' (1 / 2) Inferred) in
     fts_contents (t_memory_fts (mm_db m)) = Some (memory_index (mm_db m))
     \<and> fts_contents (t_memory_fts (mm_db (fst (learn ''t2'' m ''ann'' Fact ''city'' ''Bergen'' 1 UserSaid)))) = None"
proof -
  let ?start = "memory_manager_new init_db"
  let ?m = "fst (learn ''t1'' ?start ''ann'' Fact ''city'' ''Oslo'' (1 / 2) Inferred)"
  have wf0: "memory_wf (mm_db ?start)" by (simp add: memory_manager_new_def memory_wf_init)
  have ix0: "fts_contents (t_memory_fts (mm_db ?start)) = Some (memory_index (mm_db ?start))"
    by (simp add: memory_manager_new_def init_db_def fts_contents_def memory_index_def [abs_def])
  have "memory_view (mm_db ?start) = (\<lambda>_. None)"
    by (simp add: fun_eq_iff memory_view_def memory_manager_new_def init_db_def)
  then have ix: "fts_contents (t_memory_fts (mm_db ?m)) = Some (memory_index (mm_db ?m))"
    using learn_index [OF wf0 ix0, where now = "''t1''" and u = "''ann''" and cat = Fact and k = "''city''"
        and v = "''Oslo''" and c = "1 / 2" and src = Inferred] by (simp add: Let_def)
  have wf: "memory_wf (mm_db ?m)" by (rule memory_wf_learn [OF wf0])
  have "memory_view (mm_db ?m) (''ann'', ''fact'', ''city'') = Some (''Oslo'', 1 / 2, ''inferred'')"
    by (simp add: learn_def Let_def memory_manager_new_def init_db_def memory_view_def seen_def memory_key_def)
  then have "fts_contents (t_memory_fts (mm_db (fst (learn ''t2'' ?m ''ann'' Fact ''city'' ''Bergen'' 1 UserSaid)))) = None"
    using learn_index [OF wf ix, where now = "''t2''" and u = "''ann''" and cat = Fact and k = "''city''"
        and v = "''Bergen''" and c = 1 and src = UserSaid] by (simp add: Let_def)
  with ix show ?thesis by (simp add: Let_def)
qed

end
