(* ===== verification/Provider.thy ===== *)
theory Provider
  imports Core
begin

text \<open>
  The agent's access to language models (\<open>crates/skynet-agent\<close>): the messages of a provider
  (\<open>provider.rs\<close>, \<open>stream.rs\<close>), the router that retries and fails over (\<open>router.rs\<close>), and the loop
  that lets a model call tools (\<open>tools/mod.rs\<close>, \<open>tools/tool_loop.rs\<close>).

  A provider and a tool are records of functions over an abstract world \<open>'w\<close>; nothing is assumed
  of them. A log holds the attempts in the order the router's tracing lines report them.
\<close>

section \<open>Data\<close>

datatype role = RUser | RAssistant | RSystem

fun role_name :: "role \<Rightarrow> string" where
  "role_name RUser = ''user''"
| "role_name RAssistant = ''assistant''"
| "role_name RSystem = ''system''"

record chat_message =
  msg_role :: role
  msg_content :: string

record tool_definition =
  td_name :: string
  td_description :: string
  td_input_schema :: json

record tool_call =
  call_id :: string
  call_name :: string
  call_input :: json

record system_prompt =
  static_tier :: string
  user_tier :: string
  volatile_tier :: string

datatype thinking_level = ThinkOff | ThinkMinimal | ThinkLow | ThinkMedium | ThinkHigh | ThinkXHigh

record chat_request =
  cr_model :: string
  cr_system :: string
  cr_system_prompt :: "system_prompt option"
  cr_messages :: "chat_message list"
  cr_max_tokens :: nat
  cr_stream :: bool
  cr_thinking :: "thinking_level option"
  cr_tools :: "tool_definition list"
  cr_raw_messages :: "json list option"

record chat_response =
  rs_content :: string
  rs_model :: string
  rs_tokens_in :: nat
  rs_tokens_out :: nat
  rs_stop_reason :: string
  rs_tool_calls :: "tool_call list"

datatype provider_error =
    PHttp string
  | PApi nat string
  | PParse string
  | PRateLimited nat
  | PUnavailable string

datatype stream_event =
    TextDelta string
  | ThinkingDelta string
  | ToolUse string string json
  | StreamDone string nat nat string
  | StreamError string

text \<open>A provider streams by sending events while it works and then returns.\<close>

record 'w llm_provider =
  p_name :: string
  p_send :: "chat_request \<Rightarrow> 'w \<Rightarrow> 'w \<times> (provider_error + chat_response)"
  p_send_stream :: "chat_request \<Rightarrow> 'w \<Rightarrow> 'w \<times> stream_event list \<times> (provider_error + unit)"

text \<open>The trait's default for \<open>send_stream\<close>.\<close>

definition default_send_stream ::
    "(chat_request \<Rightarrow> 'w \<Rightarrow> 'w \<times> (provider_error + chat_response))
      \<Rightarrow> chat_request \<Rightarrow> 'w \<Rightarrow> 'w \<times> stream_event list \<times> (provider_error + unit)" where
  "default_send_stream send req w =
     (let (w', r) = send req w in
      case r of
        Inl e \<Rightarrow> (w', [], Inl e)
      | Inr resp \<Rightarrow>
          (w', [TextDelta (rs_content resp),
                StreamDone (rs_model resp) (rs_tokens_in resp) (rs_tokens_out resp) (rs_stop_reason resp)],
           Inr ()))"

section \<open>The router\<close>

record 'w provider_slot =
  slot_provider :: "'w llm_provider"
  slot_max_retries :: nat

text \<open>\<open>ProviderRouter::new\<close> asserts that there is a slot.\<close>

definition router_new :: "'w provider_slot list \<Rightarrow> 'w provider_slot list outcome" where
  "router_new slots = (if slots = [] then Panic else Ret slots)"

fun is_rate_limited :: "provider_error \<Rightarrow> bool" where
  "is_rate_limited (PRateLimited ms) = True"
| "is_rate_limited _ = False"

text \<open>A line of the log: provider, attempt, and the error unless it succeeded.\<close>

type_synonym attempt_line = "string \<times> nat \<times> provider_error option"

text \<open>
  The attempts on one slot. \<open>call\<close> is the provider's method with the request; \<open>left\<close> counts the
  attempts that remain. The result is the world, the log, the pauses in milliseconds, and the
  success or the last error.
\<close>

fun slot_loop ::
    "string \<Rightarrow> nat \<Rightarrow> ('w \<Rightarrow> 'w \<times> (provider_error + 'a)) \<Rightarrow> nat \<Rightarrow> nat \<Rightarrow> provider_error option \<Rightarrow> 'w
      \<Rightarrow> 'w \<times> attempt_line list \<times> nat list \<times> (provider_error option + 'a)" where
  "slot_loop name max_retries call 0 attempt last_err w = (w, [], [], Inl last_err)"
| "slot_loop name max_retries call (Suc left) attempt last_err w =
     (let (w', r) = call w in
      case r of
        Inr resp \<Rightarrow> (w', [(name, attempt, None)], [], Inr resp)
      | Inl e \<Rightarrow>
          if is_rate_limited e then (w', [(name, attempt, Some e)], [], Inl (Some e))
          else
            (let pause = (if attempt < max_retries then [200 * (attempt + 1)] else []);
                 (w'', lg, pauses, res) = slot_loop name max_retries call left (attempt + 1) (Some e) w'
             in (w'', (name, attempt, Some e) # lg, pause @ pauses, res)))"

fun slots_loop ::
    "('w llm_provider \<Rightarrow> 's \<Rightarrow> 's \<times> (provider_error + 'a)) \<Rightarrow> provider_error option
      \<Rightarrow> 'w provider_slot list \<Rightarrow> 's
      \<Rightarrow> 's \<times> attempt_line list \<times> nat list \<times> (provider_error option + 'a)" where
  "slots_loop call last_err [] w = (w, [], [], Inl last_err)"
| "slots_loop call last_err (slot # slots) w =
     (let n = slot_max_retries slot; p = slot_provider slot;
          (w', lg, pauses, res) = slot_loop (p_name p) n (call p) (n + 1) 0 last_err w
      in case res of
           Inr resp \<Rightarrow> (w', lg, pauses, Inr resp)
         | Inl e \<Rightarrow>
             (let (w'', lg', pauses', res') = slots_loop call e slots w'
              in (w'', lg @ lg', pauses @ pauses', res')))"

definition route_result :: "provider_error option + 'a \<Rightarrow> provider_error + 'a" where
  "route_result res =
     (case res of
        Inr a \<Rightarrow> Inr a
      | Inl (Some e) \<Rightarrow> Inl e
      | Inl None \<Rightarrow> Inl (PUnavailable ''all providers failed''))"

definition router_send ::
    "'w provider_slot list \<Rightarrow> chat_request \<Rightarrow> 'w
      \<Rightarrow> 'w \<times> attempt_line list \<times> nat list \<times> (provider_error + chat_response)" where
  "router_send slots req w =
     (let (w', lg, pauses, res) = slots_loop (\<lambda>p. p_send p req) None slots w
      in (w', lg, pauses, route_result res))"

text \<open>For a stream the attempts share the channel: its events are part of the world.\<close>

definition stream_call ::
    "chat_request \<Rightarrow> 'w llm_provider \<Rightarrow> 'w \<times> stream_event list
      \<Rightarrow> ('w \<times> stream_event list) \<times> (provider_error + unit)" where
  "stream_call req p s =
     (let (w', evs, r) = p_send_stream p req (fst s) in ((w', snd s @ evs), r))"

definition router_send_stream ::
    "'w provider_slot list \<Rightarrow> chat_request \<Rightarrow> 'w
      \<Rightarrow> 'w \<times> stream_event list \<times> attempt_line list \<times> nat list \<times> (provider_error + unit)" where
  "router_send_stream slots req w =
     (let ((w', evs), lg, pauses, res) = slots_loop (stream_call req) None slots (w, [])
      in (w', evs, lg, pauses, route_result res))"

text \<open>A router is itself a provider.\<close>

definition router_provider :: "'w provider_slot list \<Rightarrow> 'w llm_provider" where
  "router_provider slots =
     \<lparr> p_name = ''router'',
       p_send = (\<lambda>req w. let (w', lg, pauses, r) = router_send slots req w in (w', r)),
       p_send_stream = (\<lambda>req w.
         let (w', evs, lg, pauses, r) = router_send_stream slots req w in (w', evs, r)) \<rparr>"

section \<open>Tools\<close>

record tool_result =
  tr_content :: string
  tr_is_error :: bool

definition ToolResult_success :: "string \<Rightarrow> tool_result" where
  "ToolResult_success s = \<lparr> tr_content = s, tr_is_error = False \<rparr>"

definition ToolResult_error :: "string \<Rightarrow> tool_result" where
  "ToolResult_error s = \<lparr> tr_content = s, tr_is_error = True \<rparr>"

record 'w tool =
  tool_name :: string
  tool_description :: string
  tool_input_schema :: json
  tool_execute :: "json \<Rightarrow> 'w \<Rightarrow> 'w \<times> tool_result outcome"

definition to_definitions :: "'w tool list \<Rightarrow> tool_definition list" where
  "to_definitions tools = map (\<lambda>t. \<lparr> td_name = tool_name t, td_description = tool_description t,
     td_input_schema = tool_input_schema t \<rparr>) tools"

definition MAX_ITERATIONS :: nat where "MAX_ITERATIONS = 25"

text \<open>A tool that panics unwinds the task of the turn.\<close>

definition execute_tool :: "'w tool list \<Rightarrow> tool_call \<Rightarrow> 'w \<Rightarrow> 'w \<times> tool_result outcome" where
  "execute_tool tools call w =
     (case find (\<lambda>t. tool_name t = call_name call) tools of
        Some t \<Rightarrow> tool_execute t (call_input call) w
      | None \<Rightarrow> (w, Ret (ToolResult_error (''unknown tool: '' @ call_name call))))"

text \<open>The JSON blocks of a round.\<close>

definition plain_message :: "chat_message \<Rightarrow> json" where
  "plain_message m = JObj [(''role'', JStr (role_name (msg_role m))), (''content'', JStr (msg_content m))]"

definition tool_use_block :: "tool_call \<Rightarrow> json" where
  "tool_use_block c = JObj [(''type'', JStr ''tool_use''), (''id'', JStr (call_id c)),
     (''name'', JStr (call_name c)), (''input'', call_input c)]"

definition assistant_message :: "chat_response \<Rightarrow> json" where
  "assistant_message r = JObj [(''role'', JStr ''assistant''), (''content'', JArr
     ((if rs_content r = [] then [] else [JObj [(''type'', JStr ''text''), (''text'', JStr (rs_content r))]])
      @ map tool_use_block (rs_tool_calls r)))]"

definition tool_result_block :: "tool_call \<Rightarrow> tool_result \<Rightarrow> json" where
  "tool_result_block c r = JObj [(''type'', JStr ''tool_result''), (''tool_use_id'', JStr (call_id c)),
     (''content'', JStr (tr_content r)), (''is_error'', JBool (tr_is_error r))]"

fun run_calls :: "'w tool list \<Rightarrow> tool_call list \<Rightarrow> 'w \<Rightarrow> 'w \<times> tool_result list outcome" where
  "run_calls tools [] w = (w, Ret [])"
| "run_calls tools (c # cs) w =
     and_then (execute_tool tools c w) (\<lambda>w' r.
       and_then (run_calls tools cs w') (\<lambda>w'' rs. (w'', Ret (r # rs))))"

definition results_message :: "tool_call list \<Rightarrow> tool_result list \<Rightarrow> json" where
  "results_message cs rs = JObj [(''role'', JStr ''user''), (''content'', JArr (map2 tool_result_block cs rs))]"

text \<open>
  The loop: \<open>left\<close> iterations remain. The third component of the result lists the messages of
  every request that was sent.
\<close>

fun tool_iterations ::
    "'w llm_provider \<Rightarrow> chat_request \<Rightarrow> 'w tool list \<Rightarrow> nat \<Rightarrow> json list \<Rightarrow> chat_response option
      \<Rightarrow> string list \<Rightarrow> 'w
      \<Rightarrow> 'w \<times> json list list \<times> (provider_error + chat_response \<times> string list) outcome" where
  "tool_iterations p req tools 0 raw latest called w =
     (w, [],
      case latest of
        Some resp \<Rightarrow> Ret (Inr (resp, called))
      | None \<Rightarrow> Ret (Inl (PParse (''tool loop exceeded 25 iterations without a final response''))))"
| "tool_iterations p req tools (Suc left) raw latest called w =
     (let (w', r) = p_send p (req\<lparr>cr_raw_messages := Some raw\<rparr>) w in
      case r of
        Inl e \<Rightarrow> (w', [raw], Ret (Inl e))
      | Inr resp \<Rightarrow>
          if rs_tool_calls resp = [] \<or> rs_stop_reason resp \<noteq> ''tool_use''
          then (w', [raw], Ret (Inr (resp, called)))
          else
            (case run_calls tools (rs_tool_calls resp) w' of
               (w'', Panic) \<Rightarrow> (w'', [raw], Panic)
             | (w'', Ret rs) \<Rightarrow>
                 (let raw' = raw @ [assistant_message resp, results_message (rs_tool_calls resp) rs];
                      (w3, sent, res) = tool_iterations p req tools left raw' (Some resp)
                        (called @ map call_name (rs_tool_calls resp)) w''
                  in (w3, raw # sent, res))))"

definition run_tool_loop ::
    "'w llm_provider \<Rightarrow> chat_request \<Rightarrow> 'w tool list \<Rightarrow> 'w
      \<Rightarrow> 'w \<times> json list list \<times> (provider_error + chat_response \<times> string list) outcome" where
  "run_tool_loop p req tools w =
     tool_iterations p req tools MAX_ITERATIONS
       (case cr_raw_messages req of Some raw \<Rightarrow> raw | None \<Rightarrow> map plain_message (cr_messages req))
       None [] w"

section \<open>What the router does\<close>

definition failures :: "string \<Rightarrow> nat \<Rightarrow> provider_error list \<Rightarrow> attempt_line list" where
  "failures name a errs = map (\<lambda>(i, e). (name, i, Some e)) (enumerate a errs)"

definition waits :: "nat \<Rightarrow> nat \<Rightarrow> nat list" where
  "waits a n = map (\<lambda>i. 200 * (i + 1)) [a..<a + n]"

text \<open>A slot is given up after all its attempts, or at once when it is rate limited.\<close>

definition gave_up :: "nat \<Rightarrow> provider_error list \<Rightarrow> bool" where
  "gave_up n errs \<longleftrightarrow> errs \<noteq> [] \<and> length errs \<le> n \<and> list_all (\<lambda>e. \<not> is_rate_limited e) (butlast errs)
     \<and> (length errs = n \<or> is_rate_limited (last errs))"

definition got_through :: "nat \<Rightarrow> provider_error list \<Rightarrow> bool" where
  "got_through n errs \<longleftrightarrow> length errs < n \<and> list_all (\<lambda>e. \<not> is_rate_limited e) errs"

lemma failures_simps [simp]:
  "failures name a [] = []" "failures name a (e # es) = (name, a, Some e) # failures name (Suc a) es"
  "length (failures name a errs) = length errs"
  by (simp_all add: failures_def)

lemma waits_Suc: "waits a (Suc n) = 200 * (a + 1) # waits (Suc a) n"
  by (simp add: waits_def upt_conv_Cons)

lemma gave_up_Cons: "gave_up n es \<Longrightarrow> \<not> is_rate_limited e \<Longrightarrow> gave_up (Suc n) (e # es)"
  by (simp add: gave_up_def)

lemma slot_loop_result:
  assumes "slot_loop name n call left a le w = (w', lg, ps, res)" "a + left = Suc n" "0 < left"
  shows "(\<exists>errs. gave_up left errs \<and> res = Inl (Some (last errs)) \<and> lg = failures name a errs
        \<and> ps = waits a (length errs - 1))
    \<or> (\<exists>errs resp w0. got_through left errs \<and> res = Inr resp \<and> call w0 = (w', Inr resp)
        \<and> lg = failures name a errs @ [(name, a + length errs, None)] \<and> ps = waits a (length errs))"
  using assms
proof (induction left arbitrary: a le w w' lg ps res)
  case 0
  then show ?case by simp
next
  case (Suc left)
  obtain w1 r where c: "call w = (w1, r)" by (cases "call w")
  show ?case
  proof (cases r)
    case (Inr resp)
    then show ?thesis using Suc.prems(1) c
      by (intro disjI2 exI [of _ "[]"]) (auto simp: got_through_def waits_def)
  next
    case (Inl e)
    show ?thesis
    proof (cases "is_rate_limited e")
      case True
      then show ?thesis using Suc.prems(1) c Inl
        by (intro disjI1 exI [of _ "[e]"]) (auto simp: gave_up_def waits_def)
    next
      case False
      show ?thesis
      proof (cases "left = 0")
        case True
        then show ?thesis using Suc.prems(1,2) c Inl False
          by (intro disjI1 exI [of _ "[e]"]) (auto simp: gave_up_def waits_def)
      next
        case more: False
        obtain w2 lg2 ps2 res2 where l: "slot_loop name n call left (a + 1) (Some e) w1 = (w2, lg2, ps2, res2)"
          by (metis prod_cases4)
        have now: "w' = w2" "lg = (name, a, Some e) # lg2" "ps = 200 * (a + 1) # ps2" "res = res2"
          using Suc.prems c Inl False l more by (auto simp: Let_def)
        have "a + 1 + left = Suc n" using Suc.prems(2) by simp
        from Suc.IH [OF l this] more consider
          (lost) errs where "gave_up left errs" "res2 = Inl (Some (last errs))"
            "lg2 = failures name (a + 1) errs" "ps2 = waits (a + 1) (length errs - 1)"
          | (won) errs resp w0 where "got_through left errs" "res2 = Inr resp" "call w0 = (w2, Inr resp)"
            "lg2 = failures name (a + 1) errs @ [(name, a + 1 + length errs, None)]"
            "ps2 = waits (a + 1) (length errs)" by blast
        then show ?thesis
        proof cases
          case lost
          then have "errs \<noteq> []" by (simp add: gave_up_def)
          then have "waits a (length errs) = 200 * (a + 1) # waits (a + 1) (length errs - 1)"
            using waits_Suc [of a "length errs - 1"] by (cases errs) simp_all
          then show ?thesis using lost now False \<open>errs \<noteq> []\<close>
            by (intro disjI1 exI [of _ "e # errs"]) (simp add: gave_up_Cons)
        next
          case won
          then show ?thesis using now False waits_Suc [of a "length errs"]
            by (intro disjI2 exI [of _ "e # errs"]) (auto simp: got_through_def)
        qed
      qed
    qed
  qed
qed

definition slot_name :: "'w provider_slot \<Rightarrow> string" where
  "slot_name slot = p_name (slot_provider slot)"

definition slot_gave_up :: "'w provider_slot \<Rightarrow> provider_error list \<Rightarrow> bool" where
  "slot_gave_up slot errs \<longleftrightarrow> gave_up (Suc (slot_max_retries slot)) errs"

definition lost_log :: "'w provider_slot list \<Rightarrow> provider_error list list \<Rightarrow> attempt_line list" where
  "lost_log slots errss = concat (map2 (\<lambda>s errs. failures (slot_name s) 0 errs) slots errss)"

definition lost_waits :: "provider_error list list \<Rightarrow> nat list" where
  "lost_waits errss = concat (map (\<lambda>errs. waits 0 (length errs - 1)) errss)"

lemma lost_Cons [simp]:
  "lost_log (s # ss) (e # es) = failures (slot_name s) 0 e @ lost_log ss es"
  "lost_waits (e # es) = waits 0 (length e - 1) @ lost_waits es"
  "lost_log ss [] = []" "lost_waits [] = []"
  by (simp_all add: lost_log_def lost_waits_def)

text \<open>The log of a request that no slot could serve, and of one that \<open>slot\<close> served.\<close>

definition all_lost ::
    "'w provider_slot list \<Rightarrow> provider_error list list \<Rightarrow> attempt_line list \<Rightarrow> nat list \<Rightarrow> bool" where
  "all_lost slots errss lg ps \<longleftrightarrow> list_all2 slot_gave_up slots errss \<and> lg = lost_log slots errss
     \<and> ps = lost_waits errss"

definition served_by :: "'w provider_slot list \<Rightarrow> 'w provider_slot \<Rightarrow> attempt_line list \<Rightarrow> nat list \<Rightarrow> bool" where
  "served_by slots slot lg ps \<longleftrightarrow> (\<exists>before after errss errs lg' ps'. slots = before @ slot # after
     \<and> all_lost before errss lg' ps' \<and> got_through (Suc (slot_max_retries slot)) errs
     \<and> lg = lg' @ failures (slot_name slot) 0 errs @ [(slot_name slot, length errs, None)]
     \<and> ps = ps' @ waits 0 (length errs))"

lemma all_lost_Cons:
  "slot_gave_up s e \<Longrightarrow> all_lost ss es lg ps \<Longrightarrow>
   all_lost (s # ss) (e # es) (failures (slot_name s) 0 e @ lg) (waits 0 (length e - 1) @ ps)"
  by (simp add: all_lost_def)

lemma served_by_Cons:
  assumes "slot_gave_up s e" "served_by ss slot lg ps"
  shows "served_by (s # ss) slot (failures (slot_name s) 0 e @ lg) (waits 0 (length e - 1) @ ps)"
proof -
  from assms(2) obtain before after errss errs lg' ps' where b: "ss = before @ slot # after"
    "all_lost before errss lg' ps'" "got_through (Suc (slot_max_retries slot)) errs"
    "lg = lg' @ failures (slot_name slot) 0 errs @ [(slot_name slot, length errs, None)]"
    "ps = ps' @ waits 0 (length errs)" unfolding served_by_def by blast
  have "s # ss = (s # before) @ slot # after" using b(1) by simp
  with all_lost_Cons [OF assms(1) b(2)] b(3-5) show ?thesis
    unfolding served_by_def by (metis append.assoc)
qed

lemma served_by_first:
  "got_through (Suc (slot_max_retries slot)) errs \<Longrightarrow>
   served_by (slot # slots) slot (failures (slot_name slot) 0 errs @ [(slot_name slot, length errs, None)])
     (waits 0 (length errs))"
  unfolding served_by_def
  by (rule exI [of _ "[]"], rule exI [of _ slots], rule exI [of _ "[]"], rule exI [of _ errs])
    (simp add: all_lost_def)

lemma slots_loop_result:
  assumes "slots_loop call le slots w = (w', lg, ps, res)"
  shows "(\<exists>errss. all_lost slots errss lg ps \<and> res = Inl (if errss = [] then le else Some (last (last errss))))
    \<or> (\<exists>slot resp w0. served_by slots slot lg ps \<and> res = Inr resp \<and> call (slot_provider slot) w0 = (w', Inr resp))"
  using assms
proof (induction slots arbitrary: le w w' lg ps res)
  case Nil
  then show ?case by (intro disjI1 exI [of _ "[]"]) (simp add: all_lost_def)
next
  case (Cons slot slots)
  let ?n = "slot_max_retries slot"
  obtain w1 lg1 ps1 res1 where l: "slot_loop (slot_name slot) ?n (call (slot_provider slot)) (?n + 1) 0 le w
      = (w1, lg1, ps1, res1)" by (metis prod_cases4)
  have run: "slots_loop call le (slot # slots) w = (case res1 of
           Inr resp \<Rightarrow> (w1, lg1, ps1, Inr resp)
         | Inl e \<Rightarrow> (case slots_loop call e slots w1 of
              (w'', lg', pauses', res') \<Rightarrow> (w'', lg1 @ lg', ps1 @ pauses', res')))"
    using l [unfolded slot_name_def] by (simp only: slots_loop.simps Let_def prod.case)
  from slot_loop_result [OF l] consider
    (lost) errs where "gave_up (?n + 1) errs" "res1 = Inl (Some (last errs))" "lg1 = failures (slot_name slot) 0 errs"
      "ps1 = waits 0 (length errs - 1)"
    | (won) errs resp w0 where "got_through (?n + 1) errs" "res1 = Inr resp"
      "call (slot_provider slot) w0 = (w1, Inr resp)"
      "lg1 = failures (slot_name slot) 0 errs @ [(slot_name slot, 0 + length errs, None)]"
      "ps1 = waits 0 (length errs)" by auto
  then show ?case
  proof cases
    case won
    then have "w' = w1" "lg = lg1" "ps = ps1" "res = Inr resp" using Cons.prems run by simp_all
    then show ?thesis using won served_by_first [of slot errs slots]
      by (intro disjI2 exI [of _ slot] exI [of _ resp] exI [of _ w0]) simp
  next
    case lost
    obtain w2 lg2 ps2 res2 where m: "slots_loop call (Some (last errs)) slots w1 = (w2, lg2, ps2, res2)"
      by (metis prod_cases4)
    have now: "w' = w2" "lg = lg1 @ lg2" "ps = ps1 @ ps2" "res = res2"
      using Cons.prems run lost(2) m by simp_all
    have up: "slot_gave_up slot errs" using lost(1) by (simp add: slot_gave_up_def)
    from Cons.IH [OF m] show ?thesis
    proof (elim disjE exE conjE)
      fix errss
      assume l: "all_lost slots errss lg2 ps2"
        "res2 = Inl (if errss = [] then Some (last errs) else Some (last (last errss)))"
      show ?thesis using all_lost_Cons [OF up l(1)] now lost(3,4) l(2)
        by (intro disjI1 exI [of _ "errs # errss"]) simp
    next
      fix slot' resp w0
      assume l: "served_by slots slot' lg2 ps2" "res2 = Inr resp" "call (slot_provider slot') w0 = (w2, Inr resp)"
      show ?thesis using served_by_Cons [OF up l(1)] now lost(3,4) l(2,3) by blast
    qed
  qed
qed

definition sample_request :: chat_request where
  "sample_request = \<lparr> cr_model = ''m'', cr_system = [], cr_system_prompt = None,
     cr_messages = [\<lparr> msg_role = RUser, msg_content = ''hi'' \<rparr>], cr_max_tokens = 64, cr_stream = False,
     cr_thinking = None, cr_tools = [], cr_raw_messages = None \<rparr>"

text \<open>A provider that is down for the first \<open>k\<close> calls; the world counts the calls.\<close>

definition shaky :: "string \<Rightarrow> nat \<Rightarrow> nat llm_provider" where
  "shaky name k =
     (let send = (\<lambda>req w. (w + 1, if w < k then Inl (PUnavailable name)
          else Inr \<lparr> rs_content = name, rs_model = cr_model req, rs_tokens_in = 1, rs_tokens_out = 1,
                 rs_stop_reason = ''end_turn'', rs_tool_calls = [] \<rparr>))
      in \<lparr> p_name = name, p_send = send, p_send_stream = default_send_stream send \<rparr>)"



section \<open>What the tool loop does\<close>

type_synonym tool_round = "chat_response \<times> tool_result list"

definition exchange :: "tool_round \<Rightarrow> json list" where
  "exchange rd = [assistant_message (fst rd), results_message (rs_tool_calls (fst rd)) (snd rd)]"

definition round_ok :: "tool_round \<Rightarrow> bool" where
  "round_ok rd \<longleftrightarrow> rs_tool_calls (fst rd) \<noteq> [] \<and> rs_stop_reason (fst rd) = ''tool_use''
     \<and> length (snd rd) = length (rs_tool_calls (fst rd))"

definition names_called :: "tool_round list \<Rightarrow> string list" where
  "names_called rounds = concat (map (\<lambda>rd. map call_name (rs_tool_calls (fst rd))) rounds)"

definition requests_of :: "json list \<Rightarrow> tool_round list \<Rightarrow> nat \<Rightarrow> json list list" where
  "requests_of raw rounds n = map (\<lambda>i. raw @ concat (map exchange (take i rounds))) [0..<n]"

definition final_response :: "chat_response \<Rightarrow> bool" where
  "final_response resp \<longleftrightarrow> rs_tool_calls resp = [] \<or> rs_stop_reason resp \<noteq> ''tool_use''"

lemma run_calls_length: "run_calls tools cs w = (w', Ret rs) \<Longrightarrow> length rs = length cs"
  by (induction cs arbitrary: w w' rs) (auto simp: and_then_Ret_iff)

lemma requests_of_Cons: "requests_of raw (rd # rounds) (Suc n) = raw # requests_of (raw @ exchange rd) rounds n"
  by (simp add: requests_of_def upt_conv_Cons map_Suc_upt [symmetric] del: upt_Suc)

lemma tool_iterations_result:
  assumes "tool_iterations p req tools left raw latest called w = (w', sent, res)"
  shows "\<exists>rounds. list_all round_ok rounds \<and> length rounds \<le> left \<and>
    (case res of
       Panic \<Rightarrow> sent = requests_of raw rounds (Suc (length rounds)) \<and> length rounds < left
     | Ret (Inl e) \<Rightarrow> sent = requests_of raw rounds (Suc (length rounds)) \<and> length rounds < left
         \<or> left = 0 \<and> latest = None
     | Ret (Inr (resp, called')) \<Rightarrow> called' = called @ names_called rounds
         \<and> (sent = requests_of raw rounds (Suc (length rounds)) \<and> length rounds < left \<and> final_response resp
            \<or> sent = requests_of raw rounds left \<and> length rounds = left
              \<and> Some resp = (if rounds = [] then latest else Some (fst (last rounds)))))"
  using assms
proof (induction left arbitrary: raw latest called w w' sent res)
  case 0
  then show ?case
    by (intro exI [of _ "[]"]) (auto simp: requests_of_def names_called_def split: option.splits)
next
  case (Suc left)
  obtain w1 r where c: "p_send p (req\<lparr>cr_raw_messages := Some raw\<rparr>) w = (w1, r)" by fastforce
  show ?case
  proof (cases r)
    case (Inl e)
    then show ?thesis using Suc.prems c
      by (intro exI [of _ "[]"]) (auto simp: requests_of_def)
  next
    case (Inr resp)
    show ?thesis
    proof (cases "final_response resp")
      case True
      then show ?thesis using Suc.prems c Inr
        by (intro exI [of _ "[]"]) (auto simp: requests_of_def names_called_def final_response_def)
    next
      case False
      obtain w2 out where called: "run_calls tools (rs_tool_calls resp) w1 = (w2, out)" by fastforce
      show ?thesis
      proof (cases out)
        case Panic
        then show ?thesis using Suc.prems c Inr False called
          by (intro exI [of _ "[]"]) (auto simp: requests_of_def final_response_def)
      next
      case (Ret rs)
      with called have rc: "run_calls tools (rs_tool_calls resp) w1 = (w2, Ret rs)" by simp
      let ?rd = "(resp, rs)" let ?raw = "raw @ exchange (resp, rs)"
      obtain w3 sent3 res3 where l: "tool_iterations p req tools left ?raw (Some resp)
          (called @ map call_name (rs_tool_calls resp)) w2 = (w3, sent3, res3)" by (metis prod_cases3)
      have ok: "round_ok ?rd" using False run_calls_length [OF rc] by (simp add: round_ok_def final_response_def)
      have now: "sent = raw # sent3" "res = res3"
        using Suc.prems c Inr False rc l by (auto simp: final_response_def exchange_def)
      from Suc.IH [OF l] obtain rounds where IH: "list_all round_ok rounds" "length rounds \<le> left"
        "case res3 of
           Panic \<Rightarrow> sent3 = requests_of ?raw rounds (Suc (length rounds)) \<and> length rounds < left
         | Ret (Inl e) \<Rightarrow> sent3 = requests_of ?raw rounds (Suc (length rounds)) \<and> length rounds < left
             \<or> left = 0 \<and> Some resp = None
         | Ret (Inr (resp', called')) \<Rightarrow> called' = (called @ map call_name (rs_tool_calls resp)) @ names_called rounds
             \<and> (sent3 = requests_of ?raw rounds (Suc (length rounds)) \<and> length rounds < left \<and> final_response resp'
                \<or> sent3 = requests_of ?raw rounds left \<and> length rounds = left
                  \<and> Some resp' = (if rounds = [] then Some resp else Some (fst (last rounds))))" by blast
      show ?thesis
        by (rule exI [of _ "?rd # rounds"])
          (use IH ok now in \<open>auto simp: requests_of_Cons names_called_def split: outcome.splits sum.splits if_splits\<close>)
      qed
    qed
  qed
qed

text \<open>C30: The tool loop ends. At most 25 requests are sent, whatever the model and the tools do, and
  each request repeats the one before it and adds one exchange: the model's message with its tool
  calls and one user message with exactly one result per call, in the same order. The answer is
  the first response that asks for no tool, or the 25th; with it come the names of all tools
  called, in order and with repetitions. An error of the provider or a panic of a tool ends the
  loop at once.\<close>
theorem tool_loop_outcome:
  assumes "run_tool_loop p req tools w = (w', sent, res)"
  shows "\<exists>rounds raw n. raw = (case cr_raw_messages req of Some m \<Rightarrow> m | None \<Rightarrow> map plain_message (cr_messages req))
    \<and> list_all round_ok rounds \<and> sent = requests_of raw rounds n \<and> n \<le> 25 \<and>
    (case res of
       Panic \<Rightarrow> n = length rounds + 1
     | Ret (Inl e) \<Rightarrow> n = length rounds + 1
     | Ret (Inr (resp, called)) \<Rightarrow> called = names_called rounds
         \<and> (n = length rounds + 1 \<and> final_response resp
            \<or> n = 25 \<and> length rounds = 25 \<and> resp = fst (last rounds)))"
proof -
  let ?raw = "case cr_raw_messages req of Some m \<Rightarrow> m | None \<Rightarrow> map plain_message (cr_messages req)"
  obtain raw where raw: "raw = ?raw" by simp
  from tool_iterations_result [OF assms [unfolded run_tool_loop_def, folded raw]] obtain rounds where
    r: "list_all round_ok rounds" "length rounds \<le> 25" and
    res: "case res of
       Panic \<Rightarrow> sent = requests_of raw rounds (Suc (length rounds)) \<and> length rounds < 25
     | Ret (Inl e) \<Rightarrow> sent = requests_of raw rounds (Suc (length rounds)) \<and> length rounds < 25 \<or> (25::nat) = 0 \<and> (None :: chat_response option) = None
     | Ret (Inr (resp, called)) \<Rightarrow> called = [] @ names_called rounds
         \<and> (sent = requests_of raw rounds (Suc (length rounds)) \<and> length rounds < 25 \<and> final_response resp
            \<or> sent = requests_of raw rounds 25 \<and> length rounds = 25
              \<and> Some resp = (if rounds = [] then None else Some (fst (last rounds))))"
    unfolding MAX_ITERATIONS_def by (elim exE conjE) (rule that)
  show ?thesis
  proof (cases "\<forall>a. res \<noteq> Ret (Inr a)")
    case True
    then have "sent = requests_of raw rounds (Suc (length rounds)) \<and> length rounds < 25"
      using res by (auto split: outcome.splits sum.splits)
    then show ?thesis using True r(1) raw
      by (intro exI [of _ rounds] exI [of _ raw] exI [of _ "Suc (length rounds)"])
        (auto split: outcome.split sum.split)
  next
    case False
    then obtain a where Inr: "res = Ret (Inr a)" by blast
    obtain resp called where a: "a = (resp, called)" by (cases a)
    with res Inr have c: "called = names_called rounds" and
      ends: "sent = requests_of raw rounds (Suc (length rounds)) \<and> length rounds < 25 \<and> final_response resp
       \<or> sent = requests_of raw rounds 25 \<and> length rounds = 25
         \<and> Some resp = (if rounds = [] then None else Some (fst (last rounds)))" by simp_all
    from ends show ?thesis
    proof (elim disjE conjE)
      assume "sent = requests_of raw rounds (Suc (length rounds))" "length rounds < 25" "final_response resp"
      then show ?thesis using r(1) c Inr a raw
        by (intro exI [of _ rounds] exI [of _ raw] exI [of _ "Suc (length rounds)"]) simp
    next
      assume s: "sent = requests_of raw rounds 25" "length rounds = 25"
        "Some resp = (if rounds = [] then None else Some (fst (last rounds)))"
      have "rounds \<noteq> []" using s(2) by auto
      then have "resp = fst (last rounds)" using s(3) by simp
      then show ?thesis using r(1) c Inr a raw s(1,2)
        by (intro exI [of _ rounds] exI [of _ raw] exI [of _ "25"]) simp
    qed
  qed
qed

theorem tool_loop_outcome_witness:
  "\<exists>resp rounds. run_tool_loop (shaky ''a'' 0) sample_request [] 0
     = (1, [[plain_message \<lparr> msg_role = RUser, msg_content = ''hi'' \<rparr>]], Ret (Inr (resp, names_called rounds)))
     \<and> list_all round_ok rounds"
proof -
  obtain resp where run: "run_tool_loop (shaky ''a'' 0) sample_request [] 0
      = (1, [[plain_message \<lparr> msg_role = RUser, msg_content = ''hi'' \<rparr>]], Ret (Inr (resp, [])))"
    by (simp add: run_tool_loop_def MAX_ITERATIONS_def shaky_def sample_request_def numeral_eq_Suc Let_def)
  from tool_loop_outcome [OF run] obtain rounds where "[] = names_called rounds" "list_all round_ok rounds" by auto
  with run show ?thesis by metis
qed

end
