(* ===== verification/Pipeline.thy ===== *)
theory Pipeline
  imports Runtime MemoryProps
begin

text \<open>
  The message pipeline every channel shares (\<open>crates/skynet-agent/src/pipeline\<close>): one turn of a
  conversation (\<open>process.rs\<close>) and the compaction that turns old turns into memories
  (\<open>compact.rs\<close>).

  The world of the providers and tools is a pair of the memory manager and everything else, so
  that a tool may write to the memory. Compaction is a task of its own: it reads, waits for the
  model, and writes, and other calls of the manager may come between. Clock readings, the
  parser of JSON text and the Unicode upper-casing of a role are parameters.
\<close>

section \<open>One turn\<close>

record processed_message =
  pm_content :: string
  pm_model :: string
  pm_tokens_in :: nat
  pm_tokens_out :: nat
  pm_stop_reason :: string

text \<open>\<open>unwrap_or_default\<close> on a result with a list.\<close>

definition or_empty :: "'e + 'a list \<Rightarrow> 'a list" where
  "or_empty r = unwrap_or r []"

definition em_dash :: string where
  "em_dash = [CHR 0xE2, CHR 0x80, CHR 0x94]"

text \<open>The hot topics appended to the volatile tier.\<close>

definition hot_topics_text :: "knowledge_entry list \<Rightarrow> string" where
  "hot_topics_text es =
     blank_line @ ''## Knowledge index (top topics '' @ em_dash
     @ '' use knowledge_search for full details)'' @ [CHR 0x0A]
     @ concat (map (\<lambda>e. ''- '' @ ke_topic e @ '' ['' @ ke_tags e @ '']'' @ [CHR 0x0A]) es)"

definition pipeline_prompt ::
    "(int \<Rightarrow> string) \<Rightarrow> memory_db \<Rightarrow> prompt_builder \<Rightarrow> string option \<Rightarrow> system_prompt" where
  "pipeline_prompt cutoff db b user_context =
     (let p = build_prompt b user_context None;
          top_tools = or_empty (get_top_tools cutoff db 30 20);
          hot = get_hot_topics db top_tools 5
      in if hot = [] then p else p\<lparr>volatile_tier := volatile_tier p @ hot_topics_text hot\<rparr>)"

definition history_message :: "conversation_message \<Rightarrow> chat_message" where
  "history_message m =
     \<lparr> msg_role = (if cm_role m = ''assistant'' then RAssistant else RUser), msg_content = cm_content m \<rparr>"

definition pipeline_request ::
    "(int \<Rightarrow> string) \<Rightarrow> memory_db \<Rightarrow> 'w agent_runtime \<Rightarrow> 'w tool list \<Rightarrow> string \<Rightarrow> string
      \<Rightarrow> string option \<Rightarrow> string option \<Rightarrow> chat_request" where
  "pipeline_request cutoff db a tools session_key content user_context model_override =
     (let p = pipeline_prompt cutoff db (ar_prompt a) user_context in
      \<lparr> cr_model = (case model_override of Some m \<Rightarrow> m | None \<Rightarrow> get_model a),
        cr_system = to_plain_text p, cr_system_prompt = Some p,
        cr_messages = map history_message (or_empty (get_history db session_key 40))
          @ [\<lparr> msg_role = RUser, msg_content = content \<rparr>],
        cr_max_tokens = 4096, cr_stream = False, cr_thinking = None,
        cr_tools = to_definitions tools, cr_raw_messages = None \<rparr>)"

definition user_turn :: "string \<Rightarrow> string \<Rightarrow> string \<Rightarrow> string \<Rightarrow> conversation_message" where
  "user_turn now session_key channel content =
     \<lparr> cm_id = 0, cm_user_id = None, cm_session_key = session_key, cm_channel = channel,
       cm_role = ''user'', cm_content = content, cm_model_used = None, cm_tokens_in = 0,
       cm_tokens_out = 0, cm_cost_usd = 0, cm_created_at = now \<rparr>"

definition assistant_turn ::
    "string \<Rightarrow> string \<Rightarrow> string \<Rightarrow> string \<Rightarrow> string \<Rightarrow> nat \<Rightarrow> nat \<Rightarrow> conversation_message" where
  "assistant_turn now session_key channel content model tokens_in tokens_out =
     \<lparr> cm_id = 0, cm_user_id = None, cm_session_key = session_key, cm_channel = channel,
       cm_role = ''assistant'', cm_content = content, cm_model_used = Some model,
       cm_tokens_in = tokens_in, cm_tokens_out = tokens_out, cm_cost_usd = 0, cm_created_at = now \<rparr>"

text \<open>Logging the tool calls; \<open>tick i\<close> is the clock at the \<open>i\<close>th.\<close>

fun log_calls :: "(nat \<Rightarrow> string) \<Rightarrow> string \<Rightarrow> string list \<Rightarrow> memory_db \<Rightarrow> memory_db" where
  "log_calls tick session_key [] db = db"
| "log_calls tick session_key (n # ns) db =
     log_calls (\<lambda>i. tick (Suc i)) session_key ns (log_tool_call (tick 0) db n session_key)"

definition save_turns :: "string \<Rightarrow> string \<Rightarrow> string \<Rightarrow> string \<Rightarrow> chat_response \<Rightarrow> memory_db \<Rightarrow> memory_db" where
  "save_turns now session_key channel content r db =
     save_message
       (save_message db (user_turn now session_key channel content))
       (assistant_turn now session_key channel (rs_content r) (rs_model r) (rs_tokens_in r) (rs_tokens_out r))"

text \<open>The second component of the result lists the sessions whose compaction was spawned.\<close>

definition process_message_non_streaming ::
    "(int \<Rightarrow> string) \<Rightarrow> (nat \<Rightarrow> string) \<Rightarrow> string
      \<Rightarrow> (memory_manager \<times> 'w) agent_runtime \<Rightarrow> (memory_manager \<times> 'w) tool list
      \<Rightarrow> string \<Rightarrow> string \<Rightarrow> string \<Rightarrow> string option \<Rightarrow> string option \<Rightarrow> memory_manager \<times> 'w
      \<Rightarrow> (memory_manager \<times> 'w) \<times> string list \<times> (provider_error + processed_message) outcome" where
  "process_message_non_streaming cutoff tick now a tools session_key channel content user_context
       model_override s =
     (let request = pipeline_request cutoff (mm_db (fst s)) a tools session_key content user_context
            model_override;
          (s', sent, res) = run_tool_loop (ar_provider a) request tools s
      in case res of
           Panic \<Rightarrow> (s', [], Panic)
         | Ret (Inl e) \<Rightarrow> (s', [], Ret (Inl e))
         | Ret (Inr (r, called)) \<Rightarrow>
             (let m = fst s';
                  db = log_calls tick session_key called (mm_db m);
                  saved = rs_content r \<noteq> [];
                  db' = (if saved then save_turns now session_key channel content r db else db)
              in ((m\<lparr>mm_db := db'\<rparr>, snd s'), (if saved then [session_key] else []),
                  Ret (Inr \<lparr> pm_content = rs_content r, pm_model = rs_model r, pm_tokens_in = rs_tokens_in r,
                        pm_tokens_out = rs_tokens_out r, pm_stop_reason = rs_stop_reason r \<rparr>))))"

section \<open>Compaction\<close>

definition COMPACT_THRESHOLD :: nat where "COMPACT_THRESHOLD = 40"
definition COMPACT_BATCH :: nat where "COMPACT_BATCH = 20"

text \<open>What the task reads before it calls the model: the turns to compact, if any.\<close>

definition compact_plan :: "memory_db \<Rightarrow> string \<Rightarrow> conversation_message list option" where
  "compact_plan db session_key =
     (if count_turns db session_key < COMPACT_THRESHOLD then None
      else (case get_oldest_turns db session_key COMPACT_BATCH of
          Inl e \<Rightarrow> None
        | Inr [] \<Rightarrow> None
        | Inr old \<Rightarrow> Some old))"

definition transcript :: "(string \<Rightarrow> string) \<Rightarrow> conversation_message list \<Rightarrow> string" where
  "transcript upper old = join blank_line (map (\<lambda>m. upper (cm_role m) @ '': '' @ cm_content m) old)"

definition extraction_prompt :: string where
  "extraction_prompt =
     ''You are a conversation memory extractor. ''
     @ ''Extract key facts about the USER from the conversation turns below. ''
     @ ''Focus on: preferences, stated facts, personal instructions, important context. ''
     @ ''Ignore tool outputs, code results, and AI preamble unless the user confirmed something. ''
     @ ''Return ONLY a JSON array. Each element must be: ''
     @ ''{\"key\":\"short_label\",\"value\":\"brief_fact\",\"category\":\"fact|preference|instruction|context\"}''
     @ '' Maximum 10 items. Omit trivial exchanges. If nothing worth keeping, return [].''"

definition compact_request :: "(string \<Rightarrow> string) \<Rightarrow> conversation_message list \<Rightarrow> chat_request" where
  "compact_request upper old =
     \<lparr> cr_model = ''claude-haiku-4-5-20251001'', cr_system = extraction_prompt, cr_system_prompt = None,
       cr_messages = [\<lparr> msg_role = RUser,
         msg_content = ''Extract facts from this conversation:'' @ blank_line @ transcript upper old \<rparr>],
       cr_max_tokens = 512, cr_stream = False, cr_thinking = None, cr_tools = [],
       cr_raw_messages = None \<rparr>"

text \<open>The JSON array in the model's answer, which may be wrapped in a code block.\<close>

definition json_slice :: "string \<Rightarrow> string" where
  "json_slice content =
     (let raw = trim content in
      case (find_sub ''['' raw, rfind_char (CHR '']'') raw) of
        (Some s, Some e) \<Rightarrow> if e \<ge> s then drop s (take (Suc e) raw) else raw
      | _ \<Rightarrow> raw)"

text \<open>One extracted fact: category, key and value, unless its key or value is missing.\<close>

definition fact_of :: "json \<Rightarrow> (memory_category \<times> string \<times> string) option" where
  "fact_of j =
     (let key = (case Option.bind (jget ''key'' j) as_str of Some s \<Rightarrow> s | None \<Rightarrow> []);
          value = (case Option.bind (jget ''value'' j) as_str of Some s \<Rightarrow> s | None \<Rightarrow> []);
          cat_str = (case Option.bind (jget ''category'' j) as_str of Some s \<Rightarrow> s | None \<Rightarrow> ''fact'')
      in if key = [] \<or> value = [] then None
         else Some (unwrap_or (category_from_str cat_str) Fact, key, value))"

fun learn_facts :: "(nat \<Rightarrow> string) \<Rightarrow> string \<Rightarrow> json list \<Rightarrow> memory_manager \<Rightarrow> memory_manager" where
  "learn_facts tick user_id [] m = m"
| "learn_facts tick user_id (f # fs) m =
     learn_facts (\<lambda>i. tick (Suc i)) user_id fs
       (case fact_of f of
          None \<Rightarrow> m
        | Some (category, key, value) \<Rightarrow> fst (learn (tick 0) m user_id category key value (7 / 10) Inferred))"

text \<open>What the task does with the model's answer.\<close>

definition compact_apply ::
    "(string \<Rightarrow> json option) \<Rightarrow> (nat \<Rightarrow> string) \<Rightarrow> string \<Rightarrow> conversation_message list
      \<Rightarrow> provider_error + chat_response \<Rightarrow> memory_manager \<Rightarrow> memory_manager" where
  "compact_apply parse tick session_key old answer m =
     (case answer of
        Inl e \<Rightarrow> m
      | Inr response \<Rightarrow>
          (case Option.bind (parse (json_slice (rs_content response))) as_array of
             None \<Rightarrow> m
           | Some facts \<Rightarrow>
               (let m' = learn_facts tick session_key facts m
                in m'\<lparr>mm_db := fst (delete_turns (mm_db m') (map cm_id old))\<rparr>)))"

definition compact_session_if_needed ::
    "(string \<Rightarrow> string) \<Rightarrow> (string \<Rightarrow> json option) \<Rightarrow> (nat \<Rightarrow> string)
      \<Rightarrow> (memory_manager \<times> 'w) agent_runtime \<Rightarrow> string \<Rightarrow> memory_manager \<times> 'w \<Rightarrow> memory_manager \<times> 'w" where
  "compact_session_if_needed upper parse tick a session_key s =
     (case compact_plan (mm_db (fst s)) session_key of
        None \<Rightarrow> s
      | Some old \<Rightarrow>
          (let (s', answer) = p_send (ar_provider a) (compact_request upper old) s
           in (compact_apply parse tick session_key old answer (fst s'), snd s')))"

section \<open>The turns of a conversation\<close>

definition conv_wf :: "memory_db \<Rightarrow> bool" where
  "conv_wf db \<longleftrightarrow> unique_on cm_id (t_conversations db)
     \<and> (\<forall>r \<in> set (t_conversations db). cm_id r \<le> t_conversations_seq db)"

lemma conv_wf_init: "conv_wf init_db"
  by (simp add: conv_wf_def init_db_def)

lemma conv_table_other:
  "t_conversations (mm_db (fst (learn now m u cat k v c src))) = t_conversations (mm_db m)"
  "t_conversations_seq (mm_db (fst (learn now m u cat k v c src))) = t_conversations_seq (mm_db m)"
  "t_conversations (mm_db (fst (forget m u cat k))) = t_conversations (mm_db m)"
  "t_conversations_seq (mm_db (fst (forget m u cat k))) = t_conversations_seq (mm_db m)"
  "t_conversations (knowledge_write now db topic content tags) = t_conversations db"
  "t_conversations_seq (knowledge_write now db topic content tags) = t_conversations_seq db"
  "t_conversations (log_tool_call now db tool sk) = t_conversations db"
  "t_conversations_seq (log_tool_call now db tool sk) = t_conversations_seq db"
  by (simp_all add: learn_def forget_def invalidate_cache_def knowledge_write_def log_tool_call_def Let_def
      split: option.splits)

text \<open>A row that was there keeps its identifier for itself: whatever comes later, a row with an
  identifier of the past is that row.\<close>

definition grows_from :: "memory_db \<Rightarrow> memory_db \<Rightarrow> bool" where
  "grows_from db db' \<longleftrightarrow> conv_wf db' \<and> t_conversations_seq db \<le> t_conversations_seq db'
     \<and> (\<forall>r \<in> set (t_conversations db'). cm_id r \<le> t_conversations_seq db \<longrightarrow> r \<in> set (t_conversations db))"

lemma grows_refl: "conv_wf db \<Longrightarrow> grows_from db db"
  by (simp add: grows_from_def)

lemma grows_step:
  assumes "grows_from db (mm_db m)"
  shows "grows_from db (mm_db (memory_step rfc m e))"
proof (cases e)
  case (MSave msg)
  then show ?thesis using assms
    by (fastforce simp: grows_from_def conv_wf_def save_message_def unique_on_append_row)
next
  case (MDelete ids)
  then show ?thesis using assms
    by (auto simp: grows_from_def conv_wf_def delete_turns_def unique_on_delete set_tbl_delete)
qed (use assms in \<open>simp_all add: grows_from_def conv_wf_def conv_table_other\<close>)

interpretation conversation_table: machine "memory_step rfc" "\<lambda>m. grows_from db (mm_db m)"
  by unfold_locales (rule grows_step)

lemma turns_delete: "turns (fst (delete_turns db ids)) sk = filter (\<lambda>r. cm_id r \<notin> set ids) (turns db sk)"
proof (cases "ids = []")
  case False
  have "filter (\<lambda>r. cm_session_key r = sk) (filter (\<lambda>r. cm_id r \<notin> set ids) xs)
      = filter (\<lambda>r. cm_id r \<notin> set ids) (filter (\<lambda>r. cm_session_key r = sk) xs)" for xs
    by (simp add: conj_commute)
  then show ?thesis using False by (simp add: delete_turns_def turns_def tbl_delete_def filter_sort conj_commute)
qed (simp add: delete_turns_def)

lemma set_turns: "set (turns db sk) = {r \<in> set (t_conversations db). cm_session_key r = sk}"
  by (simp add: turns_def)

lemma distinct_turns: "conv_wf db \<Longrightarrow> distinct (map cm_id (turns db sk))"
  unfolding conv_wf_def unique_on_def turns_def
  by (metis (no_types, lifting) distinct_map distinct_map_filter distinct_sort inj_on_def set_sort)

lemma length_turns: "length (turns db sk) = count_turns db sk"
  by (simp add: turns_def count_turns_def tbl_count_def)

section \<open>Compaction is safe\<close>

text \<open>The facts as the events that store them.\<close>

fun fact_events :: "(nat \<Rightarrow> string) \<Rightarrow> string \<Rightarrow> json list \<Rightarrow> memory_event list" where
  "fact_events tick u [] = []"
| "fact_events tick u (f # fs) =
     (case fact_of f of
        None \<Rightarrow> []
      | Some (category, key, value) \<Rightarrow> [MLearn (tick 0) u category key value (7 / 10) Inferred])
     @ fact_events (\<lambda>i. tick (Suc i)) u fs"

lemma learn_facts_run:
  "learn_facts tick u fs m = foldl (memory_step (\<lambda>_. [])) m (fact_events tick u fs)"
  by (induction tick u fs m rule: learn_facts.induct) (auto split: option.splits)

lemma learn_facts_conversations:
  "t_conversations (mm_db (learn_facts tick u fs m)) = t_conversations (mm_db m)"
  by (induction tick u fs m rule: learn_facts.induct) (auto simp: conv_table_other split: option.splits)

lemma compact_plan_Some:
  "compact_plan db sk = Some old \<Longrightarrow> old = take 20 (turns db sk) \<and> 40 \<le> length (turns db sk)"
  by (auto simp: compact_plan_def COMPACT_THRESHOLD_def COMPACT_BATCH_def get_oldest_turns_def length_turns
      sql_u64_def split: if_splits list.splits)

lemma compact_apply_done:
  assumes "compact_apply parse tick sk old answer m = m'" "m' \<noteq> m"
  obtains response facts where "answer = Inr response"
    "Option.bind (parse (json_slice (rs_content response))) as_array = Some facts"
    "m' = (learn_facts tick sk facts m)\<lparr>mm_db :=
       fst (delete_turns (mm_db (learn_facts tick sk facts m)) (map cm_id old))\<rparr>"
  using assms by (auto simp: compact_apply_def Let_def split: sum.splits option.splits)

lemma compacted_turns:
  assumes "m' = (learn_facts tick sk facts m)\<lparr>mm_db :=
       fst (delete_turns (mm_db (learn_facts tick sk facts m)) (map cm_id old))\<rparr>"
  shows "turns (mm_db m') sk' = filter (\<lambda>r. cm_id r \<notin> cm_id ` set old) (turns (mm_db m) sk')"
  using assms by (simp add: turns_delete) (simp add: turns_def learn_facts_conversations)

lemma later_turns_kept:
  assumes "conv_wf db" "grows_from db db'" "old = take n (turns db sk)"
  shows "filter (\<lambda>r. cm_id r \<notin> cm_id ` set old) (turns db' sk') = filter (\<lambda>r. r \<notin> set old) (turns db' sk')"
proof (rule filter_cong)
  fix r assume r: "r \<in> set (turns db' sk')"
  show "(cm_id r \<notin> cm_id ` set old) = (r \<notin> set old)"
  proof
    assume "r \<notin> set old"
    show "cm_id r \<notin> cm_id ` set old"
    proof
      assume "cm_id r \<in> cm_id ` set old"
      then obtain x where x: "x \<in> set old" "cm_id x = cm_id r" by auto
      then have xin: "x \<in> set (t_conversations db)" using assms(3) set_turns by (fastforce dest: in_set_takeD)
      then have "cm_id r \<le> t_conversations_seq db" using assms(1) x(2) by (auto simp: conv_wf_def)
      then have "r \<in> set (t_conversations db)" using r assms(2) by (auto simp: grows_from_def set_turns)
      then have "r = x" using xin x(2) assms(1) unique_id_other [of cm_id] by (auto simp: conv_wf_def)
      with x(1) \<open>r \<notin> set old\<close> show False by simp
    qed
  qed auto
qed simp

text \<open>C39: Compaction loses nothing but what it summarised. Let it read the memory at one moment, and
  let any other calls come between that and its writing. If it changes anything, then the model
  has answered with a readable list of facts; the session had at least 40 turns; what is deleted
  are exactly the oldest 20 turns read at the start, so that turns saved in the meantime and
  turns of other sessions all stay, in order; and the memories are those that learning the facts
  one by one gives, which never replaces a more certain one.\<close>
theorem compaction_safe:
  assumes "conv_wf (mm_db m)" "memory_wf (mm_db m)" "compact_plan (mm_db m) sk = Some old"
    and "m2 = foldl (memory_step rfc) m es"
    and "compact_apply parse tick sk old answer m2 = m3" "m3 \<noteq> m2"
  shows "\<exists>response facts. answer = Inr response
    \<and> Option.bind (parse (json_slice (rs_content response))) as_array = Some facts
    \<and> 40 \<le> length (turns (mm_db m) sk) \<and> old = take 20 (turns (mm_db m) sk)
    \<and> turns (mm_db m3) sk' = filter (\<lambda>r. r \<notin> set old) (turns (mm_db m2) sk')
    \<and> memory_view (mm_db m3) = foldl abs_step (memory_view (mm_db m2)) (fact_events tick sk facts)"
proof -
  from compact_apply_done [OF assms(5,6)] obtain response facts where a: "answer = Inr response"
    "Option.bind (parse (json_slice (rs_content response))) as_array = Some facts" and
    m3: "m3 = (learn_facts tick sk facts m2)\<lparr>mm_db :=
       fst (delete_turns (mm_db (learn_facts tick sk facts m2)) (map cm_id old))\<rparr>" by metis
  note plan = compact_plan_Some [OF assms(3)]
  have "grows_from (mm_db m) (mm_db m2)" unfolding assms(4)
    by (rule conversation_table.run_inv) (rule grows_refl [OF assms(1)])
  then have "turns (mm_db m3) sk' = filter (\<lambda>r. r \<notin> set old) (turns (mm_db m2) sk')"
    using compacted_turns [OF m3] later_turns_kept [OF assms(1)] plan by simp
  moreover have "memory_view (mm_db m3) = foldl abs_step (memory_view (mm_db m2)) (fact_events tick sk facts)"
  proof -
    have "memory_wf (mm_db m2)" unfolding assms(4) by (rule memory_tables.run_inv [OF assms(2)])
    moreover have "memory_view (mm_db m3) = memory_view (mm_db (learn_facts tick sk facts m2))"
      unfolding m3 by (simp add: memory_view_def [abs_def] memory_table_other)
    ultimately show ?thesis by (simp add: learn_facts_run memory_run_refines)
  qed
  ultimately show ?thesis using a plan by blast
qed

definition sample_turns :: "conversation_message list" where
  "sample_turns = map (\<lambda>i. user_turn ''t'' ''s'' ''web'' ''hi''\<lparr>cm_id := i\<rparr>) [1..<41]"

definition sample_memory :: memory_manager where
  "sample_memory = memory_manager_new
     (init_db\<lparr>t_conversations := sample_turns, t_conversations_seq := 40\<rparr>)"

lemma sample_turns_turns: "turns (mm_db sample_memory) ''s'' = sample_turns"
proof -
  have "filter (\<lambda>r. cm_session_key r = ''s'') sample_turns = sample_turns"
    by (simp add: sample_turns_def user_turn_def filter_id_conv)
  moreover have "sorted (map cm_created_at sample_turns)"
    by (simp add: sample_turns_def user_turn_def comp_def map_replicate_const)
  ultimately show ?thesis
    by (simp add: turns_def sample_memory_def memory_manager_new_def sort_key_id_if_sorted)
qed

theorem compaction_safe_witness:
  "\<exists>old m'. compact_plan (mm_db sample_memory) ''s'' = Some old
     \<and> compact_apply (\<lambda>_. Some (JArr [])) (\<lambda>_. ''t'') ''s'' old
         (Inr \<lparr> rs_content = ''[]'', rs_model = ''m'', rs_tokens_in = 1, rs_tokens_out = 1,
                rs_stop_reason = ''end_turn'', rs_tool_calls = [] \<rparr>) sample_memory = m'
     \<and> turns (mm_db m') ''s'' = filter (\<lambda>r. r \<notin> set old) sample_turns"
proof -
  let ?old = "take 20 sample_turns"
  let ?answer = "Inr \<lparr> rs_content = ''[]'', rs_model = ''m'', rs_tokens_in = 1, rs_tokens_out = 1,
                rs_stop_reason = ''end_turn'', rs_tool_calls = [] \<rparr>"
  let ?m' = "compact_apply (\<lambda>_. Some (JArr [])) (\<lambda>_. ''t'') ''s'' ?old ?answer sample_memory"
  have len: "length sample_turns = 40" by (simp add: sample_turns_def)
  have wf: "conv_wf (mm_db sample_memory)" "memory_wf (mm_db sample_memory)"
    by (auto simp: conv_wf_def memory_wf_def sample_memory_def memory_manager_new_def init_db_def
        sample_turns_def unique_on_def comp_def)
  have tc: "t_conversations (mm_db sample_memory) = sample_turns"
    by (simp add: sample_memory_def memory_manager_new_def)
  obtain x xs where old: "?old = x # xs" "x \<in> set sample_turns" "cm_id x = 1"
    by (simp add: sample_turns_def upt_conv_Cons)
  have plan: "compact_plan (mm_db sample_memory) ''s'' = Some ?old"
    using old(1) by (simp add: compact_plan_def COMPACT_THRESHOLD_def COMPACT_BATCH_def get_oldest_turns_def
        length_turns [symmetric] sample_turns_turns len sql_u64_def)
  have "t_conversations (mm_db ?m') = filter (\<lambda>r. cm_id r \<notin> cm_id ` set ?old) sample_turns"
    using old(1) by (simp add: compact_apply_def delete_turns_def tbl_delete_def sample_memory_def memory_manager_new_def)
  moreover have "x \<notin> set (filter (\<lambda>r. cm_id r \<notin> cm_id ` set ?old) sample_turns)" using old(1) by auto
  ultimately have "t_conversations (mm_db ?m') \<noteq> t_conversations (mm_db sample_memory)"
    using old(2) tc by metis
  then have "?m' \<noteq> sample_memory" by metis
  from compaction_safe [OF wf plan _ refl this, where es = "[]" and sk' = "''s''"]
  have "turns (mm_db ?m') ''s'' = filter (\<lambda>r. r \<notin> set ?old) sample_turns"
    by (auto simp: sample_turns_turns)
  with plan show ?thesis by blast
qed

section \<open>A conversation continues\<close>

lemma sort_key_snoc_last:
  assumes "\<forall>x \<in> set xs. f x \<le> f y"
  shows "sort_key f (xs @ [y]) = sort_key f xs @ [y]"
proof (rule properties_for_sort_key)
  show "sorted (map f (sort_key f xs @ [y]))" using assms by (simp add: sorted_append)
  show "filter (\<lambda>z. f k = f z) (sort_key f xs @ [y]) = filter (\<lambda>z. f k = f z) (xs @ [y])" for k
    using sort_key_stable [of f "f k" xs] by (simp add: eq_commute [of "f k"])
qed simp

lemma turns_save:
  assumes "\<forall>x \<in> set (turns db (cm_session_key msg)). cm_created_at x \<le> cm_created_at msg"
  shows "turns (save_message db msg) (cm_session_key msg)
    = turns db (cm_session_key msg) @ [msg\<lparr>cm_id := Suc (t_conversations_seq db)\<rparr>]"
  using assms sort_key_snoc_last [of "filter (\<lambda>r. cm_session_key r = cm_session_key msg) (t_conversations db)"
      cm_created_at "msg\<lparr>cm_id := Suc (t_conversations_seq db)\<rparr>"]
  by (simp add: turns_def save_message_def)

lemma turns_save_other: "sk \<noteq> cm_session_key msg \<Longrightarrow> turns (save_message db msg) sk = turns db sk"
  by (simp add: turns_def save_message_def)

lemma log_calls_turns: "turns (log_calls tick sk ns db) sk' = turns db sk'"
  by (induction tick sk ns db rule: log_calls.induct) (simp_all add: turns_def log_tool_call_def)

lemma history_is_last: "get_history db sk 40 = Inr (drop (length (turns db sk) - 40) (turns db sk))"
  by (simp add: get_history_def sql_u64_def take_rev)

lemma save_turns_turns:
  assumes "\<forall>x \<in> set (turns db sk). cm_created_at x \<le> now"
  obtains u a where "turns (save_turns now sk ch content r db) sk = turns db sk @ [u, a]"
    "history_message u = \<lparr> msg_role = RUser, msg_content = content \<rparr>"
    "history_message a = \<lparr> msg_role = RAssistant, msg_content = rs_content r \<rparr>"
proof -
  let ?u = "user_turn now sk ch content"
  let ?a = "assistant_turn now sk ch (rs_content r) (rs_model r) (rs_tokens_in r) (rs_tokens_out r)"
  have u: "turns (save_message db ?u) sk = turns db sk @ [?u\<lparr>cm_id := Suc (t_conversations_seq db)\<rparr>]"
    using turns_save [of db ?u] assms by (simp add: user_turn_def)
  moreover have "turns (save_message (save_message db ?u) ?a) sk = turns (save_message db ?u) sk
      @ [?a\<lparr>cm_id := Suc (t_conversations_seq (save_message db ?u))\<rparr>]"
    using turns_save [of "save_message db ?u" ?a] assms u by (simp add: assistant_turn_def user_turn_def)
  ultimately show ?thesis
    by (intro that [of "?u\<lparr>cm_id := Suc (t_conversations_seq db)\<rparr>"
          "?a\<lparr>cm_id := Suc (t_conversations_seq (save_message db ?u))\<rparr>"])
      (simp_all add: save_turns_def history_message_def user_turn_def assistant_turn_def)
qed


text \<open>A provider that always answers the same text.\<close>

definition parrot :: "string \<Rightarrow> 'w llm_provider" where
  "parrot answer =
     (let send = (\<lambda>req w. (w, Inr \<lparr> rs_content = answer, rs_model = cr_model req, rs_tokens_in = 1,
          rs_tokens_out = 1, rs_stop_reason = ''end_turn'', rs_tool_calls = [] \<rparr>))
      in \<lparr> p_name = ''parrot'', p_send = send, p_send_stream = default_send_stream send \<rparr>)"


end
