(* ===== verification/Handlers.thy ===== *)
theory Handlers
  imports Pipeline UserResolver Sessions Scheduler Terminal
begin

text \<open>
  The gateway's shared state (\<open>crates/skynet-gateway/src/app.rs\<close>) and the handlers of the WebSocket
  methods other than \<open>chat.send\<close> (\<open>ws/handlers.rs\<close>).

  The state holds the models of the subsystems. The world of the language model and of the tools
  is the memory and the other services, so that a tool may change any of them. What a
  call reads from outside (clock, fresh identifiers, the fate of a child process, the full-text
  search, serde's readers and its form of an instant) is one record. A reply keeps the state even when the handler panics.
\<close>

section \<open>The shared state\<close>

text \<open>\<open>sv_jobs_poisoned\<close>: a call panicked while it held the scheduler handle's mutex, so every
  later \<open>lock().unwrap()\<close> panics.\<close>

record 'x services =
  sv_users :: user_resolver
  sv_sessions :: sessions_db
  sv_jobs :: "job_row list"
  sv_jobs_poisoned :: bool
  sv_terminal :: terminal_manager
  sv_rest :: 'x

type_synonym 'x world = "memory_manager \<times> 'x services"

record 'x app_state =
  ap_config :: skynet_config
  ap_event_seq :: nat
  ap_agent :: "'x world agent_runtime"
  ap_world :: "'x world"
  ap_ws_clients :: "string list"

definition app_state_new ::
    "skynet_config \<Rightarrow> 'x world agent_runtime \<Rightarrow> user_resolver \<Rightarrow> memory_manager \<Rightarrow> sessions_db
      \<Rightarrow> job_row list \<Rightarrow> terminal_manager \<Rightarrow> 'x \<Rightarrow> 'x app_state" where
  "app_state_new cfg a us mem sess js trm x =
     \<lparr> ap_config = cfg, ap_event_seq = 0, ap_agent = a,
       ap_world = (mem, \<lparr> sv_users = us, sv_sessions = sess, sv_jobs = js,
         sv_jobs_poisoned = False, sv_terminal = trm, sv_rest = x \<rparr>),
       ap_ws_clients = [] \<rparr>"

definition next_seq :: "'x app_state \<Rightarrow> 'x app_state \<times> nat" where
  "next_seq a = (a\<lparr>ap_event_seq := (ap_event_seq a + 1) mod u64_size\<rparr>, ap_event_seq a)"

abbreviation memory :: "'x app_state \<Rightarrow> memory_manager" where "memory a \<equiv> fst (ap_world a)"
abbreviation services :: "'x app_state \<Rightarrow> 'x services" where "services a \<equiv> snd (ap_world a)"

definition set_memory :: "memory_manager \<Rightarrow> 'x app_state \<Rightarrow> 'x app_state" where
  "set_memory m a = a\<lparr>ap_world := (m, services a)\<rparr>"

definition set_terminal :: "terminal_manager \<Rightarrow> 'x app_state \<Rightarrow> 'x app_state" where
  "set_terminal t a = a\<lparr>ap_world := (memory a, services a\<lparr>sv_terminal := t\<rparr>)\<rparr>"

definition set_jobs :: "job_row list \<Rightarrow> 'x app_state \<Rightarrow> 'x app_state" where
  "set_jobs js a = a\<lparr>ap_world := (memory a, services a\<lparr>sv_jobs := js\<rparr>)\<rparr>"

definition poison_jobs :: "'x app_state \<Rightarrow> 'x app_state" where
  "poison_jobs a = a\<lparr>ap_world := (memory a, services a\<lparr>sv_jobs_poisoned := True\<rparr>)\<rparr>"

definition set_users :: "user_resolver \<Rightarrow> 'x app_state \<Rightarrow> 'x app_state" where
  "set_users u a = a\<lparr>ap_world := (memory a, services a\<lparr>sv_users := u\<rparr>)\<rparr>"

section \<open>What a call reads from outside\<close>

record call_env =
  ce_now_str :: string
  ce_now :: int
  ce_secs :: nat
  ce_id :: string
  ce_sched :: sched_env
  ce_ulow :: "string \<Rightarrow> string"
  ce_strip :: "string \<Rightarrow> string"
  ce_child :: child_outcome
  ce_env_shell :: "string option"
  ce_env_dir :: "string option"
  ce_opened :: pty_faults
  ce_io_error :: "string option"
  ce_fts :: "fts_cmd list \<Rightarrow> string \<Rightarrow> nat list"
  ce_time :: "int \<Rightarrow> string"
  ce_schedule_of :: "json \<Rightarrow> string + schedule"
  ce_sql :: "sql_error \<Rightarrow> string"
  ce_json :: json_codec
  ce_mint :: mint
  ce_rfc :: "int \<Rightarrow> string"
  ce_tie :: nat
  ce_t_check :: int
  ce_t_query :: int
  ce_t_delay :: nat
  ce_cutoff :: "int \<Rightarrow> string"
  ce_tick :: "nat \<Rightarrow> string"
  ce_select :: "nat \<Rightarrow> nat option"

text \<open>\<open>rp_spawned\<close> lists the sessions whose compaction was spawned.\<close>

record 'x reply =
  rp_app :: "'x app_state"
  rp_spawned :: "string list"
  rp_events :: "event_frame list"
  rp_effects :: "exec_effect list"
  rp_res :: "res_frame outcome"

definition answer :: "'x app_state \<Rightarrow> res_frame \<Rightarrow> 'x reply" where
  "answer a r = \<lparr> rp_app = a, rp_spawned = [], rp_events = [], rp_effects = [], rp_res = Ret r \<rparr>"

definition panic_reply :: "'x app_state \<Rightarrow> 'x reply" where
  "panic_reply a = \<lparr> rp_app = a, rp_spawned = [], rp_events = [], rp_effects = [], rp_res = Panic \<rparr>"

section \<open>Reading parameters\<close>

fun as_u64 :: "json \<Rightarrow> nat option" where
  "as_u64 (JInt i) = (if 0 \<le> i \<and> i < int u64_size then Some (nat i) else None)"
| "as_u64 _ = None"

fun as_f64 :: "json \<Rightarrow> rat option" where
  "as_f64 (JInt i) = Some (of_int i)"
| "as_f64 (JFloat q) = Some q"
| "as_f64 _ = None"

definition param :: "string \<Rightarrow> json option \<Rightarrow> json option" where
  "param k params = Option.bind params (jget k)"

definition param_str :: "string \<Rightarrow> json option \<Rightarrow> string option" where
  "param_str k params = Option.bind (param k params) as_str"

definition non_empty :: "string option \<Rightarrow> string option" where
  "non_empty s = (case s of Some t \<Rightarrow> if t = [] then None else Some t | None \<Rightarrow> None)"

definition limit_param :: "nat \<Rightarrow> nat \<Rightarrow> json option \<Rightarrow> nat" where
  "limit_param default_limit max_limit params =
     (case Option.bind (param ''limit'' params) as_u64 of
        Some n \<Rightarrow> min n max_limit | None \<Rightarrow> default_limit)"

definition clamp01 :: "rat \<Rightarrow> rat" where
  "clamp01 q = (if q < 0 then 0 else if q > 1 then 1 else q)"

definition invalid_params :: "string \<Rightarrow> string \<Rightarrow> res_frame" where
  "invalid_params rid m = ResFrame_err rid ''INVALID_PARAMS'' m"

definition ok_frame :: "string \<Rightarrow> res_frame" where
  "ok_frame rid = ResFrame_ok rid (JObj [(''ok'', JBool True)])"

text \<open>\<open>missing 'k' field\<close> and its variant.\<close>

abbreviation quote :: char where "quote \<equiv> CHR 0x27"

definition missing :: "string \<Rightarrow> string" where
  "missing k = ''missing '' @ [quote] @ k @ [quote] @ '' field''"

definition missing_or_empty :: "string \<Rightarrow> string" where
  "missing_or_empty k = ''missing or empty '' @ [quote] @ k @ [quote] @ '' field''"

section \<open>What serde writes\<close>

definition jopt :: "('a \<Rightarrow> json) \<Rightarrow> 'a option \<Rightarrow> json" where
  "jopt f x = (case x of None \<Rightarrow> JNull | Some y \<Rightarrow> f y)"

definition jnat :: "nat \<Rightarrow> json" where "jnat n = JInt (int n)"

definition session_to_json :: "session \<Rightarrow> json" where
  "session_to_json s = JObj
     [(''id'', JStr (s_id s)),
      (''key'', JObj [(''user_id'', JStr (sk_user_id (s_key s))),
         (''agent_id'', JStr (sk_agent_id (s_key s))), (''name'', JStr (sk_name (s_key s)))]),
      (''title'', jopt JStr (s_title s)), (''message_count'', jnat (s_message_count s)),
      (''total_tokens'', jnat (s_total_tokens s)), (''last_model'', jopt JStr (s_last_model s)),
      (''created_at'', JStr (s_created_at s)), (''updated_at'', JStr (s_updated_at s))]"

definition user_memory_to_json :: "user_memory \<Rightarrow> json" where
  "user_memory_to_json m = JObj
     [(''id'', jnat (um_id m)), (''user_id'', JStr (um_user_id m)),
      (''category'', JStr (category_to_string (um_category m))), (''key'', JStr (um_key m)),
      (''value'', JStr (um_value m)), (''confidence'', JFloat (um_confidence m)),
      (''source'', JStr (source_to_string (um_source m))),
      (''expires_at'', jopt JStr (um_expires_at m)),
      (''created_at'', JStr (um_created_at m)), (''updated_at'', JStr (um_updated_at m))]"

text \<open>The tagged form of a schedule; \<open>time_text\<close> writes an instant.\<close>

fun schedule_to_json :: "(int \<Rightarrow> string) \<Rightarrow> schedule \<Rightarrow> json" where
  "schedule_to_json time_text (Once t) = JObj [(''kind'', JStr ''once''), (''at'', JStr (time_text t))]"
| "schedule_to_json time_text (Interval n) = JObj [(''kind'', JStr ''interval''), (''every_secs'', jnat n)]"
| "schedule_to_json time_text (Daily h m) =
     JObj [(''kind'', JStr ''daily''), (''hour'', jnat h), (''minute'', jnat m)]"
| "schedule_to_json time_text (Weekly d h m) =
     JObj [(''kind'', JStr ''weekly''), (''day'', jnat d), (''hour'', jnat h), (''minute'', jnat m)]"
| "schedule_to_json time_text (Cron e) = JObj [(''kind'', JStr ''cron''), (''expression'', JStr e)]"

definition job_to_json :: "(int \<Rightarrow> string) \<Rightarrow> job \<Rightarrow> json" where
  "job_to_json time_text j = JObj
     [(''id'', JStr (j_id j)), (''name'', JStr (j_name j)),
      (''schedule'', schedule_to_json time_text (j_schedule j)), (''action'', JStr (j_action j)),
      (''status'', JStr (status_to_string (j_status j))),
      (''last_run'', jopt JStr (j_last_run j)), (''next_run'', jopt JStr (j_next_run j)),
      (''run_count'', jnat (j_run_count j)), (''max_runs'', jopt jnat (j_max_runs j)),
      (''created_at'', JStr (j_created_at j)), (''updated_at'', JStr (j_updated_at j))]"

definition exec_result_to_json :: "exec_result \<Rightarrow> json" where
  "exec_result_to_json r = JObj [(''exit_code'', JInt (exit_code r)), (''stdout'', JStr (stdout r)),
     (''stderr'', JStr (stderr r))]"

fun bg_status_name :: "bg_status \<Rightarrow> string" where
  "bg_status_name BgRunning = ''running''"
| "bg_status_name BgCompleted = ''completed''"
| "bg_status_name BgFailed = ''failed''"
| "bg_status_name BgTimedOut = ''timed_out''"

definition background_job_to_json :: "background_job \<Rightarrow> json" where
  "background_job_to_json j = JObj
     [(''id'', JStr (bj_id j)), (''command'', JStr (bj_command j)),
      (''started_at'', jnat (bj_started_at j)), (''status'', JStr (bg_status_name (bj_status j))),
      (''result'', jopt exec_result_to_json (bj_result j))]"

fun pty_info_to_json :: "string \<times> string \<times> string \<times> nat \<times> bool \<Rightarrow> json" where
  "pty_info_to_json (i, sh, dir, t, up) = JObj [(''id'', JStr i), (''shell'', JStr sh),
     (''cwd'', JStr dir), (''created_at'', jnat t), (''is_alive'', JBool up)]"

section \<open>Error texts\<close>

fun session_error_display :: "(sql_error \<Rightarrow> string) \<Rightarrow> session_error \<Rightarrow> string" where
  "session_error_display d (SNotFound k) = ''session not found: '' @ k"
| "session_error_display d (SDatabase e) = ''database error: '' @ d e"
| "session_error_display d (SInvalidKey m) = ''invalid session key: '' @ m"
| "session_error_display d (SLimitExceeded u n) =
     ''session limit exceeded for user '' @ u @ '': max '' @ show_nat n"

fun memory_error_display :: "(sql_error \<Rightarrow> string) \<Rightarrow> memory_error \<Rightarrow> string" where
  "memory_error_display d (MDatabase e) = ''database error: '' @ d e"
| "memory_error_display d (MNotFound c k) = ''memory not found: '' @ c @ ''/'' @ k"
| "memory_error_display d (MSerialization m) = ''serialization error: '' @ m"

fun scheduler_error_display :: "(sql_error \<Rightarrow> string) \<Rightarrow> scheduler_error \<Rightarrow> string" where
  "scheduler_error_display d (JDatabase e) = ''Database error: '' @ d e"
| "scheduler_error_display d (InvalidSchedule m) = ''Invalid schedule: '' @ m"
| "scheduler_error_display d (JobNotFound i) = ''Job not found: '' @ i"
| "scheduler_error_display d (JLimitExceeded m) = ''Limit exceeded: '' @ m"

fun terminal_error_display :: "terminal_error \<Rightarrow> string" where
  "terminal_error_display (PtySpawn m) = ''PTY spawn error: '' @ m"
| "terminal_error_display (SessionNotFound i) = ''Session not found: '' @ i"
| "terminal_error_display (IoError m) = ''I/O error: '' @ m"
| "terminal_error_display (TTimeout ms) = ''Operation timed out after '' @ show_nat ms @ ''ms''"
| "terminal_error_display (CommandBlocked r) = ''Command blocked: '' @ r"
| "terminal_error_display (TJobNotFound i) = ''Job not found: '' @ i"

definition internal_error :: "string \<Rightarrow> string \<Rightarrow> res_frame" where
  "internal_error rid m = ResFrame_err rid ''INTERNAL_ERROR'' m"

section \<open>Sessions\<close>

abbreviation anonymous :: string where "anonymous \<equiv> ''anonymous''"

definition handle_sessions_list :: "json option \<Rightarrow> string \<Rightarrow> 'x app_state \<Rightarrow> 'x reply" where
  "handle_sessions_list params rid a =
     (let limit = limit_param 20 100 params in
      answer a (ResFrame_ok rid (JObj [(''sessions'', JArr (map session_to_json
        (list_for_user (sv_sessions (services a)) anonymous limit)))])))"

definition handle_sessions_get :: "call_env \<Rightarrow> json option \<Rightarrow> string \<Rightarrow> 'x app_state \<Rightarrow> 'x reply" where
  "handle_sessions_get E params rid a =
     (case param_str ''session_key'' params of
        None \<Rightarrow> answer a (invalid_params rid (missing ''session_key''))
      | Some key_str \<Rightarrow>
          (case parse_key key_str of
             Inl e \<Rightarrow> answer a (invalid_params rid
               (''invalid session_key: '' @ session_error_display (ce_sql E) e))
           | Inr key \<Rightarrow>
               (case session_get (sv_sessions (services a)) key of
                  Some s \<Rightarrow> answer a (ResFrame_ok rid (JObj [(''session'', session_to_json s)]))
                | None \<Rightarrow> answer a (ResFrame_err rid ''NOT_FOUND'' (''session not found: '' @ key_str)))))"

section \<open>Memory\<close>

definition handle_memory_search :: "call_env \<Rightarrow> json option \<Rightarrow> string \<Rightarrow> 'x app_state \<Rightarrow> 'x reply" where
  "handle_memory_search E params rid a =
     (case param_str ''query'' params of
        None \<Rightarrow> answer a (invalid_params rid (missing ''query''))
      | Some query \<Rightarrow>
          (if query = [] then answer a (invalid_params rid ''query cannot be empty'')
           else
             (case search (ce_fts E) (mm_db (memory a)) anonymous query (limit_param 10 50 params) of
                Inr ms \<Rightarrow> answer a (ResFrame_ok rid
                  (JObj [(''memories'', JArr (map user_memory_to_json ms))]))
              | Inl e \<Rightarrow> answer a (internal_error rid (memory_error_display (ce_sql E) e)))))"

text \<open>The first part of \<open>memory.learn\<close> and \<open>memory.forget\<close>: the category and the key.\<close>

definition category_and_key :: "json option \<Rightarrow> string + memory_category \<times> string \<times> string" where
  "category_and_key params =
     (if params = None then Inl ''params object required''
      else (case param_str ''category'' params of
          None \<Rightarrow> Inl (missing ''category'')
        | Some category_str \<Rightarrow>
            (case category_from_str category_str of
               Inl e \<Rightarrow> Inl e
             | Inr category \<Rightarrow>
                 (case non_empty (param_str ''key'' params) of
                    None \<Rightarrow> Inl (missing_or_empty ''key'')
                  | Some key \<Rightarrow> Inr (category, category_str, key)))))"

definition handle_memory_learn :: "call_env \<Rightarrow> json option \<Rightarrow> string \<Rightarrow> 'x app_state \<Rightarrow> 'x reply" where
  "handle_memory_learn E params rid a =
     (case category_and_key params of
        Inl m \<Rightarrow> answer a (invalid_params rid m)
      | Inr (category, _, key) \<Rightarrow>
          (case param_str ''value'' params of
             None \<Rightarrow> answer a (invalid_params rid (missing ''value''))
           | Some val \<Rightarrow>
               (let confidence = clamp01 (case Option.bind (param ''confidence'' params) as_f64 of
                      Some q \<Rightarrow> q | None \<Rightarrow> 8 / 10);
                    (m, r) = learn (ce_now_str E) (memory a) anonymous category key val confidence UserSaid
                in answer (set_memory m a) (case r of
                     Inr _ \<Rightarrow> ok_frame rid
                   | Inl e \<Rightarrow> internal_error rid (memory_error_display (ce_sql E) e)))))"

definition handle_memory_forget :: "call_env \<Rightarrow> json option \<Rightarrow> string \<Rightarrow> 'x app_state \<Rightarrow> 'x reply" where
  "handle_memory_forget E params rid a =
     (case category_and_key params of
        Inl m \<Rightarrow> answer a (invalid_params rid m)
      | Inr (category, category_str, key) \<Rightarrow>
          (let (m, r) = forget (memory a) anonymous category key
           in answer (set_memory m a) (case r of
                Inr _ \<Rightarrow> ok_frame rid
              | Inl (MNotFound _ _) \<Rightarrow> ResFrame_err rid ''NOT_FOUND''
                  (''memory entry not found: '' @ category_str @ ''/'' @ key)
              | Inl e \<Rightarrow> internal_error rid (memory_error_display (ce_sql E) e))))"

section \<open>Scheduler\<close>

text \<open>Every call of the handle starts with \<open>lock().unwrap()\<close>.\<close>

definition with_jobs :: "'x app_state \<Rightarrow> (job_row list \<Rightarrow> 'x reply) \<Rightarrow> 'x reply" where
  "with_jobs a f = (if sv_jobs_poisoned (services a) then panic_reply a else f (sv_jobs (services a)))"

definition handle_cron_list :: "call_env \<Rightarrow> string \<Rightarrow> 'x app_state \<Rightarrow> 'x reply" where
  "handle_cron_list E rid a =
     with_jobs a (\<lambda>js. answer a (ResFrame_ok rid (JObj [(''jobs'', JArr
       (map (job_to_json (ce_time E)) (list_jobs (ce_sched E) js)))])))"

definition handle_cron_add :: "call_env \<Rightarrow> json option \<Rightarrow> string \<Rightarrow> 'x app_state \<Rightarrow> 'x reply" where
  "handle_cron_add E params rid a =
     (if params = None then answer a (invalid_params rid ''params object required'')
      else (case non_empty (param_str ''name'' params) of
          None \<Rightarrow> answer a (invalid_params rid (missing_or_empty ''name''))
        | Some name \<Rightarrow>
            (case param ''schedule'' params of
               None \<Rightarrow> answer a (invalid_params rid (missing ''schedule''))
             | Some v \<Rightarrow>
                 (case ce_schedule_of E v of
                    Inl e \<Rightarrow> answer a (invalid_params rid (''bad schedule: '' @ e))
                  | Inr s \<Rightarrow>
                      (case param_str ''action'' params of
                         None \<Rightarrow> answer a (invalid_params rid (missing ''action''))
                       | Some action \<Rightarrow>
                           with_jobs a (\<lambda>js.
                             case handle_add_job (ce_sched E) (ce_id E) (ce_now E) js name s action of
                               Panic \<Rightarrow> panic_reply (poison_jobs a)
                             | Ret (js', r) \<Rightarrow> answer (set_jobs js' a) (case r of
                                   Inr j \<Rightarrow> ResFrame_ok rid (JObj [(''job'',
                                     job_to_json (ce_time E) j)])
                                 | Inl e \<Rightarrow> internal_error rid
                                     (scheduler_error_display (ce_sql E) e))))))))"

definition handle_cron_remove :: "call_env \<Rightarrow> json option \<Rightarrow> string \<Rightarrow> 'x app_state \<Rightarrow> 'x reply" where
  "handle_cron_remove E params rid a =
     (case non_empty (param_str ''id'' params) of
        None \<Rightarrow> answer a (invalid_params rid (missing_or_empty ''id''))
      | Some jid \<Rightarrow> with_jobs a (\<lambda>js.
          let (js', r) = remove_job js jid in
          answer (set_jobs js' a) (case r of
              Inr _ \<Rightarrow> ok_frame rid
            | Inl (JobNotFound _) \<Rightarrow> ResFrame_err rid ''NOT_FOUND'' (''job not found: '' @ jid)
            | Inl e \<Rightarrow> internal_error rid (scheduler_error_display (ce_sql E) e))))"

section \<open>Terminal\<close>

fun map_terminal_error :: "string \<Rightarrow> terminal_error \<Rightarrow> res_frame" where
  "map_terminal_error rid (CommandBlocked r) = ResFrame_err rid ''COMMAND_BLOCKED'' r"
| "map_terminal_error rid (SessionNotFound i) =
     ResFrame_err rid ''NOT_FOUND'' (''session not found: '' @ i)"
| "map_terminal_error rid (TJobNotFound i) =
     ResFrame_err rid ''NOT_FOUND'' (''job not found: '' @ i)"
| "map_terminal_error rid (TTimeout ms) =
     ResFrame_err rid ''TIMEOUT'' (''timed out after '' @ show_nat ms @ ''ms'')"
| "map_terminal_error rid (PtySpawn m) = ResFrame_err rid ''SPAWN_ERROR'' m"
| "map_terminal_error rid (IoError e) = ResFrame_err rid ''IO_ERROR'' e"

text \<open>How a terminal result becomes a frame.\<close>

definition term_frame :: "string \<Rightarrow> ('a \<Rightarrow> json) \<Rightarrow> terminal_error + 'a \<Rightarrow> res_frame" where
  "term_frame rid f r =
     (case r of Inr x \<Rightarrow> ResFrame_ok rid (f x) | Inl e \<Rightarrow> map_terminal_error rid e)"

definition handle_terminal_exec :: "call_env \<Rightarrow> json option \<Rightarrow> string \<Rightarrow> 'x app_state \<Rightarrow> 'x reply" where
  "handle_terminal_exec E params rid a =
     (if params = None then answer a (invalid_params rid ''params object required'')
      else (case non_empty (param_str ''command'' params) of
          None \<Rightarrow> answer a (invalid_params rid (missing_or_empty ''command''))
        | Some command \<Rightarrow>
            (let opts = \<lparr> timeout_secs = (case Option.bind (param ''timeout'' params) as_u64 of
                     Some n \<Rightarrow> n | None \<Rightarrow> timeout_secs default_exec_options),
                   max_output_chars = (case Option.bind (param ''max_output'' params) as_u64 of
                     Some n \<Rightarrow> n | None \<Rightarrow> max_output_chars default_exec_options),
                   skip_safety = False \<rparr>;
                 (effects, r) = exec (ce_ulow E) (ce_strip E) (ce_child E) command opts
             in (answer a (term_frame rid exec_result_to_json r))\<lparr>rp_effects := effects\<rparr>)))"

definition handle_terminal_create :: "call_env \<Rightarrow> json option \<Rightarrow> string \<Rightarrow> 'x app_state \<Rightarrow> 'x reply" where
  "handle_terminal_create E params rid a =
     (let (t, r) = create_session (ce_env_shell E) (ce_env_dir E) (ce_id E) (ce_opened E)
            (sv_terminal (services a)) (param_str ''shell'' params) (param_str ''cwd'' params)
      in answer (set_terminal t a) (term_frame rid (\<lambda>i. JObj [(''session_id'', JStr i)]) r))"

definition handle_terminal_write :: "call_env \<Rightarrow> json option \<Rightarrow> string \<Rightarrow> 'x app_state \<Rightarrow> 'x reply" where
  "handle_terminal_write E params rid a =
     (if params = None then answer a (invalid_params rid ''params object required'')
      else (case non_empty (param_str ''session_id'' params) of
          None \<Rightarrow> answer a (invalid_params rid (missing_or_empty ''session_id''))
        | Some sid \<Rightarrow>
            (case param_str ''input'' params of
               None \<Rightarrow> answer a (invalid_params rid (missing ''input''))
             | Some input \<Rightarrow> answer a (term_frame rid (\<lambda>_. JObj [(''ok'', JBool True)])
                 (term_write (ce_io_error E) (sv_terminal (services a)) sid input)))))"

definition handle_terminal_read :: "json option \<Rightarrow> string \<Rightarrow> 'x app_state \<Rightarrow> 'x reply" where
  "handle_terminal_read params rid a =
     (case non_empty (param_str ''session_id'' params) of
        None \<Rightarrow> answer a (invalid_params rid (missing_or_empty ''session_id''))
      | Some sid \<Rightarrow>
          (case term_read (sv_terminal (services a)) sid of
             Panic \<Rightarrow> panic_reply a
           | Ret (t, r) \<Rightarrow> answer (set_terminal t a)
               (term_frame rid (\<lambda>out. JObj [(''output'', JStr out)]) r)))"

definition handle_terminal_kill :: "json option \<Rightarrow> string \<Rightarrow> 'x app_state \<Rightarrow> 'x reply" where
  "handle_terminal_kill params rid a =
     (case non_empty (param_str ''session_id'' params) of
        None \<Rightarrow> answer a (invalid_params rid (missing_or_empty ''session_id''))
      | Some sid \<Rightarrow>
          (let (t, r) = term_kill (sv_terminal (services a)) sid
           in answer (set_terminal t a) (term_frame rid (\<lambda>_. JObj [(''ok'', JBool True)]) r)))"

definition handle_terminal_list :: "string \<Rightarrow> 'x app_state \<Rightarrow> 'x reply" where
  "handle_terminal_list rid a = answer a (ResFrame_ok rid
     (JObj [(''sessions'', JArr (map pty_info_to_json (session_list (sv_terminal (services a)))))]))"

definition handle_terminal_exec_bg :: "call_env \<Rightarrow> json option \<Rightarrow> string \<Rightarrow> 'x app_state \<Rightarrow> 'x reply" where
  "handle_terminal_exec_bg E params rid a =
     (case non_empty (param_str ''command'' params) of
        None \<Rightarrow> answer a (invalid_params rid (missing_or_empty ''command''))
      | Some command \<Rightarrow>
          (let (t, r) = exec_background (ce_ulow E) (ce_id E) (ce_secs E) (sv_terminal (services a)) command
           in answer (set_terminal t a) (term_frame rid (\<lambda>i. JObj [(''job_id'', JStr i)]) r)))"

definition handle_terminal_job_status :: "json option \<Rightarrow> string \<Rightarrow> 'x app_state \<Rightarrow> 'x reply" where
  "handle_terminal_job_status params rid a =
     (case non_empty (param_str ''id'' params) of
        None \<Rightarrow> answer a (invalid_params rid (missing_or_empty ''id''))
      | Some jid \<Rightarrow> answer a (term_frame rid (\<lambda>j. JObj [(''job'', background_job_to_json j)])
          (Terminal.job_status (sv_terminal (services a)) jid)))"

definition handle_terminal_job_list :: "string \<Rightarrow> 'x app_state \<Rightarrow> 'x reply" where
  "handle_terminal_job_list rid a = answer a (ResFrame_ok rid
     (JObj [(''jobs'', JArr (map background_job_to_json (job_list (sv_terminal (services a)))))]))"

definition handle_terminal_job_kill :: "json option \<Rightarrow> string \<Rightarrow> 'x app_state \<Rightarrow> 'x reply" where
  "handle_terminal_job_kill params rid a =
     (case non_empty (param_str ''id'' params) of
        None \<Rightarrow> answer a (invalid_params rid (missing_or_empty ''id''))
      | Some jid \<Rightarrow>
          (let (t, r) = job_kill (sv_terminal (services a)) jid
           in answer (set_terminal t a) (term_frame rid (\<lambda>_. JObj [(''ok'', JBool True)]) r)))"

section \<open>An example\<close>

text \<open>A call at time 0 whose child process prints \<open>out\<close>, for the examples of the theories above.\<close>

definition sample_call :: call_env where
  "sample_call =
     \<lparr> ce_now_str = ''t'', ce_now = 0, ce_secs = 0, ce_id = ''id'',
       ce_sched = \<lparr> cal = \<lparr> dt_min = 0, dt_max = 1000000000000, at_time = (\<lambda>_ _ _. None),
         weekday = (\<lambda>_. 0), rfc3339 = (\<lambda>_. ''t'') \<rparr>, senc = (\<lambda>_. ''s''), sdec = (\<lambda>_. None), scan = (\<lambda>js. js) \<rparr>,
       ce_ulow = (\<lambda>s. s), ce_strip = (\<lambda>s. s), ce_child = Exited (Some 0) ''out'' [],
       ce_env_shell = None, ce_env_dir = None, ce_opened = pty_works 0, ce_io_error = None,
       ce_fts = (\<lambda>_ _. []), ce_time = (\<lambda>_. ''t''),
       ce_schedule_of = (\<lambda>j. case j of JInt n \<Rightarrow> Inr (Interval (nat n)) | _ \<Rightarrow> Inl ''bad''),
       ce_sql = (\<lambda>_. ''sql''), ce_json = sample_json, ce_mint = sample_mint ''1'', ce_rfc = (\<lambda>_. ''t''),
       ce_tie = 0, ce_t_check = 0, ce_t_query = 0, ce_t_delay = 0, ce_cutoff = (\<lambda>_. ''t''),
       ce_tick = (\<lambda>_. ''t''), ce_select = (\<lambda>_. Some 1) \<rparr>"

end
