(* ===== verification/Chat.thy ===== *)
theory Chat
  imports Handlers
begin

text \<open>
  The method \<open>chat.send\<close> (\<open>crates/skynet-gateway/src/ws/dispatch.rs\<close>): slash commands, the
  user's context, the streaming loop with its tool rounds, and the non-streaming path through the
  shared pipeline. The tools of a call are a parameter here (\<open>Tools\<close> builds them); the order in
  which the select sees the events and the end of the provider's future is the parameter
  \<open>ce_select\<close>: \<open>Some n\<close> when the future ends after \<open>n\<close> events were received, no value when the
  channel was closed first.
\<close>

section \<open>Models and slash commands\<close>

definition MODEL_ALIASES :: "(string \<times> string) list" where
  "MODEL_ALIASES = [(''opus'', ''claude-opus-4-6''), (''sonnet'', ''claude-sonnet-4-6''),
     (''haiku'', ''claude-haiku-4-5'')]"

definition resolve_model_alias :: "(string \<Rightarrow> string) \<Rightarrow> string \<Rightarrow> string option" where
  "resolve_model_alias ulow input =
     (let lower = to_lowercase ulow input in
      map_option snd (find (\<lambda>(name, full). lower = name \<or> lower = full) MODEL_ALIASES))"

definition app_set_model :: "string \<Rightarrow> 'x app_state \<Rightarrow> 'x app_state \<times> string" where
  "app_set_model m a = (let (ag, previous) = set_model m (ap_agent a) in (a\<lparr>ap_agent := ag\<rparr>, previous))"

definition handle_agent_model :: "json option \<Rightarrow> string \<Rightarrow> 'x app_state \<Rightarrow> 'x reply" where
  "handle_agent_model params rid a =
     (case non_empty (param_str ''set'' params) of
        Some new_model \<Rightarrow>
          (let (a', previous) = app_set_model new_model a in
           answer a' (ResFrame_ok rid (JObj [(''model'', JStr new_model), (''previous'', JStr previous)])))
      | None \<Rightarrow> answer a (ResFrame_ok rid (JObj [(''model'', JStr (get_model (ap_agent a)))])))"

abbreviation tick_char :: char where "tick_char \<equiv> CHR 0x60"

definition ticked :: "string \<Rightarrow> string" where
  "ticked s = [tick_char] @ s @ [tick_char]"

definition bold :: "string \<Rightarrow> string" where
  "bold s = ''**'' @ s @ ''**''"

definition handle_slash_command ::
    "(string \<Rightarrow> string) \<Rightarrow> string \<Rightarrow> 'x app_state \<Rightarrow> 'x app_state \<times> string option" where
  "handle_slash_command ulow message a =
     (let trimmed = trim message in
      if eq_ignore_ascii_case trimmed ''/model'' then
        (a, Some (''Current model: '' @ bold (get_model (ap_agent a)) @ blank_line @ ''Available: ''
          @ ticked ''/model opus'' @ '' | '' @ ticked ''/model sonnet'' @ '' | '' @ ticked ''/model haiku''))
      else (case or_else (strip_prefix ''/model '' trimmed) (strip_prefix (''/model'' @ [CHR 0x09]) trimmed) of
        Some rest \<Rightarrow>
          (let arg = trim rest in
           case resolve_model_alias ulow arg of
             Some resolved \<Rightarrow>
               (let (a', previous) = app_set_model resolved a in
                (a', Some (''Model switched: '' @ bold previous @ '' -> '' @ bold resolved)))
           | None \<Rightarrow> (a, Some (''Unknown model: '' @ ticked arg @ ''. Available: '' @ ticked ''opus'' @ '', ''
               @ ticked ''sonnet'' @ '', '' @ ticked ''haiku'')))
      | None \<Rightarrow>
          (if eq_ignore_ascii_case trimmed ''/config'' then
             (a, Some (bold ''Skynet Runtime'' @ [newline]
               @ ''- Model: '' @ ticked (get_model (ap_agent a)) @ [newline]
               @ ''- Provider: '' @ ticked (p_name (ar_provider (ap_agent a))) @ [newline]
               @ ''- Port: '' @ ticked (show_nat (port (gateway (ap_config a)))) @ [newline]
               @ ''- Database: '' @ ticked (database_path (ap_config a))))
           else (a, None))))"

section \<open>The user's context\<close>

definition resolve_user_context ::
    "call_env \<Rightarrow> string option \<Rightarrow> string option \<Rightarrow> 'x app_state \<Rightarrow> ('x app_state \<times> string option) outcome" where
  "resolve_user_context E chan sender_id a =
     (case (chan, sender_id) of
        (Some c, Some s) \<Rightarrow>
          bind_outcome (resolve (ce_json E) (ce_mint E) (sv_users (services a)) c s) (\<lambda>(u, r).
            let a' = set_users u a in
            case r of
              Inl e \<Rightarrow> Ret (a', None)
            | Inr resolved \<Rightarrow>
                (let (m, ctx) = build_user_context (ce_rfc E) (ce_tie E) (ce_t_check E) (ce_t_query E)
                       (ce_t_delay E) (memory a') (u_id (resolved_user_user resolved))
                 in Ret (set_memory m a', case ctx of
                      Inr x \<Rightarrow> if cx_rendered x \<noteq> [] then Some (cx_rendered x) else None
                    | Inl e \<Rightarrow> None)))
      | _ \<Rightarrow> Ret (a, None))"

section \<open>Streaming\<close>

definition MAX_ITERS :: nat where "MAX_ITERS = 10"

text \<open>What the handler has gathered: the whole turn, the current iteration, and the frames sent.\<close>

record turn_state =
  ts_accumulated :: string
  ts_model :: string
  ts_tokens_in :: nat
  ts_tokens_out :: nat
  ts_stop :: string
  ts_iter_text :: string
  ts_iter_tools :: "tool_call list"
  ts_sent :: "event_frame list"

definition turn_start :: turn_state where
  "turn_start = \<lparr> ts_accumulated = [], ts_model = [], ts_tokens_in = 0, ts_tokens_out = 0, ts_stop = [],
     ts_iter_text = [], ts_iter_tools = [], ts_sent = [] \<rparr>"

definition delta_frame :: "string \<Rightarrow> string \<Rightarrow> event_frame" where
  "delta_frame rid text_part =
     EventFrame_new ''chat.delta'' (JObj [(''text'', JStr text_part), (''req_id'', JStr rid)])"

fun recv_event :: "string \<Rightarrow> stream_event \<Rightarrow> turn_state \<Rightarrow> turn_state" where
  "recv_event rid (TextDelta s) t = t\<lparr> ts_iter_text := ts_iter_text t @ s,
     ts_accumulated := ts_accumulated t @ s, ts_sent := ts_sent t @ [delta_frame rid s] \<rparr>"
| "recv_event rid (ToolUse i n inp) t = t\<lparr> ts_iter_tools := ts_iter_tools t
     @ [\<lparr> call_id = i, call_name = n, call_input = inp \<rparr>] \<rparr>"
| "recv_event rid (StreamDone m n_in n_out stop) t = t\<lparr> ts_model := m, ts_tokens_in := n_in,
     ts_tokens_out := n_out, ts_stop := stop \<rparr>"
| "recv_event rid (StreamError m) t = t"
| "recv_event rid (ThinkingDelta s) t = t"

text \<open>The receiving branch returns at the first error event; the draining loop ignores errors.\<close>

fun recv_loop :: "string \<Rightarrow> stream_event list \<Rightarrow> turn_state \<Rightarrow> turn_state \<times> string option" where
  "recv_loop rid [] t = (t, None)"
| "recv_loop rid (e # es) t =
     (case e of StreamError m \<Rightarrow> (t, Some m) | _ \<Rightarrow> recv_loop rid es (recv_event rid e t))"

definition drain :: "string \<Rightarrow> stream_event list \<Rightarrow> turn_state \<Rightarrow> turn_state" where
  "drain rid es t = fold (recv_event rid) es t"

definition stream_iteration ::
    "string \<Rightarrow> nat option \<Rightarrow> stream_event list \<Rightarrow> provider_error + unit \<Rightarrow> turn_state
      \<Rightarrow> turn_state \<times> string option" where
  "stream_iteration rid sel es result t =
     (case sel of
        None \<Rightarrow> recv_loop rid es t
      | Some n \<Rightarrow>
          (case recv_loop rid (take n es) t of
             (t', Some m) \<Rightarrow> (t', Some m)
           | (t', None) \<Rightarrow>
               (case result of
                  Inl e \<Rightarrow> (t', Some (provider_error_display e))
                | Inr _ \<Rightarrow> (drain rid (drop n es) t', None))))"

definition take_chars :: "nat \<Rightarrow> string \<Rightarrow> string" where
  "take_chars n s = concat (take n (chars s))"

definition ellipsis :: "string \<Rightarrow> string" where
  "ellipsis s = (if length (chars s) > 500 then [CHR 0xE2, CHR 0x80, CHR 0xA6] else [])"

definition command_of :: "json \<Rightarrow> string" where
  "command_of input = (case Option.bind (jget ''command'' input) as_str of Some c \<Rightarrow> c | None \<Rightarrow> ''?'')"

definition tool_label :: "tool_call \<Rightarrow> string" where
  "tool_label c =
     (if call_name c = ''execute_command'' \<or> call_name c = ''bash''
      then ''$ '' @ take_chars 80 (command_of (call_input c)) else call_name c)"

definition tool_running_frame :: "string \<Rightarrow> tool_call \<Rightarrow> event_frame" where
  "tool_running_frame rid c = EventFrame_new ''chat.tool'' (JObj
     [(''req_id'', JStr rid), (''name'', JStr (call_name c)), (''label'', JStr (tool_label c)),
      (''status'', JStr ''running'')])"

definition tool_done_frame :: "string \<Rightarrow> tool_call \<Rightarrow> tool_result \<Rightarrow> event_frame" where
  "tool_done_frame rid c r = EventFrame_new ''chat.tool'' (JObj
     [(''req_id'', JStr rid), (''name'', JStr (call_name c)), (''label'', JStr (tool_label c)),
      (''status'', JStr ''done''), (''output'', JStr (take_chars 500 (tr_content r) @ ellipsis (tr_content r))),
      (''is_error'', JBool (tr_is_error r))])"

fun tool_round ::
    "string \<Rightarrow> 'w tool list \<Rightarrow> tool_call list \<Rightarrow> 'w \<Rightarrow> 'w \<times> event_frame list \<times> tool_result list outcome" where
  "tool_round rid tools [] w = (w, [], Ret [])"
| "tool_round rid tools (c # cs) w =
     (case execute_tool tools c w of
        (w', Panic) \<Rightarrow> (w', [tool_running_frame rid c], Panic)
      | (w', Ret r) \<Rightarrow>
          (let (w'', fs, rs) = tool_round rid tools cs w'
           in (w'', tool_running_frame rid c # tool_done_frame rid c r # fs, map_outcome (Cons r) rs)))"

definition stream_assistant :: "string \<Rightarrow> tool_call list \<Rightarrow> json" where
  "stream_assistant iter_text cs = JObj [(''role'', JStr ''assistant''), (''content'', JArr
     ((if iter_text = [] then [] else [JObj [(''type'', JStr ''text''), (''text'', JStr iter_text)]])
      @ map tool_use_block cs))]"

definition stream_request ::
    "string \<Rightarrow> system_prompt \<Rightarrow> tool_definition list \<Rightarrow> json list \<Rightarrow> chat_request" where
  "stream_request model p defs raw =
     \<lparr> cr_model = model, cr_system = to_plain_text p, cr_system_prompt = Some p, cr_messages = [],
       cr_max_tokens = 4096, cr_stream = True, cr_thinking = None, cr_tools = defs,
       cr_raw_messages = Some raw \<rparr>"

text \<open>
  The loop: \<open>left\<close> iterations remain. \<open>run_round\<close> runs a round of tools: the new turn state and the
  results. An error ends the turn, and so does a panic of a tool.
\<close>

fun stream_loop ::
    "string \<Rightarrow> 'w llm_provider \<Rightarrow> (json list \<Rightarrow> chat_request)
      \<Rightarrow> (tool_call list \<Rightarrow> turn_state \<Rightarrow> 'w \<Rightarrow> 'w \<times> turn_state \<times> tool_result list outcome)
      \<Rightarrow> (nat \<Rightarrow> nat option) \<Rightarrow> nat \<Rightarrow> json list \<Rightarrow> turn_state \<Rightarrow> 'w
      \<Rightarrow> 'w \<times> turn_state \<times> string option outcome" where
  "stream_loop rid p mk_req run_round sel 0 raw t w = (w, t, Ret None)"
| "stream_loop rid p mk_req run_round sel (Suc left) raw t w =
     (let (w1, es, result) = p_send_stream p (mk_req raw) w;
          (t1, err) = stream_iteration rid (sel 0) es result (t\<lparr>ts_iter_text := [], ts_iter_tools := []\<rparr>)
      in if err \<noteq> None \<or> ts_iter_tools t1 = [] \<or> ts_stop t1 \<noteq> ''tool_use'' then (w1, t1, Ret err)
         else
           (case run_round (ts_iter_tools t1) t1 w1 of
              (w2, t2, Panic) \<Rightarrow> (w2, t2, Panic)
            | (w2, t2, Ret rs) \<Rightarrow>
                stream_loop rid p mk_req run_round (\<lambda>i. sel (Suc i)) left
                  (raw @ [stream_assistant (ts_iter_text t1) (ts_iter_tools t1),
                          results_message (ts_iter_tools t1) rs]) t2 w2))"

text \<open>A round of the streaming path tells the client of each tool by two frames.\<close>

definition event_round ::
    "string \<Rightarrow> 'w tool list \<Rightarrow> tool_call list \<Rightarrow> turn_state \<Rightarrow> 'w
      \<Rightarrow> 'w \<times> turn_state \<times> tool_result list outcome" where
  "event_round rid tools cs t w =
     (let (w', fs, rs) = tool_round rid tools cs w in (w', t\<lparr>ts_sent := ts_sent t @ fs\<rparr>, rs))"

definition usage_json :: "nat \<Rightarrow> nat \<Rightarrow> json" where
  "usage_json n_in n_out = JObj [(''input_tokens'', jnat n_in), (''output_tokens'', jnat n_out)]"

definition chat_ok :: "string \<Rightarrow> string \<Rightarrow> string \<Rightarrow> nat \<Rightarrow> nat \<Rightarrow> string \<Rightarrow> res_frame" where
  "chat_ok rid content model n_in n_out stop = ResFrame_ok rid (JObj
     [(''content'', JStr content), (''model'', JStr model), (''usage'', usage_json n_in n_out),
      (''stop_reason'', JStr stop)])"

definition llm_error :: "string \<Rightarrow> string \<Rightarrow> res_frame" where
  "llm_error rid m = ResFrame_err rid ''LLM_ERROR'' m"

definition raw_history :: "conversation_message list \<Rightarrow> json list" where
  "raw_history h = map (\<lambda>m. JObj [(''role'', JStr (cm_role m)), (''content'', JStr (cm_content m))]) h"

definition raw_user :: "string \<Rightarrow> json" where
  "raw_user message = JObj [(''role'', JStr ''user''), (''content'', JStr message)]"

definition chosen_model :: "string option \<Rightarrow> 'x app_state \<Rightarrow> string" where
  "chosen_model model_override a =
     (case model_override of Some m \<Rightarrow> m | None \<Rightarrow> get_model (ap_agent a))"

definition save_stream ::
    "string \<Rightarrow> string \<Rightarrow> string \<Rightarrow> string \<Rightarrow> turn_state \<Rightarrow> memory_db \<Rightarrow> memory_db" where
  "save_stream now session_key channel_name message t db =
     save_message
       (save_message db (user_turn now session_key channel_name message))
       (assistant_turn now session_key channel_name (ts_accumulated t) (ts_model t) (ts_tokens_in t)
         (ts_tokens_out t))"

definition handle_streaming ::
    "call_env \<Rightarrow> 'x world tool list \<Rightarrow> string \<Rightarrow> string \<Rightarrow> string option \<Rightarrow> string option \<Rightarrow> string
      \<Rightarrow> string \<Rightarrow> 'x app_state \<Rightarrow> 'x reply" where
  "handle_streaming E tools message rid user_context model_override session_key channel_name a =
     (let p = build_prompt (ar_prompt (ap_agent a)) user_context None;
          history = or_empty (get_history (mm_db (memory a)) session_key 40);
          (w, t, err) = stream_loop rid (ar_provider (ap_agent a))
            (stream_request (chosen_model model_override a) p (to_definitions tools))
            (event_round rid tools) (ce_select E) MAX_ITERS (raw_history history @ [raw_user message])
            turn_start (ap_world a);
          a' = a\<lparr>ap_world := w\<rparr>
      in case err of
           Panic \<Rightarrow> (panic_reply a')\<lparr>rp_events := ts_sent t\<rparr>
         | Ret (Some m) \<Rightarrow> (answer a' (llm_error rid m))\<lparr>rp_events := ts_sent t\<rparr>
         | Ret None \<Rightarrow>
             (let saved = ts_accumulated t \<noteq> [];
                  m = fst w;
                  a'' = (if saved then set_memory (m\<lparr>mm_db := save_stream (ce_now_str E) session_key
                    channel_name message t (mm_db m)\<rparr>) a' else a')
              in \<lparr> rp_app = a'', rp_spawned = (if saved then [session_key] else []), rp_events = ts_sent t,
                   rp_effects = [], rp_res = Ret (chat_ok rid (ts_accumulated t) (ts_model t)
                     (ts_tokens_in t) (ts_tokens_out t) (ts_stop t)) \<rparr>))"

section \<open>Non-streaming\<close>

definition handle_non_streaming ::
    "call_env \<Rightarrow> 'x world tool list \<Rightarrow> string \<Rightarrow> string \<Rightarrow> string option \<Rightarrow> string option \<Rightarrow> string
      \<Rightarrow> string \<Rightarrow> 'x app_state \<Rightarrow> 'x reply" where
  "handle_non_streaming E tools message rid user_context model_override session_key channel_name a =
     (let (w, spawned, r) = process_message_non_streaming (ce_cutoff E) (ce_tick E) (ce_now_str E)
            (ap_agent a) tools session_key channel_name message user_context model_override (ap_world a)
      in (case r of
            Panic \<Rightarrow> panic_reply (a\<lparr>ap_world := w\<rparr>)
          | Ret (Inr pm) \<Rightarrow> answer (a\<lparr>ap_world := w\<rparr>) (chat_ok rid (pm_content pm) (pm_model pm)
              (pm_tokens_in pm) (pm_tokens_out pm) (pm_stop_reason pm))
          | Ret (Inl e) \<Rightarrow> answer (a\<lparr>ap_world := w\<rparr>) (llm_error rid (provider_error_display e)))
         \<lparr>rp_spawned := spawned\<rparr>)"

section \<open>The method\<close>

definition message_param :: "json option \<Rightarrow> string + string" where
  "message_param params =
     (case param_str ''message'' params of
        Some m \<Rightarrow> if m \<noteq> [] then Inr m else Inl ''message cannot be empty''
      | None \<Rightarrow> Inl (missing ''message''))"

definition slash_frame :: "string \<Rightarrow> string \<Rightarrow> res_frame" where
  "slash_frame rid response = ResFrame_ok rid (JObj
     [(''content'', JStr response), (''model'', JStr ''gateway''), (''usage'', usage_json 0 0),
      (''stop_reason'', JStr ''command'')])"

definition session_key_of :: "string option \<Rightarrow> string option \<Rightarrow> string" where
  "session_key_of chan sender_id =
     (case (chan, sender_id) of (Some ch, Some sid) \<Rightarrow> ch @ '':'' @ sid | _ \<Rightarrow> ''web:default'')"

definition wants_stream :: "json option \<Rightarrow> bool" where
  "wants_stream params =
     (case Option.bind (param ''stream'' params) as_bool of Some b \<Rightarrow> b | None \<Rightarrow> True)"

text \<open>\<open>tools_of\<close> builds the tools for a channel name.\<close>

definition handle_chat_send ::
    "call_env \<Rightarrow> (string \<Rightarrow> 'x world tool list) \<Rightarrow> json option \<Rightarrow> string \<Rightarrow> 'x app_state \<Rightarrow> 'x reply" where
  "handle_chat_send E tools_of params rid a =
     (case message_param params of
        Inl m \<Rightarrow> answer a (invalid_params rid m)
      | Inr message \<Rightarrow>
          (case handle_slash_command (ce_ulow E) message a of
             (a', Some response) \<Rightarrow> answer a' (slash_frame rid response)
           | (a', None) \<Rightarrow>
               (let model_override = non_empty (param_str ''model'' params);
                    chan = param_str ''channel'' params;
                    sender_id = param_str ''sender_id'' params;
                    session_key = session_key_of chan sender_id;
                    channel_name = (case chan of Some c \<Rightarrow> c | None \<Rightarrow> ''web'')
                in case resolve_user_context E chan sender_id a' of
                     Panic \<Rightarrow> panic_reply a'
                   | Ret (a1, user_context) \<Rightarrow>
                       (if wants_stream params
                        then handle_streaming E (tools_of channel_name) message rid user_context
                          model_override session_key channel_name a1
                        else handle_non_streaming E (tools_of channel_name) message rid user_context
                          model_override session_key channel_name a1))))"

text \<open>The spawned task sends the response after the events.\<close>

datatype out_frame = OutEvent event_frame | OutRes res_frame

definition reply_frames :: "'x reply \<Rightarrow> out_frame list" where
  "reply_frames rp = map OutEvent (rp_events rp) @ (case rp_res rp of Ret r \<Rightarrow> [OutRes r] | Panic \<Rightarrow> [])"

definition handle_chat_send_task ::
    "call_env \<Rightarrow> (string \<Rightarrow> 'x world tool list) \<Rightarrow> json option \<Rightarrow> string \<Rightarrow> 'x app_state
      \<Rightarrow> 'x app_state \<times> out_frame list" where
  "handle_chat_send_task E tools_of params rid a =
     (let rp = handle_chat_send E tools_of params rid a in (rp_app rp, reply_frames rp))"

section \<open>The inline fallback\<close>

text \<open>The inline path shows tools inside the text, keeps no history and saves nothing.\<close>

definition inline_header :: "tool_call \<Rightarrow> string" where
  "inline_header c =
     (let fence = [tick_char, tick_char, tick_char, newline] in
      if call_name c = ''execute_command''
      then [newline] @ fence @ ''$ '' @ command_of (call_input c) @ [newline]
      else [newline, CHR 0xE2, CHR 0x9A, CHR 0x99] @ '' '' @ bold (call_name c) @ [newline] @ fence)"

definition inline_body :: "tool_result \<Rightarrow> string" where
  "inline_body r =
     (let close = [newline, tick_char, tick_char, tick_char, newline] in
      if tr_content r = [] then ''(no output)'' @ close
      else take_chars 500 (tr_content r) @ ellipsis (tr_content r) @ close)"

definition show_text :: "string \<Rightarrow> string \<Rightarrow> turn_state \<Rightarrow> turn_state" where
  "show_text rid s t = t\<lparr>ts_accumulated := ts_accumulated t @ s, ts_sent := ts_sent t @ [delta_frame rid s]\<rparr>"

fun inline_round ::
    "string \<Rightarrow> 'w tool list \<Rightarrow> tool_call list \<Rightarrow> turn_state \<Rightarrow> 'w
      \<Rightarrow> 'w \<times> turn_state \<times> tool_result list outcome" where
  "inline_round rid tools [] t w = (w, t, Ret [])"
| "inline_round rid tools (c # cs) t w =
     (let t1 = show_text rid (inline_header c) t in
      case execute_tool tools c w of
        (w', Panic) \<Rightarrow> (w', t1, Panic)
      | (w', Ret r) \<Rightarrow>
          (let (w'', t', rs) = inline_round rid tools cs (show_text rid (inline_body r) t1) w'
           in (w'', t', map_outcome (Cons r) rs)))"

definition handle_streaming_inline ::
    "call_env \<Rightarrow> 'x world tool list \<Rightarrow> string \<Rightarrow> string \<Rightarrow> string option \<Rightarrow> string option
      \<Rightarrow> 'x app_state \<Rightarrow> 'x reply" where
  "handle_streaming_inline E tools message rid user_context model_override a =
     (let p = build_prompt (ar_prompt (ap_agent a)) user_context None;
          (w, t, err) = stream_loop rid (ar_provider (ap_agent a))
            (stream_request (chosen_model model_override a) p (to_definitions tools))
            (inline_round rid tools) (ce_select E) MAX_ITERS [raw_user message] turn_start (ap_world a)
      in (case err of
            Panic \<Rightarrow> panic_reply (a\<lparr>ap_world := w\<rparr>)
          | Ret (Some m) \<Rightarrow> answer (a\<lparr>ap_world := w\<rparr>) (llm_error rid m)
          | Ret None \<Rightarrow> answer (a\<lparr>ap_world := w\<rparr>) (chat_ok rid (ts_accumulated t) (ts_model t)
              (ts_tokens_in t) (ts_tokens_out t) (ts_stop t)))\<lparr>rp_events := ts_sent t\<rparr>)"

definition handle_chat_send_inline ::
    "call_env \<Rightarrow> (string \<Rightarrow> 'x world tool list) \<Rightarrow> json option \<Rightarrow> string \<Rightarrow> 'x app_state \<Rightarrow> 'x reply" where
  "handle_chat_send_inline E tools_of params rid a =
     (case message_param params of
        Inl m \<Rightarrow> answer a (invalid_params rid m)
      | Inr message \<Rightarrow>
          (case handle_slash_command (ce_ulow E) message a of
             (a', Some response) \<Rightarrow> answer a' (slash_frame rid response)
           | (a', None) \<Rightarrow>
               (case resolve_user_context E (param_str ''channel'' params) (param_str ''sender_id'' params) a' of
                  Panic \<Rightarrow> panic_reply a'
                | Ret (a1, user_context) \<Rightarrow>
                    handle_streaming_inline E (tools_of ''ws'') message rid user_context
                      (non_empty (param_str ''model'' params)) a1)))"

end
