(* ===== verification/ChatProps.thy ===== *)
theory ChatProps
  imports Chat
begin

text \<open>
  What a streamed turn guarantees: an interface for properties of the turn state that every step
  of the streaming loop keeps, its instances, and the properties of \<open>chat.send\<close>.
\<close>

section \<open>Invariants of a streamed turn\<close>

locale turn_invariant =
  fixes rid :: string
    and run_round :: "tool_call list \<Rightarrow> turn_state \<Rightarrow> 'w \<Rightarrow> 'w \<times> turn_state \<times> tool_result list outcome"
    and P :: "turn_state \<Rightarrow> bool"
  assumes recv: "P t \<Longrightarrow> P (recv_event rid e t)"
    and restart: "P t \<Longrightarrow> P (t\<lparr>ts_iter_text := [], ts_iter_tools := []\<rparr>)"
    and round_keeps: "P t \<Longrightarrow> run_round cs t w = (w', t', rs) \<Longrightarrow> P t'"
begin

lemma recv_loop_keeps: "P t \<Longrightarrow> P (fst (recv_loop rid es t))"
proof (induction es arbitrary: t)
  case (Cons e es)
  have "P (fst (recv_loop rid es (recv_event rid e t)))" by (rule Cons.IH [OF recv [OF Cons.prems]])
  then show ?case using Cons.prems by (cases e) simp_all
qed simp

lemma drain_keeps: "P t \<Longrightarrow> P (drain rid es t)"
  unfolding drain_def by (induction es arbitrary: t) (auto intro: recv)

lemma iteration_keeps:
  assumes "P t"
  shows "P (fst (stream_iteration rid sel es result t))"
proof -
  have "P t'" if "recv_loop rid xs t = (t', x)" for xs t' x
    using recv_loop_keeps [OF assms, of xs] that by simp
  then show ?thesis by (auto simp: stream_iteration_def drain_keeps recv_loop_keeps [OF assms] split: option.split prod.split sum.split)
qed

lemma loop_keeps: "P t \<Longrightarrow> stream_loop rid p mk_req run_round sel left raw t w = (w', t', err) \<Longrightarrow> P t'"
proof (induction left arbitrary: sel raw t w)
  case (Suc left)
  obtain w1 es result where s: "p_send_stream p (mk_req raw) w = (w1, es, result)" by (metis prod_cases3)
  obtain t1 er where i: "stream_iteration rid (sel 0) es result (t\<lparr>ts_iter_text := [], ts_iter_tools := []\<rparr>) = (t1, er)"
    by force
  have t1: "P t1" using iteration_keeps [OF restart [OF Suc.prems(1)], of "sel 0" es result] i by simp
  show ?case
  proof (cases "er \<noteq> None \<or> ts_iter_tools t1 = [] \<or> ts_stop t1 \<noteq> ''tool_use''")
    case True
    then show ?thesis using Suc.prems(2) s i t1 by auto
  next
    case False
    obtain w2 t2 rs where r: "run_round (ts_iter_tools t1) t1 w1 = (w2, t2, rs)" by (metis prod_cases3)
    have "P t2" by (rule round_keeps [OF t1 r])
    then show ?thesis using Suc.prems(2) s i r False by (cases rs) (auto intro: Suc.IH)
  qed
qed simp

end

text \<open>Every frame sent is an event frame with a payload.\<close>

definition wf_event :: "event_frame \<Rightarrow> bool" where
  "wf_event f \<longleftrightarrow> ev_frame_type f = ''event'' \<and> ev_payload f \<noteq> None
     \<and> (case ev_seq f of None \<Rightarrow> True | Some n \<Rightarrow> n < u64_size)"

lemma wf_event_new [simp]: "wf_event (EventFrame_new e p)"
  by (simp add: wf_event_def EventFrame_new_def)

lemma wf_chat_frames [simp]:
  "wf_event (delta_frame rid s)" "wf_event (tool_running_frame rid c)" "wf_event (tool_done_frame rid c r)"
  by (simp_all add: delta_frame_def tool_running_frame_def tool_done_frame_def)

lemma tool_round_frames: "tool_round rid tools cs w = (w', fs, rs) \<Longrightarrow> list_all wf_event fs"
  by (induction rid tools cs w arbitrary: w' fs rs rule: tool_round.induct)
    (auto simp: Let_def split: prod.splits outcome.splits)

interpretation streamed_frames: turn_invariant rid "event_round rid tools" "\<lambda>t. list_all wf_event (ts_sent t)"
proof unfold_locales
  show "list_all wf_event (ts_sent (recv_event rid e t))" if "list_all wf_event (ts_sent t)" for t e
    using that by (cases e) simp_all
  show "list_all wf_event (ts_sent t')" if "list_all wf_event (ts_sent t)"
    "event_round rid tools cs t w = (w', t', rs)" for t cs w w' t' rs
    using that tool_round_frames by (auto simp: event_round_def Let_def split: prod.splits)
qed simp

lemma inline_round_frames:
  "inline_round rid tools cs t w = (w', t', rs) \<Longrightarrow> list_all wf_event (ts_sent t) \<Longrightarrow> list_all wf_event (ts_sent t')"
  by (induction rid tools cs t w arbitrary: w' t' rs rule: inline_round.induct)
    (auto simp: Let_def show_text_def split: prod.splits outcome.splits)

interpretation inline_frames: turn_invariant rid "inline_round rid tools" "\<lambda>t. list_all wf_event (ts_sent t)"
proof unfold_locales
  show "list_all wf_event (ts_sent (recv_event rid e t))" if "list_all wf_event (ts_sent t)" for t e
    using that by (cases e) simp_all
qed (auto intro: inline_round_frames)

text \<open>The text of the \<open>chat.delta\<close> frames is the text gathered.\<close>

definition delta_of :: "event_frame \<Rightarrow> string" where
  "delta_of f = (if ev_event f = ''chat.delta''
     then (case Option.bind (ev_payload f) (jget ''text'') of Some (JStr s) \<Rightarrow> s | _ \<Rightarrow> []) else [])"

definition delta_text :: "event_frame list \<Rightarrow> string" where
  "delta_text fs = concat (map delta_of fs)"

lemma delta_of_frames [simp]:
  "delta_of (delta_frame rid s) = s" "delta_of (tool_running_frame rid c) = []"
  "delta_of (tool_done_frame rid c r) = []"
  by (simp_all add: delta_of_def delta_frame_def tool_running_frame_def tool_done_frame_def EventFrame_new_def)

lemma tool_round_silent: "tool_round rid tools cs w = (w', fs, rs) \<Longrightarrow> delta_text fs = []"
  by (induction rid tools cs w arbitrary: w' fs rs rule: tool_round.induct)
    (auto simp: Let_def delta_text_def split: prod.splits outcome.splits)

interpretation streamed_text: turn_invariant rid "event_round rid tools"
  "\<lambda>t. delta_text (ts_sent t) = ts_accumulated t"
proof unfold_locales
  show "delta_text (ts_sent (recv_event rid e t)) = ts_accumulated (recv_event rid e t)"
    if "delta_text (ts_sent t) = ts_accumulated t" for t e
    using that by (cases e) (simp_all add: delta_text_def)
  show "delta_text (ts_sent t') = ts_accumulated t'" if "delta_text (ts_sent t) = ts_accumulated t"
    "event_round rid tools cs t w = (w', t', rs)" for t cs w w' t' rs
    using that tool_round_silent [of rid tools cs w]
    by (auto simp: event_round_def Let_def delta_text_def split: prod.splits)
qed simp

section \<open>A streamed turn\<close>

lemma streaming_frames: "list_all wf_event (rp_events (handle_streaming E tools message rid uc mo sk ch a))"
proof -
  have "list_all wf_event (ts_sent t)" if
    "stream_loop rid p mk (event_round rid tools) sel n raw turn_start w = (w', t, err)" for p mk sel n raw w w' t err
    by (rule streamed_frames.loop_keeps [OF _ that]) (simp add: turn_start_def)
  then show ?thesis
    by (simp add: handle_streaming_def answer_def panic_reply_def Let_def split: prod.split option.split outcome.split)
qed

lemma inline_streaming_frames: "list_all wf_event (rp_events (handle_streaming_inline E tools message rid uc mo a))"
proof -
  have "list_all wf_event (ts_sent t)" if
    "stream_loop rid p mk (inline_round rid tools) sel n raw turn_start w = (w', t, err)" for p mk sel n raw w w' t err
    by (rule inline_frames.loop_keeps [OF _ that]) (simp add: turn_start_def)
  then show ?thesis
    by (simp add: handle_streaming_inline_def answer_def panic_reply_def Let_def split: prod.split option.split outcome.split)
qed

lemma chat_send_frames: "list_all wf_event (rp_events (handle_chat_send E tools_of params rid a))"
  by (simp add: handle_chat_send_def handle_non_streaming_def answer_def panic_reply_def streaming_frames Let_def
      split: sum.split prod.split option.split outcome.split)

text \<open>A streamed turn is saved as the pair of turns that the pipeline saves.\<close>

definition turn_response :: "turn_state \<Rightarrow> chat_response" where
  "turn_response t = \<lparr> rs_content = ts_accumulated t, rs_model = ts_model t, rs_tokens_in = ts_tokens_in t,
     rs_tokens_out = ts_tokens_out t, rs_stop_reason = ts_stop t, rs_tool_calls = [] \<rparr>"

lemma save_stream_eq: "save_stream now sk ch message t db = save_turns now sk ch message (turn_response t) db"
  by (simp add: save_stream_def save_turns_def turn_response_def)

lemma save_turns_last:
  assumes "\<forall>x \<in> set (turns db sk). cm_created_at x \<le> now"
  obtains u v where "turns (save_turns now sk ch content r db) sk = turns db sk @ [u, v]"
    "cm_role u = ''user''" "cm_content u = content" "cm_role v = ''assistant''" "cm_content v = rs_content r"
proof -
  let ?u = "user_turn now sk ch content"
  let ?a = "assistant_turn now sk ch (rs_content r) (rs_model r) (rs_tokens_in r) (rs_tokens_out r)"
  have u: "turns (save_message db ?u) sk = turns db sk @ [?u\<lparr>cm_id := Suc (t_conversations_seq db)\<rparr>]"
    using turns_save [of db ?u] assms by (simp add: user_turn_def)
  moreover have "turns (save_message (save_message db ?u) ?a) sk = turns (save_message db ?u) sk
      @ [?a\<lparr>cm_id := Suc (t_conversations_seq (save_message db ?u))\<rparr>]"
    using turns_save [of "save_message db ?u" ?a] assms u by (simp add: assistant_turn_def user_turn_def)
  ultimately show ?thesis
    by (intro that [of "?u\<lparr>cm_id := Suc (t_conversations_seq db)\<rparr>"
          "?a\<lparr>cm_id := Suc (t_conversations_seq (save_message db ?u))\<rparr>"])
      (simp_all add: save_turns_def user_turn_def assistant_turn_def)
qed

definition raw_turn :: "string \<Rightarrow> string \<Rightarrow> json" where
  "raw_turn r content = JObj [(''role'', JStr r), (''content'', JStr content)]"

lemma history_after_two:
  assumes "turns db sk = ts @ [u, v]"
  shows "or_empty (get_history db sk 40) = drop (length ts - 38) ts @ [u, v]"
proof -
  have "drop (length (ts @ [u, v]) - 40) (ts @ [u, v]) = drop (length ts - 38) ts @ [u, v]"
    by (cases "length ts \<le> 38") simp_all
  then show ?thesis by (simp only: history_is_last assms or_empty_def unwrap_or.simps)
qed

text \<open>What the loop of a streamed turn leaves: the world, the turn and the error if any, or a panic.\<close>

definition streamed ::
    "call_env \<Rightarrow> 'x world tool list \<Rightarrow> string \<Rightarrow> string \<Rightarrow> string option \<Rightarrow> string option \<Rightarrow> string
      \<Rightarrow> 'x app_state \<Rightarrow> 'x world \<times> turn_state \<times> string option outcome" where
  "streamed E tools message rid uc mo sk a =
     stream_loop rid (ar_provider (ap_agent a))
       (stream_request (chosen_model mo a) (build_prompt (ar_prompt (ap_agent a)) uc None) (to_definitions tools))
       (event_round rid tools) (ce_select E) MAX_ITERS
       (raw_history (or_empty (get_history (mm_db (memory a)) sk 40)) @ [raw_user message]) turn_start (ap_world a)"

lemma turn_end_cases [case_names Panic Failed Done]:
  "(err = Panic \<Longrightarrow> P) \<Longrightarrow> (\<And>m. err = Ret (Some m) \<Longrightarrow> P) \<Longrightarrow> (err = Ret None \<Longrightarrow> P) \<Longrightarrow> P"
  by (metis not_None_eq outcome.exhaust)


text \<open>A gateway with empty tables, for the examples; its model streams one answer in one piece.\<close>

definition sample_gateway :: "unit app_state" where
  "sample_gateway = app_state_new (default_config None)
     (agent_runtime_new (parrot ''hello'') (prompt_load (\<lambda>_. None) None) ''m'')
     (resolver_new \<lparr>users = [], identities = [], foreign_keys = True\<rparr>) (memory_manager_new init_db) [] []
     manager_new ()"

lemma parrot_streams:
  "p_send_stream (parrot s) req w = (w, [TextDelta s, StreamDone (cr_model req) 1 1 ''end_turn''], Inr ())"
  by (simp add: parrot_def default_send_stream_def Let_def)

lemma parrot_sends: "p_send (parrot s) req w = (w, Inr \<lparr> rs_content = s, rs_model = cr_model req,
    rs_tokens_in = 1, rs_tokens_out = 1, rs_stop_reason = ''end_turn'', rs_tool_calls = [] \<rparr>)"
  by (simp add: parrot_def Let_def)

lemma ten: "(10::nat) = Suc 9"
  by simp


section \<open>Commands never reach the model\<close>

lemma known_model:
  assumes "resolve_model_alias u s = Some m"
  shows "m \<in> snd ` set MODEL_ALIASES"
proof -
  from assms obtain x where "find (\<lambda>(name, full). to_lowercase u s = name \<or> to_lowercase u s = full) MODEL_ALIASES = Some x"
    "m = snd x" by (auto simp: resolve_model_alias_def Let_def)
  then show ?thesis by (metis find_Some_iff image_eqI nth_mem)
qed

definition is_command :: "string \<Rightarrow> bool" where
  "is_command message \<longleftrightarrow> (let s = trim message in
     eq_ignore_ascii_case s ''/model'' \<or> eq_ignore_ascii_case s ''/config''
     \<or> starts_with s ''/model '' \<or> starts_with s (''/model'' @ [CHR 0x09]))"

lemma slash_iff: "snd (handle_slash_command ulow message a) \<noteq> None \<longleftrightarrow> is_command message"
  by (auto simp: is_command_def handle_slash_command_def or_else_def starts_with_def Let_def
      split: option.splits prod.splits)

lemma slash_change:
  "fst (handle_slash_command ulow message a) = a
   \<or> (\<exists>m \<in> snd ` set MODEL_ALIASES. fst (handle_slash_command ulow message a)
        = a\<lparr>ap_agent := fst (set_model m (ap_agent a))\<rparr>)"
proof -
  have "fst (case resolve_model_alias ulow arg of
       Some resolved \<Rightarrow> (let (a', previous) = app_set_model resolved a in (a', f previous resolved))
     | None \<Rightarrow> (a, g)) = a
   \<or> (\<exists>m \<in> snd ` set MODEL_ALIASES. fst (case resolve_model_alias ulow arg of
       Some resolved \<Rightarrow> (let (a', previous) = app_set_model resolved a in (a', f previous resolved))
     | None \<Rightarrow> (a, g)) = a\<lparr>ap_agent := fst (set_model m (ap_agent a))\<rparr>)"
    for arg and f :: "string \<Rightarrow> string \<Rightarrow> string option" and g
    using known_model by (auto simp: app_set_model_def Let_def split: option.split prod.split) force
  then show ?thesis by (simp add: handle_slash_command_def Let_def split: option.split)
qed

text \<open>Slash commands. A message is a command exactly when, trimmed, it is \<open>/model\<close> or \<open>/config\<close> in
  any case, or begins with \<open>/model\<close> and a space or tab; a command is answered without a call
  of the language model, a tool or the database, and changes at most the default model, which can
  only become one of the three known ones. Any other message leaves the state to the chat.\<close>
theorem slash_commands:
  assumes "message_param params = Inr message" "handle_slash_command (ce_ulow E) message a = (a', r)"
  shows "(r \<noteq> None \<longleftrightarrow> is_command message)
    \<and> (\<forall>response. r = Some response \<longrightarrow> handle_chat_send E tools_of params rid a = answer a' (slash_frame rid response))
    \<and> (a' = a \<or> (\<exists>m \<in> snd ` set MODEL_ALIASES. a' = a\<lparr>ap_agent := fst (set_model m (ap_agent a))\<rparr>))"
  using assms slash_iff [of "ce_ulow E" message a] slash_change [of "ce_ulow E" message a]
  by (simp add: handle_chat_send_def)

definition model_command :: "json option" where
  "model_command = Some (JObj [(''message'', JStr ''/model opus'')])"

theorem slash_commands_witness:
  "\<exists>a' response. handle_chat_send sample_call (\<lambda>_. []) model_command ''1'' sample_gateway
     = answer a' (slash_frame ''1'' response) \<and> is_command ''/model opus''"
proof -
  have m: "message_param model_command = Inr ''/model opus''"
    by (simp add: message_param_def model_command_def param_str_def param_def)
  have "is_command ''/model opus''" by code_simp
  moreover obtain a' r where h: "handle_slash_command (ce_ulow sample_call) ''/model opus'' sample_gateway = (a', r)"
    by force
  ultimately show ?thesis using slash_commands [OF m h, of "\<lambda>_. []" "''1''"] by (cases r) auto
qed

end
