(* ===== verification/Dispatch.thy ===== *)
theory Dispatch
  imports ChatProps
begin

text \<open>
  The routing of WebSocket methods (\<open>crates/skynet-gateway/src/ws/dispatch.rs\<close>) and what every
  method may answer, touch and start.
\<close>

section \<open>Routing\<close>

definition agent_status :: "string \<Rightarrow> 'x app_state \<Rightarrow> res_frame" where
  "agent_status rid a = ResFrame_ok rid (JObj [(''agents'', JArr [JObj
     [(''id'', JStr ''main''), (''model'', JStr (get_model (ap_agent a))), (''status'', JStr ''idle'')]])])"

definition method_not_found :: "string \<Rightarrow> string \<Rightarrow> res_frame" where
  "method_not_found rid m = ResFrame_err rid ''METHOD_NOT_FOUND''
     (''method '' @ [quote] @ m @ [quote] @ '' not yet implemented'')"

definition route ::
    "call_env \<Rightarrow> (string \<Rightarrow> 'x world tool list) \<Rightarrow> string \<Rightarrow> json option \<Rightarrow> string \<Rightarrow> 'x app_state
      \<Rightarrow> 'x reply" where
  "route E tools_of m params rid a =
     (if m = ''ping'' then answer a (ResFrame_ok rid (JObj [(''pong'', JBool True)]))
      else if m = ''chat.send'' then handle_chat_send_inline E tools_of params rid a
      else if m = ''agent.status'' then answer a (agent_status rid a)
      else if m = ''agent.model'' then handle_agent_model params rid a
      else if m = ''sessions.list'' then handle_sessions_list params rid a
      else if m = ''sessions.get'' then handle_sessions_get E params rid a
      else if m = ''memory.search'' then handle_memory_search E params rid a
      else if m = ''memory.learn'' then handle_memory_learn E params rid a
      else if m = ''memory.forget'' then handle_memory_forget E params rid a
      else if m = ''cron.list'' then handle_cron_list E rid a
      else if m = ''cron.add'' then handle_cron_add E params rid a
      else if m = ''cron.remove'' then handle_cron_remove E params rid a
      else if m = ''terminal.exec'' then handle_terminal_exec E params rid a
      else if m = ''terminal.create'' then handle_terminal_create E params rid a
      else if m = ''terminal.write'' then handle_terminal_write E params rid a
      else if m = ''terminal.read'' then handle_terminal_read params rid a
      else if m = ''terminal.kill'' then handle_terminal_kill params rid a
      else if m = ''terminal.list'' then handle_terminal_list rid a
      else if m = ''terminal.exec_bg'' then handle_terminal_exec_bg E params rid a
      else if m = ''terminal.job_status'' then handle_terminal_job_status params rid a
      else if m = ''terminal.job_list'' then handle_terminal_job_list rid a
      else if m = ''terminal.job_kill'' then handle_terminal_job_kill params rid a
      else answer a (method_not_found rid m))"

section \<open>What the handlers do\<close>

text \<open>A reply to a request: its frame carries the request's identifier, and is a success with a
  payload or an error without one.\<close>

definition frame_for :: "string \<Rightarrow> res_frame \<Rightarrow> bool" where
  "frame_for rid r \<longleftrightarrow> res_frame_type r = ''res'' \<and> res_id r = rid
     \<and> (res_ok r \<longleftrightarrow> res_error r = None) \<and> (res_ok r \<longleftrightarrow> res_payload r \<noteq> None)"

definition replies :: "string \<Rightarrow> 'x reply \<Rightarrow> bool" where
  "replies rid rp \<longleftrightarrow> (\<forall>r. rp_res rp = Ret r \<longrightarrow> frame_for rid r)"

lemma frame_for_basic [simp]:
  "frame_for rid (ResFrame_ok rid p)" "frame_for rid (ResFrame_err rid c m)"
  by (simp_all add: frame_for_def ResFrame_ok_def ResFrame_err_def)

lemma frame_for_terminal [simp]:
  "frame_for rid (map_terminal_error rid e)" "frame_for rid (term_frame rid f r)"
proof -
  show *: "frame_for rid (map_terminal_error rid e)" for e by (cases e) simp_all
  show "frame_for rid (term_frame rid f r)" by (simp add: term_frame_def * split: sum.split)
qed

lemma frame_for_built [simp]:
  "frame_for rid (invalid_params rid m)" "frame_for rid (ok_frame rid)" "frame_for rid (internal_error rid m)"
  "frame_for rid (chat_ok rid c md i n s)" "frame_for rid (llm_error rid m)"
  "frame_for rid (slash_frame rid m)" "frame_for rid (agent_status rid a)" "frame_for rid (method_not_found rid m)"
  by (simp_all add: invalid_params_def ok_frame_def internal_error_def chat_ok_def
      llm_error_def slash_frame_def agent_status_def method_not_found_def)

lemma reply_simps [simp]:
  "rp_app (answer a r) = a" "rp_app (panic_reply a) = a"
  "rp_effects (answer a r) = []" "rp_effects (panic_reply a) = []"
  "rp_events (answer a r) = []" "rp_events (panic_reply a) = []"
  "replies rid (answer a r) \<longleftrightarrow> frame_for rid r" "replies rid (panic_reply a)"
  "replies rid (rp\<lparr>rp_effects := es\<rparr>) \<longleftrightarrow> replies rid rp"
  "replies rid (rp\<lparr>rp_events := evs\<rparr>) \<longleftrightarrow> replies rid rp"
  "replies rid (rp\<lparr>rp_spawned := ss\<rparr>) \<longleftrightarrow> replies rid rp"
  by (simp_all add: answer_def panic_reply_def replies_def)

lemmas handler_splits = option.split sum.split prod.split if_split outcome.split memory_error.split
  scheduler_error.split

text \<open>Each handler replies to its request.\<close>

lemma memory_replies [simp]:
  "replies rid (handle_memory_search E params rid a)"
  "replies rid (handle_memory_learn E params rid a)"
  "replies rid (handle_memory_forget E params rid a)"
  by (simp_all add: handle_memory_search_def handle_memory_learn_def handle_memory_forget_def Let_def
      split: handler_splits)

lemma session_replies [simp]:
  "replies rid (handle_sessions_list params rid a)"
  "replies rid (handle_sessions_get E params rid a)"
  by (simp_all add: handle_sessions_list_def handle_sessions_get_def Let_def split: handler_splits)

lemma cron_replies [simp]:
  "replies rid (handle_cron_list E rid a)"
  "replies rid (handle_cron_add E params rid a)"
  "replies rid (handle_cron_remove E params rid a)"
  by (simp_all add: handle_cron_list_def handle_cron_add_def handle_cron_remove_def with_jobs_def Let_def
      split: handler_splits)

lemma terminal_replies [simp]:
  "replies rid (handle_terminal_exec E params rid a)"
  "replies rid (handle_terminal_create E params rid a)"
  "replies rid (handle_terminal_write E params rid a)"
  "replies rid (handle_terminal_read params rid a)"
  "replies rid (handle_terminal_kill params rid a)"
  "replies rid (handle_terminal_list rid a)"
  "replies rid (handle_terminal_exec_bg E params rid a)"
  "replies rid (handle_terminal_job_status params rid a)"
  "replies rid (handle_terminal_job_list rid a)"
  "replies rid (handle_terminal_job_kill params rid a)"
  by (simp_all add: handle_terminal_exec_def handle_terminal_create_def handle_terminal_write_def
      handle_terminal_read_def handle_terminal_kill_def handle_terminal_list_def
      handle_terminal_exec_bg_def handle_terminal_job_status_def handle_terminal_job_list_def
      handle_terminal_job_kill_def Let_def split: handler_splits)

lemma chat_replies [simp]:
  "replies rid (handle_agent_model params rid a)"
  "replies rid (handle_streaming E tools message rid uc mo sk ch a)"
  "replies rid (handle_streaming_inline E tools message rid uc mo a)"
  "replies rid (handle_non_streaming E tools message rid uc mo sk ch a)"
  by (simp_all add: handle_agent_model_def handle_streaming_def handle_streaming_inline_def
      handle_non_streaming_def replies_def answer_def panic_reply_def Let_def
      split: outcome.split option.split sum.split prod.split)

lemma chat_send_replies [simp]:
  "replies rid (handle_chat_send E tools_of params rid a)"
  "replies rid (handle_chat_send_inline E tools_of params rid a)"
  by (simp_all add: handle_chat_send_def handle_chat_send_inline_def Let_def
      split: option.split sum.split prod.split outcome.split)

text \<open>Each handler changes at most its own part of the state.\<close>

lemma memory_app:
  "rp_app (handle_memory_search E params rid a) = a"
  "\<exists>m. rp_app (handle_memory_learn E params rid a) = set_memory m a"
  "\<exists>m. rp_app (handle_memory_forget E params rid a) = set_memory m a"
proof -
  have same: "\<exists>m. a = set_memory m a" by (rule exI [of _ "memory a"]) (simp add: set_memory_def)
  show "rp_app (handle_memory_search E params rid a) = a"
    by (simp add: handle_memory_search_def Let_def split: handler_splits)
  show "\<exists>m. rp_app (handle_memory_learn E params rid a) = set_memory m a"
    by (auto simp: handle_memory_learn_def Let_def same split: handler_splits)
  show "\<exists>m. rp_app (handle_memory_forget E params rid a) = set_memory m a"
    by (auto simp: handle_memory_forget_def Let_def same split: handler_splits)
qed

lemma session_app:
  "rp_app (handle_sessions_list params rid a) = a"
  "rp_app (handle_sessions_get E params rid a) = a"
  by (simp_all add: handle_sessions_list_def handle_sessions_get_def Let_def split: handler_splits)

definition only_jobs :: "'x app_state \<Rightarrow> 'x app_state \<Rightarrow> bool" where
  "only_jobs a b \<longleftrightarrow> (\<exists>js p. b = a\<lparr>ap_world := (memory a, services a\<lparr>sv_jobs := js, sv_jobs_poisoned := p\<rparr>)\<rparr>)"

lemma only_jobs_basic [simp]: "only_jobs a a" "only_jobs a (set_jobs js a)" "only_jobs a (poison_jobs a)"
proof -
  show "only_jobs a a" unfolding only_jobs_def
    by (intro exI [of _ "sv_jobs (services a)"] exI [of _ "sv_jobs_poisoned (services a)"]) simp
  show "only_jobs a (set_jobs js a)" unfolding only_jobs_def set_jobs_def
    by (intro exI [of _ js] exI [of _ "sv_jobs_poisoned (services a)"]) simp
  show "only_jobs a (poison_jobs a)" unfolding only_jobs_def poison_jobs_def
    by (intro exI [of _ "sv_jobs (services a)"] exI [of _ True]) simp
qed

lemma cron_app:
  "rp_app (handle_cron_list E rid a) = a"
  "only_jobs a (rp_app (handle_cron_add E params rid a))"
  "only_jobs a (rp_app (handle_cron_remove E params rid a))"
  by (simp_all add: handle_cron_list_def handle_cron_add_def handle_cron_remove_def with_jobs_def Let_def
      split: handler_splits)

lemma terminal_app_same:
  "rp_app (handle_terminal_exec E params rid a) = a"
  "rp_app (handle_terminal_write E params rid a) = a"
  "rp_app (handle_terminal_list rid a) = a"
  "rp_app (handle_terminal_job_status params rid a) = a"
  "rp_app (handle_terminal_job_list rid a) = a"
  by (simp_all add: handle_terminal_exec_def handle_terminal_write_def handle_terminal_list_def
      handle_terminal_job_status_def handle_terminal_job_list_def Let_def split: handler_splits)

lemma terminal_app:
  "\<exists>t. rp_app (handle_terminal_create E params rid a) = set_terminal t a"
  "\<exists>t. rp_app (handle_terminal_read params rid a) = set_terminal t a"
  "\<exists>t. rp_app (handle_terminal_kill params rid a) = set_terminal t a"
  "\<exists>t. rp_app (handle_terminal_exec_bg E params rid a) = set_terminal t a"
  "\<exists>t. rp_app (handle_terminal_job_kill params rid a) = set_terminal t a"
proof -
  have same: "\<exists>t. a = set_terminal t a"
    by (rule exI [of _ "sv_terminal (services a)"]) (simp add: set_terminal_def)
  show "\<exists>t. rp_app (handle_terminal_create E params rid a) = set_terminal t a"
    by (auto simp: handle_terminal_create_def Let_def split: handler_splits)
  show "\<exists>t. rp_app (handle_terminal_read params rid a) = set_terminal t a"
    by (auto simp: handle_terminal_read_def Let_def same split: handler_splits)
  show "\<exists>t. rp_app (handle_terminal_kill params rid a) = set_terminal t a"
    by (auto simp: handle_terminal_kill_def Let_def same split: handler_splits)
  show "\<exists>t. rp_app (handle_terminal_exec_bg E params rid a) = set_terminal t a"
    by (auto simp: handle_terminal_exec_bg_def Let_def same split: handler_splits)
  show "\<exists>t. rp_app (handle_terminal_job_kill params rid a) = set_terminal t a"
    by (auto simp: handle_terminal_job_kill_def Let_def same split: handler_splits)
qed

lemma agent_model_app: "\<exists>ag. rp_app (handle_agent_model params rid a) = a\<lparr>ap_agent := ag\<rparr>"
proof -
  have "\<exists>ag. a = a\<lparr>ap_agent := ag\<rparr>" by (rule exI [of _ "ap_agent a"]) simp
  then show ?thesis
    by (auto simp: handle_agent_model_def app_set_model_def Let_def split: option.split prod.split)
qed

section \<open>The contract of the methods\<close>

definition METHODS :: "string list" where
  "METHODS = [''ping'', ''chat.send'', ''agent.status'', ''agent.model'', ''sessions.list'', ''sessions.get'',
     ''memory.search'', ''memory.learn'', ''memory.forget'', ''cron.list'', ''cron.add'', ''cron.remove'',
     ''terminal.exec'', ''terminal.create'', ''terminal.write'', ''terminal.read'', ''terminal.kill'',
     ''terminal.list'', ''terminal.exec_bg'', ''terminal.job_status'', ''terminal.job_list'',
     ''terminal.job_kill'']"

lemma route_replies: "replies rid (route E tools_of m params rid a)"
  by (simp add: route_def)

lemma route_unknown: "m \<notin> set METHODS \<Longrightarrow> route E tools_of m params rid a = answer a (method_not_found rid m)"
  by (simp add: METHODS_def route_def)

text \<open>\<open>same_but_part a b\<close>: outside the named part, \<open>b\<close> is \<open>a\<close>.\<close>

definition same_but_memory :: "'x app_state \<Rightarrow> 'x app_state \<Rightarrow> bool" where
  "same_but_memory a b \<longleftrightarrow> (\<exists>m. b = set_memory m a)"

definition same_but_terminal :: "'x app_state \<Rightarrow> 'x app_state \<Rightarrow> bool" where
  "same_but_terminal a b \<longleftrightarrow> (\<exists>t. b = set_terminal t a)"

definition same_but_model :: "'x app_state \<Rightarrow> 'x app_state \<Rightarrow> bool" where
  "same_but_model a b \<longleftrightarrow> (\<exists>ag. b = a\<lparr>ap_agent := ag\<rparr>)"

definition method_scope :: "string \<Rightarrow> 'x app_state \<Rightarrow> 'x app_state \<Rightarrow> bool" where
  "method_scope m a b =
     (if m \<in> {''memory.learn'', ''memory.forget''} then same_but_memory a b
      else if m \<in> {''cron.add'', ''cron.remove''} then only_jobs a b
      else if m \<in> {''terminal.create'', ''terminal.read'', ''terminal.kill'', ''terminal.exec_bg'',
        ''terminal.job_kill''} then same_but_terminal a b
      else if m = ''agent.model'' then same_but_model a b
      else b = a)"

lemma same_but_refl [simp]: "same_but_memory a a" "same_but_terminal a a" "same_but_model a a"
proof -
  have "a = set_memory (memory a) a" "a = set_terminal (sv_terminal (services a)) a"
    "a = a\<lparr>ap_agent := ap_agent a\<rparr>"
    by (simp_all add: set_memory_def set_terminal_def)
  then show "same_but_memory a a" "same_but_terminal a a" "same_but_model a a"
    unfolding same_but_memory_def same_but_terminal_def same_but_model_def by blast+
qed

lemma method_scope_refl [simp]: "method_scope m a a"
  by (simp add: method_scope_def)

lemma route_scope:
  assumes "m \<noteq> ''chat.send''"
  shows "method_scope m a (rp_app (route E tools_of m params rid a))"
proof (cases "m \<in> set METHODS")
  case True
  have "list_all (\<lambda>m. m \<noteq> ''chat.send'' \<longrightarrow> method_scope m a (rp_app (route E tools_of m params rid a))) METHODS"
    by (simp add: METHODS_def route_def method_scope_def memory_app session_app cron_app
        terminal_app_same terminal_app same_but_memory_def same_but_terminal_def same_but_model_def
        agent_model_app)
  with True assms show ?thesis by (simp add: list_all_iff)
qed (simp add: route_unknown)

lemma same_but_memory_kept: "same_but_memory a b \<Longrightarrow> sv_jobs_poisoned (services b) = sv_jobs_poisoned (services a)"
  by (auto simp: same_but_memory_def set_memory_def)

lemma only_jobs_kept: "only_jobs a b \<Longrightarrow> memory b = memory a"
  by (auto simp: only_jobs_def)

lemma same_but_terminal_kept: "same_but_terminal a b
    \<Longrightarrow> memory b = memory a \<and> sv_jobs_poisoned (services b) = sv_jobs_poisoned (services a)"
  by (auto simp: same_but_terminal_def set_terminal_def)

lemma same_but_model_kept: "same_but_model a b
    \<Longrightarrow> memory b = memory a \<and> sv_jobs_poisoned (services b) = sv_jobs_poisoned (services a)"
  by (auto simp: same_but_model_def)

lemma if_chain:
  "(if p then A else if q then B else if r then C else if s then D else F) \<Longrightarrow> \<not> p \<Longrightarrow> B \<or> C \<or> D \<or> F"
  "(if p then A else if q then B else if r then C else if s then D else F) \<Longrightarrow> \<not> q \<Longrightarrow> A \<or> C \<or> D \<or> F"
  "(if p then A else if q then B else if r then C else if s then D else F) \<Longrightarrow> A \<or> B \<or> C \<or> D \<or> F"
  by (auto split: if_split_asm)

lemma scope_memory:
  assumes "m \<noteq> ''chat.send''" "m \<notin> {''memory.learn'', ''memory.forget''}"
  shows "memory (rp_app (route E tools_of m params rid a)) = memory a"
  using if_chain(1) [OF route_scope [OF assms(1), unfolded method_scope_def] assms(2), of a E tools_of params rid]
  by (elim disjE) (simp_all only: only_jobs_kept same_but_terminal_kept same_but_model_kept)

lemma scope_poisoned:
  assumes "m \<noteq> ''chat.send''" "m \<notin> {''cron.add'', ''cron.remove''}"
  shows "sv_jobs_poisoned (services (rp_app (route E tools_of m params rid a))) = sv_jobs_poisoned (services a)"
  using if_chain(2) [OF route_scope [OF assms(1), unfolded method_scope_def] assms(2), of a E tools_of params rid]
  by (elim disjE) (simp_all only: same_but_memory_kept same_but_terminal_kept same_but_model_kept)

lemma terminal_exec_spawns:
  "Spawn c \<in> set (rp_effects (handle_terminal_exec E params rid a)) \<Longrightarrow> check_command (ce_ulow E) c = Inr ()"
  by (auto simp: handle_terminal_exec_def Let_def split: if_splits option.splits prod.splits
      dest: exec_spawns)

lemma other_effects:
  "rp_effects (handle_memory_search E params rid a) = []"
  "rp_effects (handle_memory_learn E params rid a) = []"
  "rp_effects (handle_memory_forget E params rid a) = []"
  "rp_effects (handle_sessions_list params rid a) = []"
  "rp_effects (handle_sessions_get E params rid a) = []"
  "rp_effects (handle_cron_list E rid a) = []"
  "rp_effects (handle_cron_add E params rid a) = []"
  "rp_effects (handle_cron_remove E params rid a) = []"
  "rp_effects (handle_terminal_create E params rid a) = []"
  "rp_effects (handle_terminal_write E params rid a) = []"
  "rp_effects (handle_terminal_read params rid a) = []"
  "rp_effects (handle_terminal_kill params rid a) = []"
  "rp_effects (handle_terminal_list rid a) = []"
  "rp_effects (handle_terminal_exec_bg E params rid a) = []"
  "rp_effects (handle_terminal_job_status params rid a) = []"
  "rp_effects (handle_terminal_job_list rid a) = []"
  "rp_effects (handle_terminal_job_kill params rid a) = []"
  "rp_effects (handle_agent_model params rid a) = []"
  by (simp_all add: handle_memory_search_def handle_memory_learn_def handle_memory_forget_def
      handle_sessions_list_def handle_sessions_get_def handle_cron_list_def handle_cron_add_def
      handle_cron_remove_def with_jobs_def handle_terminal_create_def handle_terminal_write_def
      handle_terminal_read_def handle_terminal_kill_def handle_terminal_list_def handle_terminal_exec_bg_def
      handle_terminal_job_status_def handle_terminal_job_list_def handle_terminal_job_kill_def
      handle_agent_model_def Let_def split: handler_splits)

lemma other_events:
  "rp_events (handle_memory_search E params rid a) = []"
  "rp_events (handle_memory_learn E params rid a) = []"
  "rp_events (handle_memory_forget E params rid a) = []"
  "rp_events (handle_sessions_list params rid a) = []"
  "rp_events (handle_sessions_get E params rid a) = []"
  "rp_events (handle_cron_list E rid a) = []"
  "rp_events (handle_cron_add E params rid a) = []"
  "rp_events (handle_cron_remove E params rid a) = []"
  "rp_events (handle_terminal_create E params rid a) = []"
  "rp_events (handle_terminal_write E params rid a) = []"
  "rp_events (handle_terminal_read params rid a) = []"
  "rp_events (handle_terminal_kill params rid a) = []"
  "rp_events (handle_terminal_list rid a) = []"
  "rp_events (handle_terminal_exec_bg E params rid a) = []"
  "rp_events (handle_terminal_job_status params rid a) = []"
  "rp_events (handle_terminal_job_list rid a) = []"
  "rp_events (handle_terminal_job_kill params rid a) = []"
  "rp_events (handle_agent_model params rid a) = []"
  "rp_events (handle_terminal_exec E params rid a) = []"
  by (simp_all add: handle_memory_search_def handle_memory_learn_def handle_memory_forget_def
      handle_sessions_list_def handle_sessions_get_def handle_cron_list_def handle_cron_add_def
      handle_cron_remove_def with_jobs_def handle_terminal_create_def handle_terminal_write_def
      handle_terminal_read_def handle_terminal_kill_def handle_terminal_list_def handle_terminal_exec_bg_def
      handle_terminal_job_status_def handle_terminal_job_list_def handle_terminal_job_kill_def
      handle_agent_model_def handle_terminal_exec_def Let_def split: handler_splits)

lemma route_events: "m \<noteq> ''chat.send'' \<Longrightarrow> rp_events (route E tools_of m params rid a) = []"
  by (simp add: route_def other_events)

lemma inline_effects: "rp_effects (handle_chat_send_inline E tools_of params rid a) = []"
  by (simp add: handle_chat_send_inline_def handle_streaming_inline_def Let_def
      split: option.split sum.split prod.split outcome.split)

lemma route_spawns:
  "Spawn c \<in> set (rp_effects (route E tools_of m params rid a))
    \<Longrightarrow> m = ''terminal.exec'' \<and> check_command (ce_ulow E) c = Inr ()"
  by (auto simp: route_def other_effects inline_effects terminal_exec_spawns split: if_splits)



section \<open>Sequences of method calls\<close>

text \<open>\<open>message.rs\<close> never routes \<open>chat.send\<close>, so a method call is one of the others.\<close>

type_synonym method_call = "call_env \<times> string \<times> json option \<times> string"

fun method_step :: "(string \<Rightarrow> 'x world tool list) \<Rightarrow> 'x app_state \<Rightarrow> method_call \<Rightarrow> 'x app_state" where
  "method_step tools_of a (E, m, params, rid) =
     (if m = ''chat.send'' then a else rp_app (route E tools_of m params rid a))"

lemma memory_set [simp]: "memory (set_memory m a) = m"
  by (simp add: set_memory_def)

lemma learn_app:
  "rp_app (handle_memory_learn E params rid a) = a
   \<or> (\<exists>now cat k v c. memory (rp_app (handle_memory_learn E params rid a))
        = fst (learn now (memory a) anonymous cat k v c UserSaid))"
  by (auto simp: handle_memory_learn_def Let_def split: handler_splits) (metis fst_conv)+

lemma forget_app:
  "rp_app (handle_memory_forget E params rid a) = a
   \<or> (\<exists>cat k. memory (rp_app (handle_memory_forget E params rid a)) = fst (forget (memory a) anonymous cat k))"
  by (auto simp: handle_memory_forget_def Let_def split: handler_splits) (metis fst_conv)+

text \<open>Seen from the memory, a method call is nothing or one event of the user \<open>anonymous\<close>.\<close>

definition anonymous_event :: "memory_event \<Rightarrow> bool" where
  "anonymous_event e \<longleftrightarrow> (\<exists>now cat k v c src. e = MLearn now anonymous cat k v c src)
     \<or> (\<exists>cat k. e = MForget anonymous cat k)"

lemma method_memory:
  "memory (method_step tools_of a call) = memory a
   \<or> (\<exists>e. anonymous_event e \<and> memory (method_step tools_of a call) = memory_step (\<lambda>_. []) (memory a) e)"
proof (cases call)
  case (fields E m params rid)
  consider "m = ''memory.learn''" | "m = ''memory.forget''"
    | "memory (method_step tools_of a call) = memory a"
    using scope_memory [of m E tools_of params rid a] by (cases "m = ''chat.send''") (auto simp: fields)
  then show ?thesis
  proof cases
    case 1
    then have "method_step tools_of a call = rp_app (handle_memory_learn E params rid a)"
      by (simp add: fields route_def)
    then show ?thesis using learn_app [of E params rid a]
      by (metis anonymous_event_def memory_step.simps(1))
  next
    case 2
    then have "method_step tools_of a call = rp_app (handle_memory_forget E params rid a)"
      by (simp add: fields route_def)
    then show ?thesis using forget_app [of E params rid a]
      by (metis anonymous_event_def memory_step.simps(2))
  qed simp
qed

definition others_kept :: "memories \<Rightarrow> memory_db \<Rightarrow> bool" where
  "others_kept M db \<longleftrightarrow> memory_wf db \<and> (\<forall>u cat k. u \<noteq> anonymous \<longrightarrow> memory_view db (u, cat, k) = M (u, cat, k))"

lemma others_kept_step:
  assumes "others_kept M (mm_db (memory a))"
  shows "others_kept M (mm_db (memory (method_step tools_of a call)))"
proof -
  have "others_kept M (mm_db (memory_step (\<lambda>_. []) (memory a) e))" if e: "anonymous_event e" for e
  proof -
    have wf: "memory_wf (mm_db (memory a))" using assms by (simp add: others_kept_def)
    show ?thesis using assms e memory_wf_step [OF wf, of "\<lambda>_. []" e] memory_step_refines [OF wf, of "\<lambda>_. []" e]
      by (auto simp: others_kept_def anonymous_event_def split: option.splits)
  qed
  then show ?thesis using method_memory [of tools_of a call] assms by metis
qed

interpretation method_memory: machine "method_step tools_of" "\<lambda>a. others_kept M (mm_db (memory a))"
  by unfold_locales (rule others_kept_step)

lemma search_user:
  assumes "search f db u q n = Inr ms" "x \<in> set ms"
  shows "um_user_id x = u"
proof -
  from assms obtain i r where "tbl_find (\<lambda>r. mr_id r = i \<and> mr_user_id r = u) (t_memory db) = Some r"
    "x = row_to_memory r"
    by (auto simp: search_def List.map_filter_def split: if_splits dest!: in_set_takeD)
  then show ?thesis by (auto simp: row_to_memory_def dest!: tbl_find_SomeD)
qed



section \<open>A poisoned scheduler\<close>

lemma poisoned_stays:
  assumes "sv_jobs_poisoned (services a)"
  shows "sv_jobs_poisoned (services (method_step tools_of a call))"
proof (cases call)
  case (fields E m params rid)
  consider "m = ''cron.add''" | "m = ''cron.remove''" | "m \<notin> {''cron.add'', ''cron.remove''}" by blast
  then show ?thesis
  proof cases
    case 3
    then show ?thesis using assms scope_poisoned [OF _ 3, of E tools_of params rid a]
      by (cases "m = ''chat.send''") (simp_all add: fields del: insert_iff)
  qed (use assms in \<open>simp_all add: fields route_def handle_cron_add_def handle_cron_remove_def with_jobs_def
      Let_def split: handler_splits\<close>)
qed

interpretation poisoned_scheduler: machine "method_step tools_of" "\<lambda>a. sv_jobs_poisoned (services a)"
  by unfold_locales (rule poisoned_stays)

lemma cron_add_panic:
  "rp_res (handle_cron_add E params rid a) = Panic
    \<Longrightarrow> sv_jobs_poisoned (services (rp_app (handle_cron_add E params rid a)))"
  by (auto simp: handle_cron_add_def with_jobs_def answer_def poison_jobs_def panic_reply_def Let_def
      split: if_splits option.splits sum.splits outcome.splits prod.splits)

lemma cron_poisoned:
  assumes "sv_jobs_poisoned (services b)"
  shows "rp_res (handle_cron_list E rid b) = Panic"
    "rp_app (handle_cron_add E params rid b) = b" "rp_app (handle_cron_remove E params rid b) = b"
    "rp_res (handle_cron_add E params rid b) = Ret r \<Longrightarrow> \<not> res_ok r"
    "rp_res (handle_cron_remove E params rid b) = Ret r \<Longrightarrow> \<not> res_ok r"
  using assms
  by (auto simp: handle_cron_list_def handle_cron_add_def handle_cron_remove_def with_jobs_def panic_reply_def
      answer_def invalid_params_def res_frame_shape split: option.splits sum.splits if_splits)


definition huge_job :: "json option" where
  "huge_job = Some (JObj [(''name'', JStr ''n''), (''schedule'', JInt (2 ^ 62)), (''action'', JStr ''a'')])"


end
