(* ===== verification/Connection.thy ===== *)
theory Connection
  imports Dispatch "HOL-Library.Sublist"
begin

text \<open>
  One WebSocket connection: the handshake (\<open>crates/skynet-gateway/src/ws/handshake.rs\<close>), the handling
  of a frame (\<open>ws/message.rs\<close>) and the event loop (\<open>ws/connection.rs\<close>) as an inductive step
  relation over the events its select may take. The readers serde derives are parameters: the
  frame in a text and the connect parameters in a value.
\<close>

section \<open>Handshake\<close>

definition make_nonce :: "string \<Rightarrow> string" where
  "make_nonce uuid = filter (\<lambda>c. c \<noteq> CHR ''-'') uuid"

definition challenge_event :: "string \<Rightarrow> event_frame" where
  "challenge_event nonce = EventFrame_new ''connect.challenge'' (JObj [(''nonce'', JStr nonce)])"

fun auth_mode_debug :: "auth_mode \<Rightarrow> string" where
  "auth_mode_debug ModeToken = ''Token''"
| "auth_mode_debug ModePassword = ''Password''"
| "auth_mode_debug ModeTailscale = ''Tailscale''"
| "auth_mode_debug ModeDeviceToken = ''DeviceToken''"
| "auth_mode_debug ModeTrustedProxy = ''TrustedProxy''"
| "auth_mode_debug ModeNone = ''None''"

definition verify_auth :: "connect_params \<Rightarrow> skynet_config \<Rightarrow> string + unit" where
  "verify_auth params config =
     (let ac = auth (gateway config) in
      case auth_mode_of ac of
        ModeNone \<Rightarrow> Inr ()
      | ModeToken \<Rightarrow>
          (case cp_auth params of
             AuthToken token \<Rightarrow> if Some token = auth_token ac then Inr () else Inl ''invalid token''
           | _ \<Rightarrow> Inl ''expected token auth mode'')
      | ModePassword \<Rightarrow>
          (case cp_auth params of
             AuthPassword password \<Rightarrow>
               if Some password = auth_password ac then Inr () else Inl ''invalid password''
           | _ \<Rightarrow> Inl ''expected password auth mode'')
      | other \<Rightarrow> Inl (''auth mode '' @ auth_mode_debug other @ '' not yet implemented''))"

definition hello_ok_payload :: json where
  "hello_ok_payload = JObj
     [(''protocol'', jnat PROTOCOL_VERSION),
      (''server'', JObj [(''name'', JStr ''skynet''), (''version'', JStr ''0.2.0''), (''node_id'', JStr ''primary'')]),
      (''features'', JObj [(''streaming'', JBool True), (''multi_agent'', JBool False),
         (''persistent_users'', JBool False), (''cross_channel_memory'', JBool False),
         (''role_permissions'', JBool False), (''prompt_caching'', JBool False)]),
      (''snapshot'', JObj []),
      (''policy'', JObj [(''max_message_size'', jnat MAX_PAYLOAD_BYTES), (''rate_limit'', JNull)])]"

section \<open>One frame\<close>

datatype conn_state = AwaitingConnect string | Authenticated | Closing

text \<open>What the handling of a frame does: the new state (no value if the handler panicked), the
  state of the gateway, the frames sent, the chat tasks spawned, and the methods routed.\<close>

record 'x handled =
  hd_state :: "conn_state option"
  hd_app :: "'x app_state"
  hd_sent :: "out_frame list"
  hd_spawned :: "(json option \<times> string) list"
  hd_routed :: "string list"

definition stays :: "conn_state \<Rightarrow> 'x app_state \<Rightarrow> 'x handled" where
  "stays st a = \<lparr> hd_state = Some st, hd_app = a, hd_sent = [], hd_spawned = [], hd_routed = [] \<rparr>"

definition protocol_error :: "string \<Rightarrow> string \<Rightarrow> res_frame" where
  "protocol_error rid m = ResFrame_err rid ''PROTOCOL_ERROR'' m"

definition handle_auth ::
    "(json \<Rightarrow> connect_params option) \<Rightarrow> inbound_frame \<Rightarrow> 'x app_state \<Rightarrow> 'x handled" where
  "handle_auth connect_of frame a =
     (case as_req frame of
        None \<Rightarrow> stays (AwaitingConnect []) a
      | Some req \<Rightarrow>
          (if req_method req \<noteq> ''connect'' then
             (stays (AwaitingConnect []) a)\<lparr>hd_sent :=
               [OutRes (protocol_error (req_id req) ''must authenticate first'')]\<rparr>
           else (case Option.bind (req_params req) connect_of of
               None \<Rightarrow> (stays Closing a)\<lparr>hd_sent :=
                 [OutRes (protocol_error (req_id req) ''invalid connect params'')]\<rparr>
             | Some params \<Rightarrow>
                 (case verify_auth params (ap_config a) of
                    Inr _ \<Rightarrow> (stays Authenticated a)\<lparr>hd_sent :=
                      [OutRes (ResFrame_ok (req_id req) hello_ok_payload)]\<rparr>
                  | Inl reason \<Rightarrow> (stays Closing a)\<lparr>hd_sent :=
                      [OutRes (ResFrame_err (req_id req) ''AUTH_FAILED'' reason)]\<rparr>))))"

definition handle_method ::
    "call_env \<Rightarrow> (string \<Rightarrow> 'x world tool list) \<Rightarrow> inbound_frame \<Rightarrow> 'x app_state \<Rightarrow> 'x handled" where
  "handle_method E tools_of frame a =
     (case as_req frame of
        None \<Rightarrow> stays Authenticated a
      | Some req \<Rightarrow>
          (if req_method req = ''chat.send'' then
             (stays Authenticated a)\<lparr>hd_spawned := [(req_params req, req_id req)],
               hd_routed := [req_method req]\<rparr>
           else
             (let rp = route E tools_of (req_method req) (req_params req) (req_id req) a
              in \<lparr> hd_state = (case rp_res rp of Panic \<Rightarrow> None | Ret _ \<Rightarrow> Some Authenticated),
                   hd_app = rp_app rp, hd_sent = reply_frames rp, hd_spawned = [],
                   hd_routed = [req_method req] \<rparr>)))"

definition handle ::
    "(string \<Rightarrow> inbound_frame option) \<Rightarrow> (json \<Rightarrow> connect_params option) \<Rightarrow> call_env
      \<Rightarrow> (string \<Rightarrow> 'x world tool list) \<Rightarrow> string \<Rightarrow> conn_state \<Rightarrow> 'x app_state \<Rightarrow> 'x handled" where
  "handle frame_of connect_of E tools_of msg st a =
     (case frame_of msg of
        None \<Rightarrow> stays st a
      | Some frame \<Rightarrow>
          (case st of
             AwaitingConnect _ \<Rightarrow> handle_auth connect_of frame a
           | Authenticated \<Rightarrow> handle_method E tools_of frame a
           | Closing \<Rightarrow> stays Closing a))"

section \<open>The event loop\<close>

text \<open>
  The connection while it runs: its state, whether the loop still runs, the clock and the deadline
  in milliseconds, what was sent, the chat tasks still to run and the methods routed so far.
\<close>

record 'x conn =
  cn_state :: conn_state
  cn_open :: bool
  cn_clock :: nat
  cn_deadline :: nat
  cn_app :: "'x app_state"
  cn_sent :: "out_frame list"
  cn_tasks :: "(json option \<times> string) list"
  cn_routed :: "string list"

text \<open>The select's branches, and what happens beside the loop: a chat task of this connection runs,
  time passes, another task of the gateway changes the state.\<close>

datatype conn_event =
    Received string
  | Pinged
  | Closed
  | OtherMessage
  | Broadcasted bool
  | TickDue nat bool
  | TimerFired
  | ChatRuns nat
  | TimePasses nat
  | OthersRun

definition conn_start :: "string \<Rightarrow> nat \<Rightarrow> 'x app_state \<Rightarrow> 'x conn" where
  "conn_start uuid t a =
     \<lparr> cn_state = AwaitingConnect (make_nonce uuid), cn_open = True, cn_clock = t,
       cn_deadline = t + HANDSHAKE_TIMEOUT_MS, cn_app = a,
       cn_sent = [OutEvent (challenge_event (make_nonce uuid))], cn_tasks = [], cn_routed = [] \<rparr>"

definition tick_frame :: "nat \<Rightarrow> nat \<Rightarrow> event_frame" where
  "tick_frame ts n = with_seq (EventFrame_new ''tick'' (JObj [(''ts'', jnat ts)])) n"

text \<open>What \<open>message::handle\<close> leaves behind; the loop ends on \<open>Closing\<close>, and a panic ends the task.\<close>

definition after_handle :: "'x handled \<Rightarrow> 'x conn \<Rightarrow> 'x conn" where
  "after_handle h c = c\<lparr>
     cn_state := (case hd_state h of None \<Rightarrow> cn_state c | Some st \<Rightarrow> st),
     cn_open := (hd_state h \<noteq> None \<and> hd_state h \<noteq> Some Closing),
     cn_app := hd_app h, cn_sent := cn_sent c @ hd_sent h, cn_tasks := cn_tasks c @ hd_spawned h,
     cn_routed := cn_routed c @ hd_routed h \<rparr>"

text \<open>\<open>met\<close> is which environments and tools the calls of a run may meet: both are new for every message.\<close>

inductive conn_step ::
    "(string \<Rightarrow> inbound_frame option) \<Rightarrow> (json \<Rightarrow> connect_params option) \<Rightarrow> (call_env \<Rightarrow> (string \<Rightarrow> 'x world tool list) \<Rightarrow> bool)
      \<Rightarrow> 'x conn \<Rightarrow> conn_event \<Rightarrow> 'x conn \<Rightarrow> bool"
  for frame_of connect_of met where
  too_large: "cn_open c \<Longrightarrow> length msg > MAX_PAYLOAD_BYTES
    \<Longrightarrow> conn_step frame_of connect_of met c (Received msg) (c\<lparr>cn_open := False\<rparr>)"
| received: "cn_open c \<Longrightarrow> length msg \<le> MAX_PAYLOAD_BYTES \<Longrightarrow> met E tools_of
    \<Longrightarrow> conn_step frame_of connect_of met c (Received msg)
          (after_handle (handle frame_of connect_of E tools_of msg (cn_state c) (cn_app c)) c)"
| pinged: "cn_open c \<Longrightarrow> conn_step frame_of connect_of met c Pinged c"
| closed: "cn_open c \<Longrightarrow> conn_step frame_of connect_of met c Closed (c\<lparr>cn_open := False\<rparr>)"
| other: "cn_open c \<Longrightarrow> conn_step frame_of connect_of met c OtherMessage c"
| broadcasted: "cn_open c \<Longrightarrow> conn_step frame_of connect_of met c (Broadcasted sent) (c\<lparr>cn_open := sent\<rparr>)"
| tick_sent: "cn_open c \<Longrightarrow> cn_state c = Authenticated \<Longrightarrow> next_seq (cn_app c) = (a', n)
    \<Longrightarrow> conn_step frame_of connect_of met c (TickDue ts sent)
          (c\<lparr>cn_app := a', cn_open := sent, cn_sent := cn_sent c @ (if sent then [OutEvent (tick_frame ts n)] else [])\<rparr>)"
| tick_skipped: "cn_open c \<Longrightarrow> cn_state c \<noteq> Authenticated
    \<Longrightarrow> conn_step frame_of connect_of met c (TickDue ts sent) c"
| timed_out: "cn_open c \<Longrightarrow> cn_deadline c \<le> cn_clock c \<Longrightarrow> cn_state c = AwaitingConnect nonce
    \<Longrightarrow> conn_step frame_of connect_of met c TimerFired (c\<lparr>cn_open := False\<rparr>)"
| timer_ignored: "cn_open c \<Longrightarrow> cn_deadline c \<le> cn_clock c \<Longrightarrow> \<forall>nonce. cn_state c \<noteq> AwaitingConnect nonce
    \<Longrightarrow> conn_step frame_of connect_of met c TimerFired c"
| chat_runs: "i < length (cn_tasks c) \<Longrightarrow> met E tools_of
    \<Longrightarrow> handle_chat_send_task E tools_of (fst (cn_tasks c ! i)) (snd (cn_tasks c ! i)) (cn_app c) = (a', frames)
    \<Longrightarrow> conn_step frame_of connect_of met c (ChatRuns i)
          (c\<lparr>cn_app := a', cn_sent := cn_sent c @ frames, cn_tasks := take i (cn_tasks c) @ drop (Suc i) (cn_tasks c)\<rparr>)"
| time_passes: "conn_step frame_of connect_of met c (TimePasses d) (c\<lparr>cn_clock := cn_clock c + d\<rparr>)"
| others_run: "ap_config a' = ap_config (cn_app c) \<Longrightarrow> ap_event_seq a' < u64_size
    \<Longrightarrow> set (ap_ws_clients a') \<subseteq> set (ap_ws_clients (cn_app c))
    \<Longrightarrow> conn_step frame_of connect_of met c OthersRun (c\<lparr>cn_app := a'\<rparr>)"

inductive conn_run ::
    "(string \<Rightarrow> inbound_frame option) \<Rightarrow> (json \<Rightarrow> connect_params option) \<Rightarrow> (call_env \<Rightarrow> (string \<Rightarrow> 'x world tool list) \<Rightarrow> bool)
      \<Rightarrow> 'x conn \<Rightarrow> conn_event list \<Rightarrow> 'x conn \<Rightarrow> bool"
  for frame_of connect_of met c where
  run_nil: "conn_run frame_of connect_of met c [] c"
| run_snoc: "conn_run frame_of connect_of met c es c' \<Longrightarrow> conn_step frame_of connect_of met c' e c''
    \<Longrightarrow> conn_run frame_of connect_of met c (es @ [e]) c''"

inductive_cases conn_stepE: "conn_step frame_of connect_of met c e c'"
inductive_cases timer_stepE: "conn_step frame_of connect_of met c TimerFired c'"


section \<open>Authentication\<close>

text \<open>The complete decision of the handshake: credentials are accepted in mode \<open>none\<close>, and
  otherwise only when the mode is \<open>token\<close> or \<open>password\<close>, the client uses that mode, a secret is
  configured and the client's is that secret; no other mode ever lets a client in.\<close>
theorem verify_auth_decision:
  "verify_auth params config = Inr () \<longleftrightarrow>
     (let ac = auth (gateway config) in
        auth_mode_of ac = ModeNone
        \<or> (auth_mode_of ac = ModeToken \<and> (\<exists>s. cp_auth params = AuthToken s \<and> auth_token ac = Some s))
        \<or> (auth_mode_of ac = ModePassword \<and> (\<exists>s. cp_auth params = AuthPassword s \<and> auth_password ac = Some s)))"
  by (cases "cp_auth params"; cases "auth_mode_of (auth (gateway config))")
    (auto simp: verify_auth_def Let_def)

text \<open>A text that presents accepted credentials.\<close>

definition accepts ::
    "(string \<Rightarrow> inbound_frame option) \<Rightarrow> (json \<Rightarrow> connect_params option) \<Rightarrow> skynet_config \<Rightarrow> string \<Rightarrow> bool" where
  "accepts frame_of connect_of config msg \<longleftrightarrow> length msg \<le> MAX_PAYLOAD_BYTES
     \<and> (\<exists>f r p params. frame_of msg = Some f \<and> as_req f = Some r \<and> req_method r = ''connect''
          \<and> req_params r = Some p \<and> connect_of p = Some params \<and> verify_auth params config = Inr ())"

text \<open>What no method and no chat changes: the configuration, the counter of events, the clients.\<close>

definition fixed_parts :: "'x app_state \<Rightarrow> skynet_config \<times> nat \<times> string list" where
  "fixed_parts a = (ap_config a, ap_event_seq a, ap_ws_clients a)"

lemma fixed_kept [simp]:
  "fixed_parts (set_users u a) = fixed_parts a" "fixed_parts (set_memory m a) = fixed_parts a"
  "fixed_parts (set_terminal t a) = fixed_parts a" "fixed_parts (a\<lparr>ap_world := w\<rparr>) = fixed_parts a"
  "fixed_parts (a\<lparr>ap_agent := ag\<rparr>) = fixed_parts a"
  by (simp_all add: fixed_parts_def set_users_def set_memory_def set_terminal_def)

lemma slash_fixed: "fixed_parts (fst (handle_slash_command ulow message a)) = fixed_parts a"
  by (simp add: handle_slash_command_def app_set_model_def Let_def split: option.split prod.split)

lemma context_fixed:
  assumes "resolve_user_context E ch sid a = Ret (a', uc)"
  shows "fixed_parts a' = fixed_parts a"
proof (cases "\<exists>c s. ch = Some c \<and> sid = Some s")
  case True
  then obtain c s where cs: "ch = Some c" "sid = Some s" by blast
  with assms obtain u r where r: "resolve (ce_json E) (ce_mint E) (sv_users (services a)) c s = Ret (u, r)"
    by (auto simp: resolve_user_context_def bind_outcome_Ret_iff)
  then show ?thesis using assms cs
    by (cases r) (auto simp: resolve_user_context_def Let_def split: prod.splits)
qed (use assms in \<open>auto simp: resolve_user_context_def split: option.splits\<close>)

lemma chat_fixed:
  "fixed_parts (rp_app (handle_streaming E tools message rid uc mo sk ch a)) = fixed_parts a"
  "fixed_parts (rp_app (handle_non_streaming E tools message rid uc mo sk ch a)) = fixed_parts a"
  by (simp_all add: handle_streaming_def handle_non_streaming_def answer_def panic_reply_def Let_def
      split: outcome.split option.split sum.split prod.split)

lemma chat_send_fixed: "fixed_parts (rp_app (handle_chat_send E tools_of params rid a)) = fixed_parts a"
proof -
  have "fixed_parts a' = fixed_parts a" if "handle_slash_command (ce_ulow E) message a = (a', r)" for message a' r
    using slash_fixed [of "ce_ulow E" message a] that by simp
  then show ?thesis
    by (auto simp: handle_chat_send_def Let_def chat_fixed dest: context_fixed
        split: option.split sum.split prod.split outcome.split)
qed

lemma route_fixed:
  assumes "m \<noteq> ''chat.send''"
  shows "fixed_parts (rp_app (route E tools_of m params rid a)) = fixed_parts a"
  using if_chain(3) [OF route_scope [OF assms, of a E tools_of params rid, unfolded method_scope_def]]
  by (elim disjE) (auto simp: same_but_memory_def only_jobs_def same_but_terminal_def same_but_model_def)

lemma handle_fixed:
  "fixed_parts (hd_app (handle frame_of connect_of E tools_of msg st a)) = fixed_parts a"
  by (simp add: handle_def handle_auth_def handle_method_def stays_def route_fixed Let_def
      split: option.split conn_state.split sum.split)

definition seq_ok :: "'x app_state \<Rightarrow> bool" where
  "seq_ok a \<longleftrightarrow> ap_event_seq a < u64_size"

lemma step_config:
  "conn_step frame_of connect_of met c e c' \<Longrightarrow>
     ap_config (cn_app c') = ap_config (cn_app c) \<and> (seq_ok (cn_app c) \<longrightarrow> seq_ok (cn_app c'))"
proof (induction rule: conn_step.induct)
  case (received c msg E tools_of)
  then show ?case using handle_fixed [of frame_of connect_of E tools_of msg "cn_state c" "cn_app c"]
    by (simp add: after_handle_def seq_ok_def fixed_parts_def)
next
  case (tick_sent c a' n ts sent)
  then show ?case by (auto simp: next_seq_def seq_ok_def)
next
  case (chat_runs i c E tools_of a' frames)
  then show ?case using chat_send_fixed [of E tools_of "fst (cn_tasks c ! i)" "snd (cn_tasks c ! i)" "cn_app c"]
    by (auto simp: handle_chat_send_task_def Let_def seq_ok_def fixed_parts_def)
qed (simp_all add: seq_ok_def)

text \<open>Nothing in the gateway enters a client into the table of clients.\<close>

lemma step_clients:
  "conn_step frame_of connect_of met c e c' \<Longrightarrow>
     set (ap_ws_clients (cn_app c')) \<subseteq> set (ap_ws_clients (cn_app c))"
proof (induction rule: conn_step.induct)
  case (received c msg E tools_of)
  then show ?case using handle_fixed [of frame_of connect_of E tools_of msg "cn_state c" "cn_app c"]
    by (simp add: after_handle_def fixed_parts_def)
next
  case (tick_sent c a' n ts sent)
  then show ?case by (auto simp: next_seq_def)
next
  case (chat_runs i c E tools_of a' frames)
  then show ?case using chat_send_fixed [of E tools_of "fst (cn_tasks c ! i)" "snd (cn_tasks c ! i)" "cn_app c"]
    by (auto simp: handle_chat_send_task_def Let_def fixed_parts_def)
qed simp_all

lemma run_clients:
  "conn_run frame_of connect_of met c es c' \<Longrightarrow>
     set (ap_ws_clients (cn_app c')) \<subseteq> set (ap_ws_clients (cn_app c))"
  by (induction rule: conn_run.induct) (auto dest: step_clients)

text \<open>Before a client is let in, nothing but errors goes out.\<close>

definition locked_out :: "out_frame \<Rightarrow> 'x conn \<Rightarrow> bool" where
  "locked_out hello c \<longleftrightarrow> cn_state c \<noteq> Authenticated \<and> cn_routed c = [] \<and> cn_tasks c = []
     \<and> (\<forall>f \<in> set (cn_sent c). f = hello \<or> (\<exists>r. f = OutRes r \<and> \<not> res_ok r))"

lemma locked_out_step:
  assumes "conn_step frame_of connect_of met c e c'" "locked_out hello c"
    and "\<forall>msg. e = Received msg \<longrightarrow> \<not> accepts frame_of connect_of (ap_config (cn_app c)) msg"
  shows "locked_out hello c'"
  using assms
proof (induction rule: conn_step.induct)
  case (received c msg E tools_of)
  let ?h = "handle frame_of connect_of E tools_of msg (cn_state c) (cn_app c)"
  have "hd_state ?h \<noteq> Some Authenticated \<and> hd_routed ?h = [] \<and> hd_spawned ?h = []
    \<and> (\<forall>f \<in> set (hd_sent ?h). \<exists>r. f = OutRes r \<and> \<not> res_ok r)"
    using received
    by (auto simp: locked_out_def accepts_def handle_def handle_auth_def stays_def protocol_error_def res_frame_shape
        bind_eq_Some_conv split: option.splits conn_state.splits sum.splits)
  then show ?case using received.prems(1) by (auto simp: locked_out_def after_handle_def split: option.splits)
qed (auto simp: locked_out_def)

lemma locked_out_routed:
  "conn_step frame_of connect_of met c e c' \<Longrightarrow> locked_out hello c \<Longrightarrow> cn_routed c' = []"
  by (induction rule: conn_step.induct)
    (auto simp: locked_out_def after_handle_def handle_def handle_auth_def stays_def
      split: option.splits conn_state.splits sum.splits)

text \<open>Each text received routes at most one method.\<close>

fun is_text :: "conn_event \<Rightarrow> bool" where
  "is_text (Received _) = True"
| "is_text _ = False"

lemma step_routed:
  "conn_step frame_of connect_of met c e c' \<Longrightarrow> length (cn_routed c') \<le> length (cn_routed c) + of_bool (is_text e)"
proof (induction rule: conn_step.induct)
  case (received c msg E tools_of)
  then show ?case
    by (auto simp: after_handle_def handle_def handle_auth_def handle_method_def stays_def Let_def
        split: option.split conn_state.split sum.split)
qed simp_all

lemma credentials_first:
  assumes "conn_run frame_of connect_of met (conn_start uuid t a) es c"
  shows "locked_out (OutEvent (challenge_event (make_nonce uuid))) c
    \<or> (\<exists>before msg after. es = before @ Received msg # after
        \<and> accepts frame_of connect_of (ap_config a) msg \<and> length (cn_routed c) \<le> length (filter is_text after))"
proof -
  let ?hello = "OutEvent (challenge_event (make_nonce uuid))"
  have "ap_config (cn_app c) = ap_config a \<and> (locked_out ?hello c
    \<or> (\<exists>before msg after. es = before @ Received msg # after
        \<and> accepts frame_of connect_of (ap_config a) msg \<and> length (cn_routed c) \<le> length (filter is_text after)))"
    using assms
  proof (induction rule: conn_run.induct)
    case run_nil
    then show ?case by (simp add: locked_out_def conn_start_def)
  next
    case (run_snoc es c' e c'')
    note cfg = step_config [OF run_snoc.hyps(2), THEN conjunct1] and routed = step_routed [OF run_snoc.hyps(2)]
    show ?case
    proof (cases "\<exists>before msg after. es = before @ Received msg # after
        \<and> accepts frame_of connect_of (ap_config a) msg \<and> length (cn_routed c') \<le> length (filter is_text after)")
      case True
      then obtain before msg after where s: "es = before @ Received msg # after"
        "accepts frame_of connect_of (ap_config a) msg" "length (cn_routed c') \<le> length (filter is_text after)" by blast
      then have "es @ [e] = before @ Received msg # (after @ [e])"
        "length (cn_routed c'') \<le> length (filter is_text (after @ [e]))" using routed by auto
      then show ?thesis using s(2) cfg run_snoc.IH by metis
    next
      case False
      then have out: "locked_out ?hello c'" using run_snoc.IH by blast
      show ?thesis
      proof (cases "\<exists>msg. e = Received msg \<and> accepts frame_of connect_of (ap_config a) msg")
        case True
        then obtain msg where msg: "e = Received msg" "accepts frame_of connect_of (ap_config a) msg" by blast
        have "cn_routed c'' = []" using locked_out_routed [OF run_snoc.hyps(2) out] .
        then have "es @ [e] = es @ Received msg # [] \<and> accepts frame_of connect_of (ap_config a) msg
            \<and> length (cn_routed c'') \<le> length (filter is_text [])" using msg by simp
        then show ?thesis using cfg run_snoc.IH by metis
      next
        case False
        then show ?thesis using locked_out_step [OF run_snoc.hyps(2) out] run_snoc.IH cfg by auto
      qed
    qed
  qed
  then show ?thesis by (rule conjunct2)
qed

text \<open>C5: No method without credentials. In every run of a connection, whatever the client sends, in
  whatever order the loop, its timers, the chat tasks and the rest of the gateway take their
  steps: either nothing was ever routed, no chat task was spawned and only the challenge and
  error responses were sent; or some text received within the size limit carried credentials that
  the configuration accepts, and at most as many methods were routed as texts came after it.\<close>
theorem no_method_without_credentials:
  assumes "conn_run frame_of connect_of met (conn_start uuid t a) es c"
  shows "(cn_state c \<noteq> Authenticated \<and> cn_routed c = [] \<and> cn_tasks c = []
      \<and> (\<forall>f \<in> set (cn_sent c). f = OutEvent (challenge_event (make_nonce uuid)) \<or> (\<exists>r. f = OutRes r \<and> \<not> res_ok r)))
    \<or> (\<exists>before msg after. es = before @ Received msg # after
        \<and> accepts frame_of connect_of (ap_config a) msg
        \<and> length (cn_routed c) \<le> length (filter is_text after))"
  using credentials_first [OF assms] by (simp add: locked_out_def)

section \<open>Well-formed connections\<close>

text \<open>A frame on the wire: a response with its type and either a payload or an error, or an event with
  its type, a payload and, if numbered, a 64-bit number.\<close>

definition wf_out :: "out_frame \<Rightarrow> bool" where
  "wf_out f = (case f of OutRes r \<Rightarrow> frame_for (res_id r) r | OutEvent e \<Rightarrow> wf_event e)"

lemma wf_out_res: "frame_for rid r \<Longrightarrow> wf_out (OutRes r)"
  unfolding wf_out_def frame_for_def out_frame.case by metis

lemma reply_frames_wf:
  "replies rid rp \<Longrightarrow> list_all wf_event (rp_events rp) \<Longrightarrow> list_all wf_out (reply_frames rp)"
  by (cases "rp_res rp") (auto simp: reply_frames_def replies_def list_all_iff wf_out_def [of "OutEvent f" for f]
      intro: wf_out_res)

lemma handle_frames_wf: "list_all wf_out (hd_sent (handle frame_of connect_of E tools_of msg st a))"
proof -
  have "list_all wf_out (reply_frames (route E tools_of m params rid a))" if "m \<noteq> ''chat.send''" for m params rid
    by (rule reply_frames_wf [OF route_replies]) (simp add: route_events that)
  then show ?thesis
    by (simp add: handle_def handle_auth_def handle_method_def stays_def protocol_error_def Let_def
        wf_out_res [OF frame_for_basic(1)] wf_out_res [OF frame_for_basic(2)]
        split: option.split conn_state.split sum.split)
qed

lemma chat_task_frames_wf:
  "handle_chat_send_task E tools_of params rid a = (a', frames) \<Longrightarrow> list_all wf_out frames"
  by (auto simp: handle_chat_send_task_def Let_def intro!: reply_frames_wf [OF chat_send_replies(1)] chat_send_frames)

lemma tick_frame_wf: "n < u64_size \<Longrightarrow> wf_event (tick_frame ts n)"
  by (simp add: tick_frame_def with_seq_def EventFrame_new_def wf_event_def)

text \<open>The order of the states of a connection.\<close>

fun state_rank :: "conn_state \<Rightarrow> nat" where
  "state_rank (AwaitingConnect _) = 0"
| "state_rank Authenticated = 1"
| "state_rank Closing = 2"

definition conn_wf :: "'x conn \<Rightarrow> bool" where
  "conn_wf c \<longleftrightarrow> list_all wf_out (cn_sent c) \<and> (cn_open c \<longrightarrow> cn_state c \<noteq> Closing)"

text \<open>What a step may not undo.\<close>

definition conn_advances :: "'x conn \<Rightarrow> 'x conn \<Rightarrow> bool" where
  "conn_advances c c' \<longleftrightarrow> state_rank (cn_state c) \<le> state_rank (cn_state c')
     \<and> (\<not> cn_open c \<longrightarrow> \<not> cn_open c' \<and> cn_state c' = cn_state c \<and> cn_routed c' = cn_routed c)
     \<and> prefix (cn_sent c) (cn_sent c') \<and> prefix (cn_routed c) (cn_routed c')
     \<and> cn_clock c \<le> cn_clock c' \<and> cn_deadline c' = cn_deadline c"

lemma handle_rank:
  "hd_state (handle frame_of connect_of E tools_of msg st a) = Some st' \<Longrightarrow> state_rank st \<le> state_rank st'"
  by (auto simp: handle_def handle_auth_def handle_method_def stays_def Let_def
      split: option.splits conn_state.splits sum.splits if_splits outcome.splits)

lemma step_advances: "conn_step frame_of connect_of met c e c' \<Longrightarrow> conn_advances c c'"
proof (induction rule: conn_step.induct)
  case (received c msg E tools_of)
  then show ?case using handle_rank [of frame_of connect_of E tools_of msg "cn_state c" "cn_app c"]
    by (auto simp: conn_advances_def after_handle_def split: option.split)
qed (simp_all add: conn_advances_def)

lemma step_wf:
  "conn_step frame_of connect_of met c e c' \<Longrightarrow> conn_wf c \<Longrightarrow> seq_ok (cn_app c) \<Longrightarrow> conn_wf c'"
proof (induction rule: conn_step.induct)
  case (received c msg E tools_of)
  then show ?case using handle_frames_wf [of frame_of connect_of E tools_of msg "cn_state c" "cn_app c"]
    by (auto simp: conn_wf_def after_handle_def split: option.split)
next
  case (tick_sent c a' n ts sent)
  then have "n < u64_size" by (auto simp: seq_ok_def next_seq_def)
  then show ?case using tick_sent by (simp add: conn_wf_def wf_out_def tick_frame_wf)
next
  case (chat_runs i c E tools_of a' frames)
  then show ?case by (simp add: conn_wf_def chat_task_frames_wf)
qed (auto simp: conn_wf_def)


lemma conn_advances_trans: "conn_advances a b \<Longrightarrow> conn_advances b c \<Longrightarrow> conn_advances a c"
  by (auto simp: conn_advances_def intro: prefix_order.trans)

text \<open>C12: The life of a connection. Every frame it ever hands to the socket is a well-formed frame of the
  protocol, and it never runs on in the closing state. From any moment of a run on, the state only
  moves forward (waiting, authenticated, closing), a connection that has ended stays ended in its
  last state with no method routed any more, and what was sent and routed is only appended to.\<close>
theorem connection_well_formed:
  assumes "conn_run frame_of connect_of met (conn_start uuid t a) es c"
    and "conn_run frame_of connect_of met c es' c'" "seq_ok a"
  shows "conn_wf c' \<and> conn_advances c c'"
proof -
  have "conn_wf c \<and> seq_ok (cn_app c)" using assms(1)
  proof (induction rule: conn_run.induct)
    case run_nil
    then show ?case using assms(3)
      by (simp add: conn_wf_def conn_start_def wf_out_def challenge_event_def)
  next
    case (run_snoc es c' e c'')
    then show ?case using step_wf step_config by metis
  qed
  with assms(2) have "conn_wf c' \<and> seq_ok (cn_app c') \<and> conn_advances c c'"
  proof (induction rule: conn_run.induct)
    case run_nil
    then show ?case by (simp add: conn_advances_def)
  next
    case (run_snoc es c' e c'')
    then show ?case using step_wf step_config step_advances conn_advances_trans by metis
  qed
  then show ?thesis by blast
qed

section \<open>The handshake's deadline\<close>

definition settled :: "'x conn \<Rightarrow> bool" where
  "settled c \<longleftrightarrow> (cn_open c \<longrightarrow> cn_state c = Authenticated)"

lemma timer_settles:
  assumes "conn_step frame_of connect_of met c TimerFired c'" "cn_open c \<longrightarrow> cn_state c \<noteq> Closing"
  shows "settled c'"
  using assms(1) by (cases rule: timer_stepE) (use assms(2) in \<open>auto simp: settled_def intro: conn_state.exhaust\<close>)

lemma settled_step: "conn_step frame_of connect_of met c e c' \<Longrightarrow> settled c \<Longrightarrow> settled c'"
proof (induction rule: conn_step.induct)
  case (received c msg E tools_of)
  then show ?case
    by (auto simp: settled_def after_handle_def handle_def handle_method_def stays_def Let_def
        split: option.splits outcome.splits if_splits)
qed (auto simp: settled_def)

text \<open>C13: The handshake ends. In an endless run of a connection in which the timer's branch is taken at
  some moment, which can happen only from ten seconds after the start on, there is a moment after
  which the connection is always either ended or authenticated: a client that does not
  authenticate does not keep a connection.\<close>
theorem handshake_ends:
  assumes "r 0 = conn_start uuid t a" "\<And>i. conn_step frame_of connect_of met (r i) (ev i) (r (Suc i))"
    and "ev k = TimerFired"
  shows "t + 10000 \<le> cn_clock (r k) \<and> (\<exists>n. \<forall>i \<ge> n. cn_open (r i) \<longrightarrow> cn_state (r i) = Authenticated)"
proof -
  have run: "conn_advances (r 0) (r i)" "cn_open (r i) \<longrightarrow> cn_state (r i) \<noteq> Closing" for i
  proof (induction i)
    case 0
    show "conn_advances (r 0) (r 0)" by (simp add: conn_advances_def)
    show "cn_open (r 0) \<longrightarrow> cn_state (r 0) \<noteq> Closing" by (simp add: assms(1) conn_start_def)
  next
    case (Suc i)
    show "conn_advances (r 0) (r (Suc i))" by (rule conn_advances_trans [OF Suc(1) step_advances [OF assms(2)]])
    show "cn_open (r (Suc i)) \<longrightarrow> cn_state (r (Suc i)) \<noteq> Closing"
      using assms(2) [of i] Suc(2) by (cases rule: conn_step.cases) (auto simp: after_handle_def split: option.splits)
  qed
  have timer: "conn_step frame_of connect_of met (r k) TimerFired (r (Suc k))" using assms(2) [of k] assms(3) by simp
  have "settled (r i)" if "Suc k \<le> i" for i
    using that by (induction i rule: dec_induct)
      (auto intro: timer_settles [OF timer run(2)] settled_step [OF assms(2)])
  moreover have "cn_deadline (r k) \<le> cn_clock (r k)" using timer by (cases rule: timer_stepE) simp_all
  moreover have "cn_deadline (r k) = t + 10000" using run(1) [of k]
    by (simp add: conn_advances_def assms(1) conn_start_def HANDSHAKE_TIMEOUT_MS_def)
  ultimately show ?thesis unfolding settled_def by auto
qed

text \<open>After the deadline the timer's branch is ready at every turn of the loop and, once the client is
  authenticated, does nothing: the loop can spin on it any number of times.\<close>

lemma timer_spins:
  assumes "cn_open c" "cn_state c = Authenticated" "cn_deadline c \<le> cn_clock c"
  shows "conn_run frame_of connect_of met c (replicate n TimerFired) c"
proof (induction n)
  case (Suc n)
  have "conn_step frame_of connect_of met c TimerFired c" using assms by (intro timer_ignored) simp_all
  from run_snoc [OF Suc this] show ?case by (simp add: replicate_append_same)
qed (simp add: run_nil)

section \<open>An example\<close>

definition request :: "string \<Rightarrow> string \<Rightarrow> json \<Rightarrow> inbound_frame" where
  "request rid m params = \<lparr> in_frame_type = ''req'',
     in_rest = [(''id'', JStr rid), (''method'', JStr m), (''params'', params)] \<rparr>"

definition sample_frames :: "string \<Rightarrow> inbound_frame option" where
  "sample_frames s = (if s = ''c'' then Some (request ''1'' ''connect'' (JStr ''change-me''))
     else if s = ''p'' then Some (request ''2'' ''ping'' JNull) else None)"

fun sample_connect :: "json \<Rightarrow> connect_params option" where
  "sample_connect (JStr s) = Some \<lparr> cp_auth = AuthToken s, cp_client_info = None \<rparr>"
| "sample_connect _ = None"

lemma sample_conn_run:
  "\<exists>c. conn_run sample_frames sample_connect (\<lambda>_ _. True) (conn_start ''u-u'' 0 sample_gateway)
     [Received ''c'', Received ''p''] c \<and> cn_state c = Authenticated \<and> cn_routed c = [''ping'']"
proof -
  let ?step = "\<lambda>msg c. after_handle (handle sample_frames sample_connect sample_call (\<lambda>_. []) msg (cn_state c) (cn_app c)) c"
  let ?c0 = "conn_start ''u-u'' 0 sample_gateway"
  have small: "length ''c'' \<le> MAX_PAYLOAD_BYTES" "length ''p'' \<le> MAX_PAYLOAD_BYTES" by (simp_all add: MAX_PAYLOAD_BYTES_def)
  define c1 where "c1 = ?step ''c'' ?c0"
  have st: "cn_open c1" "cn_state c1 = Authenticated" "cn_routed c1 = []"
    by (simp_all add: c1_def after_handle_def handle_def handle_auth_def sample_frames_def request_def as_req_def
        jinsert_def req_of_object_def conn_start_def stays_def verify_auth_def sample_gateway_def app_state_new_def
        default_config_def)
  have "conn_run sample_frames sample_connect (\<lambda>_ _. True) ?c0 ([] @ [Received ''c'']) c1" unfolding c1_def
    by (rule run_snoc [OF run_nil received [OF _ small(1)]]) (simp_all add: conn_start_def)
  from run_snoc [OF this received [OF st(1) small(2), of "\<lambda>_ _. True" sample_call "\<lambda>_. []"]]
  have "conn_run sample_frames sample_connect (\<lambda>_ _. True) ?c0 [Received ''c'', Received ''p''] (?step ''p'' c1)" by simp
  moreover have "cn_state (?step ''p'' c1) = Authenticated" "cn_routed (?step ''p'' c1) = [''ping'']"
    using st by (simp_all add: after_handle_def handle_def handle_method_def sample_frames_def request_def as_req_def
        req_of_object_def stays_def route_def answer_def jinsert_def)
  ultimately show ?thesis by blast
qed

theorem no_method_without_credentials_witness:
  "accepts sample_frames sample_connect (ap_config sample_gateway) ''c''"
proof -
  obtain c where c: "conn_run sample_frames sample_connect (\<lambda>_ _. True) (conn_start ''u-u'' 0 sample_gateway)
     [Received ''c'', Received ''p''] c" "cn_routed c = [''ping'']" using sample_conn_run by blast
  have "\<not> accepts sample_frames sample_connect (ap_config sample_gateway) ''p''"
    by (simp add: accepts_def sample_frames_def request_def as_req_def req_of_object_def jinsert_def)
  then show ?thesis using no_method_without_credentials [OF c(1)] c(2)
    by (auto simp: Cons_eq_append_conv)
qed

theorem connection_well_formed_witness:
  "\<exists>c. cn_routed c = [''ping''] \<and> conn_wf c \<and> conn_advances (conn_start ''u-u'' 0 sample_gateway) c"
proof -
  obtain c where c: "conn_run sample_frames sample_connect (\<lambda>_ _. True) (conn_start ''u-u'' 0 sample_gateway)
     [Received ''c'', Received ''p''] c" "cn_routed c = [''ping'']" using sample_conn_run by blast
  have "seq_ok sample_gateway" by (simp add: seq_ok_def sample_gateway_def app_state_new_def)
  from connection_well_formed [OF run_nil c(1) this] c(2) show ?thesis by blast
qed

text \<open>A client that never speaks: ten seconds pass, the timer fires, and nothing more happens.\<close>

definition silent :: "nat \<Rightarrow> unit conn" where
  "silent i = (let c = conn_start ''u-u'' 0 sample_gateway in
     if i = 0 then c else if i = 1 then c\<lparr>cn_clock := 10000\<rparr> else c\<lparr>cn_clock := 10000, cn_open := False\<rparr>)"

definition silent_events :: "nat \<Rightarrow> conn_event" where
  "silent_events i = (if i = 0 then TimePasses 10000 else if i = 1 then TimerFired else TimePasses 0)"

theorem handshake_ends_witness:
  "10000 \<le> cn_clock (silent 1) \<and> (\<exists>n. \<not> (cn_open (silent n) \<and> cn_state (silent n) \<noteq> Authenticated))"
proof -
  have "conn_step sample_frames sample_connect (\<lambda>_ _. True) (silent i) (silent_events i) (silent (Suc i))" for i
  proof -
    consider "i = 0" | "i = 1" | "i \<ge> 2" by linarith
    then show ?thesis
    proof cases
      case 1
      then show ?thesis using time_passes [of sample_frames sample_connect "\<lambda>_ _. True" "silent 0" 10000]
        by (simp add: silent_def silent_events_def conn_start_def Let_def)
    next
      case 2
      then show ?thesis using timed_out [of "silent 1" "make_nonce ''u-u''" sample_frames sample_connect "\<lambda>_ _. True"]
        by (simp add: silent_def silent_events_def conn_start_def HANDSHAKE_TIMEOUT_MS_def Let_def)
    next
      case 3
      then show ?thesis using time_passes [of sample_frames sample_connect "\<lambda>_ _. True" "silent i" 0]
        by (simp add: silent_def silent_events_def conn_start_def Let_def)
    qed
  qed
  moreover have "silent 0 = conn_start ''u-u'' 0 sample_gateway" "silent_events 1 = TimerFired"
    by (simp_all add: silent_def silent_events_def Let_def)
  ultimately show ?thesis using handshake_ends [of silent "''u-u''" 0 sample_gateway sample_frames sample_connect
        "\<lambda>_ _. True" silent_events 1] by fastforce
qed

end
