(* ===== verification/FileTools.thy ===== *)
theory FileTools
  imports Handlers
begin

text \<open>
  The agent's file tools (\<open>crates/skynet-agent/src/tools/patch_file.rs\<close>, \<open>read_file.rs\<close>,
  \<open>write_file.rs\<close>, \<open>list_files.rs\<close>, \<open>search_files.rs\<close>).

  A file system maps paths to contents. Whether a call of \<open>std::fs\<close> fails, and what a failing write
  leaves behind, is an argument: the theorems hold for every way it may fail.
\<close>

section \<open>Files\<close>

type_synonym files = "string \<rightharpoonup> string"

record io_faults =
  io_read :: "string \<Rightarrow> string option"
  io_write :: "string \<Rightarrow> (string \<times> string option) option"
  io_rename :: "string option"
  io_remove :: bool
  io_mkdir :: "string option"

definition no_such_file :: string where
  "no_such_file = ''No such file or directory (os error 2)''"

definition read_to_string :: "io_faults \<Rightarrow> files \<Rightarrow> string \<Rightarrow> string + string" where
  "read_to_string F fs path =
     (case io_read F path of
        Some e \<Rightarrow> Inl e
      | None \<Rightarrow>
          (case fs path of
             None \<Rightarrow> Inl no_such_file
           | Some c \<Rightarrow> if valid_utf8 c then Inr c else Inl ''stream did not contain valid UTF-8''))"

definition fs_write :: "io_faults \<Rightarrow> files \<Rightarrow> string \<Rightarrow> string \<Rightarrow> files \<times> (string + unit)" where
  "fs_write F fs path content =
     (case io_write F path of
        Some (e, left) \<Rightarrow> (fs(path := left), Inl e)
      | None \<Rightarrow> (fs(path \<mapsto> content), Inr ()))"

definition fs_rename :: "io_faults \<Rightarrow> files \<Rightarrow> string \<Rightarrow> string \<Rightarrow> files \<times> (string + unit)" where
  "fs_rename F fs src dst =
     (case io_rename F of
        Some e \<Rightarrow> (fs, Inl e)
      | None \<Rightarrow> (fs(dst := fs src, src := None), Inr ()))"

definition fs_remove :: "io_faults \<Rightarrow> files \<Rightarrow> string \<Rightarrow> files" where
  "fs_remove F fs path = (if io_remove F then fs else fs(path := None))"

section \<open>Parameters of a tool\<close>

definition in_str :: "string \<Rightarrow> json \<Rightarrow> string option" where
  "in_str k input = Option.bind (jget k input) as_str"

definition in_u64 :: "string \<Rightarrow> json \<Rightarrow> nat option" where
  "in_u64 k input = Option.bind (jget k input) as_u64"

definition missing_param :: "string \<Rightarrow> tool_result" where
  "missing_param k = ToolResult_error (''missing required parameter: '' @ k)"

abbreviation apostrophe :: char where "apostrophe \<equiv> CHR 0x27"

definition quoted :: "string \<Rightarrow> string" where
  "quoted s = [apostrophe] @ s @ [apostrophe]"

section \<open>Replacing text\<close>

text \<open>The pieces of a text between the matches of a pattern (\<open>str::split\<close>); the empty pattern matches
  before each character and at the end.\<close>

function match_parts :: "string \<Rightarrow> string \<Rightarrow> string list" where
  "match_parts pat s =
     (if pat = [] then [] # chars s @ [[]]
      else (case find_sub pat s of
          None \<Rightarrow> [s]
        | Some n \<Rightarrow> take n s # match_parts pat (drop (n + length pat) s)))"
  by pat_completeness auto

termination
proof (relation "measure (length \<circ> snd)")
  fix pat s :: string and n
  assume "pat \<noteq> []" "find_sub pat s = Some n"
  then show "((pat, drop (n + length pat) s), pat, s) \<in> measure (length \<circ> snd)"
    using find_sub_Some [of pat s n] by (cases pat) auto
qed simp

declare match_parts.simps [simp del]

definition count_matches :: "string \<Rightarrow> string \<Rightarrow> nat" where
  "count_matches pat s = length (match_parts pat s) - 1"

definition replace_all_matches :: "string \<Rightarrow> string \<Rightarrow> string \<Rightarrow> string" where
  "replace_all_matches pat new s = join new (match_parts pat s)"

definition replace_first :: "string \<Rightarrow> string \<Rightarrow> string \<Rightarrow> string" where
  "replace_first pat new s =
     (case find_sub pat s of None \<Rightarrow> s | Some n \<Rightarrow> take n s @ new @ drop (n + length pat) s)"

section \<open>patch\_file\<close>

definition tmp_path :: "string \<Rightarrow> string" where
  "tmp_path path = path @ ''.skynet_patch_tmp''"

definition not_found_error :: "string \<Rightarrow> tool_result" where
  "not_found_error path = ToolResult_error (''old_string not found in '' @ quoted path
     @ ''. Use read_file first and copy the text verbatim.'')"

definition ambiguous_error :: "nat \<Rightarrow> string \<Rightarrow> tool_result" where
  "ambiguous_error n path = ToolResult_error (''old_string matches '' @ show_nat n @ '' times in ''
     @ quoted path @ ''. Add more surrounding context to make it unique, or set replace_all=true.'')"

definition write_back :: "io_faults \<Rightarrow> files \<Rightarrow> string \<Rightarrow> string \<Rightarrow> string \<Rightarrow> files \<times> tool_result" where
  "write_back F fs path updated occurrences =
     (case fs_write F fs (tmp_path path) updated of
        (fs1, Inl e) \<Rightarrow> (fs1, ToolResult_error (''failed to write temp file '' @ quoted (tmp_path path)
          @ '': '' @ e))
      | (fs1, Inr _) \<Rightarrow>
          (case fs_rename F fs1 (tmp_path path) path of
             (fs2, Inl e) \<Rightarrow> (fs_remove F fs2 (tmp_path path),
               ToolResult_error (''failed to rename temp file to '' @ quoted path @ '': '' @ e))
           | (fs2, Inr _) \<Rightarrow> (fs2, ToolResult_success (''Patched '' @ quoted path @ '': replaced ''
               @ occurrences @ '' of old_string.''))))"

definition patch_file :: "io_faults \<Rightarrow> json \<Rightarrow> files \<Rightarrow> files \<times> tool_result" where
  "patch_file F input fs =
     (case in_str ''path'' input of
        None \<Rightarrow> (fs, missing_param ''path'')
      | Some path \<Rightarrow>
     (case in_str ''old_string'' input of
        None \<Rightarrow> (fs, missing_param ''old_string'')
      | Some old \<Rightarrow>
     (case in_str ''new_string'' input of
        None \<Rightarrow> (fs, missing_param ''new_string'')
      | Some new \<Rightarrow>
     (let replace_all = (case Option.bind (jget ''replace_all'' input) as_bool of Some b \<Rightarrow> b | None \<Rightarrow> False) in
      case read_to_string F fs path of
        Inl e \<Rightarrow> (fs, ToolResult_error (''failed to read '' @ quoted path @ '': '' @ e))
      | Inr content \<Rightarrow>
          (let n = count_matches old content in
           if n = 0 then (fs, not_found_error path)
           else if \<not> replace_all \<and> n > 1 then (fs, ambiguous_error n path)
           else write_back F fs path
             (if replace_all then replace_all_matches old new content else replace_first old new content)
             (if replace_all then show_nat n @ '' occurrence(s)'' else ''1 occurrence''))))))"

section \<open>read\_file\<close>

definition MAX_OUTPUT_CHARS :: nat where "MAX_OUTPUT_CHARS = 30000"

text \<open>\<open>str::lines\<close>: a line ends at a newline, with the carriage return before it; the last line needs
  no end.\<close>

definition strip_cr :: "string \<Rightarrow> string" where
  "strip_cr l = (if l \<noteq> [] \<and> last l = CHR 0x0D then butlast l else l)"

definition str_lines :: "string \<Rightarrow> string list" where
  "str_lines s = (let ps = split_on newline s in
     map strip_cr (butlast ps) @ (if last ps = [] then [] else [last ps]))"

definition read_window :: "nat option \<Rightarrow> nat option \<Rightarrow> string \<Rightarrow> string" where
  "read_window offset limit content =
     (if offset \<noteq> None \<or> limit \<noteq> None then
        (let ls = drop (case offset of Some o1 \<Rightarrow> o1 | None \<Rightarrow> 0) (str_lines content)
         in join [newline] (case limit of Some n \<Rightarrow> take n ls | None \<Rightarrow> ls))
      else content)"

definition read_file :: "io_faults \<Rightarrow> json \<Rightarrow> files \<Rightarrow> tool_result outcome" where
  "read_file F input fs =
     (case in_str ''path'' input of
        None \<Rightarrow> Ret (missing_param ''path'')
      | Some path \<Rightarrow>
          (case read_to_string F fs path of
             Inl e \<Rightarrow> Ret (ToolResult_error (''failed to read '' @ quoted path @ '': '' @ e))
           | Inr content \<Rightarrow>
               (let result = read_window (map_option (\<lambda>v. v - 1) (in_u64 ''offset'' input))
                      (in_u64 ''limit'' input) content in
                if length result > MAX_OUTPUT_CHARS then
                  bind_outcome (slice_to result MAX_OUTPUT_CHARS) (\<lambda>t. Ret (ToolResult_success (t @ blank_line
                    @ ''[output truncated at '' @ show_nat MAX_OUTPUT_CHARS @ '' characters]'')))
                else Ret (ToolResult_success result))))"

section \<open>write\_file\<close>

text \<open>\<open>parent_of\<close> is \<open>Path::parent\<close>.\<close>

definition write_file :: "io_faults \<Rightarrow> (string \<Rightarrow> string option) \<Rightarrow> json \<Rightarrow> files \<Rightarrow> files \<times> tool_result" where
  "write_file F parent_of input fs =
     (case in_str ''path'' input of
        None \<Rightarrow> (fs, missing_param ''path'')
      | Some path \<Rightarrow>
     (case in_str ''content'' input of
        None \<Rightarrow> (fs, missing_param ''content'')
      | Some content \<Rightarrow>
     (case (case parent_of path of Some d \<Rightarrow> if d \<noteq> [] then io_mkdir F else None | None \<Rightarrow> None) of
        Some e \<Rightarrow> (fs, ToolResult_error (''failed to create directories for '' @ quoted path @ '': '' @ e))
      | None \<Rightarrow>
     (case fs_write F fs path content of
        (fs', Inl e) \<Rightarrow> (fs', ToolResult_error (''failed to write '' @ quoted path @ '': '' @ e))
      | (fs', Inr _) \<Rightarrow> (fs', ToolResult_success (''File written: '' @ show_nat (length content)
          @ '' bytes to '' @ quoted path))))))"

section \<open>list\_files\<close>

definition MAX_ENTRIES :: nat where "MAX_ENTRIES = 1000"

record dir_entry =
  de_name :: string
  de_is_dir :: bool
  de_size :: nat

definition entry_line :: "dir_entry \<Rightarrow> string" where
  "entry_line d = ''['' @ (if de_is_dir d then ''dir'' else ''file'') @ ''] '' @ de_name d @ '' ('' @ show_nat (de_size d)
     @ '' bytes)''"

text \<open>An entry that cannot be read, or whose metadata cannot, is skipped.\<close>

fun list_loop :: "dir_entry option list \<Rightarrow> string list \<Rightarrow> string list \<times> bool" where
  "list_loop [] entries = (entries, False)"
| "list_loop (e # es) entries =
     (if length entries \<ge> MAX_ENTRIES then (entries, True)
      else (case e of
          None \<Rightarrow> list_loop es entries
        | Some d \<Rightarrow> list_loop es (entries @ [entry_line d])))"

definition list_files :: "(string \<Rightarrow> string + dir_entry option list) \<Rightarrow> json \<Rightarrow> tool_result" where
  "list_files read_dir input =
     (case in_str ''path'' input of
        None \<Rightarrow> missing_param ''path''
      | Some path \<Rightarrow>
          (case read_dir path of
             Inl e \<Rightarrow> ToolResult_error (''failed to list '' @ quoted path @ '': '' @ e)
           | Inr es \<Rightarrow>
               (let (entries, truncated) = list_loop es [] in
                ToolResult_success (join [newline] (sort entries) @ (if truncated
                  then blank_line @ ''[truncated at '' @ show_nat MAX_ENTRIES @ '' entries]'' else [])))))"

section \<open>search\_files\<close>

definition MAX_MATCHES :: nat where "MAX_MATCHES = 100"

text \<open>What the walk can see: a file that cannot be read and a directory that cannot be listed have no
  contents.\<close>

datatype fs_tree =
    TFile "string option"
  | TDir "(string \<times> fs_tree) list option"
  | TOther

definition path_join :: "string \<Rightarrow> string \<Rightarrow> string" where
  "path_join dir name = (if dir = [] \<or> last dir = CHR ''/'' then dir @ name else dir @ ''/'' @ name)"

definition match_line :: "string \<Rightarrow> nat \<Rightarrow> string \<Rightarrow> string" where
  "match_line path i l = path @ '':'' @ show_nat (i + 1) @ '': '' @ l"

fun search_lines ::
    "string \<Rightarrow> string \<Rightarrow> nat \<Rightarrow> string list \<Rightarrow> string list \<times> bool \<Rightarrow> string list \<times> bool" where
  "search_lines path pattern i [] st = st"
| "search_lines path pattern i (l # ls) (ms, truncated) =
     (if truncated then (ms, truncated)
      else if contains l pattern then
        (let ms' = ms @ [match_line path i l] in
         if length ms' \<ge> MAX_MATCHES then (ms', True)
         else search_lines path pattern (i + 1) ls (ms', truncated))
      else search_lines path pattern (i + 1) ls (ms, truncated))"

definition looks_binary :: "string \<Rightarrow> bool" where
  "looks_binary c \<longleftrightarrow> CHR 0x00 \<in> set (take 8192 c)"

definition search_file :: "string \<Rightarrow> string \<Rightarrow> string option \<Rightarrow> string list \<times> bool \<Rightarrow> string list \<times> bool" where
  "search_file path pattern content st =
     (case content of
        None \<Rightarrow> st
      | Some c \<Rightarrow> if looks_binary c \<or> \<not> valid_utf8 c then st
          else search_lines path pattern 0 (str_lines c) st)"

definition ends_with :: "string \<Rightarrow> string \<Rightarrow> bool" where
  "ends_with s t \<longleftrightarrow> length t \<le> length s \<and> drop (length s - length t) s = t"

definition wanted :: "string option \<Rightarrow> string \<Rightarrow> bool" where
  "wanted file_pattern path = (case file_pattern of None \<Rightarrow> True | Some fp \<Rightarrow> ends_with path fp)"

abbreviation tree_size :: "(string \<times> fs_tree) list \<Rightarrow> nat" where
  "tree_size \<equiv> size_list (\<lambda>e. size (snd e))"

lemma tree_size_sort [simp]: "tree_size (sort_key f es) = tree_size es"
proof -
  have "tree_size xs = sum_mset (image_mset (\<lambda>e. Suc (size (snd e))) (mset xs))" for xs
    by (induction xs) auto
  then show ?thesis by simp
qed

lemma tree_size_le: "tree_size es \<le> size_list (\<lambda>e. Suc (size (snd e))) es"
  by (induction es) auto

function search_entries ::
    "string \<Rightarrow> string \<Rightarrow> string option \<Rightarrow> (string \<times> fs_tree) list \<Rightarrow> string list \<times> bool \<Rightarrow> string list \<times> bool" where
  "search_entries dir pattern fp [] st = st"
| "search_entries dir pattern fp ((name, t) # es) st =
     (if snd st then st
      else if name = ''.git'' then search_entries dir pattern fp es st
      else search_entries dir pattern fp es
        (case t of
           TDir (Some sub) \<Rightarrow> search_entries (path_join dir name) pattern fp (sort_key fst sub) st
         | TFile content \<Rightarrow> if wanted fp (path_join dir name)
             then search_file (path_join dir name) pattern content st else st
         | _ \<Rightarrow> st))"
  by pat_completeness auto

termination
  by (relation "measure (\<lambda>(dir, pattern, fp, es, st). tree_size es)")
    (auto simp: size_prod_simp less_Suc_eq_le intro: le_trans [OF tree_size_le] le_SucI)

definition search_dir :: "string \<Rightarrow> string \<Rightarrow> string option \<Rightarrow> (string \<times> fs_tree) list option \<Rightarrow> string list \<times> bool" where
  "search_dir dir pattern fp read_dir =
     (case read_dir of None \<Rightarrow> ([], False) | Some es \<Rightarrow> search_entries dir pattern fp (sort_key fst es) ([], False))"

definition search_files :: "(string \<Rightarrow> (string \<times> fs_tree) list option) \<Rightarrow> json \<Rightarrow> tool_result" where
  "search_files read_dir input =
     (case in_str ''path'' input of
        None \<Rightarrow> missing_param ''path''
      | Some start \<Rightarrow>
     (case in_str ''pattern'' input of
        None \<Rightarrow> missing_param ''pattern''
      | Some pattern \<Rightarrow>
          (let (ms, truncated) = search_dir start pattern (in_str ''file_pattern'' input) (read_dir start) in
           if ms = [] then ToolResult_success ''No matches found.''
           else ToolResult_success (join [newline] ms @ (if truncated
             then blank_line @ ''[truncated at '' @ show_nat MAX_MATCHES @ '' matches]'' else [])))))"

section \<open>What a patch does\<close>

lemma join_Cons: "ps \<noteq> [] \<Longrightarrow> join sep (p # ps) = p @ sep @ join sep ps"
  by (cases ps) simp_all

lemma join_empty [simp]: "join [] ps = concat ps"
  by (induction "[] :: string" ps rule: join.induct) simp_all

lemma match_parts_nonempty [simp]: "match_parts pat s \<noteq> []"
  by (subst match_parts.simps) (simp split: option.split)

lemma join_match_parts: "join pat (match_parts pat s) = s"
proof (induction pat s rule: match_parts.induct)
  case (1 pat s)
  show ?case
  proof (cases "pat = [] \<or> find_sub pat s = None")
    case True
    then show ?thesis by (auto simp: match_parts.simps [of pat])
  next
    case False
    then obtain n where n: "pat \<noteq> []" "find_sub pat s = Some n" by auto
    then have "match_parts pat s = take n s # match_parts pat (drop (n + length pat) s)"
      by (simp add: match_parts.simps [of pat s])
    then show ?thesis using 1 [OF n] find_sub_Some [OF n(2)] by (simp add: join_Cons)
  qed
qed

lemma take_before_match:
  assumes "find_sub pat s = Some n" "pat \<noteq> []"
  shows "\<not> contains (take n s) pat"
proof
  assume "contains (take n s) pat"
  then obtain u v where uv: "take n s = u @ pat @ v" by (auto simp: contains_iff)
  then have "length u + length pat + length v = min (length s) n" by (metis append_assoc length_append length_take)
  then have lu: "length u < n" using assms(2) by (cases pat) auto
  have "s = u @ pat @ v @ drop n s" using uv by (metis append_assoc append_take_drop_id)
  then have "starts_with (drop (length u) s) pat" by (metis append_eq_conv_conj starts_with_iff)
  then show False using find_sub_least [OF assms(1) lu] by simp
qed

lemma match_parts_free:
  "pat \<noteq> [] \<Longrightarrow> p \<in> set (match_parts pat s) \<Longrightarrow> \<not> contains p pat"
proof (induction pat s rule: match_parts.induct)
  case (1 pat s)
  show ?case
  proof (cases "find_sub pat s")
    case None
    then show ?thesis using 1(2,3) by (simp add: match_parts.simps [of pat] contains_def)
  next
    case (Some n)
    then have "p = take n s \<or> p \<in> set (match_parts pat (drop (n + length pat) s))"
      using 1(2,3) by (simp add: match_parts.simps [of pat s])
    then show ?thesis using take_before_match [OF Some] 1 Some by auto
  qed
qed

lemma replace_one:
  assumes "count_matches pat s = 1"
  shows "replace_first pat new s = join new (match_parts pat s)"
proof (cases "pat = []")
  case True
  then have "chars s = []" using assms by (simp add: count_matches_def match_parts.simps [of "[]"])
  then have "s = []" using concat_chars [of s] by simp
  then show ?thesis using True by (simp add: replace_first_def match_parts.simps)
next
  case False
  show ?thesis
  proof (cases "find_sub pat s")
    case None
    then show ?thesis using assms False by (simp add: count_matches_def match_parts.simps [of pat s])
  next
    case (Some n)
    let ?rest = "drop (n + length pat) s"
    have parts: "match_parts pat s = take n s # match_parts pat ?rest"
      using False Some by (simp add: match_parts.simps [of pat s])
    then obtain r where "match_parts pat ?rest = [r]"
      using assms by (auto simp: count_matches_def length_Suc_conv)
    moreover have "r = ?rest" using join_match_parts [of pat ?rest] calculation by simp
    ultimately show ?thesis using parts Some by (simp add: replace_first_def)
  qed
qed

text \<open>The parts a patch leaves alone, and its result.\<close>

definition patched :: "bool \<Rightarrow> string \<Rightarrow> string \<Rightarrow> string \<Rightarrow> string \<Rightarrow> bool" where
  "patched replace_all old new before after \<longleftrightarrow>
     (\<exists>parts. before = join old parts \<and> after = join new parts \<and> length parts \<ge> 2
        \<and> (\<not> replace_all \<longrightarrow> length parts = 2) \<and> (old \<noteq> [] \<longrightarrow> (\<forall>p \<in> set parts. \<not> contains p old)))"

definition replace_all_of :: "json \<Rightarrow> bool" where
  "replace_all_of input = (case Option.bind (jget ''replace_all'' input) as_bool of Some b \<Rightarrow> b | None \<Rightarrow> False)"

lemma tmp_path_neq [simp]: "tmp_path path \<noteq> path" "path \<noteq> tmp_path path"
  by (simp_all add: tmp_path_def)

lemma write_back_cases:
  assumes "write_back F fs path updated n = (fs', r)"
  shows "(\<forall>q. q \<noteq> path \<and> q \<noteq> tmp_path path \<longrightarrow> fs' q = fs q)
    \<and> (if tr_is_error r then fs' path = fs path else fs' path = Some updated \<and> fs' (tmp_path path) = None)"
  using assms
  by (auto simp: write_back_def fs_write_def fs_rename_def fs_remove_def ToolResult_error_def ToolResult_success_def
      split: option.splits prod.splits sum.splits if_splits)

lemma patched_parts:
  assumes "count_matches old content \<noteq> 0" "replace_all \<or> \<not> count_matches old content > 1"
  shows "patched replace_all old new content
    (if replace_all then replace_all_matches old new content else replace_first old new content)"
proof -
  let ?ps = "match_parts old content"
  have "length ?ps \<ge> 2" using assms(1) by (simp add: count_matches_def)
  moreover have "length ?ps = 2" if "\<not> replace_all" using assms that by (simp add: count_matches_def)
  moreover have "(if replace_all then replace_all_matches old new content else replace_first old new content) = join new ?ps"
    using assms replace_one [of old content new] by (auto simp: replace_all_matches_def)
  ultimately show ?thesis
    using join_match_parts [of old content] match_parts_free [of old _ content]
    unfolding patched_def by metis
qed

text \<open>C25: A patch is atomic. However reading, writing, renaming and removing fail, \<open>patch_file\<close> touches
  no file but the one named and its temporary file; if it reports an error the file is as it was;
  otherwise the file was UTF-8 text made of parts around one match of the old text (around all of
  them if asked), none of which contains it, the file is the same parts around the new text, and
  no temporary file is left.\<close>
theorem patch_file_atomic:
  assumes "patch_file F input fs = (fs', r)" "in_str ''path'' input = Some path"
  shows "(\<forall>q. q \<noteq> path \<and> q \<noteq> tmp_path path \<longrightarrow> fs' q = fs q)
    \<and> (if tr_is_error r then fs' path = fs path
       else \<exists>old new before after. in_str ''old_string'' input = Some old \<and> in_str ''new_string'' input = Some new
         \<and> fs path = Some before \<and> valid_utf8 before \<and> patched (replace_all_of input) old new before after
         \<and> fs' path = Some after \<and> fs' (tmp_path path) = None)"
proof (cases "\<exists>old new content. in_str ''old_string'' input = Some old \<and> in_str ''new_string'' input = Some new
    \<and> read_to_string F fs path = Inr content \<and> count_matches old content \<noteq> 0
    \<and> (replace_all_of input \<or> \<not> count_matches old content > 1)")
  case True
  then obtain old new content where c: "in_str ''old_string'' input = Some old" "in_str ''new_string'' input = Some new"
    "read_to_string F fs path = Inr content" "count_matches old content \<noteq> 0"
    "replace_all_of input \<or> \<not> count_matches old content > 1" by blast
  let ?after = "if replace_all_of input then replace_all_matches old new content else replace_first old new content"
  obtain n where "write_back F fs path ?after n = (fs', r)"
    using assms c by (auto simp: patch_file_def replace_all_of_def Let_def split: if_splits)
  note wb = write_back_cases [OF this]
  have "fs path = Some content \<and> valid_utf8 content"
    using c(3) by (auto simp: read_to_string_def split: option.splits if_splits)
  then show ?thesis using wb c patched_parts [OF c(4,5), of new] by (cases "tr_is_error r") auto
next
  case False
  then have "fs' = fs \<and> tr_is_error r"
    using assms by (auto simp: patch_file_def replace_all_of_def missing_param_def ToolResult_error_def
        not_found_error_def ambiguous_error_def Let_def split: option.splits sum.splits if_splits)
  then show ?thesis by simp
qed

definition sample_patch :: json where
  "sample_patch = JObj [(''path'', JStr ''f''), (''old_string'', JStr ''b''), (''new_string'', JStr ''xy'')]"

definition no_faults :: io_faults where
  "no_faults = \<lparr> io_read = (\<lambda>_. None), io_write = (\<lambda>_. None), io_rename = None, io_remove = False, io_mkdir = None \<rparr>"

theorem patch_file_atomic_witness:
  "(\<exists>after. fst (patch_file no_faults sample_patch [''f'' \<mapsto> ''abc'']) ''f'' = Some after
      \<and> patched False ''b'' ''xy'' ''abc'' after)
   \<and> fst (patch_file (no_faults\<lparr>io_rename := Some ''busy''\<rparr>) sample_patch [''f'' \<mapsto> ''abc'']) ''f'' = Some ''abc''"
proof -
  have p: "in_str ''path'' sample_patch = Some ''f''" by (simp add: in_str_def sample_patch_def)
  have v: "valid_utf8 ''abc''" by (simp add: valid_utf8_def utf8_width_def is_cont_def)
  have "match_parts ''b'' ''abc'' = [''a'', ''c'']"
    by (simp add: match_parts.simps [of _ "''abc''"] match_parts.simps [of _ "''c''"] starts_with_def)
  then have n: "count_matches ''b'' ''abc'' = 1" by (simp add: count_matches_def)
  have ok: "\<not> tr_is_error (snd (patch_file no_faults sample_patch [''f'' \<mapsto> ''abc'']))"
    using v n by (simp add: patch_file_def in_str_def sample_patch_def read_to_string_def no_faults_def Let_def
        write_back_def fs_write_def fs_rename_def ToolResult_success_def)
  have bad: "tr_is_error (snd (patch_file (no_faults\<lparr>io_rename := Some ''busy''\<rparr>) sample_patch [''f'' \<mapsto> ''abc'']))"
    using v n by (simp add: patch_file_def in_str_def sample_patch_def read_to_string_def no_faults_def Let_def
        write_back_def fs_write_def fs_rename_def ToolResult_error_def)
  have io: "in_str ''old_string'' sample_patch = Some ''b''" "in_str ''new_string'' sample_patch = Some ''xy''"
    "replace_all_of sample_patch = False" by (simp_all add: in_str_def sample_patch_def replace_all_of_def)
  show ?thesis
    using patch_file_atomic [of no_faults sample_patch "[''f'' \<mapsto> ''abc'']", OF surjective_pairing p]
      patch_file_atomic [of "no_faults\<lparr>io_rename := Some ''busy''\<rparr>" sample_patch "[''f'' \<mapsto> ''abc'']", OF surjective_pairing p]
      ok bad io by auto
qed

section \<open>What a search finds\<close>

text \<open>The reference: all matching lines of a tree, in the order of the walk, without any limit.\<close>

definition file_matches :: "string \<Rightarrow> string \<Rightarrow> string option \<Rightarrow> string list" where
  "file_matches path pattern content =
     (case content of
        None \<Rightarrow> []
      | Some c \<Rightarrow> if looks_binary c \<or> \<not> valid_utf8 c then []
          else [match_line path i l. (i, l) \<leftarrow> enumerate 0 (str_lines c), contains l pattern])"

function tree_matches :: "string \<Rightarrow> string \<Rightarrow> string option \<Rightarrow> (string \<times> fs_tree) list \<Rightarrow> string list" where
  "tree_matches dir pattern fp [] = []"
| "tree_matches dir pattern fp ((name, t) # es) =
     (if name = ''.git'' then []
      else (case t of
          TDir (Some sub) \<Rightarrow> tree_matches (path_join dir name) pattern fp (sort_key fst sub)
        | TFile content \<Rightarrow> if wanted fp (path_join dir name)
            then file_matches (path_join dir name) pattern content else []
        | _ \<Rightarrow> [])) @ tree_matches dir pattern fp es"
  by pat_completeness auto

termination
  by (relation "measure (\<lambda>(dir, pattern, fp, es). tree_size es)")
    (auto simp: size_prod_simp less_Suc_eq_le intro: le_trans [OF tree_size_le] le_SucI)

text \<open>The state of the walk after some matches have been seen.\<close>

definition walked :: "string list \<Rightarrow> string list \<times> bool" where
  "walked ms = (take MAX_MATCHES ms, length ms \<ge> MAX_MATCHES)"

lemma search_lines_stopped: "search_lines path pattern i ls (ms, True) = (ms, True)"
  by (cases ls) simp_all

lemma walked_full: "snd (walked ms) \<Longrightarrow> walked (ms @ xs) = walked ms"
  by (simp add: walked_def)

lemma search_lines_walked:
  "search_lines path pattern i ls (walked ms) =
     walked (ms @ [match_line path j l. (j, l) \<leftarrow> enumerate i ls, contains l pattern])"
proof (induction ls arbitrary: i ms)
  case (Cons l ls)
  show ?case
  proof (cases "snd (walked ms)")
    case True
    then have "walked ms = (take MAX_MATCHES ms, True)" by (simp add: walked_def)
    then show ?thesis using search_lines_stopped walked_full [OF True] by simp
  next
    case False
    then have st: "walked ms = (ms, False)" by (auto simp: walked_def)
    have nxt: "(ms @ [x], length (ms @ [x]) \<ge> MAX_MATCHES) = walked (ms @ [x])" for x
      using False by (auto simp: walked_def)
    show ?thesis
    proof (cases "contains l pattern")
      case True
      have "search_lines path pattern i (l # ls) (walked ms)
          = search_lines path pattern (Suc i) ls (walked (ms @ [match_line path i l]))"
        using True False st nxt [of "match_line path i l"] search_lines_stopped
        by (auto simp: Let_def simp flip: nxt)
      then show ?thesis using Cons True by simp
    next
      case False
      have "search_lines path pattern i (l # ls) (walked ms) = search_lines path pattern (Suc i) ls (walked ms)"
        using False st by simp
      then show ?thesis using Cons False by simp
    qed
  qed
qed simp

lemma search_file_walked: "search_file path pattern content (walked ms) = walked (ms @ file_matches path pattern content)"
  by (simp add: search_file_def file_matches_def search_lines_walked split: option.split)

lemma search_entries_walked:
  "search_entries dir pattern fp es (walked ms) = walked (ms @ tree_matches dir pattern fp es)"
proof (induction dir pattern fp es arbitrary: ms rule: tree_matches.induct)
  case (2 dir pattern fp name t es)
  show ?case
  proof (cases "snd (walked ms)")
    case True
    then show ?thesis using walked_full [OF True] by simp
  next
    case False
    then show ?thesis using 2 by (auto simp: search_file_walked split: fs_tree.split option.split)
  qed
qed simp

lemma show_limits: "show_nat (Suc 0) = ''1''" "show_nat 100 = ''100''" "show_nat 1000 = ''1000''"
  by code_simp+

definition matches_notice :: string where
  "matches_notice = blank_line @ ''[truncated at 100 matches]''"

text \<open>A search. The walk that stops at the limit returns exactly the first 100 lines of the unlimited
  list of matches, in the order of the paths; it reports a truncation exactly when there are at
  least 100, so also when nothing was left out.\<close>
theorem search_first_matches:
  assumes "in_str ''path'' input = Some start" "in_str ''pattern'' input = Some pattern"
    and "ms = (case read_dir start of None \<Rightarrow> [] | Some es \<Rightarrow>
      tree_matches start pattern (in_str ''file_pattern'' input) (sort_key fst es))"
  shows "search_files read_dir input = ToolResult_success
    (if ms = [] then ''No matches found.''
     else join [newline] (take 100 ms) @ (if length ms \<ge> 100 then matches_notice else []))"
proof -
  have "search_dir start pattern (in_str ''file_pattern'' input) (read_dir start) = walked ms"
    using search_entries_walked [of start pattern "in_str ''file_pattern'' input" _ "[]"] assms(3)
    by (simp add: search_dir_def walked_def MAX_MATCHES_def split: option.split)
  moreover have "take 100 ms = [] \<longleftrightarrow> ms = []" by simp
  ultimately show ?thesis
    using assms(1,2) by (simp add: search_files_def walked_def MAX_MATCHES_def matches_notice_def show_limits)
qed

definition sample_tree :: "(string \<times> fs_tree) list" where
  "sample_tree = [(''b'', TFile (Some ''no'')), (''a'', TDir (Some [(''c'', TFile (Some ''xhix''))])),
     (''.git'', TDir (Some [(''d'', TFile (Some ''hi''))]))]"

definition sample_search :: json where
  "sample_search = JObj [(''path'', JStr ''r''), (''pattern'', JStr ''hi'')]"

theorem search_first_matches_witness:
  "search_files (\<lambda>_. Some sample_tree) sample_search = ToolResult_success ''r/a/c:1: xhix''"
proof -
  have p: "in_str ''path'' sample_search = Some ''r''" "in_str ''pattern'' sample_search = Some ''hi''"
    by (simp_all add: in_str_def sample_search_def)
  have "tree_matches ''r'' ''hi'' (in_str ''file_pattern'' sample_search) (sort_key fst sample_tree) = [''r/a/c:1: xhix'']"
    by (simp add: sample_tree_def in_str_def sample_search_def path_join_def wanted_def file_matches_def
        looks_binary_def valid_utf8_def utf8_width_def is_cont_def str_lines_def contains_def starts_with_def
        match_line_def Let_def show_limits)
  then show ?thesis using search_first_matches [OF p refl, of "\<lambda>_. Some sample_tree"] by simp
qed

section \<open>What a listing shows\<close>

lemma list_loop_eq:
  "length ls \<le> MAX_ENTRIES \<Longrightarrow> list_loop es ls =
     (take MAX_ENTRIES (ls @ map entry_line (List.map_filter (\<lambda>e. e) es)),
      es \<noteq> [] \<and> length ls + length (List.map_filter (\<lambda>e. e) (butlast es)) \<ge> MAX_ENTRIES)"
proof (induction es arbitrary: ls)
  case (Cons e es)
  show ?case
  proof (cases "length ls \<ge> MAX_ENTRIES")
    case True
    then show ?thesis using Cons.prems by simp
  next
    case False
    then have "length (ls @ [x]) \<le> MAX_ENTRIES" for x by simp
    then show ?thesis using Cons False
      by (cases e; cases "es = []") (simp_all add: map_filter_simps take_Cons' Suc_le_eq diff_Suc)
  qed
qed (simp add: map_filter_simps)

text \<open>A listing is the sorted list of the first 1000 readable entries, in the order the system returns
  them; it reports a truncation exactly when something follows the thousandth.\<close>

lemma list_files_exact:
  assumes "in_str ''path'' input = Some path" "read_dir path = Inr es"
  shows "\<exists>ls. mset ls = mset (map entry_line (take 1000 (List.map_filter (\<lambda>e. e) es))) \<and> sorted ls
    \<and> list_files read_dir input = ToolResult_success (join [newline] ls @
        (if es \<noteq> [] \<and> length (List.map_filter (\<lambda>e. e) (butlast es)) \<ge> 1000
         then blank_line @ ''[truncated at 1000 entries]'' else []))"
  using assms list_loop_eq [of "[]" es]
  by (intro exI [of _ "sort (map entry_line (take 1000 (List.map_filter (\<lambda>e. e) es)))"])
    (simp add: list_files_def MAX_ENTRIES_def take_map show_limits)

section \<open>What a read returns\<close>

text \<open>A read panics exactly when the selected text is longer than the limit and the limit falls inside a
  character.\<close>

lemma read_file_panics:
  assumes "in_str ''path'' input = Some path" "read_to_string F fs path = Inr content"
    and "w = read_window (map_option (\<lambda>v. v - 1) (in_u64 ''offset'' input)) (in_u64 ''limit'' input) content"
  shows "read_file F input fs = Panic \<longleftrightarrow> length w > 30000 \<and> \<not> is_char_boundary w 30000"
    and "length w \<le> 30000 \<Longrightarrow> read_file F input fs = Ret (ToolResult_success w)"
  using assms by (auto simp: read_file_def MAX_OUTPUT_CHARS_def slice_to_def Let_def)

end
