(* ===== verification/AgentTools.thy ===== *)
theory AgentTools
  imports FileTools
begin

text \<open>
  The agent's tools that use the gateway's services (\<open>crates/skynet-agent/src/tools/execute_command.rs\<close>,
  \<open>bash_session.rs\<close>, \<open>reminder.rs\<close>, \<open>knowledge.rs\<close>), the script plugins (\<open>script_tool.rs\<close>).

  A tool that takes a lock whose holder may panic returns an \<open>outcome\<close>. What the reader thread of the
  shell's terminal delivers between two steps of the \<open>bash\<close> tool is an argument.
\<close>

section \<open>execute\_command\<close>

definition show_int :: "int \<Rightarrow> string" where
  "show_int i = (if i < 0 then ''-'' @ show_nat (nat (- i)) else show_nat (nat i))"

definition command_output :: "exec_result \<Rightarrow> string" where
  "command_output r =
     (let out1 = stdout r;
          out2 = (if stderr r = [] then out1
            else out1 @ (if out1 = [] then [] else [newline]) @ ''[stderr]'' @ [newline] @ stderr r);
          out3 = (if exit_code r = 0 then out2 else out2 @ [newline] @ ''[exit code: '' @ show_int (exit_code r) @ '']'')
      in if out3 = [] then ''(no output)'' else out3)"

definition execute_command :: "call_env \<Rightarrow> json \<Rightarrow> exec_effect list \<times> tool_result" where
  "execute_command E input =
     (case in_str ''command'' input of
        None \<Rightarrow> ([], missing_param ''command'')
      | Some command \<Rightarrow>
          (case exec (ce_ulow E) (ce_strip E) (ce_child E) command default_exec_options of
             (effects, Inr r) \<Rightarrow> (effects, ToolResult_success (command_output r))
           | (effects, Inl e) \<Rightarrow> (effects, ToolResult_error (terminal_error_display e))))"

section \<open>knowledge\_search and knowledge\_write\<close>

definition not_blank :: "string option \<Rightarrow> string option" where
  "not_blank s = (case s of Some t \<Rightarrow> if trim t \<noteq> [] then Some t else None | None \<Rightarrow> None)"

definition entry_separator :: string where
  "entry_separator = [newline, newline] @ ''---'' @ [newline, newline]"

definition entry_text :: "knowledge_entry \<Rightarrow> string" where
  "entry_text e = ''### '' @ ke_topic e @ [newline]
     @ (if ke_tags e = [] then [] else ''tags: '' @ ke_tags e @ [newline]) @ ke_content e @ entry_separator"

text \<open>\<open>trim_end_matches\<close> removes a suffix as often as it occurs.\<close>

function trim_end_matches :: "string \<Rightarrow> string \<Rightarrow> string" where
  "trim_end_matches suf s =
     (if suf \<noteq> [] \<and> ends_with s suf then trim_end_matches suf (take (length s - length suf) s) else s)"
  by pat_completeness auto

termination
proof (relation "measure (length \<circ> snd)")
  fix suf s :: string
  assume "suf \<noteq> [] \<and> ends_with s suf"
  then show "((suf, take (length s - length suf) s), suf, s) \<in> measure (length \<circ> snd)"
    by (cases suf) (auto simp: ends_with_def)
qed simp

declare trim_end_matches.simps [simp del]

definition knowledge_search_tool :: "call_env \<Rightarrow> json \<Rightarrow> memory_manager \<Rightarrow> tool_result" where
  "knowledge_search_tool E input m =
     (case not_blank (in_str ''query'' input) of
        None \<Rightarrow> missing_param ''query''
      | Some query \<Rightarrow>
          (case knowledge_search (ce_fts E) (mm_db m) query 5 of
             Inr entries \<Rightarrow>
               (if entries = [] then ToolResult_success (''No knowledge entries found for: '' @ query)
                else ToolResult_success (trim_end_matches entry_separator (''Found '' @ show_nat (length entries)
                  @ '' knowledge entry/entries:'' @ blank_line @ concat (map entry_text entries))))
           | Inl e \<Rightarrow> ToolResult_error (''knowledge_search failed: '' @ memory_error_display (ce_sql E) e)))"

definition knowledge_write_tool :: "call_env \<Rightarrow> json \<Rightarrow> memory_manager \<Rightarrow> memory_manager \<times> tool_result" where
  "knowledge_write_tool E input m =
     (case map_option trim (not_blank (in_str ''topic'' input)) of
        None \<Rightarrow> (m, missing_param ''topic'')
      | Some topic \<Rightarrow>
     (case map_option trim (not_blank (in_str ''content'' input)) of
        None \<Rightarrow> (m, missing_param ''content'')
      | Some content \<Rightarrow>
          (m\<lparr>mm_db := knowledge_write (ce_now_str E) (mm_db m) topic content
               (case in_str ''tags'' input of Some t \<Rightarrow> t | None \<Rightarrow> [])\<rparr>,
           ToolResult_success (''Knowledge saved: '' @ topic))))"

section \<open>reminder\<close>

record reminder_action =
  ra_channel :: string
  ra_channel_id :: "nat option"
  ra_message :: string
  ra_image_url :: "string option"
  ra_bash_command :: "string option"

text \<open>\<open>str::parse\<close> of an unsigned integer below a bound.\<close>

definition is_digit :: "char \<Rightarrow> bool" where
  "is_digit c \<longleftrightarrow> 48 \<le> (of_char c :: nat) \<and> (of_char c :: nat) < 58"

definition parse_unsigned :: "nat \<Rightarrow> string \<Rightarrow> nat option" where
  "parse_unsigned bound s =
     (let d = (case s of c # cs \<Rightarrow> if c = CHR ''+'' then cs else s | [] \<Rightarrow> []) in
      if d \<noteq> [] \<and> list_all is_digit d \<and> read_nat d < bound then Some (read_nat d) else None)"

text \<open>\<open>splitn(2, c)\<close>: the part before the first separator and the part after it, empty if there is none.\<close>

definition split2 :: "char \<Rightarrow> string \<Rightarrow> string \<times> string" where
  "split2 x s = (takeWhile (\<lambda>c. c \<noteq> x) s, drop 1 (dropWhile (\<lambda>c. c \<noteq> x) s))"

definition pad2 :: "nat \<Rightarrow> string" where
  "pad2 n = (if n < 10 then ''0'' @ show_nat n else show_nat n)"

definition daily_error :: "string \<Rightarrow> string" where
  "daily_error m = ''daily|HH:MM '' @ em_dash @ '' '' @ m"

definition parse_recurring :: "string \<Rightarrow> string + schedule" where
  "parse_recurring s =
     (let (kind, rest) = split2 CHR ''|'' s in
      if kind = ''daily'' then
        (let (h, m) = split2 CHR '':'' rest in
         case parse_unsigned 256 h of
           None \<Rightarrow> Inl (daily_error ''invalid hour'')
         | Some hour \<Rightarrow>
        (case parse_unsigned 256 m of
           None \<Rightarrow> Inl (daily_error ''invalid minute'')
         | Some minute \<Rightarrow>
             (if hour > 23 \<or> minute > 59 then
                Inl (daily_error (''time '' @ pad2 hour @ '':'' @ pad2 minute @ '' is out of range''))
              else Inr (Daily hour minute))))
      else if kind = ''interval'' then
        (case parse_unsigned u64_size rest of
           None \<Rightarrow> Inl (''interval|N '' @ em_dash @ '' N must be a positive integer'')
         | Some secs \<Rightarrow>
             (if secs = 0 then Inl (''interval|N '' @ em_dash @ '' N must be greater than 0'')
              else Inr (Interval secs)))
      else Inl (''unknown recurring type '' @ quoted kind @ '': use '' @ quoted ''daily|HH:MM'' @ '' or ''
        @ quoted ''interval|N''))"

text \<open>The tool's own fields and the readers it uses: \<open>rt_time\<close> is \<open>DateTime::parse_from_rfc3339\<close>,
  \<open>rt_text\<close> serde's text of an action.\<close>

record reminder_tool =
  rt_channel_name :: string
  rt_channel_id :: "nat option"
  rt_time :: "string \<Rightarrow> string + int"
  rt_text :: "reminder_action \<Rightarrow> string"

fun as_i64_json :: "json \<Rightarrow> int option" where
  "as_i64_json (JInt i) = (if - 9223372036854775808 \<le> i \<and> i \<le> 9223372036854775807 then Some i else None)"
| "as_i64_json _ = None"

definition reminder_schedule :: "call_env \<Rightarrow> reminder_tool \<Rightarrow> json \<Rightarrow> (string + schedule) outcome" where
  "reminder_schedule E T input =
     (case in_str ''recurring'' input of
        Some recurring \<Rightarrow> Ret (parse_recurring recurring)
      | None \<Rightarrow>
     (case in_str ''fire_at'' input of
        Some fire_at \<Rightarrow> Ret (case rt_time T fire_at of
            Inr t \<Rightarrow> Inr (Once t)
          | Inl e \<Rightarrow> Inl (''invalid fire_at datetime: '' @ e))
      | None \<Rightarrow>
     (case Option.bind (jget ''fire_in_seconds'' input) as_i64_json of
        Some secs \<Rightarrow>
          (if secs \<le> 0 then Ret (Inl ''fire_in_seconds must be a positive integer'')
           else bind_outcome (duration_seconds secs) (\<lambda>d.
             bind_outcome (dt_add (cal (ce_sched E)) (ce_now E) d) (\<lambda>t. Ret (Inr (Once t)))))
      | None \<Rightarrow> Ret (Inl (''one of '' @ quoted ''fire_at'' @ '', '' @ quoted ''fire_in_seconds'' @ '', or ''
          @ quoted ''recurring'' @ '' is required for add'')))))"

text \<open>The tools that use the scheduler's connection: the rows, whether its mutex is poisoned.\<close>

type_synonym sched_state = "job_row list \<times> bool"

definition scheduled_text :: "job \<Rightarrow> string \<Rightarrow> string" where
  "scheduled_text j msg = ''Reminder scheduled!'' @ [newline] @ ''- Job ID: '' @ j_id j @ [newline]
     @ ''- Message: '' @ msg @ [newline] @ ''- Fires at: ''
     @ (case j_next_run j of Some t \<Rightarrow> t | None \<Rightarrow> ''unknown'')"

definition add_reminder :: "call_env \<Rightarrow> reminder_tool \<Rightarrow> json \<Rightarrow> sched_state \<Rightarrow> sched_state \<times> tool_result outcome" where
  "add_reminder E T input st =
     (case non_empty (in_str ''message'' input) of
        None \<Rightarrow> (st, Ret (ToolResult_error (quoted ''message'' @ '' is required for the add action'')))
      | Some msg \<Rightarrow>
     (case reminder_schedule E T input of
        Panic \<Rightarrow> (st, Panic)
      | Ret (Inl e) \<Rightarrow> (st, Ret (ToolResult_error e))
      | Ret (Inr s) \<Rightarrow>
          (let act = \<lparr> ra_channel = rt_channel_name T, ra_channel_id = rt_channel_id T, ra_message = msg,
                 ra_image_url = in_str ''image_url'' input, ra_bash_command = in_str ''bash_command'' input \<rparr>
           in if snd st then (st, Panic)
              else (case handle_add_job (ce_sched E) (ce_id E) (ce_now E) (fst st) ''reminder'' s (rt_text T act) of
                  Panic \<Rightarrow> ((fst st, True), Panic)
                | Ret (js, Inr j) \<Rightarrow> ((js, False), Ret (ToolResult_success (scheduled_text j msg)))
                | Ret (js, Inl e) \<Rightarrow> ((js, False), Ret (ToolResult_error (''failed to schedule reminder: ''
                    @ scheduler_error_display (ce_sql E) e)))))))"

definition job_line :: "job \<Rightarrow> string" where
  "job_line j = ''- ID: '' @ j_id j @ '' | Name: '' @ j_name j @ '' | Next: ''
     @ (case j_next_run j of Some t \<Rightarrow> t | None \<Rightarrow> ''N/A'') @ '' | Runs: '' @ show_nat (j_run_count j)
     @ '' | Status: '' @ status_to_string (j_status j) @ [newline]"

definition list_reminders :: "call_env \<Rightarrow> sched_state \<Rightarrow> sched_state \<times> tool_result outcome" where
  "list_reminders E st =
     (if snd st then (st, Panic)
      else (let js = list_jobs (ce_sched E) (fst st) in
        (st, Ret (ToolResult_success (if js = [] then ''No reminders scheduled.''
          else ''Scheduled reminders ('' @ show_nat (length js) @ ''):'' @ [newline] @ concat (map job_line js))))))"

definition remove_reminder :: "call_env \<Rightarrow> json \<Rightarrow> sched_state \<Rightarrow> sched_state \<times> tool_result outcome" where
  "remove_reminder E input st =
     (case non_empty (in_str ''job_id'' input) of
        None \<Rightarrow> (st, Ret (ToolResult_error (quoted ''job_id'' @ '' is required for the remove action'')))
      | Some jid \<Rightarrow>
          (if snd st then (st, Panic)
           else (case remove_job (fst st) jid of
               (js, Inr _) \<Rightarrow> ((js, False), Ret (ToolResult_success (''Reminder '' @ quoted jid @ '' removed.'')))
             | (js, Inl e) \<Rightarrow> ((js, False), Ret (ToolResult_error (''failed to remove reminder: ''
                 @ scheduler_error_display (ce_sql E) e))))))"

definition reminder_execute :: "call_env \<Rightarrow> reminder_tool \<Rightarrow> json \<Rightarrow> sched_state \<Rightarrow> sched_state \<times> tool_result outcome" where
  "reminder_execute E T input st =
     (case in_str ''action'' input of
        None \<Rightarrow> (st, Ret (ToolResult_error (''missing required field '' @ quoted ''action'')))
      | Some action \<Rightarrow>
          (if action = ''add'' then add_reminder E T input st
           else if action = ''list'' then list_reminders E st
           else if action = ''remove'' then remove_reminder E input st
           else (st, Ret (ToolResult_error (''unknown action '' @ quoted action @ '': must be '' @ quoted ''add''
             @ '', '' @ quoted ''list'' @ '', or '' @ quoted ''remove'')))))"

section \<open>bash\<close>

text \<open>The check of a script: every line that is not blank and not a comment, up to the first refused.\<close>

fun check_lines :: "(string \<Rightarrow> string) \<Rightarrow> string list \<Rightarrow> string + unit" where
  "check_lines ulow [] = Inr ()"
| "check_lines ulow (l # ls) =
     (let trimmed = trim l in
      if trimmed = [] \<or> starts_with trimmed ''#'' then check_lines ulow ls
      else (case check_command ulow trimmed of
          Inl reason \<Rightarrow> Inl reason
        | Inr _ \<Rightarrow> check_lines ulow ls))"

record bash_session =
  bs_id :: string
  bs_startup :: "string option"

text \<open>
  What a call meets: the terminal opened for a new session, the write errors, what the reader thread
  delivers before each read, and the later polls until the deadline has passed.
\<close>

record bash_env =
  be_sid :: string
  be_opened :: pty_faults
  be_started :: "reader_event list"
  be_setup_error :: "string option"
  be_echoed :: "reader_event list"
  be_stale :: "reader_event list"
  be_send_error :: "string option"
  be_first :: "reader_event list"
  be_later :: "reader_event list list"
  be_sentinel :: string
  be_lock_free :: bool

definition arrive :: "string \<Rightarrow> reader_event list \<Rightarrow> terminal_manager \<Rightarrow> terminal_manager" where
  "arrive sid es m = foldl (\<lambda>m e. term_step (\<lambda>s. s) (\<lambda>s. s) m (TReader sid e)) m es"

definition read_or_empty :: "terminal_error + string \<Rightarrow> string" where
  "read_or_empty r = (case r of Inr s \<Rightarrow> s | Inl _ \<Rightarrow> [])"

definition cleaned :: "string \<Rightarrow> string" where
  "cleaned s = trim (filter (\<lambda>c. c \<noteq> CHR 0x0D) s)"

definition setup_line :: string where
  "setup_line = ''stty -echo; export PS1='' @ [apostrophe, apostrophe] @ ''; export PS2=''
     @ [apostrophe, apostrophe] @ ''; export PS3='' @ [apostrophe, apostrophe] @ [newline]"

text \<open>The state of the tool: the remembered session, the terminals, and what was written to them.\<close>

record bash_state =
  bh_session :: "bash_session option"
  bh_terminal :: terminal_manager
  bh_written :: "(string \<times> string) list"

definition is_live :: "bash_state \<Rightarrow> string \<Rightarrow> bool" where
  "is_live st sid \<longleftrightarrow> (\<exists>(i, sh, dir, t, up) \<in> set (session_list (bh_terminal st)). i = sid \<and> up)"

text \<open>What the reader delivered arrives, then the session is read.\<close>

definition arrive_read :: "string \<Rightarrow> reader_event list \<Rightarrow> bash_state \<Rightarrow> bash_state \<times> (terminal_error + string) outcome" where
  "arrive_read sid es st =
     (let m = arrive sid es (bh_terminal st) in
      case term_read m sid of
        Panic \<Rightarrow> (st\<lparr>bh_terminal := m\<rparr>, Panic)
      | Ret (m', r) \<Rightarrow> (st\<lparr>bh_terminal := m'\<rparr>, Ret r))"

text \<open>A write that succeeds is recorded.\<close>

definition write_line :: "string option \<Rightarrow> string \<Rightarrow> string \<Rightarrow> bash_state \<Rightarrow> bash_state \<times> (terminal_error + unit)" where
  "write_line io_error sid s st =
     (case term_write io_error (bh_terminal st) sid s of
        Inl e \<Rightarrow> (st, Inl e)
      | Inr _ \<Rightarrow> (st\<lparr>bh_written := bh_written st @ [(sid, s)]\<rparr>, Inr ()))"

definition open_session :: "call_env \<Rightarrow> bash_env \<Rightarrow> bash_state \<Rightarrow> bash_state \<times> (string + string) outcome" where
  "open_session E B st =
     (case create_session (ce_env_shell E) (ce_env_dir E) (be_sid B) (be_opened B) (bh_terminal st) (Some ''bash'') None of
        (m1, Inl e) \<Rightarrow> (st\<lparr>bh_terminal := m1\<rparr>, Ret (Inl (terminal_error_display e)))
      | (m1, Inr sid) \<Rightarrow>
          and_then (arrive_read sid (be_started B) (st\<lparr>bh_terminal := m1\<rparr>)) (\<lambda>st2 r.
            let info = cleaned (read_or_empty r) in
            (case write_line (be_setup_error B) sid setup_line st2 of
               (st3, Inl e) \<Rightarrow> (st3, Ret (Inl (terminal_error_display e)))
             | (st3, Inr _) \<Rightarrow>
                 and_then (arrive_read sid (be_echoed B) st3) (\<lambda>st4 r'.
                   (st4\<lparr>bh_session := Some \<lparr> bs_id = sid, bs_startup = (if info = [] then None else Some info) \<rparr>\<rparr>,
                    Ret (Inr sid))))))"

definition ensure_session :: "call_env \<Rightarrow> bash_env \<Rightarrow> bash_state \<Rightarrow> bash_state \<times> (string + string) outcome" where
  "ensure_session E B st =
     (case bh_session st of
        Some s \<Rightarrow> if is_live st (bs_id s) then (st, Ret (Inr (bs_id s))) else open_session E B st
      | None \<Rightarrow> open_session E B st)"

definition timeout_error :: "string \<Rightarrow> string" where
  "timeout_error command = ''command timed out after 60s: '' @ concat (take 80 (chars command))"

text \<open>The polling loop: the reads are appended until they contain the sentinel.\<close>

fun poll ::
    "string \<Rightarrow> string \<Rightarrow> string \<Rightarrow> reader_event list \<Rightarrow> reader_event list list \<Rightarrow> string \<Rightarrow> bash_state
      \<Rightarrow> bash_state \<times> (string + string) outcome" where
  "poll sentinel command sid now later buf st =
     and_then (arrive_read sid now st) (\<lambda>st' r.
       case r of
         Inl e \<Rightarrow> (st', Ret (Inl (terminal_error_display e)))
       | Inr chunk \<Rightarrow>
           (case find_sub sentinel (buf @ chunk) of
              Some pos \<Rightarrow> (st', Ret (Inr (take pos (buf @ chunk))))
            | None \<Rightarrow>
                (case later of
                   [] \<Rightarrow> (st', Ret (Inl (timeout_error command)))
                 | es # ess \<Rightarrow> poll sentinel command sid es ess (buf @ chunk) st')))"

declare poll.simps [simp del]

definition startup_prefix :: "string option \<Rightarrow> string" where
  "startup_prefix info = (case info of
     None \<Rightarrow> []
   | Some s \<Rightarrow> ''[session started]'' @ [newline] @ s @ [newline] @ ''[/session started]'' @ blank_line)"

definition payload_of :: "string \<Rightarrow> string \<Rightarrow> string" where
  "payload_of command sentinel = command @ [newline] @ ''echo '' @ [CHR 0x22] @ sentinel @ [CHR 0x22, newline]"

definition bash_run :: "bash_env \<Rightarrow> string \<Rightarrow> string \<Rightarrow> bash_state \<Rightarrow> bash_state \<times> (string + string) outcome" where
  "bash_run B sid command st =
     (let prefix = startup_prefix (Option.bind (bh_session st) bs_startup);
          st1 = st\<lparr>bh_session := map_option (\<lambda>s. s\<lparr>bs_startup := None\<rparr>) (bh_session st)\<rparr>
      in and_then (arrive_read sid (be_stale B) st1) (\<lambda>st2 _.
        case write_line (be_send_error B) sid (payload_of command (be_sentinel B)) st2 of
          (st3, Inl e) \<Rightarrow> (st3, Ret (Inl (terminal_error_display e)))
        | (st3, Inr _) \<Rightarrow>
            and_then (poll (be_sentinel B) command sid (be_first B) (be_later B) [] st3) (\<lambda>st4 r.
              (st4, Ret (case r of
                  Inl e \<Rightarrow> Inl e
                | Inr buf \<Rightarrow> Inr (prefix @ (if cleaned buf = [] then ''(no output)'' else cleaned buf)))))))"

definition bash_execute :: "call_env \<Rightarrow> bash_env \<Rightarrow> json \<Rightarrow> bash_state \<Rightarrow> bash_state \<times> tool_result outcome" where
  "bash_execute E B input st =
     (case not_blank (in_str ''command'' input) of
        None \<Rightarrow> (st, Ret (missing_param ''command''))
      | Some command \<Rightarrow>
          (case check_lines (ce_ulow E) (str_lines command) of
             Inl reason \<Rightarrow> (st, Ret (ToolResult_error (''blocked: '' @ reason)))
           | Inr _ \<Rightarrow>
               and_then (ensure_session E B st) (\<lambda>st1 r.
                 case r of
                   Inl e \<Rightarrow> (st1, Ret (ToolResult_error (''shell session error: '' @ e)))
                 | Inr sid \<Rightarrow>
                     and_then (bash_run B sid command st1) (\<lambda>st2 r'.
                       case r' of
                         Inr out \<Rightarrow> (st2, Ret (ToolResult_success out))
                       | Inl e \<Rightarrow> (if be_lock_free B then st2\<lparr>bh_session := None\<rparr> else st2,
                           Ret (ToolResult_error e))))))"

section \<open>Script plugins\<close>

record param_def =
  pd_name :: string
  pd_type :: string
  pd_description :: string
  pd_required :: bool
  pd_default :: "json option"

record tool_manifest =
  tm_name :: string
  tm_description :: string
  tm_command :: string
  tm_script :: string
  tm_timeout :: nat
  tm_params :: "param_def list"

definition default_timeout :: nat where "default_timeout = 30"

definition param_schema :: "param_def \<Rightarrow> json" where
  "param_schema p = JObj ([(''type'', JStr (pd_type p)), (''description'', JStr (pd_description p))]
     @ (case pd_default p of Some d \<Rightarrow> [(''default'', d)] | None \<Rightarrow> []))"

text \<open>A later parameter of the same name replaces the earlier one.\<close>

definition build_schema :: "tool_manifest \<Rightarrow> json" where
  "build_schema M = JObj [(''type'', JStr ''object''),
     (''properties'', JObj (foldl (\<lambda>ps p. AList.update (pd_name p) (param_schema p) ps) [] (tm_params M))),
     (''required'', JArr (map (\<lambda>p. JStr (pd_name p)) (filter pd_required (tm_params M))))]"

text \<open>How the plugin's process ends: the deadline, a failure to launch, or its exit code (none if it was
  killed by a signal) with both streams.\<close>

datatype plugin_end = PluginTimedOut | PluginNotLaunched string | PluginExited "int option" string string

definition plugin_failure :: "int option \<Rightarrow> string \<Rightarrow> string \<Rightarrow> string" where
  "plugin_failure status out err =
     (let msg = (if err = [] then out
        else out @ (if out = [] then [] else [newline]) @ ''[stderr]: '' @ err)
      in msg @ [newline] @ ''[exit: '' @ show_int (case status of Some c \<Rightarrow> c | None \<Rightarrow> -1) @ '']'')"

definition script_execute :: "tool_manifest \<Rightarrow> plugin_end \<Rightarrow> tool_result" where
  "script_execute M ending =
     (case ending of
        PluginTimedOut \<Rightarrow> ToolResult_error (''plugin '' @ quoted (tm_name M) @ '' timed out after ''
          @ show_nat (tm_timeout M) @ ''s'')
      | PluginNotLaunched e \<Rightarrow> ToolResult_error (''failed to launch plugin '' @ quoted (tm_name M) @ '': '' @ e)
      | PluginExited status out_raw err_raw \<Rightarrow>
          (let out = trim out_raw; err = trim err_raw in
           if status = Some 0 then ToolResult_success (if out = [] then ''(no output)'' else out)
           else ToolResult_error (plugin_failure status out err)))"

text \<open>A directory entry: whether it is a directory, and the text of its manifest if it has one;
  \<open>manifest_of\<close> reads TOML.\<close>

definition script_load :: "(string \<Rightarrow> tool_manifest option) \<Rightarrow> string + string \<Rightarrow> tool_manifest option" where
  "script_load manifest_of content = (case content of Inl e \<Rightarrow> None | Inr text_of \<Rightarrow> manifest_of text_of)"

definition load_script_tools ::
    "(string \<Rightarrow> tool_manifest option) \<Rightarrow> (string \<times> bool \<times> (string + string) option) list option \<Rightarrow> (string \<times> tool_manifest) list" where
  "load_script_tools manifest_of read_dir =
     (case read_dir of
        None \<Rightarrow> []
      | Some es \<Rightarrow> List.map_filter (\<lambda>(dir, is_dir, manifest).
          if \<not> is_dir then None
          else (case manifest of
              Some content \<Rightarrow> map_option (\<lambda>M. (dir, M)) (script_load manifest_of content)
            | None \<Rightarrow> None)) es)"

section \<open>Only checked commands reach the shell\<close>

definition line_passes :: "(string \<Rightarrow> string) \<Rightarrow> string \<Rightarrow> bool" where
  "line_passes ulow l \<longleftrightarrow> trim l = [] \<or> starts_with (trim l) ''#'' \<or> check_command ulow (trim l) = Inr ()"

lemma check_lines_ok: "check_lines ulow ls = Inr () \<longleftrightarrow> list_all (line_passes ulow) ls"
  by (induction ls) (auto simp: line_passes_def Let_def split: sum.split)

text \<open>A sequence of calls, also after one that panicked: the next turn of the agent meets the same
  terminals.\<close>

type_synonym bash_call = "call_env \<times> bash_env \<times> json"

fun bash_calls :: "bash_call list \<Rightarrow> bash_state \<Rightarrow> bash_state" where
  "bash_calls [] st = st"
| "bash_calls ((E, B, input) # cs) st = bash_calls cs (fst (bash_execute E B input st))"

text \<open>What a call may write.\<close>

definition may_write :: "bash_call \<Rightarrow> string \<Rightarrow> bool" where
  "may_write c s = (case c of (E, B, input) \<Rightarrow> s = setup_line
     \<or> (\<exists>command. in_str ''command'' input = Some command \<and> s = payload_of command (be_sentinel B)
          \<and> list_all (line_passes (ce_ulow E)) (str_lines command)))"

text \<open>A step adds to what was written only texts of a set.\<close>

definition writes_only :: "(string \<Rightarrow> bool) \<Rightarrow> bash_state \<Rightarrow> bash_state \<Rightarrow> bool" where
  "writes_only P st st' \<longleftrightarrow> (\<exists>new. bh_written st' = bh_written st @ new \<and> list_all (P \<circ> snd) new)"

named_theorems writing

lemma writes_only_refl [writing]: "bh_written st' = bh_written st \<Longrightarrow> writes_only P st st'"
  by (simp add: writes_only_def)

lemma writes_only_trans: "writes_only P st st1 \<Longrightarrow> writes_only P st1 st2 \<Longrightarrow> writes_only P st st2"
  unfolding writes_only_def by (metis append_assoc list_all_append)

interpretation written: preserved "writes_only P"
  by unfold_locales (auto intro: writing writes_only_trans)

lemmas and_then_writes = written.and_then_kept

lemma arrive_read_writes [writing]: "writes_only P st (fst (arrive_read sid es st))"
  by (auto simp: arrive_read_def writes_only_def Let_def split: outcome.split)

lemma write_line_writes: "P s \<Longrightarrow> writes_only P st (fst (write_line e sid s st))"
  by (auto simp: write_line_def writes_only_def split: sum.split)

lemma poll_writes [writing]: "writes_only P st (fst (poll sen command sid es later buf st))"
proof (induction sen command sid es later buf st rule: poll.induct)
  case (1 sen command sid es later buf st)
  show ?case unfolding poll.simps [of sen command sid es later buf st]
    by (rule and_then_writes [OF arrive_read_writes]) (auto intro: writing 1 split: sum.split option.split list.split)
qed

lemma ensure_session_writes:
  assumes "P setup_line"
  shows "writes_only P st (fst (ensure_session E B st))"
proof -
  have "writes_only P st (fst (open_session E B st))"
  proof (cases "create_session (ce_env_shell E) (ce_env_dir E) (be_sid B) (be_opened B) (bh_terminal st) (Some ''bash'') None")
    case (Pair m1 r)
    show ?thesis
    proof (cases r)
      case (Inr sid)
      have inner: "writes_only P st2 (fst (case write_line (be_setup_error B) sid setup_line st2 of
          (st3, Inl e) \<Rightarrow> (st3, Ret (Inl (terminal_error_display e)))
        | (st3, Inr _) \<Rightarrow> and_then (arrive_read sid (be_echoed B) st3) (\<lambda>st4 r'. (g st4, Ret (Inr sid)))))"
        if "\<And>st. bh_written (g st) = bh_written st" for st2 and g :: "bash_state \<Rightarrow> bash_state"
        using write_line_writes [of P, OF assms, of st2 "be_setup_error B" sid] that
        by (cases "write_line (be_setup_error B) sid setup_line st2")
          (auto split: sum.split intro!: and_then_writes intro: writing writes_only_trans)
      have "writes_only P st (st\<lparr>bh_terminal := m1\<rparr>)" by (rule writing) simp
      then show ?thesis unfolding open_session_def Pair Inr using inner
        by (auto simp: Let_def intro!: and_then_writes intro: writing writes_only_trans)
    qed (simp add: open_session_def Pair writing)
  qed
  then show ?thesis by (auto simp: ensure_session_def writing split: option.split)
qed

lemma bash_run_writes:
  assumes "P (payload_of command (be_sentinel B))"
  shows "writes_only P st (fst (bash_run B sid command st))"
proof -
  let ?st1 = "st\<lparr>bh_session := map_option (\<lambda>s. s\<lparr>bs_startup := None\<rparr>) (bh_session st)\<rparr>"
  have inner: "writes_only P st2 (fst (case write_line (be_send_error B) sid (payload_of command (be_sentinel B)) st2 of
      (st3, Inl e) \<Rightarrow> (st3, Ret (Inl (terminal_error_display e)))
    | (st3, Inr _) \<Rightarrow> and_then (poll (be_sentinel B) command sid (be_first B) (be_later B) [] st3)
        (\<lambda>st4 r. (st4, Ret (h r)))))" for st2 and h :: "string + string \<Rightarrow> string + string"
    using write_line_writes [of P, OF assms, of st2 "be_send_error B" sid]
    by (cases "write_line (be_send_error B) sid (payload_of command (be_sentinel B)) st2")
      (auto split: sum.split intro!: and_then_writes intro: writing writes_only_trans)
  have "writes_only P st ?st1" by (rule writing) simp
  moreover have "writes_only P ?st1 (fst (bash_run B sid command st))"
    unfolding bash_run_def Let_def by (rule and_then_writes [OF arrive_read_writes inner])
  ultimately show ?thesis by (rule writes_only_trans)
qed

lemma bash_execute_writes: "writes_only (may_write (E, B, input)) st (fst (bash_execute E B input st))"
proof (cases "\<exists>command. not_blank (in_str ''command'' input) = Some command \<and> check_lines (ce_ulow E) (str_lines command) = Inr ()")
  case True
  then obtain command where c: "not_blank (in_str ''command'' input) = Some command"
    "check_lines (ce_ulow E) (str_lines command) = Inr ()" by blast
  then have "in_str ''command'' input = Some command" by (auto simp: not_blank_def split: option.splits if_splits)
  with c have pay: "may_write (E, B, input) (payload_of command (be_sentinel B))"
    by (auto simp: may_write_def check_lines_ok)
  have init: "may_write (E, B, input) setup_line" by (simp add: may_write_def)
  have "writes_only (may_write (E, B, input)) st1 (fst (case r of
      Inl e \<Rightarrow> (st1, Ret (ToolResult_error (''shell session error: '' @ e)))
    | Inr sid \<Rightarrow> and_then (bash_run B sid command st1) (\<lambda>st2 r'.
        case r' of
          Inr out \<Rightarrow> (st2, Ret (ToolResult_success out))
        | Inl e \<Rightarrow> (if be_lock_free B then st2\<lparr>bh_session := None\<rparr> else st2, Ret (ToolResult_error e)))))" for st1 r
  proof (cases r)
    case (Inr sid)
    have "writes_only (may_write (E, B, input)) st1 (fst (and_then (bash_run B sid command st1) (\<lambda>st2 r'.
        case r' of
          Inr out \<Rightarrow> (st2, Ret (ToolResult_success out))
        | Inl e \<Rightarrow> (if be_lock_free B then st2\<lparr>bh_session := None\<rparr> else st2, Ret (ToolResult_error e)))))"
      by (rule and_then_writes [OF bash_run_writes [of "may_write (E, B, input)", OF pay]])
        (auto intro: writing split: sum.split)
    then show ?thesis by (simp add: Inr)
  qed (simp add: writing)
  then show ?thesis unfolding bash_execute_def c option.case sum.case
    by (rule and_then_writes [OF ensure_session_writes [of "may_write (E, B, input)", OF init]])
next
  case False
  then have "fst (bash_execute E B input st) = st" by (auto simp: bash_execute_def split: option.split sum.split)
  then show ?thesis by (simp add: writing)
qed

text \<open>C20: The shell's gate. Over any calls of the \<open>bash\<close> tool, panicking ones included, and whatever the
  terminals do, everything written to a shell is the fixed set-up line or a call's command followed
  by the sentinel, and each line of such a command is blank, a comment, or passed by the safety
  checker.\<close>
theorem bash_only_checked:
  "\<exists>new. bh_written (bash_calls cs st) = bh_written st @ new
    \<and> (\<forall>(sid, s) \<in> set new. \<exists>c \<in> set cs. may_write c s)"
proof (induction cs st rule: bash_calls.induct)
  case (2 E B input cs st)
  then show ?case using bash_execute_writes [of E B input st]
    by (fastforce simp: writes_only_def list_all_iff)
qed simp

text \<open>The gate looks at single lines, the shell joins lines that end in a backslash.\<close>

definition split_rm :: string where
  "split_rm = ''rm -rf '' @ [CHR 0x5C, newline] @ ''/''"

lemma split_rm_passes:
  "check_lines (\<lambda>c. c) (str_lines split_rm) = Inr () \<and> check_command (\<lambda>c. c) ''rm -rf /'' \<noteq> Inr ()"
  by code_simp

definition sample_bash :: bash_env where
  "sample_bash = \<lparr> be_sid = ''s1'', be_opened = pty_works 1, be_started = [], be_setup_error = None, be_echoed = [],
     be_stale = [], be_send_error = None, be_first = [ReadText ''f'', ReadText ''DONE''], be_later = [],
     be_sentinel = ''DONE'', be_lock_free = True \<rparr>"

definition bash_ls :: "string \<Rightarrow> bash_call" where
  "bash_ls command = (sample_call, sample_bash, JObj [(''command'', JStr command)])"

definition bash_new :: bash_state where
  "bash_new = \<lparr> bh_session = None, bh_terminal = manager_new, bh_written = [] \<rparr>"

lemma sample_gate: "check_command (\<lambda>s. s) ''ls'' = Inr ()" "check_command (\<lambda>s. s) ''reboot'' \<noteq> Inr ()"
  by code_simp+

theorem bash_only_checked_witness:
  "bh_written (bash_calls [bash_ls ''ls'', bash_ls ''reboot''] bash_new)
     = [(''s1'', setup_line), (''s1'', payload_of ''ls'' ''DONE'')]
   \<and> may_write (bash_ls ''ls'') (payload_of ''ls'' ''DONE'')"
proof -
  let ?gate = "\<lambda>c. check_lines (\<lambda>s. s) (str_lines c)"
  have ulow: "ce_ulow sample_call = (\<lambda>s. s)" by (simp add: sample_call_def)
  have words: "trim ''ls'' = ''ls''" "trim ''reboot'' = ''reboot''" by (rule trim_id; simp)+
  have gate: "?gate ''ls'' = Inr ()" "?gate ''reboot'' \<noteq> Inr ()"
    using sample_gate words by (auto simp: str_lines_def strip_cr_def starts_with_def split: sum.split)
  have input: "in_str ''command'' (JObj [(''command'', JStr c)]) = Some c" for c by (simp add: in_str_def)
  have w1: "bh_written (fst (bash_execute sample_call sample_bash (JObj [(''command'', JStr ''ls'')]) bash_new))
      = [(''s1'', setup_line), (''s1'', payload_of ''ls'' ''DONE'')]"
    using gate(1) words(1)
    by (simp add: bash_execute_def input not_blank_def ulow ensure_session_def open_session_def bash_new_def
        create_session_def sample_bash_def manager_new_def arrive_def arrive_read_def write_line_def term_read_def
        get_session_def pty_read_def pty_new_def term_write_def pty_write_def bash_run_def poll.simps push_output_def
        OUTPUT_BUF_MAX_def starts_with_def Let_def)
  have "bash_execute sample_call sample_bash (JObj [(''command'', JStr ''reboot'')]) st
      = (st, Ret (ToolResult_error (''blocked: '' @ projl (?gate ''reboot''))))" for st
    using gate(2) words(2) by (cases "?gate ''reboot''") (simp_all add: bash_execute_def input not_blank_def ulow)
  then have st': "bh_written (bash_calls [bash_ls ''ls'', bash_ls ''reboot''] bash_new)
     = [(''s1'', setup_line), (''s1'', payload_of ''ls'' ''DONE'')]" using w1 by (simp add: bash_ls_def)
  then have "\<exists>c \<in> {bash_ls ''ls'', bash_ls ''reboot''}. may_write c (payload_of ''ls'' ''DONE'')"
    using bash_only_checked [of "[bash_ls ''ls'', bash_ls ''reboot'']" bash_new] by (auto simp: bash_new_def)
  moreover have "\<not> may_write (bash_ls ''reboot'') (payload_of ''ls'' ''DONE'')"
    by (simp add: may_write_def bash_ls_def payload_of_def in_str_def setup_line_def)
  ultimately show ?thesis using st' by blast
qed

section \<open>Recurring reminders\<close>

text \<open>A numeral: digits after an optional plus sign.\<close>

definition denotes :: "string \<Rightarrow> nat \<Rightarrow> bool" where
  "denotes a n \<longleftrightarrow> (\<exists>d. (a = d \<or> a = CHR ''+'' # d) \<and> d \<noteq> [] \<and> list_all is_digit d \<and> read_nat d = n)"

lemma plus_no_digit [simp]: "\<not> is_digit CHR ''+''" "\<not> is_digit CHR '':''"
  by (simp_all add: is_digit_def)

lemma parse_unsigned_iff: "parse_unsigned b a = Some n \<longleftrightarrow> denotes a n \<and> n < b"
proof (cases a)
  case (Cons c cs)
  then show ?thesis by (cases "c = CHR ''+''") (auto simp: parse_unsigned_def denotes_def Let_def)
qed (simp add: parse_unsigned_def denotes_def)

lemma denotes_nonempty: "denotes a n \<Longrightarrow> a \<noteq> []"
  by (auto simp: denotes_def)

lemma denotes_no_colon: "denotes a n \<Longrightarrow> CHR '':'' \<notin> set a"
  using plus_no_digit(2) by (fastforce simp: denotes_def list_all_iff)

lemma split2_append: "x \<notin> set a \<Longrightarrow> split2 x (a @ x # b) = (a, b)"
  unfolding split2_def by (induction a) auto

lemma split2_SomeD: "split2 x s = (a, b) \<Longrightarrow> b \<noteq> [] \<Longrightarrow> s = a @ x # b"
  unfolding split2_def
  by (metis (mono_tags, lifting) Pair_inject drop_0 drop_Nil drop_Suc_Cons dropWhile_eq_Cons_conv list.exhaust
      One_nat_def takeWhile_dropWhile_id)

text \<open>The reader of recurring reminders. A text is accepted exactly when it is \<open>daily|\<close> with two numerals
  of a valid time of day around a colon, or \<open>interval|\<close> with a positive 64-bit numeral, and the
  schedule is the one it names.\<close>
theorem parse_recurring_iff:
  "parse_recurring s = Inr sch \<longleftrightarrow>
     (\<exists>a b h m. s = ''daily|'' @ a @ '':'' @ b \<and> denotes a h \<and> denotes b m \<and> h < 24 \<and> m < 60 \<and> sch = Daily h m)
   \<or> (\<exists>a n. s = ''interval|'' @ a \<and> denotes a n \<and> 0 < n \<and> n < u64_size \<and> sch = Interval n)"
    (is "_ \<longleftrightarrow> ?daily \<or> ?interval")
proof
  obtain kind rest where k: "split2 CHR ''|'' s = (kind, rest)" by (metis surj_pair)
  assume r: "parse_recurring s = Inr sch"
  then consider "kind = ''daily''" | "kind = ''interval''"
    by (auto simp: parse_recurring_def k split: if_splits)
  then show "?daily \<or> ?interval"
  proof cases
    case 1
    obtain h m where hm: "split2 CHR '':'' rest = (h, m)" by (metis surj_pair)
    obtain hour minute where d: "denotes h hour" "denotes m minute" "hour < 24" "minute < 60" "sch = Daily hour minute"
      using r 1 by (auto simp: parse_recurring_def k hm parse_unsigned_iff split: option.splits if_splits)
    have rest: "rest = h @ CHR '':'' # m" using split2_SomeD [OF hm denotes_nonempty [OF d(2)]] .
    then have "s = ''daily'' @ CHR ''|'' # rest" using split2_SomeD [OF k] 1 by simp
    then show ?thesis using rest d by auto
  next
    case 2
    then obtain n where d: "denotes rest n" "0 < n" "n < u64_size" "sch = Interval n"
      using r by (auto simp: parse_recurring_def k parse_unsigned_iff split: option.splits if_splits)
    have "s = ''interval'' @ CHR ''|'' # rest" using split2_SomeD [OF k denotes_nonempty [OF d(1)]] 2 by simp
    then show ?thesis using d by auto
  qed
next
  assume "?daily \<or> ?interval"
  then show "parse_recurring s = Inr sch"
  proof
    assume ?daily
    then obtain a b h m where d: "s = ''daily'' @ CHR ''|'' # (a @ CHR '':'' # b)" "denotes a h" "denotes b m" "h < 24"
      "m < 60" "sch = Daily h m" by auto
    have "split2 CHR ''|'' s = (''daily'', a @ CHR '':'' # b)" unfolding d(1) by (rule split2_append) simp
    moreover have "split2 CHR '':'' (a @ CHR '':'' # b) = (a, b)" using denotes_no_colon [OF d(2)] by (rule split2_append)
    moreover have "parse_unsigned 256 a = Some h" "parse_unsigned 256 b = Some m" using d by (simp_all add: parse_unsigned_iff)
    ultimately show ?thesis using d by (simp add: parse_recurring_def)
  next
    assume ?interval
    then obtain a n where d: "s = ''interval'' @ CHR ''|'' # a" "denotes a n" "0 < n" "n < u64_size" "sch = Interval n" by auto
    have "split2 CHR ''|'' s = (''interval'', a)" unfolding d(1) by (rule split2_append) simp
    moreover have "parse_unsigned u64_size a = Some n" using d by (simp add: parse_unsigned_iff)
    ultimately show ?thesis using d by (simp add: parse_recurring_def)
  qed
qed

section \<open>What adding a reminder does\<close>

definition action_added :: "reminder_tool \<Rightarrow> json \<Rightarrow> string \<Rightarrow> reminder_action" where
  "action_added T input msg = \<lparr> ra_channel = rt_channel_name T, ra_channel_id = rt_channel_id T, ra_message = msg,
     ra_image_url = in_str ''image_url'' input, ra_bash_command = in_str ''bash_command'' input \<rparr>"

text \<open>Adding a reminder. With a message, a readable schedule, a fresh identifier and a sound connection
  the tool reports success and adds one pending job whose action names the tool's own channel and
  whose next run is the schedule's; if the schedule has no next run, as for every time that is not
  in the future, success is reported all the same and no tick of the scheduler ever finds the job due.\<close>
theorem reminder_added:
  assumes "non_empty (in_str ''message'' input) = Some msg" "reminder_schedule E T input = Ret (Inr s)"
    and "\<not> snd st" "ce_id E \<notin> jr_id ` set (fst st)" "compute_next_run (cal (ce_sched E)) s (ce_now E) = Ret n"
  shows "\<exists>r j. add_reminder E T input st = ((fst st @ [r], False), Ret (ToolResult_success (scheduled_text j msg)))
    \<and> jr_id r = ce_id E \<and> jr_status r = ''pending'' \<and> jr_action r = rt_text T (action_added T input msg)
    \<and> jr_next_run r = map_option (rfc3339 (cal (ce_sched E))) n \<and> j_next_run j = jr_next_run r
    \<and> (\<forall>t. s = Once t \<and> t \<le> ce_now E \<longrightarrow> n = None)
    \<and> (n = None \<longrightarrow> (\<forall>now_str. \<not> due now_str r))"
proof -
  have past: "\<forall>t. s = Once t \<and> t \<le> ce_now E \<longrightarrow> n = None"
    using assms(5) by (auto simp: compute_next_run_def)
  obtain js j where add: "handle_add_job (ce_sched E) (ce_id E) (ce_now E) (fst st) ''reminder'' s
      (rt_text T (action_added T input msg)) = Ret (js, Inr j)"
    using assms by (auto simp: handle_add_job_def insert_job_def Let_def)
  then obtain r where r: "js = fst st @ [r]" "jr_id r = ce_id E" "jr_status r = ''pending''"
    "jr_action r = rt_text T (action_added T input msg)" "jr_next_run r = map_option (rfc3339 (cal (ce_sched E))) n"
    "j_next_run j = jr_next_run r"
    using assms(4,5) by (auto simp: handle_add_job_def insert_job_def Let_def)
  moreover have "n = None \<Longrightarrow> \<not> due now_str r" for now_str using r(5) by (simp add: due_def)
  ultimately show ?thesis using past add assms(1-3)
    by (intro exI [of _ r] exI [of _ j]) (simp add: add_reminder_def action_added_def Let_def)
qed

definition sample_reminder :: reminder_tool where
  "sample_reminder = \<lparr> rt_channel_name = ''ws'', rt_channel_id = None, rt_time = (\<lambda>_. Inr (-5)), rt_text = ra_message \<rparr>"

definition late_tea :: json where
  "late_tea = JObj [(''action'', JStr ''add''), (''message'', JStr ''tea''), (''fire_at'', JStr ''yesterday'')]"

theorem reminder_added_witness:
  "\<exists>r j. add_reminder sample_call sample_reminder late_tea ([], False)
     = (([r], False), Ret (ToolResult_success (scheduled_text j ''tea''))) \<and> \<not> due ''9999'' r"
proof -
  have "reminder_schedule sample_call sample_reminder late_tea = Ret (Inr (Once (-5)))"
    by (simp add: reminder_schedule_def late_tea_def sample_reminder_def in_str_def)
  moreover have "non_empty (in_str ''message'' late_tea) = Some ''tea''"
    by (simp add: late_tea_def in_str_def non_empty_def)
  moreover have "compute_next_run (cal (ce_sched sample_call)) (Once (-5)) (ce_now sample_call) = Ret None"
    by (simp add: compute_next_run_def sample_call_def)
  ultimately show ?thesis
    using reminder_added [of late_tea "''tea''" sample_call sample_reminder "Once (-5)" "([], False)" None] by auto
qed

end
