(* ===== verification/Http.thy ===== *)
theory Http
  imports Connection Discord AgentTools
begin

text \<open>
  The HTTP side of the gateway and its start: webhooks (\<open>http/webhooks.rs\<close>), the endpoint in
  OpenAI's format (\<open>http/openai_compat.rs\<close>), the liveness probe (\<open>http/health.rs\<close>), the delivery of
  fired jobs and the choice of a provider (\<open>main.rs\<close>). Hexadecimal decoding, HMAC-SHA256, JSON
  text and the headers of a request are parameters.
\<close>

section \<open>Webhooks\<close>

record webhook_env =
  we_header :: "string \<Rightarrow> string option"
  we_hex :: "string \<Rightarrow> string option"
  we_key_ok :: "string \<Rightarrow> bool"
  we_hmac :: "string \<Rightarrow> string \<Rightarrow> string \<Rightarrow> bool"
  we_parse :: "string \<Rightarrow> json option"
  we_show :: "json \<Rightarrow> string"
  we_id :: string

definition verify_hmac_sha256 :: "webhook_env \<Rightarrow> string \<Rightarrow> string option \<Rightarrow> string + unit" where
  "verify_hmac_sha256 W body secret =
     (case secret of
        None \<Rightarrow> Inl ''no HMAC secret configured for this source''
      | Some key \<Rightarrow>
          (case we_header W ''x-hub-signature-256'' of
             None \<Rightarrow> Inl ''missing X-Hub-Signature-256 header''
           | Some sig_header \<Rightarrow>
               (case strip_prefix ''sha256='' sig_header of
                  None \<Rightarrow> Inl ''malformed X-Hub-Signature-256 header''
                | Some sig_hex \<Rightarrow>
                    (case we_hex W sig_hex of
                       None \<Rightarrow> Inl ''X-Hub-Signature-256 is not valid hex''
                     | Some expected \<Rightarrow>
                         (if \<not> we_key_ok W key then Inl ''invalid HMAC key length''
                          else if we_hmac W key body expected then Inr ()
                          else Inl ''HMAC signature mismatch'')))))"

definition verify_bearer_token :: "webhook_env \<Rightarrow> string option \<Rightarrow> string + unit" where
  "verify_bearer_token W secret =
     (case secret of
        None \<Rightarrow> Inl ''no bearer token configured for this source''
      | Some expected \<Rightarrow>
          (case we_header W ''authorization'' of
             None \<Rightarrow> Inl ''missing Authorization header''
           | Some auth_header \<Rightarrow>
               (case strip_prefix ''Bearer '' auth_header of
                  None \<Rightarrow> Inl ''Authorization header must use Bearer scheme''
                | Some token \<Rightarrow> if token = expected then Inr () else Inl ''bearer token mismatch'')))"

definition error_body :: "string \<Rightarrow> json" where
  "error_body m = JObj [(''error'', JStr m)]"

definition auth_error :: "string \<Rightarrow> nat \<times> json" where
  "auth_error reason = (401, JObj [(''error'', JStr ''authentication failed''), (''reason'', JStr reason)])"

definition webhook_message :: "webhook_env \<Rightarrow> string \<Rightarrow> json \<Rightarrow> string" where
  "webhook_message W source payload = ''[webhook:'' @ source @ ''] '' @ we_show W payload"

definition forward_to_agent ::
    "webhook_env \<Rightarrow> 'x app_state \<Rightarrow> string \<Rightarrow> json \<Rightarrow> 'x app_state \<times> (string + string)" where
  "forward_to_agent W a source payload =
     (let (w, r) = chat (ap_agent a) (webhook_message W source payload) (ap_world a)
      in (a\<lparr>ap_world := w\<rparr>, case r of Inl e \<Rightarrow> Inl (provider_error_display e) | Inr _ \<Rightarrow> Inr (we_id W)))"

definition check_source :: "webhook_env \<Rightarrow> string \<Rightarrow> webhook_source_config \<Rightarrow> string + unit" where
  "check_source W body s =
     (case source_auth_mode s of
        HmacSha256 \<Rightarrow> verify_hmac_sha256 W body (source_secret s)
      | BearerToken \<Rightarrow> verify_bearer_token W (source_secret s)
      | WebhookNoAuth \<Rightarrow> Inr ())"

definition webhook_handler ::
    "webhook_env \<Rightarrow> string \<Rightarrow> string \<Rightarrow> 'x app_state \<Rightarrow> 'x app_state \<times> (nat \<times> json + json)" where
  "webhook_handler W source body a =
     (let cfg = webhooks (ap_config a) in
      if \<not> webhooks_enabled cfg then (a, Inl (404, error_body ''webhook subsystem is disabled''))
      else (case find (\<lambda>s. source_name s = source) (webhook_sources cfg) of
          None \<Rightarrow> (a, Inl (404, error_body ''unknown webhook source''))
        | Some s \<Rightarrow>
            (case check_source W body s of
               Inl e \<Rightarrow> (a, Inl (auth_error e))
             | Inr _ \<Rightarrow>
                 (case we_parse W body of
                    None \<Rightarrow> (a, Inl (400, error_body ''invalid JSON body''))
                  | Some payload \<Rightarrow>
                      (case forward_to_agent W a source payload of
                         (a', Inl e) \<Rightarrow> (a', Inl (500, error_body ''internal error''))
                       | (a', Inr receipt_id) \<Rightarrow>
                           (a', Inr (JObj [(''ok'', JBool True), (''receipt_id'', JStr receipt_id)])))))))"

text \<open>What lets a webhook in.\<close>

fun source_admits :: "webhook_env \<Rightarrow> string \<Rightarrow> webhook_auth_mode \<Rightarrow> string option \<Rightarrow> bool" where
  "source_admits W body HmacSha256 secret \<longleftrightarrow> (\<exists>key h s. secret = Some key
     \<and> we_header W ''x-hub-signature-256'' = Some (''sha256='' @ h) \<and> we_hex W h = Some s
     \<and> we_key_ok W key \<and> we_hmac W key body s)"
| "source_admits W body BearerToken secret \<longleftrightarrow> (\<exists>token. secret = Some token
     \<and> we_header W ''authorization'' = Some (''Bearer '' @ token))"
| "source_admits W body WebhookNoAuth secret \<longleftrightarrow> True"

lemma check_source_iff: "check_source W body s = Inr () \<longleftrightarrow> source_admits W body (source_auth_mode s) (source_secret s)"
proof (cases "source_auth_mode s")
  case HmacSha256
  then show ?thesis
    by (auto simp: check_source_def verify_hmac_sha256_def strip_prefix_Some_iff [of "''sha256=''"]
        split: option.splits if_splits)
next
  case BearerToken
  then show ?thesis
    by (auto simp: check_source_def verify_bearer_token_def strip_prefix_Some_iff [of "''Bearer ''"]
        split: option.splits if_splits)
qed (simp add: check_source_def)

definition admitted :: "webhook_env \<Rightarrow> webhooks_config \<Rightarrow> string \<Rightarrow> string \<Rightarrow> json \<Rightarrow> bool" where
  "admitted W cfg source body payload \<longleftrightarrow> webhooks_enabled cfg
     \<and> (\<exists>s. find (\<lambda>s. source_name s = source) (webhook_sources cfg) = Some s
          \<and> source_admits W body (source_auth_mode s) (source_secret s)) \<and> we_parse W body = Some payload"

text \<open>C15: Who reaches the agent through a webhook. If the subsystem is on, the source is known, it admits
  the request (by a signature that verifies under its key, or by exactly its token; a source
  without a secret admits nobody unless its mode is none), and the body is JSON, then the language
  model is sent exactly one message, the payload under the source's name, and the answer is a
  receipt if the model answered and 500 if not. Otherwise nothing changes, nothing is sent and the
  answer is 400, 401 or 404.\<close>
theorem webhook_decision:
  assumes "webhook_handler W source body a = (a', res)"
  shows "if \<exists>payload. admitted W (webhooks (ap_config a)) source body payload
    then \<exists>payload w r. admitted W (webhooks (ap_config a)) source body payload
      \<and> p_send (ar_provider (ap_agent a)) (build_request (ap_agent a)
          (''[webhook:'' @ source @ ''] '' @ we_show W payload) None None None) (ap_world a) = (w, r)
      \<and> a' = a\<lparr>ap_world := w\<rparr>
      \<and> res = (case r of Inr _ \<Rightarrow> Inr (JObj [(''ok'', JBool True), (''receipt_id'', JStr (we_id W))])
          | Inl _ \<Rightarrow> Inl (500, error_body ''internal error''))
    else a' = a \<and> (\<exists>status m. res = Inl (status, m) \<and> status \<in> {400, 401, 404})"
proof (cases "\<exists>payload. admitted W (webhooks (ap_config a)) source body payload")
  case True
  then obtain payload s where ad: "admitted W (webhooks (ap_config a)) source body payload"
    and s: "webhooks_enabled (webhooks (ap_config a))"
      "find (\<lambda>s. source_name s = source) (webhook_sources (webhooks (ap_config a))) = Some s"
      "check_source W body s = Inr ()" "we_parse W body = Some payload"
    by (auto simp: admitted_def check_source_iff)
  obtain w r where send: "p_send (ar_provider (ap_agent a)) (build_request (ap_agent a)
      (''[webhook:'' @ source @ ''] '' @ we_show W payload) None None None) (ap_world a) = (w, r)" by (metis surj_pair)
  have "a' = a\<lparr>ap_world := w\<rparr>
      \<and> res = (case r of Inr _ \<Rightarrow> Inr (JObj [(''ok'', JBool True), (''receipt_id'', JStr (we_id W))])
          | Inl _ \<Rightarrow> Inl (500, error_body ''internal error''))"
    using assms s send
    by (cases r) (auto simp: webhook_handler_def forward_to_agent_def chat_def webhook_message_def)
  with ad send have "\<exists>payload w r. admitted W (webhooks (ap_config a)) source body payload
      \<and> p_send (ar_provider (ap_agent a)) (build_request (ap_agent a)
          (''[webhook:'' @ source @ ''] '' @ we_show W payload) None None None) (ap_world a) = (w, r)
      \<and> a' = a\<lparr>ap_world := w\<rparr>
      \<and> res = (case r of Inr _ \<Rightarrow> Inr (JObj [(''ok'', JBool True), (''receipt_id'', JStr (we_id W))])
          | Inl _ \<Rightarrow> Inl (500, error_body ''internal error''))" by blast
  then show ?thesis by (simp only: if_P [OF True])
next
  case False
  have "a' = a \<and> (\<exists>status m. res = Inl (status, m) \<and> status \<in> {400, 401, 404})"
  proof (cases "find (\<lambda>s. source_name s = source) (webhook_sources (webhooks (ap_config a)))")
    case (Some s)
    with False have "\<not> webhooks_enabled (webhooks (ap_config a)) \<or> check_source W body s \<noteq> Inr () \<or> we_parse W body = None"
      by (auto simp: admitted_def check_source_iff)
    then show ?thesis using assms Some
      by (auto simp: webhook_handler_def auth_error_def Let_def split: if_splits sum.splits)
  qed (use assms in \<open>auto simp: webhook_handler_def Let_def split: if_splits\<close>)
  with False show ?thesis by simp
qed

definition sample_webhook :: webhook_env where
  "sample_webhook = \<lparr> we_header = (\<lambda>h. if h = ''authorization'' then Some ''Bearer s3'' else None),
     we_hex = (\<lambda>_. None), we_key_ok = (\<lambda>_. True), we_hmac = (\<lambda>_ _ _. False), we_parse = (\<lambda>_. Some JNull),
     we_show = (\<lambda>_. ''null''), we_id = ''r1'' \<rparr>"

definition with_webhook :: "string option \<Rightarrow> unit app_state" where
  "with_webhook secret = sample_gateway\<lparr>ap_config := (ap_config sample_gateway)\<lparr>webhooks :=
     \<lparr> webhooks_enabled = True, webhook_sources = [\<lparr> source_name = ''gh'', source_secret = secret,
       source_auth_mode = BearerToken \<rparr>] \<rparr>\<rparr>\<rparr>"

theorem webhook_decision_witness:
  "(\<exists>j. snd (webhook_handler sample_webhook ''gh'' ''{}'' (with_webhook (Some ''s3''))) = Inr j)
   \<and> fst (webhook_handler sample_webhook ''gh'' ''{}'' (with_webhook None)) = with_webhook None"
proof -
  let ?run = "\<lambda>secret. webhook_handler sample_webhook ''gh'' ''{}'' (with_webhook secret)"
  have cfg: "webhooks (ap_config (with_webhook secret)) = \<lparr> webhooks_enabled = True, webhook_sources =
      [\<lparr> source_name = ''gh'', source_secret = secret, source_auth_mode = BearerToken \<rparr>] \<rparr>" for secret
    by (simp add: with_webhook_def)
  have yes: "\<exists>payload. admitted sample_webhook (webhooks (ap_config (with_webhook (Some ''s3'')))) ''gh'' ''{}'' payload"
    and no: "\<not> (\<exists>payload. admitted sample_webhook (webhooks (ap_config (with_webhook None))) ''gh'' ''{}'' payload)"
    by (simp_all add: admitted_def cfg sample_webhook_def)
  have pr: "ar_provider (ap_agent (with_webhook (Some ''s3''))) = parrot ''hello''"
    by (simp add: with_webhook_def sample_gateway_def app_state_new_def agent_runtime_new_def)
  have "\<exists>j. snd (?run (Some ''s3'')) = Inr j"
    using webhook_decision [of sample_webhook "''gh''" "''{}''" "with_webhook (Some ''s3'')", OF surjective_pairing] yes
    unfolding pr parrot_sends by auto
  moreover have "fst (?run None) = with_webhook None"
    using webhook_decision [of sample_webhook "''gh''" "''{}''" "with_webhook None", OF surjective_pairing] no by auto
  ultimately show ?thesis by blast
qed

section \<open>The endpoint in OpenAI's format\<close>

record openai_message =
  om_role :: string
  om_content :: "string option"

record openai_request =
  oq_model :: string
  oq_messages :: "openai_message list"
  oq_stream :: bool
  oq_max_tokens :: nat

definition default_max_tokens :: nat where "default_max_tokens = 4096"

definition last_user_message :: "openai_request \<Rightarrow> string option" where
  "last_user_message req =
     Option.bind (find (\<lambda>m. om_role m = ''user'') (rev (oq_messages req))) om_content"

text \<open>The derived writers leave out absent fields.\<close>

definition field :: "string \<Rightarrow> json option \<Rightarrow> (string \<times> json) list" where
  "field k v = (case v of None \<Rightarrow> [] | Some x \<Rightarrow> [(k, x)])"

definition openai_message_json :: "string option \<Rightarrow> json" where
  "openai_message_json content = JObj ((''role'', JStr ''assistant'') # field ''content'' (map_option JStr content))"

definition openai_error :: "string \<Rightarrow> json" where
  "openai_error m = JObj [(''error'', JObj [(''message'', JStr m), (''type'', JStr ''invalid_request_error'')])]"

text \<open>The sum of the two counters is a \<open>u32\<close> and wraps in a release build.\<close>

definition openai_usage :: "chat_response \<Rightarrow> json" where
  "openai_usage r = JObj [(''prompt_tokens'', jnat (rs_tokens_in r)), (''completion_tokens'', jnat (rs_tokens_out r)),
     (''total_tokens'', jnat ((rs_tokens_in r + rs_tokens_out r) mod u32_size))]"

definition openai_completion :: "string \<Rightarrow> chat_response \<Rightarrow> json" where
  "openai_completion uuid r = JObj
     [(''id'', JStr (''chatcmpl-'' @ uuid)), (''object'', JStr ''chat.completion''), (''model'', JStr (rs_model r)),
      (''choices'', JArr [JObj [(''index'', jnat 0), (''message'', openai_message_json (Some (rs_content r))),
         (''finish_reason'', JStr (rs_stop_reason r))]]),
      (''usage'', openai_usage r)]"

datatype sse_data = SseJson json | SseText string

definition openai_chunk :: "string \<Rightarrow> string option \<Rightarrow> string option \<Rightarrow> json" where
  "openai_chunk uuid content finish_reason = JObj
     [(''id'', JStr (''chatcmpl-'' @ uuid)), (''object'', JStr ''chat.completion.chunk''), (''model'', JStr []),
      (''choices'', JArr [JObj ([(''index'', jnat 0), (''delta'', openai_message_json content)]
         @ field ''finish_reason'' (map_option JStr finish_reason))])]"

abbreviation dquote :: char where "dquote \<equiv> CHR 0x22"

definition sse_error :: "string \<Rightarrow> string" where
  "sse_error m = ''{'' @ [dquote] @ ''error'' @ [dquote] @ '':{'' @ [dquote] @ ''message'' @ [dquote] @ '':''
     @ [dquote] @ m @ [dquote] @ ''}}''"

fun sse_of :: "string \<Rightarrow> stream_event \<Rightarrow> sse_data list" where
  "sse_of uuid (TextDelta s) = [SseJson (openai_chunk uuid (Some s) None)]"
| "sse_of uuid (StreamDone m n_in n_out stop) =
     [SseJson (openai_chunk uuid None (Some stop)), SseText ''[DONE]'']"
| "sse_of uuid (StreamError m) = [SseText (sse_error m)]"
| "sse_of uuid (ThinkingDelta s) = []"
| "sse_of uuid (ToolUse i n inp) = []"

datatype http_response = HttpJson nat json | HttpSse "sse_data list"

definition openai_non_streaming :: "string \<Rightarrow> string \<Rightarrow> 'x app_state \<Rightarrow> 'x app_state \<times> http_response" where
  "openai_non_streaming uuid msg a =
     (let (w, r) = chat (ap_agent a) msg (ap_world a) in
      (a\<lparr>ap_world := w\<rparr>, case r of
         Inr resp \<Rightarrow> HttpJson 200 (openai_completion uuid resp)
       | Inl e \<Rightarrow> HttpJson 500 (openai_error (provider_error_display e))))"

text \<open>The spawned task only logs the provider's error.\<close>

definition openai_streaming :: "string \<Rightarrow> string \<Rightarrow> 'x app_state \<Rightarrow> 'x app_state \<times> http_response" where
  "openai_streaming uuid msg a =
     (let (w, es, r) = chat_stream (ap_agent a) msg (ap_world a)
      in (a\<lparr>ap_world := w\<rparr>, HttpSse (concat (map (sse_of uuid) es))))"

definition chat_completions :: "string \<Rightarrow> openai_request \<Rightarrow> 'x app_state \<Rightarrow> 'x app_state \<times> http_response" where
  "chat_completions uuid req a =
     (case last_user_message req of
        None \<Rightarrow> (a, HttpJson 400 (openai_error ''no user message found''))
      | Some msg \<Rightarrow> if oq_stream req then openai_streaming uuid msg a else openai_non_streaming uuid msg a)"

definition health_handler :: "'x app_state \<Rightarrow> json" where
  "health_handler a = JObj [(''status'', JStr ''ok''), (''version'', JStr ''0.2.0''),
     (''protocol'', jnat PROTOCOL_VERSION), (''ws_clients'', jnat (length (ap_ws_clients a)))]"

text \<open>What a client of the stream reads: the text of a delta, and the end mark.\<close>

fun delta_content :: "json \<Rightarrow> string option" where
  "delta_content j =
     (case jget ''choices'' j of
        Some (JArr [c]) \<Rightarrow> Option.bind (Option.bind (jget ''delta'' c) (jget ''content'')) as_str
      | _ \<Rightarrow> None)"

fun sse_text :: "sse_data \<Rightarrow> string" where
  "sse_text (SseJson j) = (case delta_content j of Some s \<Rightarrow> s | None \<Rightarrow> [])"
| "sse_text (SseText s) = []"

fun delta_string :: "stream_event \<Rightarrow> string" where
  "delta_string (TextDelta s) = s"
| "delta_string _ = []"

fun is_done :: "stream_event \<Rightarrow> bool" where
  "is_done (StreamDone m n_in n_out stop) = True"
| "is_done _ = False"

abbreviation end_mark :: sse_data where "end_mark \<equiv> SseText ''[DONE]''"

lemma sse_of_text: "concat (map sse_text (sse_of uuid e)) = delta_string e"
  by (cases e) (simp_all add: openai_chunk_def openai_message_json_def field_def)

lemma sse_of_marks: "count_list (sse_of uuid e) end_mark = of_bool (is_done e)"
  by (cases e) (simp_all add: sse_error_def)

lemma sse_all:
  "concat (map sse_text (concat (map (sse_of uuid) es))) = concat (map delta_string es)"
  "count_list (concat (map (sse_of uuid) es)) end_mark = length (filter is_done es)"
  by (induction es) (simp_all add: sse_of_text sse_of_marks)

text \<open>A streamed completion. A streaming request with a user message sends the agent exactly the last
  user message, whatever model and limit the request names; the text a client reads out of the
  stream is the text the provider streamed, and the end mark appears once for each completion event
  of the provider, so a provider that fails leaves a stream without it and without an error.\<close>
theorem openai_stream:
  assumes "oq_stream req" "last_user_message req = Some msg"
    and "chat_stream (ap_agent a) msg (ap_world a) = (w, es, r)"
  shows "\<exists>ds. chat_completions uuid req a = (a\<lparr>ap_world := w\<rparr>, HttpSse ds)
    \<and> concat (map sse_text ds) = concat (map delta_string es)
    \<and> count_list ds end_mark = length (filter is_done es)"
  using assms sse_all [of uuid es] by (simp add: chat_completions_def openai_streaming_def)

definition stream_req :: openai_request where
  "stream_req = \<lparr> oq_model = ''gpt-4'', oq_messages = [\<lparr> om_role = ''user'', om_content = Some ''hi'' \<rparr>,
     \<lparr> om_role = ''assistant'', om_content = Some ''yes?'' \<rparr>], oq_stream = True, oq_max_tokens = 5 \<rparr>"

theorem openai_stream_witness:
  "\<exists>ds. snd (chat_completions ''u'' stream_req sample_gateway) = HttpSse ds
     \<and> concat (map sse_text ds) = ''hello'' \<and> count_list ds end_mark = 1"
proof -
  have provider: "ar_provider (ap_agent sample_gateway) = parrot ''hello''"
    by (simp add: sample_gateway_def app_state_new_def agent_runtime_new_def)
  have req: "oq_stream stream_req" "last_user_message stream_req = Some ''hi''"
    by (simp_all add: stream_req_def last_user_message_def)
  show ?thesis using openai_stream [OF req, of sample_gateway, unfolded chat_stream_def provider parrot_streams, OF refl,
      of "''u''"] by auto
qed

section \<open>Delivery of fired jobs\<close>

definition fence :: string where
  "fence = [tick_char, tick_char, tick_char]"

text \<open>The message, with the output of the stored command: the standard output, or else the error
  output, in a code block.\<close>

definition fired_message :: "call_env \<Rightarrow> reminder_action \<Rightarrow> exec_effect list \<times> string" where
  "fired_message E act =
     (case ra_bash_command act of
        None \<Rightarrow> ([], ra_message act)
      | Some cmd \<Rightarrow>
          (let (effects, r) = exec (ce_ulow E) (ce_strip E) (ce_child E) cmd default_exec_options in
           (effects, case r of
              Inr result \<Rightarrow>
                (let output = (if stdout result \<noteq> [] then trim (stdout result) else trim (stderr result)) in
                 if output = [] then ra_message act
                 else ra_message act @ [newline] @ fence @ [newline] @ output @ [newline] @ fence)
            | Inl e \<Rightarrow> ra_message act @ [newline] @ warning_sign @ '' Command failed: '' @ terminal_error_display e)))"

text \<open>\<open>action_of\<close> reads the stored action. The result lists the processes started, what is put on
  the Discord channel, and what each connected client is sent.\<close>

definition deliver ::
    "(string \<Rightarrow> reminder_action option) \<Rightarrow> call_env \<Rightarrow> job \<Rightarrow> 'x app_state
      \<Rightarrow> exec_effect list \<times> reminder_delivery list \<times> (string \<times> json) list" where
  "deliver action_of E j a =
     (case action_of (j_action j) of
        None \<Rightarrow> ([], [], [])
      | Some act \<Rightarrow>
          (let (effects, msg) = fired_message E act;
               delivery = \<lparr> rd_job_id = j_id j, rd_channel_id = ra_channel_id act, rd_message = msg,
                 rd_image_url = ra_image_url act \<rparr>
           in if ra_channel act = ''discord'' then (effects, [delivery], [])
              else if ra_channel act = ''ws'' then (effects, [], map (\<lambda>c. (c, JObj
                [(''event'', JStr ''reminder.fire''), (''job_id'', JStr (j_id j)), (''message'', JStr msg)]))
                (ap_ws_clients a))
              else (effects, [], [])))"

text \<open>C18: Reminders. Whatever a run of a connection does, no client is ever entered into the table of
  clients, so a fired job for WebSocket clients is sent to nobody and the liveness probe counts
  none; a job for Discord is put on the channel once, with its own id; and a stored command is
  started only if the safety checker passes it.\<close>
theorem reminder_delivery:
  assumes "conn_run frame_of connect_of met (conn_start uuid t a) es c" "ap_ws_clients a = []"
    and "action_of (j_action j) = Some act" "deliver action_of E j (cn_app c) = (effects, deliveries, frames)"
  shows "frames = [] \<and> jget ''ws_clients'' (health_handler (cn_app c)) = Some (JInt 0)
    \<and> (if ra_channel act = ''discord'' then \<exists>d. deliveries = [d] \<and> rd_job_id d = j_id j
         \<and> rd_channel_id d = ra_channel_id act else deliveries = [])
    \<and> (\<forall>cmd. Spawn cmd \<in> set effects \<longrightarrow> check_command (ce_ulow E) cmd = Inr ())"
proof -
  have none: "ap_ws_clients (cn_app c) = []"
    using run_clients [OF assms(1)] assms(2) by (simp add: conn_start_def)
  have "Spawn cmd \<in> set (fst (fired_message E act)) \<Longrightarrow> check_command (ce_ulow E) cmd = Inr ()" for cmd
    by (auto simp: fired_message_def default_exec_options_def Let_def split: option.splits prod.splits dest: exec_spawns)
  moreover have "effects = fst (fired_message E act)"
    using assms(3,4) by (auto simp: deliver_def Let_def split: if_splits prod.splits)
  ultimately show ?thesis using none assms(3,4)
    by (auto simp: deliver_def health_handler_def Let_def jnat_def split: if_splits prod.splits)
qed

definition sample_fired :: job where
  "sample_fired = \<lparr> j_id = ''j1'', j_name = ''tea'', j_schedule = Interval 60, j_action = ''tea'', j_status = Pending,
     j_last_run = None, j_next_run = None, j_run_count = 0, j_max_runs = None, j_created_at = [], j_updated_at = [] \<rparr>"

definition ws_action :: "string \<Rightarrow> reminder_action option" where
  "ws_action s = Some \<lparr> ra_channel = ''ws'', ra_channel_id = None, ra_message = s, ra_image_url = None,
     ra_bash_command = None \<rparr>"

theorem reminder_delivery_witness:
  "\<exists>c :: unit conn. cn_routed c = [''ping''] \<and> deliver ws_action sample_call sample_fired (cn_app c) = ([], [], [])"
proof -
  obtain c where c: "conn_run sample_frames sample_connect (\<lambda>_ _. True) (conn_start ''u-u'' 0 sample_gateway)
     [Received ''c'', Received ''p''] c" "cn_routed c = [''ping'']" using sample_conn_run by blast
  have none: "ap_ws_clients sample_gateway = []" by (simp add: sample_gateway_def app_state_new_def)
  obtain effects ds frames where d: "deliver ws_action sample_call sample_fired (cn_app c) = (effects, ds, frames)"
    by (metis prod_cases3)
  have "effects = []" using d by (auto simp: deliver_def ws_action_def fired_message_def)
  moreover have "frames = []" "ds = []"
    using reminder_delivery [OF c(1) none ws_action_def d] by simp_all
  ultimately show ?thesis using c(2) d by blast
qed

section \<open>The choice of a provider\<close>

datatype provider_choice =
    UseAnthropic string "string option"
  | UseOpenAi string "string option"
  | UseOllama string
  | UseNull

definition build_provider :: "(string \<Rightarrow> string option) \<Rightarrow> skynet_config \<Rightarrow> provider_choice" where
  "build_provider env_var config =
     (case anthropic (providers config) of
        Some p \<Rightarrow> UseAnthropic (anthropic_api_key p) (Some (anthropic_base_url p))
      | None \<Rightarrow>
     (case openai (providers config) of
        Some p \<Rightarrow> UseOpenAi (openai_api_key p) (Some (openai_base_url p))
      | None \<Rightarrow>
     (case ollama (providers config) of
        Some p \<Rightarrow> UseOllama (ollama_base_url p)
      | None \<Rightarrow>
     (case env_var ''ANTHROPIC_OAUTH_TOKEN'' of
        Some token \<Rightarrow> UseAnthropic token None
      | None \<Rightarrow>
     (case env_var ''ANTHROPIC_API_KEY'' of
        Some key \<Rightarrow> UseAnthropic key None
      | None \<Rightarrow>
     (case env_var ''OPENAI_API_KEY'' of
        Some key \<Rightarrow> UseOpenAi key None
      | None \<Rightarrow> UseNull))))))"

definition null_provider :: "'w llm_provider" where
  "null_provider =
     (let send = (\<lambda>req w. (w, Inl (PUnavailable (''no LLM provider configured '' @ em_dash
            @ '' set providers.anthropic.api_key in skynet.toml''))))
      in \<lparr> p_name = ''null'', p_send = send, p_send_stream = default_send_stream send \<rparr>)"

end
