(* ===== verification/Turns.thy ===== *)
theory Turns
  imports Chat
begin

text \<open>
  What a turn of the agent keeps: a relation between the world before and after that the model and
  every tool keep is kept by the whole turn, in the loop of the pipeline (\<open>tools/tool_loop.rs\<close>) and in
  both streaming loops of the gateway (\<open>ws/dispatch.rs\<close>).
\<close>

locale guarded_turn = preserved R for R :: "'w \<Rightarrow> 'w \<Rightarrow> bool" +
  fixes p :: "'w llm_provider" and tools :: "'w tool list"
  assumes sends: "R w (fst (p_send p req w))"
    and streams: "R w (fst (p_send_stream p req w))"
    and executes: "R w (fst (execute_tool tools c w))"
begin

lemma run_calls_kept: "R w (fst (run_calls tools cs w))"
  by (induction cs arbitrary: w) (auto intro!: kept_refl and_then_kept executes)

lemma tool_iterations_kept: "R w (fst (tool_iterations p req tools left raw latest called w))"
proof (induction left arbitrary: raw latest called w)
  case (Suc left)
  obtain w1 r where s: "p_send p (req\<lparr>cr_raw_messages := Some raw\<rparr>) w = (w1, r)" by fastforce
  have w1: "R w w1" using sends [of w] s by (metis fst_conv)
  show ?case
  proof (cases r)
    case (Inr resp)
    obtain w2 x where c: "run_calls tools (rs_tool_calls resp) w1 = (w2, x)" by fastforce
    have w2: "R w w2" using run_calls_kept c by (metis fst_conv kept_trans w1)
    show ?thesis
    proof (cases x)
      case (Ret rs)
      let ?raw = "raw @ [assistant_message resp, results_message (rs_tool_calls resp) rs]"
      have "R w (fst (tool_iterations p req tools left ?raw (Some resp) (called @ map call_name (rs_tool_calls resp)) w2))"
        by (rule kept_trans [OF w2 Suc.IH])
      then show ?thesis using s Inr c Ret w1 by (auto split: prod.split)
    qed (use s Inr c w1 w2 in auto)
  qed (use s w1 in auto)
qed (simp add: kept_refl)

lemma run_tool_loop_kept: "R w (fst (run_tool_loop p req tools w))"
  by (simp add: run_tool_loop_def tool_iterations_kept)

lemma execute_kept: "execute_tool tools c w = (w', r) \<Longrightarrow> R w w'"
  using executes [of w c] by simp

lemma event_round_kept: "R w (fst (event_round rid tools cs t w))"
proof -
  have "R w (fst (tool_round rid tools cs w))"
  proof (induction cs arbitrary: w)
    case (Cons c cs)
    obtain w1 x where e: "execute_tool tools c w = (w1, x)" by fastforce
    have "R w w1" by (rule execute_kept [OF e])
    moreover have "R w (fst (tool_round rid tools cs w1))" by (rule kept_trans [OF calculation Cons])
    ultimately show ?case using e by (cases x) (simp_all add: split_beta)
  qed (simp add: kept_refl)
  then show ?thesis by (auto simp: event_round_def Let_def split: prod.split)
qed

lemma inline_round_kept: "R w (fst (inline_round rid tools cs t w))"
proof (induction cs arbitrary: t w)
  case (Cons c cs)
  obtain w1 x where e: "execute_tool tools c w = (w1, x)" by fastforce
  have w1: "R w w1" by (rule execute_kept [OF e])
  have "R w (fst (inline_round rid tools cs t' w1))" for t' by (rule kept_trans [OF w1 Cons])
  then show ?case using e w1 by (cases x) (simp_all add: split_beta Let_def)
qed (simp add: kept_refl)

lemma stream_loop_kept:
  assumes "\<And>cs t w. R w (fst (run_round cs t w))"
  shows "R w (fst (stream_loop rid p mk_req run_round sel left raw t w))"
proof (induction left arbitrary: sel raw t w)
  case (Suc left)
  obtain w1 es result where s: "p_send_stream p (mk_req raw) w = (w1, es, result)" by (metis prod_cases3)
  have w1: "R w w1" using streams [of w "mk_req raw"] s by simp
  obtain t1 err where i: "stream_iteration rid (sel 0) es result (t\<lparr>ts_iter_text := [], ts_iter_tools := []\<rparr>) = (t1, err)"
    by force
  obtain w2 t2 x where c: "run_round (ts_iter_tools t1) t1 w1 = (w2, t2, x)" by (metis prod_cases3)
  have w2: "R w w2" using assms [of w1 "ts_iter_tools t1" t1] c kept_trans [OF w1] by simp
  show ?case
  proof (cases "err \<noteq> None \<or> ts_iter_tools t1 = [] \<or> ts_stop t1 \<noteq> ''tool_use''")
    case False
    then show ?thesis using s i c w2 kept_trans [OF w2 Suc.IH] by (cases x) auto
  qed (use s i w1 in auto)
qed (simp add: kept_refl)

end

end
