(* ===== verification/ToolSchemas.thy ===== *)
theory ToolSchemas
  imports AgentTools
begin

text \<open>
  How the built-in tools present themselves to the language model: the name, the description and the
  JSON schema of the input of each (\<open>fn name\<close>, \<open>fn description\<close>, \<open>fn input_schema\<close> of the files under
  \<open>crates/skynet-agent/src/tools\<close>).
\<close>

definition typed_field :: "string \<Rightarrow> string \<Rightarrow> json" where
  "typed_field ty d = JObj [(''type'', JStr ty), (''description'', JStr d)]"

definition enum_field :: "string list \<Rightarrow> string \<Rightarrow> json" where
  "enum_field vs d = JObj [(''type'', JStr ''string''), (''enum'', JArr (map JStr vs)), (''description'', JStr d)]"

definition object_schema :: "(string \<times> json) list \<Rightarrow> string list \<Rightarrow> json" where
  "object_schema ps required = JObj [(''type'', JStr ''object''), (''properties'', JObj ps),
     (''required'', JArr (map JStr required))]"

section \<open>The declarations\<close>

definition read_file_declaration :: tool_definition where
  "read_file_declaration = \<lparr> td_name = ''read_file'',
     td_description = ''Read the contents of a file. Optionally limit to a line range with `offset` ''
       @ ''(1-based first line) and `limit` (number of lines to return).'',
     td_input_schema = object_schema
       [(''path'', typed_field ''string'' ''Absolute or relative path to the file.''),
        (''offset'', typed_field ''integer'' ''1-based line number to start reading from (optional).''),
        (''limit'', typed_field ''integer'' ''Maximum number of lines to return (optional).'')]
       [''path''] \<rparr>"

definition write_file_declaration :: tool_definition where
  "write_file_declaration = \<lparr> td_name = ''write_file'',
     td_description = ''Write content to a file. Creates parent directories if they do not exist. ''
       @ ''Overwrites the file if it already exists.'',
     td_input_schema = object_schema
       [(''path'', typed_field ''string'' ''Absolute or relative path to write to.''),
        (''content'', typed_field ''string'' ''Text content to write into the file.'')]
       [''path'', ''content''] \<rparr>"

definition list_files_declaration :: tool_definition where
  "list_files_declaration = \<lparr> td_name = ''list_files'',
     td_description =
       ''List the contents of a directory. Each entry shows its type (file/dir) and size in ''
       @ ''bytes. Returns at most 1000 entries.'',
     td_input_schema = object_schema
       [(''path'', typed_field ''string'' ''Absolute or relative path to the directory.'')]
       [''path''] \<rparr>"

definition search_files_declaration :: tool_definition where
  "search_files_declaration = \<lparr> td_name = ''search_files'',
     td_description =
       ''Recursively search file contents for a substring pattern. Returns matching lines in ''
       @ ''`file:line_number: content` format. Skips binary files and the .git directory. ''
       @ ''Returns at most 100 matches.'',
     td_input_schema = object_schema
       [(''path'', typed_field ''string'' ''Root directory to search in.''),
        (''pattern'', typed_field ''string'' ''Substring to search for (case-sensitive).''),
        (''file_pattern'', typed_field ''string'' (''Optional filename suffix filter, e.g. '' @ quoted ''.rs'' @ '' or ''
          @ quoted ''.toml'' @ ''.''))]
       [''path'', ''pattern''] \<rparr>"

definition execute_command_declaration :: tool_definition where
  "execute_command_declaration = \<lparr> td_name = ''execute_command'',
     td_description = ''Execute a shell command and return its stdout and stderr. Commands are ''
       @ ''safety-checked (dangerous commands like rm -rf, sudo, etc. are blocked). Default ''
       @ ''timeout is 30 seconds.'',
     td_input_schema = object_schema
       [(''command'', typed_field ''string'' ''The shell command to execute via sh -c.'')]
       [''command''] \<rparr>"

definition bash_declaration :: tool_definition where
  "bash_declaration = \<lparr> td_name = ''bash'',
     td_description = ''Run one or more bash commands in a persistent shell session. Shell state (working ''
       @ ''directory, environment variables, shell functions) is preserved across calls '' @ em_dash
       @ '' a `cd` in one call stays in effect for the next. Use this for multi-step ''
       @ ''workflows: navigate, build, inspect, edit. Dangerous commands (rm -rf /, sudo, ''
       @ ''pipe-to-shell, etc.) are blocked.'',
     td_input_schema = object_schema
       [(''command'', typed_field ''string'' ''Bash command or multi-line script to run.'')]
       [''command''] \<rparr>"

definition reminder_declaration :: tool_definition where
  "reminder_declaration = \<lparr> td_name = ''reminder'',
     td_description = ''Schedule a proactive reminder to be delivered at a future time. Use action=''
       @ quoted ''add'' @ '' to create a reminder, action='' @ quoted ''list''
       @ '' to see all scheduled reminders, or action='' @ quoted ''remove'' @ '' to cancel one by job_id.'',
     td_input_schema = object_schema
       [(''action'', enum_field [''add'', ''list'', ''remove''] ''Operation: add a new reminder, list all reminders, or remove one.''),
        (''message'', typed_field ''string'' ''Text to deliver when the reminder fires. Required for add.''),
        (''fire_at'', typed_field ''string'' (''ISO-8601 UTC datetime when to fire (e.g. ''
          @ quoted ''2026-10-20T13:00:00Z'' @ ''). Mutually exclusive with fire_in_seconds.'')),
        (''fire_in_seconds'', typed_field ''integer'' ''Seconds from now when to fire the reminder. Mutually exclusive with fire_at.''),
        (''recurring'', typed_field ''string'' (''Optional recurrence pattern: '' @ quoted ''daily|HH:MM'' @ '' (UTC) or ''
          @ quoted ''interval|N'' @ '' (every N seconds). Overrides fire_at/fire_in_seconds.'')),
        (''image_url'', typed_field ''string'' ''Optional image URL to include (Discord auto-embeds bare image URLs).''),
        (''bash_command'', typed_field ''string'' (''Optional shell command to run at fire-time (e.g. ''
          @ quoted ''free -h''
          @ ''). Its stdout is appended to the message in a code block. Use this when the ''
          @ ''reminder should report live system data.'')),
        (''job_id'', typed_field ''string'' ''Job ID returned by a previous add. Required for remove.'')]
       [''action''] \<rparr>"

definition knowledge_search_declaration :: tool_definition where
  "knowledge_search_declaration = \<lparr> td_name = ''knowledge_search'',
     td_description = ''Search the persistent knowledge base for facts, configurations, and technical ''
       @ ''details. Use this before answering questions about available models, setup ''
       @ ''instructions, deployment steps, or any topic that might have been saved previously. ''
       @ ''Returns up to 5 matching entries with full content.'',
     td_input_schema = object_schema
       [(''query'', typed_field ''string'' (''Full-text search query. Use keywords or phrases (e.g. ''
          @ quoted ''claude models'' @ '', '' @ quoted ''discord setup'' @ '', '' @ quoted ''deployment''
          @ '').''))]
       [''query''] \<rparr>"

definition knowledge_write_declaration :: tool_definition where
  "knowledge_write_declaration = \<lparr> td_name = ''knowledge_write'',
     td_description = ''Save or update a fact in the persistent knowledge base. Use this to remember ''
       @ ''technical details, configurations, instructions, or any information that should be ''
       @ ''available in future conversations. Existing entries with the same topic are '' @ ''overwritten.'',
     td_input_schema = object_schema
       [(''topic'', typed_field ''string'' (''Unique slug identifying this entry (e.g. '' @ quoted ''claude_models''
          @ '', '' @ quoted ''discord_setup'' @ '', '' @ quoted ''deploy_steps''
          @ ''). Use underscores, no spaces.'')),
        (''content'', typed_field ''string'' ''Markdown content to store. Be concise but complete.''),
        (''tags'', typed_field ''string'' (''Optional comma-separated tags for categorisation (e.g. ''
          @ quoted ''ai,anthropic,models'' @ '').''))]
       [''topic'', ''content''] \<rparr>"

definition patch_file_declaration :: tool_definition where
  "patch_file_declaration = \<lparr> td_name = ''patch_file'',
     td_description = ''Make a surgical edit to a file by replacing an exact string with new text. Prefer ''
       @ ''this over write_file when changing only part of a file '' @ em_dash
       @ '' it is safer (only the matched region changes) and much cheaper on tokens. The ''
       @ ''match is exact and whitespace-sensitive: copy the old text verbatim from read_file ''
       @ ''output. Returns an error if old_string is not found or is ambiguous.'',
     td_input_schema = object_schema
       [(''path'', typed_field ''string'' ''Absolute or relative path to the file to edit.''),
        (''old_string'', typed_field ''string'' (
          ''Exact text to find. Must appear in the file. Copy it verbatim from read_file output '' @ em_dash
          @ '' including indentation and newlines.'')),
        (''new_string'', typed_field ''string'' ''Text to replace old_string with. Use an empty string to delete old_string.''),
        (''replace_all'', typed_field ''boolean'' ''Replace every occurrence instead of just the first. Default false.'')]
       [''path'', ''old_string'', ''new_string''] \<rparr>"

text \<open>In the order of the registry.\<close>

definition BUILTIN_DECLARATIONS :: "tool_definition list" where
  "BUILTIN_DECLARATIONS = [read_file_declaration, write_file_declaration, list_files_declaration,
     search_files_declaration, execute_command_declaration, bash_declaration, reminder_declaration,
     knowledge_search_declaration, knowledge_write_declaration, patch_file_declaration]"

lemmas declarations = read_file_declaration_def write_file_declaration_def list_files_declaration_def
  search_files_declaration_def execute_command_declaration_def bash_declaration_def reminder_declaration_def
  knowledge_search_declaration_def knowledge_write_declaration_def patch_file_declaration_def

lemma declared_names [simp]:
  "td_name read_file_declaration = ''read_file''" "td_name write_file_declaration = ''write_file''"
  "td_name list_files_declaration = ''list_files''" "td_name search_files_declaration = ''search_files''"
  "td_name execute_command_declaration = ''execute_command''" "td_name bash_declaration = ''bash''"
  "td_name reminder_declaration = ''reminder''" "td_name knowledge_search_declaration = ''knowledge_search''"
  "td_name knowledge_write_declaration = ''knowledge_write''" "td_name patch_file_declaration = ''patch_file''"
  by (simp_all add: declarations)

text \<open>The fields a schema requires.\<close>

definition required_fields :: "json \<Rightarrow> string list" where
  "required_fields schema = (case Option.bind (jget ''required'' schema) as_array of
     Some xs \<Rightarrow> List.map_filter as_str xs | None \<Rightarrow> [])"

lemma required_object [simp]: "required_fields (object_schema ps required) = required"
  by (induction required) (simp_all add: required_fields_def object_schema_def List.map_filter_def)

lemma required_declared [simp]:
  "required_fields (td_input_schema read_file_declaration) = [''path'']"
  "required_fields (td_input_schema write_file_declaration) = [''path'', ''content'']"
  "required_fields (td_input_schema list_files_declaration) = [''path'']"
  "required_fields (td_input_schema search_files_declaration) = [''path'', ''pattern'']"
  "required_fields (td_input_schema execute_command_declaration) = [''command'']"
  "required_fields (td_input_schema bash_declaration) = [''command'']"
  "required_fields (td_input_schema reminder_declaration) = [''action'']"
  "required_fields (td_input_schema knowledge_search_declaration) = [''query'']"
  "required_fields (td_input_schema knowledge_write_declaration) = [''topic'', ''content'']"
  "required_fields (td_input_schema patch_file_declaration) = [''path'', ''old_string'', ''new_string'']"
  by (simp_all add: declarations)

end
