(* ===== verification/Toolbox.thy ===== *)
theory Toolbox
  imports ToolSchemas Turns
begin

text \<open>
  The tools of a turn (\<open>crates/skynet-agent/src/tools/build.rs\<close>): the built-in tools over the gateway's
  services and the file system, followed by the script plugins, as the tool loops of a turn call them.

  What a call meets outside the gateway is a record, one for each call in the order of the calls. Other
  processes, the commands the tools started among them, may change the files between two calls.
\<close>

section \<open>The world of the tools\<close>

text \<open>\<open>path_push\<close> is \<open>Path::join\<close>: an absolute second path replaces the first.\<close>

definition path_push :: "string \<Rightarrow> string \<Rightarrow> string" where
  "path_push dir s = (if starts_with s ''/'' then s else path_join dir s)"

text \<open>A process of a plugin: the interpreter, its one argument, the working directory and the value of
  \<open>SKYNET_INPUT\<close>.\<close>

record plugin_run =
  pr_command :: string
  pr_script :: string
  pr_dir :: string
  pr_input :: json

definition plugin_process :: "string \<Rightarrow> tool_manifest \<Rightarrow> json \<Rightarrow> plugin_run" where
  "plugin_process dir M input = \<lparr> pr_command = tm_command M, pr_script = path_push dir (tm_script M),
     pr_dir = dir, pr_input = input \<rparr>"

text \<open>
  The part of the services that only the tools touch: the calls so far, the files, the remembered shell
  session (a static of the program, shared by all channels), and three logs, of what was written to
  the shell, of the processes of \<open>execute_command\<close> and of those of plugins. \<open>tb_model\<close> is the state of
  the language model.
\<close>

record 'y toolbox =
  tb_calls :: nat
  tb_files :: files
  tb_session :: "bash_session option"
  tb_written :: "(string \<times> string) list"
  tb_effects :: "exec_effect list"
  tb_plugins :: "plugin_run list"
  tb_model :: 'y

type_synonym 'y tool_world = "'y toolbox world"

abbreviation box :: "'y tool_world \<Rightarrow> 'y toolbox" where "box w \<equiv> sv_rest (snd w)"

definition set_box :: "'y toolbox \<Rightarrow> 'y tool_world \<Rightarrow> 'y tool_world" where
  "set_box b w = (fst w, snd w\<lparr>sv_rest := b\<rparr>)"

record tool_env =
  te_call :: call_env
  te_bash :: bash_env
  te_io :: io_faults
  te_parent :: "string \<Rightarrow> string option"
  te_read_dir :: "string \<Rightarrow> string + dir_entry option list"
  te_tree :: "string \<Rightarrow> (string \<times> fs_tree) list option"
  te_time :: "string \<Rightarrow> string + int"
  te_text :: "reminder_action \<Rightarrow> string"
  te_plugin :: plugin_end
  te_outside :: "files \<Rightarrow> files"

section \<open>The tools\<close>

type_synonym 'y tool_body = "tool_env \<Rightarrow> json \<Rightarrow> 'y tool_world \<Rightarrow> 'y tool_world \<times> tool_result outcome"

definition with_files :: "(files \<Rightarrow> files \<times> tool_result) \<Rightarrow> 'y tool_world \<Rightarrow> 'y tool_world \<times> tool_result outcome" where
  "with_files f w = (let (fs, r) = f (tb_files (box w)) in (set_box (box w\<lparr>tb_files := fs\<rparr>) w, Ret r))"

definition read_file_body :: "'y tool_body" where
  "read_file_body V input w = (w, read_file (te_io V) input (tb_files (box w)))"

definition write_file_body :: "'y tool_body" where
  "write_file_body V input w = with_files (write_file (te_io V) (te_parent V) input) w"

definition patch_file_body :: "'y tool_body" where
  "patch_file_body V input w = with_files (patch_file (te_io V) input) w"

definition list_files_body :: "'y tool_body" where
  "list_files_body V input w = (w, Ret (list_files (te_read_dir V) input))"

definition search_files_body :: "'y tool_body" where
  "search_files_body V input w = (w, Ret (search_files (te_tree V) input))"

definition execute_command_body :: "'y tool_body" where
  "execute_command_body V input w =
     (let (effects, r) = execute_command (te_call V) input
      in (set_box (box w\<lparr>tb_effects := tb_effects (box w) @ effects\<rparr>) w, Ret r))"

definition bash_state_of :: "'y tool_world \<Rightarrow> bash_state" where
  "bash_state_of w = \<lparr> bh_session = tb_session (box w), bh_terminal = sv_terminal (snd w),
     bh_written = tb_written (box w) \<rparr>"

definition put_bash :: "bash_state \<Rightarrow> 'y tool_world \<Rightarrow> 'y tool_world" where
  "put_bash st w = (fst w, snd w\<lparr>sv_terminal := bh_terminal st,
     sv_rest := box w\<lparr>tb_session := bh_session st, tb_written := bh_written st\<rparr>\<rparr>)"

definition bash_body :: "'y tool_body" where
  "bash_body V input w =
     (let (st, r) = bash_execute (te_call V) (te_bash V) input (bash_state_of w) in (put_bash st w, r))"

definition reminder_body :: "string \<Rightarrow> nat option \<Rightarrow> 'y tool_body" where
  "reminder_body channel_name channel_id V input w =
     (let T = \<lparr> rt_channel_name = channel_name, rt_channel_id = channel_id, rt_time = te_time V, rt_text = te_text V \<rparr>;
          ((js, poisoned), r) = reminder_execute (te_call V) T input (sv_jobs (snd w), sv_jobs_poisoned (snd w))
      in ((fst w, snd w\<lparr>sv_jobs := js, sv_jobs_poisoned := poisoned\<rparr>), r))"

definition knowledge_search_body :: "'y tool_body" where
  "knowledge_search_body V input w = (w, Ret (knowledge_search_tool (te_call V) input (fst w)))"

definition knowledge_write_body :: "'y tool_body" where
  "knowledge_write_body V input w =
     (let (m, r) = knowledge_write_tool (te_call V) input (fst w) in ((m, snd w), Ret r))"

definition plugin_body :: "string \<Rightarrow> tool_manifest \<Rightarrow> 'y tool_body" where
  "plugin_body dir M V input w =
     (set_box (box w\<lparr>tb_plugins := tb_plugins (box w) @ [plugin_process dir M input]\<rparr>) w,
      Ret (script_execute M (te_plugin V)))"

text \<open>A call takes the next record of what is outside.\<close>

definition arrived :: "tool_env \<Rightarrow> 'y tool_world \<Rightarrow> 'y tool_world" where
  "arrived V w = set_box (box w\<lparr>tb_calls := Suc (tb_calls (box w)), tb_files := te_outside V (tb_files (box w))\<rparr>) w"

definition run_body :: "(nat \<Rightarrow> tool_env) \<Rightarrow> 'y tool_body \<Rightarrow> json \<Rightarrow> 'y tool_world \<Rightarrow> 'y tool_world \<times> tool_result outcome" where
  "run_body e body input w = (let V = e (tb_calls (box w)) in body V input (arrived V w))"

definition declared :: "(nat \<Rightarrow> tool_env) \<Rightarrow> tool_definition \<Rightarrow> 'y tool_body \<Rightarrow> 'y tool_world tool" where
  "declared e d body = \<lparr> tool_name = td_name d, tool_description = td_description d,
     tool_input_schema = td_input_schema d, tool_execute = run_body e body \<rparr>"

definition plugin_tool :: "(nat \<Rightarrow> tool_env) \<Rightarrow> string \<times> tool_manifest \<Rightarrow> 'y tool_world tool" where
  "plugin_tool e p = (case p of (dir, M) \<Rightarrow> \<lparr> tool_name = tm_name M, tool_description = tm_description M,
     tool_input_schema = build_schema M, tool_execute = run_body e (plugin_body dir M) \<rparr>)"

definition builtin_bodies :: "string \<Rightarrow> nat option \<Rightarrow> (tool_definition \<times> 'y tool_body) list" where
  "builtin_bodies channel_name channel_id =
     [(read_file_declaration, read_file_body), (write_file_declaration, write_file_body),
      (list_files_declaration, list_files_body), (search_files_declaration, search_files_body),
      (execute_command_declaration, execute_command_body), (bash_declaration, bash_body),
      (reminder_declaration, reminder_body channel_name channel_id),
      (knowledge_search_declaration, knowledge_search_body), (knowledge_write_declaration, knowledge_write_body),
      (patch_file_declaration, patch_file_body)]"

text \<open>\<open>plugins\<close> is what \<open>load_script_tools\<close> found when the message arrived.\<close>

definition build_tools ::
    "(nat \<Rightarrow> tool_env) \<Rightarrow> (string \<times> tool_manifest) list \<Rightarrow> string \<Rightarrow> nat option \<Rightarrow> 'y tool_world tool list" where
  "build_tools e plugins channel_name channel_id =
     map (\<lambda>(d, body). declared e d body) (builtin_bodies channel_name channel_id) @ map (plugin_tool e) plugins"

definition builtin_names :: "string list" where
  "builtin_names = map td_name BUILTIN_DECLARATIONS"

lemma builtin_names_eq: "builtin_names = [''read_file'', ''write_file'', ''list_files'', ''search_files'',
    ''execute_command'', ''bash'', ''reminder'', ''knowledge_search'', ''knowledge_write'', ''patch_file'']"
  by (simp add: builtin_names_def BUILTIN_DECLARATIONS_def)

section \<open>Which tool a call reaches\<close>

lemma builtin_bodies_names: "map (\<lambda>x. td_name (fst x)) (builtin_bodies ch cid) = builtin_names"
  by (simp add: builtin_bodies_def builtin_names_def BUILTIN_DECLARATIONS_def)

lemma find_distinct: "distinct (map f xs) \<Longrightarrow> x \<in> set xs \<Longrightarrow> find (\<lambda>t. f t = f x) (xs @ ys) = Some x"
  by (induction xs) (auto simp: image_iff)

lemma find_append: "find Q (xs @ ys) = (case find Q xs of None \<Rightarrow> find Q ys | Some x \<Rightarrow> Some x)"
  by (induction xs) auto

lemma find_SomeD: "find Q xs = Some x \<Longrightarrow> x \<in> set xs \<and> Q x"
  by (induction xs) (auto split: if_splits)

abbreviation builtin_tools :: "(nat \<Rightarrow> tool_env) \<Rightarrow> string \<Rightarrow> nat option \<Rightarrow> 'y tool_world tool list" where
  "builtin_tools e ch cid \<equiv> map (\<lambda>(d, body). declared e d body) (builtin_bodies ch cid)"

lemma declared_parts [simp]: "tool_name (declared e d body) = td_name d" "tool_execute (declared e d body) = run_body e body"
  by (simp_all add: declared_def)

lemma builtin_tools_names: "map tool_name (builtin_tools e ch cid) = builtin_names"
  by (rule trans [OF _ builtin_bodies_names [of ch cid]]) (auto simp: comp_def split_beta)

lemma execute_declared:
  assumes "(d, body) \<in> set (builtin_bodies ch cid)" "call_name c = td_name d"
  shows "execute_tool (build_tools e plugins ch cid) c w = run_body e body (call_input c) w"
proof -
  have "distinct (map tool_name (builtin_tools e ch cid))"
    unfolding builtin_tools_names builtin_names_eq by simp
  moreover have "declared e d body \<in> set (builtin_tools e ch cid)" using assms(1) by force
  ultimately have "find (\<lambda>t. tool_name t = tool_name (declared e d body)) (build_tools e plugins ch cid)
      = Some (declared e d body)"
    unfolding build_tools_def by (rule find_distinct)
  then show ?thesis using assms(2) by (simp add: execute_tool_def)
qed

text \<open>A call reaches a built-in tool, a plugin whose name no built-in tool has, or nothing.\<close>

lemma execute_cases [case_names builtin plugin unknown]:
  fixes w :: "'a tool_world"
  assumes "\<And>d body. (d, body) \<in> set (builtin_bodies ch cid) \<Longrightarrow> td_name d = call_name c \<Longrightarrow>
      execute_tool (build_tools e plugins ch cid) c w = run_body e body (call_input c) w \<Longrightarrow> P"
    and "\<And>dir M. (dir, M) \<in> set plugins \<Longrightarrow> tm_name M = call_name c \<Longrightarrow> call_name c \<notin> set builtin_names \<Longrightarrow>
      execute_tool (build_tools e plugins ch cid) c w = run_body e (plugin_body dir M) (call_input c) w \<Longrightarrow> P"
    and "execute_tool (build_tools e plugins ch cid) c w = (w, Ret (ToolResult_error (''unknown tool: '' @ call_name c)))
      \<Longrightarrow> P"
  shows P
proof (cases "call_name c \<in> set builtin_names")
  case True
  then have "call_name c \<in> set (map tool_name (builtin_tools e ch cid :: 'a tool_world tool list))" by (simp only: builtin_tools_names)
  then obtain d and body :: "'a tool_body" where d: "(d, body) \<in> set (builtin_bodies ch cid)"
    "td_name d = call_name c" by auto
  then show ?thesis using execute_declared [OF d(1), of c] assms(1) by metis
next
  case False
  then have "call_name c \<notin> set (map tool_name (builtin_tools e ch cid :: 'a tool_world tool list))"
    by (simp only: builtin_tools_names not_False_eq_True)
  then have none: "find (\<lambda>t. tool_name t = call_name c) (builtin_tools e ch cid :: 'a tool_world tool list) = None"
    by (force simp: find_None_iff)
  show ?thesis
  proof (cases "find (\<lambda>t. tool_name t = call_name c) (map (plugin_tool e) plugins :: 'a tool_world tool list)")
    case None
    then show ?thesis using none by (intro assms(3)) (simp add: execute_tool_def build_tools_def find_append)
  next
    case (Some t)
    then have "t \<in> set (map (plugin_tool e) plugins :: 'a tool_world tool list)" "tool_name t = call_name c"
      by (auto dest: find_SomeD simp del: set_map)
    then obtain dir M where M: "(dir, M) \<in> set plugins" "t = plugin_tool e (dir, M)" "tm_name M = call_name c"
      by (auto simp: plugin_tool_def)
    show ?thesis
      by (rule assms(2) [OF M(1,3) False])
        (use none Some M(2) in \<open>simp add: execute_tool_def build_tools_def find_append plugin_tool_def\<close>)
  qed
qed

section \<open>The schemas are enforced\<close>

lemma set_box_same [simp]: "set_box (box w) w = w" "set_box b (set_box b' w) = set_box b w" "box (set_box b w) = b"
  "fst (set_box b w) = fst w" "snd (set_box b w) = snd w\<lparr>sv_rest := b\<rparr>"
  by (simp_all add: set_box_def)

lemma put_same: "put_bash (bash_state_of w) w = w"
  by (simp add: put_bash_def bash_state_of_def)

lemma with_files_same: "f (tb_files (box w)) = (tb_files (box w), r) \<Longrightarrow> with_files f w = (w, Ret r)"
  by (simp add: with_files_def)

lemmas file_bodies = read_file_body_def write_file_body_def patch_file_body_def list_files_body_def search_files_body_def
lemmas service_bodies = execute_command_body_def bash_body_def reminder_body_def knowledge_search_body_def
  knowledge_write_body_def

definition refuses :: "'y tool_body \<Rightarrow> tool_env \<Rightarrow> json \<Rightarrow> 'y tool_world \<Rightarrow> bool" where
  "refuses body V input w \<longleftrightarrow> (\<exists>r. body V input w = (w, Ret r) \<and> tr_is_error r)"

lemma error_is_error [simp]: "tr_is_error (ToolResult_error m)" "\<not> tr_is_error (ToolResult_success m)"
  by (simp_all add: ToolResult_error_def ToolResult_success_def)

lemma file_bodies_refuse:
  "in_str ''path'' input = None \<Longrightarrow> refuses read_file_body V input w"
  "in_str ''path'' input = None \<or> in_str ''content'' input = None \<Longrightarrow> refuses write_file_body V input w"
  "in_str ''path'' input = None \<Longrightarrow> refuses list_files_body V input w"
  "in_str ''path'' input = None \<or> in_str ''pattern'' input = None \<Longrightarrow> refuses search_files_body V input w"
  "in_str ''path'' input = None \<or> in_str ''old_string'' input = None \<or> in_str ''new_string'' input = None
     \<Longrightarrow> refuses patch_file_body V input w"
proof -
  note unfold = refuses_def file_bodies read_file_def write_file_def list_files_def search_files_def patch_file_def
    with_files_def missing_param_def
  show "in_str ''path'' input = None \<Longrightarrow> refuses read_file_body V input w" by (simp add: unfold)
  show "in_str ''path'' input = None \<or> in_str ''content'' input = None \<Longrightarrow> refuses write_file_body V input w"
    by (auto simp: unfold split: option.split)
  show "in_str ''path'' input = None \<Longrightarrow> refuses list_files_body V input w" by (simp add: unfold)
  show "in_str ''path'' input = None \<or> in_str ''pattern'' input = None \<Longrightarrow> refuses search_files_body V input w"
    by (auto simp: unfold split: option.split)
  show "in_str ''path'' input = None \<or> in_str ''old_string'' input = None \<or> in_str ''new_string'' input = None
     \<Longrightarrow> refuses patch_file_body V input w"
    by (auto simp: unfold split: option.split)
qed

lemma service_bodies_refuse:
  "in_str ''command'' input = None \<Longrightarrow> refuses execute_command_body V input w"
  "in_str ''command'' input = None \<Longrightarrow> refuses bash_body V input w"
  "in_str ''action'' input = None \<Longrightarrow> refuses (reminder_body ch cid) V input w"
  "in_str ''query'' input = None \<Longrightarrow> refuses knowledge_search_body V input w"
  "in_str ''topic'' input = None \<or> in_str ''content'' input = None \<Longrightarrow> refuses knowledge_write_body V input w"
proof -
  note unfold = refuses_def service_bodies execute_command_def bash_execute_def reminder_execute_def
    knowledge_search_tool_def knowledge_write_tool_def not_blank_def missing_param_def put_same
  show "in_str ''command'' input = None \<Longrightarrow> refuses execute_command_body V input w" by (simp add: unfold)
  show "in_str ''command'' input = None \<Longrightarrow> refuses bash_body V input w" by (simp add: unfold)
  show "in_str ''action'' input = None \<Longrightarrow> refuses (reminder_body ch cid) V input w" by (simp add: unfold)
  show "in_str ''query'' input = None \<Longrightarrow> refuses knowledge_search_body V input w" by (simp add: unfold)
  show "in_str ''topic'' input = None \<or> in_str ''content'' input = None \<Longrightarrow> refuses knowledge_write_body V input w"
    by (auto simp: unfold split: option.split)
qed

lemma bodies_enforce:
  assumes "(d, body) \<in> set (builtin_bodies ch cid)" "f \<in> set (required_fields (td_input_schema d))" "in_str f input = None"
  shows "refuses body V input w"
proof -
  have "\<forall>x \<in> set (builtin_bodies ch cid). \<forall>f \<in> set (required_fields (td_input_schema (fst x))).
      in_str f input = None \<longrightarrow> refuses (snd x) V input w"
    unfolding builtin_bodies_def by (simp add: file_bodies_refuse service_bodies_refuse)
  then show ?thesis using assms by force
qed

end
