(* ===== verification/Bot.thy ===== *)
theory Bot
  imports Discord Pipeline
begin

text \<open>
  The Discord bot at work (\<open>crates/skynet-discord\<close>): what happens to a message from the gate to the
  reply (\<open>handler.rs\<close>), over the shared pipeline, and the adapter's endless loop of connecting
  (\<open>adapter.rs\<close>). A turn is a task of its own, modelled as one step; the Discord library is a
  parameter: \<open>say\<close> gives the error of a send, if any.
\<close>

section \<open>A message\<close>

definition ai_unavailable :: string where
  "ai_unavailable = warning_sign @ '' AI unavailable. Please try again later.''"

text \<open>
  The last component of the result is what the task sends to the channel: a panic, or the messages
  up to and including the first that fails; no value would be a loop that does not end. The tools
  are those built for the channel, with neither a user context nor a model override.
\<close>

definition discord_process_message ::
    "(int \<Rightarrow> string) \<Rightarrow> (nat \<Rightarrow> string) \<Rightarrow> string
      \<Rightarrow> (memory_manager \<times> 'w) agent_runtime \<Rightarrow> (memory_manager \<times> 'w) tool list
      \<Rightarrow> (string \<Rightarrow> string option) \<Rightarrow> string \<Rightarrow> string \<Rightarrow> memory_manager \<times> 'w
      \<Rightarrow> (memory_manager \<times> 'w) \<times> string list \<times> string list outcome option" where
  "discord_process_message cutoff tick now a tools say session_key content s =
     (let (s', spawned, res) =
            process_message_non_streaming cutoff tick now a tools session_key ''discord'' content None None s
      in (s', spawned,
          case res of
            Panic \<Rightarrow> Some Panic
          | Ret (Inl e) \<Rightarrow> Some (Ret [ai_unavailable])
          | Ret (Inr response) \<Rightarrow> map_option (\<lambda>r. bind_outcome r (\<lambda>(sent, _). Ret sent))
              (send_chunked say (pm_content response))))"

definition on_message ::
    "(int \<Rightarrow> string) \<Rightarrow> (nat \<Rightarrow> string) \<Rightarrow> string
      \<Rightarrow> (memory_manager \<times> 'w) agent_runtime \<Rightarrow> (memory_manager \<times> 'w) tool list
      \<Rightarrow> (string \<Rightarrow> string option) \<Rightarrow> discord_handler \<Rightarrow> discord_message \<Rightarrow> memory_manager \<times> 'w
      \<Rightarrow> (memory_manager \<times> 'w) \<times> string list \<times> string list outcome option" where
  "on_message cutoff tick now a tools say h m s =
     (case message h m of
        None \<Rightarrow> (s, [], Some (Ret []))
      | Some (session_key, content) \<Rightarrow>
          discord_process_message cutoff tick now a tools say session_key content s)"

section \<open>The adapter\<close>

text \<open>
  \<open>run\<close> never returns: it is a machine whose events are the results of the calls it waits for, of
  building a client and of the client's gateway loop. Every client gets a new handler.
\<close>

record discord_adapter =
  da_require_mention :: bool
  da_dm_allowed :: bool

definition build_handler :: "discord_adapter \<Rightarrow> discord_handler" where
  "build_handler d = \<lparr> dh_require_mention = da_require_mention d, dh_dm_allowed = da_dm_allowed d, dh_bot_id = None \<rparr>"

datatype adapter_phase = FirstBuild | Running discord_handler | Rebuild

datatype adapter_event = BuildEnded "string option" | GatewayReady nat | GatewayEnded "string option"

datatype adapter_action = SpawnDelivery | SleepSecs nat

fun adapter_step ::
    "discord_adapter \<Rightarrow> bool \<Rightarrow> adapter_phase \<times> adapter_action list \<Rightarrow> adapter_event \<Rightarrow> adapter_phase \<times> adapter_action list" where
  "adapter_step d has_rx (FirstBuild, out) (BuildEnded (Some e)) = (FirstBuild, out @ [SleepSecs 30])"
| "adapter_step d has_rx (FirstBuild, out) (BuildEnded None) =
     (Running (build_handler d), out @ (if has_rx then [SpawnDelivery] else []))"
| "adapter_step d has_rx (Running h, out) (GatewayReady me) = (Running (ready me h), out)"
| "adapter_step d has_rx (Running h, out) (GatewayEnded e) = (Rebuild, out @ [SleepSecs 5])"
| "adapter_step d has_rx (Rebuild, out) (BuildEnded (Some e)) = (Rebuild, out @ [SleepSecs 30])"
| "adapter_step d has_rx (Rebuild, out) (BuildEnded None) = (Running (build_handler d), out)"
| "adapter_step d has_rx s e = s"

text \<open>The delivery task is spawned once, with the first client; the settings of the handler are the
  adapter's, whatever the gateway does.\<close>

fun adapter_ok :: "discord_adapter \<Rightarrow> bool \<Rightarrow> adapter_phase \<times> adapter_action list \<Rightarrow> bool" where
  "adapter_ok d has_rx (FirstBuild, out) \<longleftrightarrow> set out \<subseteq> {SleepSecs 30}"
| "adapter_ok d has_rx (Rebuild, out) \<longleftrightarrow>
     count_list out SpawnDelivery = (if has_rx then 1 else 0) \<and> set out \<subseteq> {SpawnDelivery, SleepSecs 5, SleepSecs 30}"
| "adapter_ok d has_rx (Running h, out) \<longleftrightarrow>
     count_list out SpawnDelivery = (if has_rx then 1 else 0) \<and> set out \<subseteq> {SpawnDelivery, SleepSecs 5, SleepSecs 30}
     \<and> dh_require_mention h = da_require_mention d \<and> dh_dm_allowed h = da_dm_allowed d"

lemma count_not_in: "x \<notin> set xs \<Longrightarrow> count_list xs x = 0"
  by (induction xs) auto

lemma adapter_step_ok: "adapter_ok d has_rx s \<Longrightarrow> adapter_ok d has_rx (adapter_step d has_rx s e)"
proof (induction d has_rx s e rule: adapter_step.induct)
  case (2 d has_rx out)
  then have "SpawnDelivery \<notin> set out" by auto
  with 2 show ?case by (auto simp: build_handler_def count_not_in)
qed (auto simp: build_handler_def ready_def)

interpretation adapter: machine "adapter_step d has_rx" "adapter_ok d has_rx"
  by unfold_locales (rule adapter_step_ok)

section \<open>A turn on Discord\<close>

lemma say_all_sent:
  "set (fst (say_all say cs)) \<subseteq> set cs" "(\<forall>x. say x = None) \<Longrightarrow> fst (say_all say cs) = cs"
  by (induction say cs rule: say_all.induct) (auto split: option.splits prod.splits)

lemma send_chunked_result:
  assumes "valid_utf8 reply"
    and "sent = map_option (\<lambda>r. bind_outcome r (\<lambda>(sent, _). Ret sent)) (send_chunked say reply)"
  shows "(sent = Some Panic \<and> \<not> is_ascii reply)
     \<or> (\<exists>ms. sent = Some (Ret ms) \<and> (\<forall>x \<in> set ms. length x \<le> 1950)
         \<and> ((\<forall>x. say x = None) \<longrightarrow> (\<exists>gaps. length gaps = length ms \<and> (\<forall>g \<in> set gaps. blank g) \<and> reply = weave ms gaps)))"
proof -
  obtain r where r: "split_chunks reply = Some r"
    and cs: "\<And>cs. r = Ret cs \<Longrightarrow> (\<forall>c \<in> set cs. length c \<le> 1950)
        \<and> (\<exists>gaps. length gaps = length cs \<and> (\<forall>g \<in> set gaps. blank g) \<and> reply = weave cs gaps)"
    and "is_ascii reply \<longrightarrow> r \<noteq> Panic"
    using split_chunks_faithful [OF assms(1)] by blast
  then show ?thesis using assms(2) say_all_sent [of say]
    by (cases r) (auto simp: send_chunked_def split_beta dest!: subsetD)
qed

text \<open>C23: A turn on Discord. For a message that passes the gate: if the model fails, the only trace is
  one apology; if a tool panics, nothing is sent or saved. Otherwise the answer's text, unless empty, is saved with the message as the
  session's next two turns, and one compaction is spawned, whether or not it can be sent; what is
  sent are messages of at most 1950 bytes which, when Discord takes them all, spell the answer
  but for white space; or the task panics, which no ASCII answer causes.\<close>
theorem discord_turn:
  assumes gate: "message h m = Some (k, c)"
    and run: "run_tool_loop (ar_provider a) (pipeline_request cutoff (mm_db (fst s)) a tools k c None None) tools s
      = (s1, reqs, res)"
    and utf8: "case res of Ret (Inr (r, called)) \<Rightarrow> valid_utf8 (rs_content r) | _ \<Rightarrow> True"
    and clock: "\<forall>x \<in> set (turns (mm_db (fst s1)) k). cm_created_at x \<le> now"
    and turn: "on_message cutoff tick now a tools say h m s = (s', spawned, sent)"
  shows "case res of
      Panic \<Rightarrow> s' = s1 \<and> spawned = [] \<and> sent = Some Panic
    | Ret (Inl e) \<Rightarrow> s' = s1 \<and> spawned = [] \<and> sent = Some (Ret [ai_unavailable])
    | Ret (Inr (r, called)) \<Rightarrow>
        (if rs_content r = [] then turns (mm_db (fst s')) k = turns (mm_db (fst s1)) k \<and> spawned = []
         else (\<exists>u v. turns (mm_db (fst s')) k = turns (mm_db (fst s1)) k @ [u, v]
             \<and> history_message u = \<lparr> msg_role = RUser, msg_content = c \<rparr>
             \<and> history_message v = \<lparr> msg_role = RAssistant, msg_content = rs_content r \<rparr>) \<and> spawned = [k])
        \<and> ((sent = Some Panic \<and> \<not> is_ascii (rs_content r))
           \<or> (\<exists>ms. sent = Some (Ret ms) \<and> (\<forall>x \<in> set ms. length x \<le> 1950)
               \<and> ((\<forall>x. say x = None) \<longrightarrow> (\<exists>gaps. length gaps = length ms \<and> (\<forall>g \<in> set gaps. blank g)
                   \<and> rs_content r = weave ms gaps))))"
proof (cases "\<exists>r called. res = Ret (Inr (r, called))")
  case False
  then show ?thesis using assms
    by (auto simp: on_message_def discord_process_message_def process_message_non_streaming_def
        split: outcome.splits sum.splits)
next
  case True
  then obtain r called where res: "res = Ret (Inr (r, called))" by blast
  let ?db = "log_calls tick k called (mm_db (fst s1))"
  have s': "mm_db (fst s') = (if rs_content r = [] then ?db else save_turns now k ''discord'' c r ?db)"
    "spawned = (if rs_content r = [] then [] else [k])"
    "sent = map_option (\<lambda>r. bind_outcome r (\<lambda>(sent, _). Ret sent)) (send_chunked say (rs_content r))"
    using turn run by (auto simp: res gate on_message_def discord_process_message_def
        process_message_non_streaming_def Let_def)
  have "\<forall>x \<in> set (turns ?db k). cm_created_at x \<le> now" using clock by (simp add: log_calls_turns)
  from save_turns_turns [OF this, of "''discord''" c r]
  have "rs_content r \<noteq> [] \<Longrightarrow> \<exists>u v. turns (mm_db (fst s')) k = turns (mm_db (fst s1)) k @ [u, v]
     \<and> history_message u = \<lparr> msg_role = RUser, msg_content = c \<rparr>
     \<and> history_message v = \<lparr> msg_role = RAssistant, msg_content = rs_content r \<rparr>"
    using s'(1) by (metis log_calls_turns)
  moreover have "valid_utf8 (rs_content r)" using utf8 res by simp
  note send_chunked_result [OF this s'(3)]
  ultimately show ?thesis using s'(1,2) by (simp add: res log_calls_turns)
qed

text \<open>A private message, answered by a provider that always says the same.\<close>

definition private_hi :: discord_message where
  "private_hi = \<lparr> dm_author_bot = False, dm_author_id = 7, dm_guild_id = None, dm_mentions = [], dm_content = ''hi'' \<rparr>"

theorem discord_turn_witness:
  "let a = agent_runtime_new (parrot ''hello'') (prompt_load (\<lambda>_. None) None) ''m'';
       (s', spawned, sent) = on_message (\<lambda>_. []) (\<lambda>_. ''t'') ''t'' a [] (\<lambda>_. None)
          (build_handler \<lparr> da_require_mention = True, da_dm_allowed = True \<rparr>) private_hi (memory_manager_new init_db, ())
   in map history_message (turns (mm_db (fst s')) ''discord:dm:7'')
      = [\<lparr> msg_role = RUser, msg_content = ''hi'' \<rparr>, \<lparr> msg_role = RAssistant, msg_content = ''hello'' \<rparr>]
     \<and> spawned = [''discord:dm:7''] \<and> sent \<noteq> Some Panic"
proof -
  let ?a = "agent_runtime_new (parrot ''hello'') (prompt_load (\<lambda>_. None) None) ''m''
    :: (memory_manager \<times> unit) agent_runtime"
  let ?s = "(memory_manager_new init_db, ())"
  let ?h = "build_handler \<lparr> da_require_mention = True, da_dm_allowed = True \<rparr>"
  have gate: "message ?h private_hi = Some (''discord:dm:7'', ''hi'')"
    by (simp add: message_def private_hi_def build_handler_def discord_session_key_def, code_simp)
  let ?req = "pipeline_request (\<lambda>_. []) (mm_db (fst ?s)) ?a
    ([] :: (memory_manager \<times> unit) tool list) ''discord:dm:7'' ''hi'' None None"
  obtain r reqs where run: "run_tool_loop (ar_provider ?a) ?req [] ?s = (?s, reqs, Ret (Inr (r, [])))" "rs_content r = ''hello''"
    by (simp add: run_tool_loop_def MAX_ITERATIONS_def numeral_eq_Suc agent_runtime_new_def parrot_def Let_def)
  obtain s' spawned sent where t: "on_message (\<lambda>_. []) (\<lambda>_. ''t'') ''t'' ?a [] (\<lambda>_. None) ?h private_hi ?s
      = (s', spawned, sent)" by (metis prod_cases3)
  have none: "turns (mm_db (fst ?s)) ''discord:dm:7'' = []" by (simp add: turns_def memory_manager_new_def init_db_def)
  have "valid_utf8 ''hello''" "is_ascii ''hello''" by code_simp+
  with discord_turn [OF gate run(1) _ _ t] run(2) none t show ?thesis by (auto simp: Let_def)
qed

end
