(* ===== verification/ToolboxProps.thy ===== *)
theory ToolboxProps
  imports Toolbox Bot ChatProps
begin

text \<open>
  What the tools can do to the gateway, whatever the language model asks for: a relation between the
  world before and after, kept by every tool, so by every turn on every channel.
\<close>

section \<open>Logs\<close>

text \<open>A log only grows, by entries of a kind.\<close>

definition extends :: "('w \<Rightarrow> 'a list) \<Rightarrow> ('a \<Rightarrow> bool) \<Rightarrow> 'w \<Rightarrow> 'w \<Rightarrow> bool" where
  "extends f P w w' \<longleftrightarrow> (\<exists>new. f w' = f w @ new \<and> (\<forall>x \<in> set new. P x))"

lemma extends_same [simp]: "f w' = f w \<Longrightarrow> extends f P w w'"
  by (simp add: extends_def)

interpretation logged: preserved "extends f P"
proof
  show "extends f P s s2" if "extends f P s s1" "extends f P s1 s2" for s s1 s2
    using that unfolding extends_def by (metis Un_iff append.assoc set_append)
qed simp

section \<open>Confinement\<close>

text \<open>The commands that may be started, the texts that may be written to a shell, the plugins that may run and
  the jobs that may be added, by tools built for a channel with the given plugins.\<close>

definition startable :: "(nat \<Rightarrow> tool_env) \<Rightarrow> exec_effect \<Rightarrow> bool" where
  "startable e x \<longleftrightarrow> (\<forall>c. x = Spawn c \<longrightarrow> (\<exists>i. check_command (ce_ulow (te_call (e i))) c = Inr ()))"

definition writable :: "(nat \<Rightarrow> tool_env) \<Rightarrow> string \<times> string \<Rightarrow> bool" where
  "writable e x \<longleftrightarrow> (\<exists>i input. may_write (te_call (e i), te_bash (e i), input) (snd x))"

definition runnable :: "(string \<times> tool_manifest) list \<Rightarrow> plugin_run \<Rightarrow> bool" where
  "runnable plugins r \<longleftrightarrow> (\<exists>(dir, M) \<in> set plugins. tm_name M \<notin> set builtin_names \<and> (\<exists>input. r = plugin_process dir M input))"

definition own_reminder :: "(nat \<Rightarrow> tool_env) \<Rightarrow> string \<Rightarrow> nat option \<Rightarrow> job_row \<Rightarrow> bool" where
  "own_reminder e channel_name channel_id r \<longleftrightarrow> jr_name r = ''reminder''
     \<and> (\<exists>i act. jr_action r = te_text (e i) act \<and> ra_channel act = channel_name \<and> ra_channel_id act = channel_id)"

definition confined ::
    "(nat \<Rightarrow> tool_env) \<Rightarrow> (string \<times> tool_manifest) list \<Rightarrow> string \<Rightarrow> nat option \<Rightarrow> 'y tool_world \<Rightarrow> 'y tool_world \<Rightarrow> bool" where
  "confined e plugins channel_name channel_id w w' \<longleftrightarrow>
     extends (tb_effects \<circ> box) (startable e) w w' \<and> extends (tb_written \<circ> box) (writable e) w w'
     \<and> extends (tb_plugins \<circ> box) (runnable plugins) w w'
     \<and> (\<forall>r \<in> set (sv_jobs (snd w')). r \<in> set (sv_jobs (snd w)) \<or> own_reminder e channel_name channel_id r)
     \<and> sv_sessions (snd w') = sv_sessions (snd w) \<and> t_memory (mm_db (fst w')) = t_memory (mm_db (fst w))"

lemma confined_refl: "confined e plugins ch cid w w"
  by (simp add: confined_def)

lemma confined_trans:
  assumes "confined e plugins ch cid w w1" "confined e plugins ch cid w1 w2"
  shows "confined e plugins ch cid w w2"
proof -
  note parts = assms [unfolded confined_def]
  have "extends (tb_effects \<circ> box) (startable e) w w2" "extends (tb_written \<circ> box) (writable e) w w2"
    "extends (tb_plugins \<circ> box) (runnable plugins) w w2"
    by (rule logged.kept_trans [of _ _ _ w1]; use parts in simp)+
  moreover have "\<forall>r \<in> set (sv_jobs (snd w2)). r \<in> set (sv_jobs (snd w)) \<or> own_reminder e ch cid r"
    using parts by blast
  ultimately show ?thesis using parts by (simp add: confined_def)
qed

text \<open>Steps that touch none of it.\<close>

lemma confined_other:
  "tb_effects (box w') = tb_effects (box w) \<Longrightarrow> tb_written (box w') = tb_written (box w) \<Longrightarrow> tb_plugins (box w') = tb_plugins (box w)
    \<Longrightarrow> sv_jobs (snd w') = sv_jobs (snd w) \<Longrightarrow> sv_sessions (snd w') = sv_sessions (snd w)
    \<Longrightarrow> t_memory (mm_db (fst w')) = t_memory (mm_db (fst w)) \<Longrightarrow> confined e plugins ch cid w w'"
  by (simp add: confined_def)

named_theorems confinement

lemma arrived_confined: "confined e plugins ch cid w (arrived V w)"
  by (rule confined_other) (simp_all add: arrived_def)

lemma with_files_confined: "confined e plugins ch cid w (fst (with_files f w))"
  by (rule confined_other) (simp_all add: with_files_def split_beta)

lemma file_bodies_confined [confinement]:
  "confined e plugins ch cid w (fst (read_file_body V input w))"
  "confined e plugins ch cid w (fst (write_file_body V input w))"
  "confined e plugins ch cid w (fst (patch_file_body V input w))"
  "confined e plugins ch cid w (fst (list_files_body V input w))"
  "confined e plugins ch cid w (fst (search_files_body V input w))"
  by (simp_all add: file_bodies with_files_confined confined_refl)

lemma knowledge_bodies_confined [confinement]:
  "confined e plugins ch cid w (fst (knowledge_search_body V input w))"
  "confined e plugins ch cid w (fst (knowledge_write_body V input w))"
proof -
  show "confined e plugins ch cid w (fst (knowledge_search_body V input w))"
    by (simp add: knowledge_search_body_def confined_refl)
  have "t_memory (mm_db (fst (knowledge_write_tool E input m))) = t_memory (mm_db m)" for E m
    by (auto simp: knowledge_write_tool_def knowledge_write_def Let_def split: option.split)
  then show "confined e plugins ch cid w (fst (knowledge_write_body V input w))"
    by (intro confined_other) (simp_all add: knowledge_write_body_def split_beta)
qed

lemma execute_command_spawns:
  "Spawn c \<in> set (fst (execute_command E input)) \<Longrightarrow> check_command (ce_ulow E) c = Inr ()"
  by (auto simp: execute_command_def default_exec_options_def split: option.splits prod.splits sum.splits dest: exec_spawns)

lemma execute_command_confined [confinement]: "confined e plugins ch cid w (fst (execute_command_body (e i) input w))"
proof -
  have "extends (tb_effects \<circ> box) (startable e) w (fst (execute_command_body (e i) input w))"
    unfolding extends_def execute_command_body_def split_beta Let_def
    by (rule exI [of _ "fst (execute_command (te_call (e i)) input)"])
      (auto simp: startable_def dest: execute_command_spawns)
  then show ?thesis by (simp add: confined_def execute_command_body_def split_beta)
qed

lemma bash_confined [confinement]: "confined e plugins ch cid w (fst (bash_body (e i) input w))"
proof -
  obtain st r where b: "bash_execute (te_call (e i)) (te_bash (e i)) input (bash_state_of w) = (st, r)" by force
  have "writes_only (may_write (te_call (e i), te_bash (e i), input)) (bash_state_of w) st"
    using bash_execute_writes b by (metis fst_conv)
  then have "extends (tb_written \<circ> box) (writable e) w (put_bash st w)"
    unfolding extends_def writes_only_def
    by (auto simp: put_bash_def bash_state_of_def writable_def list_all_iff)
  then show ?thesis using b by (simp add: bash_body_def confined_def put_bash_def)
qed

lemma plugin_confined [confinement]:
  assumes "(dir, M) \<in> set plugins" "tm_name M \<notin> set builtin_names"
  shows "confined e plugins ch cid w (fst (plugin_body dir M V input w))"
proof -
  have "runnable plugins (plugin_process dir M input)" using assms by (auto simp: runnable_def)
  then have "extends (tb_plugins \<circ> box) (runnable plugins) w (fst (plugin_body dir M V input w))"
    by (simp add: extends_def plugin_body_def)
  then show ?thesis by (simp add: confined_def plugin_body_def)
qed

lemma reminder_rows:
  assumes "reminder_execute E T input st = (st', r)" "x \<in> set (fst st')"
  shows "x \<in> set (fst st) \<or> jr_name x = ''reminder'' \<and> (\<exists>act. jr_action x = rt_text T act
    \<and> ra_channel act = rt_channel_name T \<and> ra_channel_id act = rt_channel_id T)"
  using assms
  by (auto simp: reminder_execute_def add_reminder_def list_reminders_def remove_reminder_def handle_add_job_def
      insert_job_def remove_job_def tbl_delete_def bind_outcome_Ret_iff Let_def
      split: option.splits outcome.splits sum.splits prod.splits if_splits)

lemma reminder_confined [confinement]: "confined e plugins ch cid w (fst (reminder_body ch cid (e i) input w))"
proof -
  let ?T = "\<lparr> rt_channel_name = ch, rt_channel_id = cid, rt_time = te_time (e i), rt_text = te_text (e i) \<rparr>"
  obtain js q r where b: "reminder_execute (te_call (e i)) ?T input (sv_jobs (snd w), sv_jobs_poisoned (snd w)) = ((js, q), r)"
    by (metis surj_pair)
  from reminder_rows [OF this] have "\<forall>x \<in> set js. x \<in> set (sv_jobs (snd w)) \<or> own_reminder e ch cid x"
    by (fastforce simp: own_reminder_def)
  then show ?thesis using b by (simp add: reminder_body_def confined_def Let_def)
qed

section \<open>A turn\<close>

lemma builtin_confined: "(d, body) \<in> set (builtin_bodies ch cid) \<Longrightarrow> confined e plugins ch cid w (fst (body (e i) input w))"
proof -
  have "\<forall>x \<in> set (builtin_bodies ch cid). confined e plugins ch cid w (fst (snd x (e i) input w))"
    unfolding builtin_bodies_def by (simp add: confinement)
  then show "(d, body) \<in> set (builtin_bodies ch cid) \<Longrightarrow> ?thesis" by force
qed

lemma execute_confined: "confined e plugins ch cid w (fst (execute_tool (build_tools e plugins ch cid) c w))"
proof -
  have run: "confined e plugins ch cid w (fst (run_body e body input w))"
    if "\<And>w i. confined e plugins ch cid w (fst (body (e i) input w))" for body :: "'a tool_body" and input
    unfolding run_body_def Let_def by (rule confined_trans [OF arrived_confined that])
  show ?thesis
  proof (cases rule: execute_cases [where e = e and plugins = plugins and ch = ch and cid = cid and c = c and w = w])
    case (builtin d body)
    then show ?thesis using run builtin_confined by metis
  next
    case (plugin dir M)
    then show ?thesis using run plugin_confined by metis
  qed (simp add: confined_refl)
qed

text \<open>A language model with a state of its own, as a provider over the world of the tools.\<close>

definition lift_provider :: "'y llm_provider \<Rightarrow> 'y tool_world llm_provider" where
  "lift_provider q =
     \<lparr> p_name = p_name q,
       p_send = (\<lambda>req w. let (y, r) = p_send q req (tb_model (box w)) in (set_box (box w\<lparr>tb_model := y\<rparr>) w, r)),
       p_send_stream = (\<lambda>req w. let (y, es, r) = p_send_stream q req (tb_model (box w))
         in (set_box (box w\<lparr>tb_model := y\<rparr>) w, es, r)) \<rparr>"

lemma talk_confined: "confined e plugins ch cid w (set_box (box w\<lparr>tb_model := y\<rparr>) w)"
  by (rule confined_other) simp_all

interpretation tool_turn: guarded_turn "confined e plugins ch cid" "lift_provider q" "build_tools e plugins ch cid"
  by unfold_locales
    (auto simp: lift_provider_def split_beta Let_def talk_confined execute_confined confined_refl intro: confined_trans)

section \<open>Every channel\<close>

lemma saving_keeps:
  "t_memory (save_turns now sk ch content r db) = t_memory db" "t_memory (log_calls tk sk ns db) = t_memory db"
proof -
  show "t_memory (save_turns now sk ch content r db) = t_memory db" by (simp add: save_turns_def save_message_def)
  show "t_memory (log_calls tk sk ns db) = t_memory db"
    by (induction tk sk ns db rule: log_calls.induct) (simp_all add: log_tool_call_def)
qed

lemma set_db_confined:
  "confined e plugins ch cid w (m, v) \<Longrightarrow> t_memory db = t_memory (mm_db m)
    \<Longrightarrow> confined e plugins ch cid w (m\<lparr>mm_db := db\<rparr>, v)"
  by (rule confined_trans, assumption, rule confined_other) simp_all

lemma tool_loop_confined:
  assumes "run_tool_loop (lift_provider q) req (build_tools e plugins ch cid) w = (w', sent, res)"
  shows "confined e plugins ch cid w w'"
  using tool_turn.run_tool_loop_kept [where w = w and q = q and req = req and e = e and plugins = plugins and ch = ch and cid = cid]
  by (simp add: assms)

lemma stream_confined:
  assumes "stream_loop rid (lift_provider q) mk run_round sel n raw t w = (w', t', err)"
    "\<And>cs t w. confined e plugins ch cid w (fst (run_round cs t w))"
  shows "confined e plugins ch cid w w'"
  using tool_turn.stream_loop_kept [where run_round = run_round and e = e and plugins = plugins and ch = ch and cid = cid,
      OF assms(2), where rid = rid and q = q and mk_req = mk and sel = sel and left = n
      and raw = raw and t = t and w = w]
  by (simp add: assms(1))

lemma rounds_confined:
  "stream_loop rid (lift_provider q) mk (event_round rid' (build_tools e plugins ch cid)) sel n raw t w = (w', t', err)
    \<Longrightarrow> confined e plugins ch cid w w'"
  "stream_loop rid (lift_provider q) mk (inline_round rid' (build_tools e plugins ch cid)) sel n raw t w = (w', t', err)
    \<Longrightarrow> confined e plugins ch cid w w'"
  by (erule stream_confined, rule tool_turn.event_round_kept tool_turn.inline_round_kept)+

lemmas loops_confined = tool_loop_confined rounds_confined

lemma pipeline_confined:
  assumes "ar_provider a = lift_provider q"
  shows "confined e plugins ch cid s (fst (process_message_non_streaming cutoff tk now a
    (build_tools e plugins ch cid) sk chan content uc mo s))"
  unfolding process_message_non_streaming_def Let_def assms
  by (auto simp: saving_keeps dest: loops_confined intro!: set_db_confined split: prod.split outcome.split sum.split)

lemma streaming_confined:
  assumes "ar_provider (ap_agent a) = lift_provider q"
  shows "confined e plugins ch cid (ap_world a) (ap_world (rp_app (handle_streaming E
    (build_tools e plugins ch cid) msg rid uc mo sk chan a)))"
  unfolding handle_streaming_def Let_def assms
  by (auto simp: answer_def panic_reply_def set_memory_def save_stream_eq saving_keeps
      dest: loops_confined intro!: set_db_confined split: prod.split outcome.split option.split)

lemma inline_confined:
  assumes "ar_provider (ap_agent a) = lift_provider q"
  shows "confined e plugins ch cid (ap_world a) (ap_world (rp_app (handle_streaming_inline E
    (build_tools e plugins ch cid) msg rid uc mo a)))"
  unfolding handle_streaming_inline_def Let_def assms
  by (auto simp: answer_def panic_reply_def dest: loops_confined split: prod.split outcome.split option.split)

lemma context_confined:
  assumes "resolve_user_context E chan sender a = Ret (a', ctx)"
  shows "confined e plugins ch cid (ap_world a) (ap_world a') \<and> ap_agent a' = ap_agent a"
proof -
  have db: "t_memory (mm_db (fst (build_user_context rfc tie t1 t2 d m u))) = t_memory (mm_db m)" for rfc tie t1 t2 d m u
    by (auto simp: build_user_context_def Let_def split: option.split prod.split sum.split)
  show ?thesis
  proof (cases "\<exists>c s. chan = Some c \<and> sender = Some s")
    case True
    then obtain c s where cs: "chan = Some c" "sender = Some s" by blast
    with assms obtain u r where r: "resolve (ce_json E) (ce_mint E) (sv_users (services a)) c s = Ret (u, r)"
      by (auto simp: resolve_user_context_def bind_outcome_Ret_iff)
    have "\<exists>m. a' = set_memory m (set_users u a) \<and> t_memory (mm_db m) = t_memory (mm_db (memory a))"
    proof (cases r)
      case (Inl err)
      then have "a' = set_memory (memory a) (set_users u a)"
        using assms r cs by (auto simp: resolve_user_context_def set_memory_def set_users_def)
      then show ?thesis by blast
    next
      case (Inr x)
      obtain m y where m: "build_user_context (ce_rfc E) (ce_tie E) (ce_t_check E) (ce_t_query E) (ce_t_delay E)
          (memory (set_users u a)) (u_id (resolved_user_user x)) = (m, y)" by force
      then have "a' = set_memory m (set_users u a)"
        using assms r cs Inr by (simp add: resolve_user_context_def Let_def)
      moreover have "t_memory (mm_db m) = t_memory (mm_db (memory a))"
        using m by (simp add: set_users_def) (metis db fst_conv)
      ultimately show ?thesis by blast
    qed
    then show ?thesis by (auto simp: set_memory_def set_users_def intro!: confined_other)
  qed (use assms in \<open>auto simp: resolve_user_context_def confined_refl split: option.splits\<close>)
qed

lemma slash_keeps:
  "handle_slash_command ulow msg a = (a', r) \<Longrightarrow> ap_world a' = ap_world a \<and> ar_provider (ap_agent a') = ar_provider (ap_agent a)"
  using slash_change [of ulow msg a] by (auto simp: set_model_def)

text \<open>C7: The tools are confined, whatever the language model asks for. On every way a message comes in, over
  \<open>chat.send\<close> streamed or not, its inline form, or Discord, and also when a tool panics: each process started by
  \<open>execute_command\<close> runs a command that the safety checker passed; each text written to a shell is the set-up
  line or a command all of whose lines it passed; only plugins found when the message arrived run,
  and never one with the name of a built-in tool; the only new jobs are reminders addressed to the
  channel the message came from; and no session and no user's memory changes.\<close>
theorem tools_confined:
  assumes "ar_provider (ap_agent a) = lift_provider q" "ar_provider ag = lift_provider q"
    "origin = (case param_str ''channel'' params of Some c \<Rightarrow> c | None \<Rightarrow> ''web'')"
  shows "confined e plugins origin None (ap_world a)
      (ap_world (rp_app (handle_chat_send E (\<lambda>ch. build_tools e plugins ch None) params rid a)))
    \<and> confined e plugins ''ws'' None (ap_world a)
      (ap_world (rp_app (handle_chat_send_inline E (\<lambda>ch. build_tools e plugins ch None) params rid a)))
    \<and> confined e plugins ''discord'' (Some i) s
      (fst (on_message cutoff tk now ag (build_tools e plugins ''discord'' (Some i)) say h m s))"
proof (intro conjI)
  let ?sender = "param_str ''sender_id'' params" and ?chan = "param_str ''channel'' params"
  have turn: "confined e plugins ch None (ap_world a) (ap_world (rp_app (handle_streaming E (build_tools e plugins ch None) msg rid uc mo sk chan a2)))"
    "confined e plugins ch None (ap_world a) (ap_world (rp_app (handle_non_streaming E (build_tools e plugins ch None) msg rid uc mo sk chan a2)))"
    "confined e plugins ch None (ap_world a) (ap_world (rp_app (handle_streaming_inline E (build_tools e plugins ch None) msg rid uc mo a2)))"
    if "handle_slash_command (ce_ulow E) msg a = (a1, None)" "resolve_user_context E ?chan ?sender a1 = Ret (a2, uc)"
    for msg a1 a2 uc ch sk chan mo
  proof -
    have p: "ar_provider (ap_agent a2) = lift_provider q" and w: "confined e plugins ch None (ap_world a) (ap_world a2)"
      using slash_keeps [OF that(1)] context_confined [OF that(2)] assms(1) by auto
    show "confined e plugins ch None (ap_world a) (ap_world (rp_app (handle_streaming E (build_tools e plugins ch None) msg rid uc mo sk chan a2)))"
      by (rule confined_trans [OF w streaming_confined [OF p]])
    show "confined e plugins ch None (ap_world a) (ap_world (rp_app (handle_streaming_inline E (build_tools e plugins ch None) msg rid uc mo a2)))"
      by (rule confined_trans [OF w inline_confined [OF p]])
    have "ap_world (rp_app (handle_non_streaming E (build_tools e plugins ch None) msg rid uc mo sk chan a2))
        = fst (process_message_non_streaming (ce_cutoff E) (ce_tick E) (ce_now_str E) (ap_agent a2)
            (build_tools e plugins ch None) sk chan msg uc mo (ap_world a2))"
      by (simp add: handle_non_streaming_def answer_def panic_reply_def split: prod.split outcome.split sum.split)
    then show "confined e plugins ch None (ap_world a) (ap_world (rp_app (handle_non_streaming E (build_tools e plugins ch None) msg rid uc mo sk chan a2)))"
      using confined_trans [OF w pipeline_confined [OF p]] by simp
  qed
  show "confined e plugins origin None (ap_world a)
      (ap_world (rp_app (handle_chat_send E (\<lambda>ch. build_tools e plugins ch None) params rid a)))"
    by (auto simp: handle_chat_send_def assms(3) answer_def panic_reply_def Let_def confined_refl turn
        dest: slash_keeps split: sum.split prod.split option.split outcome.split)
  show "confined e plugins ''ws'' None (ap_world a)
      (ap_world (rp_app (handle_chat_send_inline E (\<lambda>ch. build_tools e plugins ch None) params rid a)))"
    by (auto simp: handle_chat_send_inline_def answer_def panic_reply_def Let_def confined_refl turn
        dest: slash_keeps split: sum.split prod.split option.split outcome.split)
  show "confined e plugins ''discord'' (Some i) s
      (fst (on_message cutoff tk now ag (build_tools e plugins ''discord'' (Some i)) say h m s))"
    using pipeline_confined [OF assms(2)]
    by (simp add: on_message_def discord_process_message_def confined_refl split_beta Let_def split: option.split)
qed

text \<open>A model that first asks for two commands, one of them forbidden, and then says goodbye.\<close>

definition ask :: "string \<Rightarrow> tool_call" where
  "ask c = \<lparr> call_id = c, call_name = ''execute_command'', call_input = JObj [(''command'', JStr c)] \<rparr>"

definition asker :: "nat llm_provider" where
  "asker = (let send = (\<lambda>req n. (Suc n, Inr \<lparr> rs_content = (if n = 0 then [] else ''bye''), rs_model = ''m'', rs_tokens_in = 1,
         rs_tokens_out = 1, rs_stop_reason = (if n = 0 then ''tool_use'' else ''end_turn''),
         rs_tool_calls = (if n = 0 then [ask ''reboot'', ask ''ls''] else []) \<rparr>))
     in \<lparr> p_name = ''asker'', p_send = send, p_send_stream = default_send_stream send \<rparr>)"

definition sample_env :: tool_env where
  "sample_env = \<lparr> te_call = sample_call, te_bash = sample_bash,
     te_io = \<lparr> io_read = (\<lambda>_. None), io_write = (\<lambda>_. None), io_rename = None, io_remove = False, io_mkdir = None \<rparr>,
     te_parent = (\<lambda>_. None), te_read_dir = (\<lambda>_. Inr []), te_tree = (\<lambda>_. None), te_time = (\<lambda>_. Inl ''no time''),
     te_text = ra_message, te_plugin = PluginTimedOut, te_outside = (\<lambda>fs. fs) \<rparr>"

definition new_world :: "nat tool_world" where
  "new_world = (memory_manager_new init_db, \<lparr> sv_users = resolver_new \<lparr>users = [], identities = [], foreign_keys = True\<rparr>,
     sv_sessions = [], sv_jobs = [], sv_jobs_poisoned = False, sv_terminal = manager_new,
     sv_rest = \<lparr> tb_calls = 0, tb_files = (\<lambda>_. None), tb_session = None, tb_written = [], tb_effects = [], tb_plugins = [],
       tb_model = 0 \<rparr> \<rparr>)"

abbreviation bot_tools :: "nat tool_world tool list" where
  "bot_tools \<equiv> build_tools (\<lambda>_. sample_env) [] ''discord'' (Some 7)"

lemma asked:
  "execute_tool bot_tools (ask ''ls'') w
     = (set_box (box (arrived sample_env w)\<lparr>tb_effects := tb_effects (box w) @ [Spawn ''ls'']\<rparr>) w, Ret (ToolResult_success ''out''))"
  "\<exists>r. execute_tool bot_tools (ask ''reboot'') w = (arrived sample_env w, Ret r)"
proof -
  have run: "execute_tool bot_tools (ask c) w = run_body (\<lambda>_. sample_env) execute_command_body (call_input (ask c)) w" for c
    by (rule execute_declared [of execute_command_declaration]) (simp_all add: builtin_bodies_def ask_def)
  note gate = sample_gate
  have out: "truncate_output ''out'' (max_output_chars default_exec_options) = ''out''" by code_simp
  have input: "in_str ''command'' (call_input (ask c)) = Some c" for c by (simp add: ask_def in_str_def)
  have env: "te_call sample_env = sample_call" "te_outside sample_env = (\<lambda>fs. fs)" "ce_ulow sample_call = (\<lambda>s. s)"
    "ce_strip sample_call = (\<lambda>s. s)" "ce_child sample_call = Exited (Some 0) ''out'' []"
    by (simp_all add: sample_env_def sample_call_def)
  have err: "truncate_output [] n = []" for n by (simp add: truncate_output_def)
  note unfold = run run_body_def execute_command_body_def execute_command_def input exec_def env err Let_def arrived_def
  have opts: "\<not> skip_safety default_exec_options" by (simp add: default_exec_options_def)
  show "execute_tool bot_tools (ask ''ls'') w
     = (set_box (box (arrived sample_env w)\<lparr>tb_effects := tb_effects (box w) @ [Spawn ''ls'']\<rparr>) w, Ret (ToolResult_success ''out''))"
    using gate(1) out opts by (simp add: unfold command_output_def opt_or_def)
  show "\<exists>r. execute_tool bot_tools (ask ''reboot'') w = (arrived sample_env w, Ret r)"
    using gate(2) opts by (cases "check_command (\<lambda>s. s) ''reboot''") (simp_all add: unfold)
qed

lemma asker_sends:
  "p_send (lift_provider asker) req w =
     (set_box (box w\<lparr>tb_model := Suc (tb_model (box w))\<rparr>) w,
      Inr \<lparr> rs_content = (if tb_model (box w) = 0 then [] else ''bye''), rs_model = ''m'', rs_tokens_in = 1,
        rs_tokens_out = 1, rs_stop_reason = (if tb_model (box w) = 0 then ''tool_use'' else ''end_turn''),
        rs_tool_calls = (if tb_model (box w) = 0 then [ask ''reboot'', ask ''ls''] else []) \<rparr>)"
  by (simp add: lift_provider_def asker_def Let_def)

lemma asked_both:
  "\<exists>rs w'. run_calls bot_tools [ask ''reboot'', ask ''ls''] w = (w', Ret rs)
     \<and> tb_effects (box w') = tb_effects (box w) @ [Spawn ''ls''] \<and> tb_model (box w') = tb_model (box w)"
proof -
  obtain r where "execute_tool bot_tools (ask ''reboot'') w = (arrived sample_env w, Ret r)" using asked(2) by blast
  then show ?thesis by (simp add: asked(1)) (simp add: arrived_def)
qed

lemma asker_loop:
  assumes "tb_model (box w) = 0"
  shows "\<exists>w' sent r called. tool_iterations (lift_provider asker) req bot_tools (Suc (Suc n)) raw l cl w
      = (w', sent, Ret (Inr (r, called))) \<and> tb_effects (box w') = tb_effects (box w) @ [Spawn ''ls'']"
proof -
  let ?w1 = "set_box (box w\<lparr>tb_model := Suc 0\<rparr>) w"
  obtain rs w2 where "run_calls bot_tools [ask ''reboot'', ask ''ls''] ?w1 = (w2, Ret rs)"
    "tb_effects (box w2) = tb_effects (box w) @ [Spawn ''ls'']" "tb_model (box w2) = Suc 0"
    using asked_both [of ?w1] by auto
  then show ?thesis using assms by (simp add: asker_sends Let_def del: run_calls.simps)
qed

lemma asker_turn:
  "\<exists>w sent r called. run_tool_loop (lift_provider asker) req bot_tools new_world = (w, sent, Ret (Inr (r, called)))
     \<and> tb_effects (box w) = [Spawn ''ls'']"
proof -
  have m: "tb_model (box new_world) = 0" "tb_effects (box new_world) = []" by (simp_all add: new_world_def)
  show ?thesis unfolding run_tool_loop_def MAX_ITERATIONS_def
    using asker_loop [OF m(1), of req 23 _ None "[]"] m(2) by simp
qed

theorem tools_confined_witness:
  "let agent_of_bot = agent_runtime_new (lift_provider asker) (prompt_load (\<lambda>_. None) None) ''m'';
       w = fst (on_message (\<lambda>_. []) (\<lambda>_. ''t'') ''t'' agent_of_bot bot_tools (\<lambda>_. None)
         (build_handler \<lparr> da_require_mention = True, da_dm_allowed = True \<rparr>) private_hi new_world)
   in tb_effects (box w) = [Spawn ''ls''] \<and> confined (\<lambda>_. sample_env) [] ''discord'' (Some 7) new_world w"
proof -
  let ?ag = "agent_runtime_new (lift_provider asker) (prompt_load (\<lambda>_. None) None) ''m'' :: nat tool_world agent_runtime"
  let ?h = "build_handler \<lparr> da_require_mention = True, da_dm_allowed = True \<rparr>"
  let ?a = "\<lparr> ap_config = default_config None, ap_event_seq = 0, ap_agent = ?ag, ap_world = new_world, ap_ws_clients = [] \<rparr>"
  have p: "ar_provider ?ag = lift_provider asker" "ar_provider (ap_agent ?a) = lift_provider asker"
    by (simp_all add: agent_runtime_new_def)
  have gate: "message ?h private_hi = Some (''discord:dm:7'', ''hi'')"
    by (simp add: message_def private_hi_def build_handler_def discord_session_key_def, code_simp)
  let ?req = "pipeline_request (\<lambda>_. []) (mm_db (fst new_world)) ?ag bot_tools ''discord:dm:7'' ''hi'' None None"
  obtain w sent r called where "run_tool_loop (lift_provider asker) ?req bot_tools new_world = (w, sent, Ret (Inr (r, called)))"
    "tb_effects (box w) = [Spawn ''ls'']"
    using asker_turn by blast
  then have "tb_effects (box (fst (on_message (\<lambda>_. []) (\<lambda>_. ''t'') ''t'' ?ag bot_tools (\<lambda>_. None) ?h private_hi new_world)))
      = [Spawn ''ls'']"
    by (simp add: on_message_def gate discord_process_message_def process_message_non_streaming_def p(1) Let_def)
  then show ?thesis using tools_confined [OF p(2,1) refl, of "\<lambda>_. sample_env" "[]" None sample_call "''1''" 7] by simp
qed

section \<open>What the schemas promise\<close>

text \<open>The schemas are enforced. Each built-in tool declares the fields it requires; whatever else the
  input holds, a call in which one of them is absent or not a text is answered with an error and has
  no effect, on files, processes, shells, jobs or the memory.\<close>
theorem schema_enforced:
  fixes w :: "'a tool_world"
  assumes "d \<in> set BUILTIN_DECLARATIONS" "call_name c = td_name d"
    "f \<in> set (required_fields (td_input_schema d))" "in_str f (call_input c) = None"
  shows "\<exists>r. execute_tool (build_tools e plugins ch cid) c w = (arrived (e (tb_calls (box w))) w, Ret r) \<and> tr_is_error r"
proof -
  have "map fst (builtin_bodies ch cid :: (tool_definition \<times> 'a tool_body) list) = BUILTIN_DECLARATIONS"
    by (simp add: builtin_bodies_def BUILTIN_DECLARATIONS_def)
  then have "d \<in> fst ` set (builtin_bodies ch cid :: (tool_definition \<times> 'a tool_body) list)" using assms(1) by (metis set_map)
  then obtain body :: "'a tool_body" where "(d, body) \<in> set (builtin_bodies ch cid)" by force
  with bodies_enforce [OF this assms(3,4)] execute_declared [OF this assms(2)] show ?thesis
    by (simp add: refuses_def run_body_def Let_def)
qed

theorem schema_enforced_witness:
  "\<exists>r. execute_tool bot_tools \<lparr> call_id = ''1'', call_name = ''write_file'', call_input = JObj [(''path'', JStr ''a.txt'')] \<rparr> new_world
     = (arrived sample_env new_world, Ret r) \<and> tr_is_error r"
  by (rule schema_enforced [of write_file_declaration _ "''content''"])
    (simp_all add: BUILTIN_DECLARATIONS_def in_str_def)

section \<open>A file written is a file read\<close>

definition write_call :: "string \<Rightarrow> string \<Rightarrow> tool_call" where
  "write_call path content = \<lparr> call_id = ''w'', call_name = ''write_file'',
     call_input = JObj [(''path'', JStr path), (''content'', JStr content)] \<rparr>"

definition read_call :: "string \<Rightarrow> tool_call" where
  "read_call path = \<lparr> call_id = ''r'', call_name = ''read_file'', call_input = JObj [(''path'', JStr path)] \<rparr>"

lemma write_file_done:
  assumes "write_file F parent_of (call_input (write_call path content)) fs = (fs', r)" "\<not> tr_is_error r"
  shows "fs' path = Some content"
  using assms
  by (auto simp: write_file_def write_call_def in_str_def fs_write_def split: option.splits if_splits prod.splits sum.splits)

lemma read_file_done:
  assumes "fs path = Some content" "io_read F path = None" "valid_utf8 content"
  shows "read_file F (call_input (read_call path)) fs =
    (if length content \<le> MAX_OUTPUT_CHARS then Ret (ToolResult_success content)
     else bind_outcome (slice_to content MAX_OUTPUT_CHARS) (\<lambda>t. Ret (ToolResult_success (t @ blank_line
       @ ''[output truncated at '' @ show_nat MAX_OUTPUT_CHARS @ '' characters]''))))"
  using assms by (simp add: read_file_def read_call_def in_str_def in_u64_def read_window_def read_to_string_def Let_def)

text \<open>C21: A file written is a file read. When the model's call of \<open>write_file\<close> succeeds, no other process then
  changes the file and the next call can open it, then \<open>read_file\<close> answers the very text that was
  written, if it has at most 30000 bytes; of a longer text it answers the first 30000 with a note,
  and it panics, which ends the turn, if they end inside a character.\<close>
theorem write_then_read:
  assumes "execute_tool (build_tools e plugins ch cid) (write_call path content) w = (w1, Ret r)" "\<not> tr_is_error r"
    and V: "V = e (tb_calls (box w1))"
    and "te_outside V (tb_files (box w1)) path = tb_files (box w1) path" "io_read (te_io V) path = None"
      "valid_utf8 content"
  shows "snd (execute_tool (build_tools e plugins ch cid) (read_call path) w1) =
    (if length content \<le> 30000 then Ret (ToolResult_success content)
     else bind_outcome (slice_to content 30000) (\<lambda>t. Ret (ToolResult_success (t @ blank_line
       @ ''[output truncated at '' @ show_nat 30000 @ '' characters]''))))"
proof -
  have "execute_tool (build_tools e plugins ch cid) (write_call path content) w
      = run_body e write_file_body (call_input (write_call path content)) w"
    by (rule execute_declared [of write_file_declaration]) (simp_all add: builtin_bodies_def write_call_def)
  then have "tb_files (box w1) path = Some content" using assms(1,2) write_file_done
    by (auto simp: run_body_def write_file_body_def with_files_def Let_def split: prod.splits)
  moreover have "execute_tool (build_tools e plugins ch cid) (read_call path) w1
      = run_body e read_file_body (call_input (read_call path)) w1"
    by (rule execute_declared [of read_file_declaration]) (simp_all add: builtin_bodies_def read_call_def)
  ultimately have r: "snd (execute_tool (build_tools e plugins ch cid) (read_call path) w1) =
      read_file (te_io V) (call_input (read_call path)) (te_outside V (tb_files (box w1)))"
    and c: "te_outside V (tb_files (box w1)) path = Some content"
    using assms(4) by (simp_all add: V run_body_def read_file_body_def arrived_def Let_def)
  show ?thesis unfolding r read_file_done [of "te_outside V (tb_files (box w1))", OF c assms(5,6)] MAX_OUTPUT_CHARS_def by (rule refl)
qed

theorem write_then_read_witness:
  "\<exists>w1 r. execute_tool bot_tools (write_call ''a.txt'' ''hello'') new_world = (w1, Ret r)
     \<and> snd (execute_tool bot_tools (read_call ''a.txt'') w1) = Ret (ToolResult_success ''hello'')"
proof -
  have "execute_tool bot_tools (write_call ''a.txt'' ''hello'') new_world
      = run_body (\<lambda>_. sample_env) write_file_body (call_input (write_call ''a.txt'' ''hello'')) new_world"
    by (rule execute_declared [of write_file_declaration]) (simp_all add: builtin_bodies_def write_call_def)
  moreover have "\<exists>w1 r. run_body (\<lambda>_. sample_env) write_file_body (call_input (write_call ''a.txt'' ''hello'')) new_world
      = (w1, Ret r) \<and> \<not> tr_is_error r"
    by (simp add: run_body_def write_file_body_def with_files_def write_file_def write_call_def in_str_def fs_write_def
        sample_env_def Let_def)
  ultimately obtain w1 r where w: "execute_tool bot_tools (write_call ''a.txt'' ''hello'') new_world = (w1, Ret r)"
    "\<not> tr_is_error r" by auto
  have "valid_utf8 ''hello''" by code_simp
  from write_then_read [OF w refl _ _ this] w(1) show ?thesis by (simp add: sample_env_def)
qed

end
