(* ===== verification/Serde.thy ===== *)
theory Serde
  imports Core
begin

text \<open>
  What serde derives for the structs of the program, as functions on JSON values: reading a struct from
  an object or, for the frames of the protocol, from an array of its fields in order; required, optional
  and defaulted fields.
\<close>

section \<open>Objects\<close>

definition u32_of :: "json \<Rightarrow> nat option" where
  "u32_of j = (case j of JInt i \<Rightarrow> if 0 \<le> i \<and> i < int u32_size then Some (nat i) else None | _ \<Rightarrow> None)"

definition need :: "string \<Rightarrow> (json \<Rightarrow> 'a option) \<Rightarrow> json \<Rightarrow> 'a option" where
  "need k dec j = Option.bind (jget k j) dec"

text \<open>An optional field may be absent or null.\<close>

fun may :: "string \<Rightarrow> (json \<Rightarrow> 'a option) \<Rightarrow> json \<Rightarrow> 'a option option" where
  "may k dec (JObj m) =
     (case map_of m k of
        None \<Rightarrow> Some None
      | Some v \<Rightarrow> if v = JNull then Some None else map_option Some (dec v))"
| "may k dec _ = None"

fun all_of :: "(json \<Rightarrow> 'a option) \<Rightarrow> json list \<Rightarrow> 'a list option" where
  "all_of dec [] = Some []"
| "all_of dec (j # js) =
     (case dec j of
        None \<Rightarrow> None
      | Some x \<Rightarrow> map_option (\<lambda>xs. x # xs) (all_of dec js))"

definition list_of :: "(json \<Rightarrow> 'a option) \<Rightarrow> json \<Rightarrow> 'a list option" where
  "list_of dec j = (case j of JArr js \<Rightarrow> all_of dec js | _ \<Rightarrow> None)"

text \<open>Two decoders of the same object.\<close>

definition both :: "(json \<Rightarrow> 'a option) \<Rightarrow> (json \<Rightarrow> 'b option) \<Rightarrow> json \<Rightarrow> ('a \<times> 'b) option" where
  "both f g j = (case f j of None \<Rightarrow> None | Some x \<Rightarrow> map_option (\<lambda>y. (x, y)) (g j))"

definition or_default :: "'a \<Rightarrow> 'a option \<Rightarrow> 'a" where
  "or_default d x = (case x of Some y \<Rightarrow> y | None \<Rightarrow> d)"

section \<open>Structs\<close>

text \<open>
  The fields of a struct: an object gives them by name and may hold others; an array gives them in
  order, and may leave out only fields with a default at the end (\<open>least\<close> is the number it must have).
\<close>

definition fields_of :: "string list \<Rightarrow> nat \<Rightarrow> json \<Rightarrow> (string \<rightharpoonup> json) option" where
  "fields_of names least j =
     (case j of
        JObj m \<Rightarrow> Some (map_of m)
      | JArr xs \<Rightarrow> if least \<le> length xs \<and> length xs \<le> length names then Some (map_of (zip names xs)) else None
      | _ \<Rightarrow> None)"

definition field_req :: "(string \<rightharpoonup> json) \<Rightarrow> string \<Rightarrow> (json \<Rightarrow> 'a option) \<Rightarrow> 'a option" where
  "field_req m k dec = Option.bind (m k) dec"

definition field_opt :: "(string \<rightharpoonup> json) \<Rightarrow> string \<Rightarrow> (json \<Rightarrow> 'a option) \<Rightarrow> 'a option option" where
  "field_opt m k dec =
     (case m k of None \<Rightarrow> Some None | Some v \<Rightarrow> if v = JNull then Some None else map_option Some (dec v))"

definition field_default :: "(string \<rightharpoonup> json) \<Rightarrow> string \<Rightarrow> 'a \<Rightarrow> (json \<Rightarrow> 'a option) \<Rightarrow> 'a option" where
  "field_default m k d dec = (case m k of None \<Rightarrow> Some d | Some v \<Rightarrow> dec v)"

definition u64_of :: "json \<Rightarrow> nat option" where
  "u64_of j = (case j of JInt i \<Rightarrow> if 0 \<le> i \<and> i < int u64_size then Some (nat i) else None | _ \<Rightarrow> None)"

definition u16_of :: "json \<Rightarrow> nat option" where
  "u16_of j = (case j of JInt i \<Rightarrow> if 0 \<le> i \<and> i < 65536 then Some (nat i) else None | _ \<Rightarrow> None)"

text \<open>A value of type \<open>Value\<close>, and an option of it, which reads \<open>null\<close> as absent.\<close>

definition any_of :: "json \<Rightarrow> json option" where
  "any_of j = Some j"

lemmas serde_defs = fields_of_def field_req_def field_opt_def field_default_def u64_of_def any_of_def

section \<open>Writing\<close>

text \<open>\<open>skip_serializing_if = "Option::is_none"\<close>.\<close>

definition skip_none :: "string \<Rightarrow> ('a \<Rightarrow> json) \<Rightarrow> 'a option \<Rightarrow> (string \<times> json) list" where
  "skip_none k enc x = (case x of None \<Rightarrow> [] | Some v \<Rightarrow> [(k, enc v)])"

definition or_null :: "('a \<Rightarrow> json) \<Rightarrow> 'a option \<Rightarrow> json" where
  "or_null enc x = (case x of None \<Rightarrow> JNull | Some v \<Rightarrow> enc v)"

end
