(* ===== verification/Wire.thy ===== *)
theory Wire
  imports Serde
begin

text \<open>
  The wire form of the protocol (\<open>crates/skynet-protocol\<close>): the JSON value of every frame
  (\<open>frames.rs\<close>) and of the handshake payloads (\<open>handshake.rs\<close>), how they are read back, and the method
  names of \<open>methods.rs\<close>. The text of a JSON value is serde\_json's business and stays outside.
\<close>

section \<open>Frames\<close>

abbreviation ju64 :: "nat \<Rightarrow> json" where "ju64 n \<equiv> JInt (int n)"

definition req_to_json :: "req_frame \<Rightarrow> json" where
  "req_to_json f = JObj ([(''type'', JStr (req_frame_type f)), (''id'', JStr (req_id f)), (''method'', JStr (req_method f))]
     @ skip_none ''params'' (\<lambda>j. j) (req_params f))"

definition error_to_json :: "error_shape \<Rightarrow> json" where
  "error_to_json e = JObj [(''code'', JStr (err_code e)), (''message'', JStr (err_message e))]"

definition error_of_json :: "json \<Rightarrow> error_shape option" where
  "error_of_json j = Option.bind (fields_of [''code'', ''message''] 2 j) (\<lambda>m.
     case (field_req m ''code'' as_str, field_req m ''message'' as_str) of
       (Some c, Some x) \<Rightarrow> Some \<lparr> err_code = c, err_message = x \<rparr>
     | _ \<Rightarrow> None)"

definition res_to_json :: "res_frame \<Rightarrow> json" where
  "res_to_json f = JObj ([(''type'', JStr (res_frame_type f)), (''id'', JStr (res_id f)), (''ok'', JBool (res_ok f))]
     @ skip_none ''payload'' (\<lambda>j. j) (res_payload f) @ skip_none ''error'' error_to_json (res_error f))"

definition res_of_json :: "json \<Rightarrow> res_frame option" where
  "res_of_json j = Option.bind (fields_of [''type'', ''id'', ''ok'', ''payload'', ''error''] 5 j) (\<lambda>m.
     case (field_req m ''type'' as_str, field_req m ''id'' as_str, field_req m ''ok'' as_bool,
           field_opt m ''payload'' any_of, field_opt m ''error'' error_of_json) of
       (Some t, Some i, Some k, Some p, Some e) \<Rightarrow>
         Some \<lparr> res_frame_type = t, res_id = i, res_ok = k, res_payload = p, res_error = e \<rparr>
     | _ \<Rightarrow> None)"

definition version_to_json :: "state_version \<Rightarrow> json" where
  "version_to_json v = JObj (skip_none ''presence'' ju64 (presence v) @ skip_none ''health'' ju64 (health v))"

definition version_of_json :: "json \<Rightarrow> state_version option" where
  "version_of_json j = Option.bind (fields_of [''presence'', ''health''] 2 j) (\<lambda>m.
     case (field_opt m ''presence'' u64_of, field_opt m ''health'' u64_of) of
       (Some p, Some h) \<Rightarrow> Some \<lparr> presence = p, health = h \<rparr>
     | _ \<Rightarrow> None)"

definition event_to_json :: "event_frame \<Rightarrow> json" where
  "event_to_json f = JObj ([(''type'', JStr (ev_frame_type f)), (''event'', JStr (ev_event f))]
     @ skip_none ''payload'' (\<lambda>j. j) (ev_payload f) @ skip_none ''seq'' ju64 (ev_seq f)
     @ skip_none ''state_version'' version_to_json (ev_state_version f))"

definition event_of_json :: "json \<Rightarrow> event_frame option" where
  "event_of_json j = Option.bind (fields_of [''type'', ''event'', ''payload'', ''seq'', ''state_version''] 5 j) (\<lambda>m.
     case (field_req m ''type'' as_str, field_req m ''event'' as_str, field_opt m ''payload'' any_of,
           field_opt m ''seq'' u64_of, field_opt m ''state_version'' version_of_json) of
       (Some t, Some e, Some p, Some n, Some v) \<Rightarrow>
         Some \<lparr> ev_frame_type = t, ev_event = e, ev_payload = p, ev_seq = n, ev_state_version = v \<rparr>
     | _ \<Rightarrow> None)"

text \<open>
  \<open>InboundFrame\<close> flattens everything but the type into a map, so only an object is read; \<open>type\<close> must
  occur once and be a string, of another name that occurs twice the last value is kept.
\<close>

definition inbound_of_json :: "json \<Rightarrow> inbound_frame option" where
  "inbound_of_json j =
     (case j of
        JObj m \<Rightarrow>
          (case filter (\<lambda>e. fst e = ''type'') m of
             [(k, JStr t)] \<Rightarrow> Some \<lparr> in_frame_type = t, in_rest = rev (filter (\<lambda>e. fst e \<noteq> ''type'') m) \<rparr>
           | _ \<Rightarrow> None)
      | _ \<Rightarrow> None)"

section \<open>Handshake payloads\<close>

fun auth_to_json :: "auth_payload \<Rightarrow> json" where
  "auth_to_json (AuthToken t) = JObj [(''mode'', JStr ''token''), (''token'', JStr t)]"
| "auth_to_json (AuthPassword p) = JObj [(''mode'', JStr ''password''), (''password'', JStr p)]"
| "auth_to_json TailscaleWhois = JObj [(''mode'', JStr ''tailscale-whois'')]"
| "auth_to_json (DeviceToken t) = JObj [(''mode'', JStr ''device-token''), (''device_token'', JStr t)]"
| "auth_to_json (TrustedProxy u) = JObj [(''mode'', JStr ''trusted-proxy''), (''forwarded_user'', JStr u)]"
| "auth_to_json AuthNone = JObj [(''mode'', JStr ''none'')]"

text \<open>The tag, then the fields: by name, or in order after the tag in an array, which then holds nothing
  else.\<close>

definition variant_of :: "string \<Rightarrow> (string \<Rightarrow> json option) \<Rightarrow> auth_payload option" where
  "variant_of mode field =
     (let get = (\<lambda>k. Option.bind (field k) as_str) in
      if mode = ''token'' then map_option AuthToken (get ''token'')
      else if mode = ''password'' then map_option AuthPassword (get ''password'')
      else if mode = ''tailscale-whois'' then Some TailscaleWhois
      else if mode = ''device-token'' then map_option DeviceToken (get ''device_token'')
      else if mode = ''trusted-proxy'' then map_option TrustedProxy (get ''forwarded_user'')
      else if mode = ''none'' then Some AuthNone
      else None)"

definition unit_variants :: "string list" where
  "unit_variants = [''tailscale-whois'', ''none'']"

definition auth_of_json :: "json \<Rightarrow> auth_payload option" where
  "auth_of_json j =
     (case j of
        JObj m \<Rightarrow> (case map_of m ''mode'' of Some (JStr mode) \<Rightarrow> variant_of mode (map_of m) | _ \<Rightarrow> None)
      | JArr (JStr mode # xs) \<Rightarrow>
          (if mode \<in> set unit_variants then (if xs = [] then variant_of mode (\<lambda>_. None) else None)
           else (case xs of [x] \<Rightarrow> variant_of mode (\<lambda>_. Some x) | _ \<Rightarrow> None))
      | _ \<Rightarrow> None)"

type_synonym client_info = "string option \<times> string option \<times> string option"

definition client_info_to_json :: "client_info \<Rightarrow> json" where
  "client_info_to_json c = (case c of (name, version, platform) \<Rightarrow>
     JObj [(''name'', or_null JStr name), (''version'', or_null JStr version), (''platform'', or_null JStr platform)])"

definition client_info_of_json :: "json \<Rightarrow> client_info option" where
  "client_info_of_json j = Option.bind (fields_of [''name'', ''version'', ''platform''] 3 j) (\<lambda>m.
     case (field_opt m ''name'' as_str, field_opt m ''version'' as_str, field_opt m ''platform'' as_str) of
       (Some n, Some v, Some p) \<Rightarrow> Some (n, v, p)
     | _ \<Rightarrow> None)"

definition connect_to_json :: "connect_params \<Rightarrow> json" where
  "connect_to_json p = JObj [(''auth'', auth_to_json (cp_auth p)), (''client_info'', or_null client_info_to_json (cp_client_info p))]"

definition connect_of_json :: "json \<Rightarrow> connect_params option" where
  "connect_of_json j = Option.bind (fields_of [''auth'', ''client_info''] 1 j) (\<lambda>m.
     case (field_req m ''auth'' auth_of_json, field_opt m ''client_info'' client_info_of_json) of
       (Some a, Some c) \<Rightarrow> Some \<lparr> cp_auth = a, cp_client_info = c \<rparr>
     | _ \<Rightarrow> None)"

record server_info =
  sv_name :: string
  sv_version :: string
  sv_node_id :: string

record server_features =
  streaming :: bool
  multi_agent :: bool
  persistent_users :: bool
  cross_channel_memory :: bool
  role_permissions :: bool
  prompt_caching :: bool

record client_policy =
  max_message_size :: nat
  rate_limit :: "nat option"

record hello_ok =
  ho_protocol :: nat
  ho_server :: server_info
  ho_features :: server_features
  ho_snapshot :: json
  ho_policy :: client_policy

text \<open>A rate limit is an object of its own with one field.\<close>

definition hello_to_json :: "hello_ok \<Rightarrow> json" where
  "hello_to_json h = JObj
     [(''protocol'', ju64 (ho_protocol h)),
      (''server'', JObj [(''name'', JStr (sv_name (ho_server h))), (''version'', JStr (sv_version (ho_server h))),
         (''node_id'', JStr (sv_node_id (ho_server h)))]),
      (''features'', JObj [(''streaming'', JBool (streaming (ho_features h))),
         (''multi_agent'', JBool (multi_agent (ho_features h))),
         (''persistent_users'', JBool (persistent_users (ho_features h))),
         (''cross_channel_memory'', JBool (cross_channel_memory (ho_features h))),
         (''role_permissions'', JBool (role_permissions (ho_features h))),
         (''prompt_caching'', JBool (prompt_caching (ho_features h)))]),
      (''snapshot'', ho_snapshot h),
      (''policy'', JObj [(''max_message_size'', ju64 (max_message_size (ho_policy h))),
         (''rate_limit'', or_null (\<lambda>n. JObj [(''requests_per_minute'', ju64 n)]) (rate_limit (ho_policy h)))])]"

section \<open>Method names\<close>

definition WELL_KNOWN_METHODS :: "string list" where
  "WELL_KNOWN_METHODS = [''chat.send'', ''chat.abort'', ''sessions.list'', ''sessions.preview'', ''sessions.resolve'',
     ''config.get'', ''config.set'', ''agent.status'', ''agent.list'', ''channels.status'', ''channels.logout'',
     ''cron.list'', ''cron.add'', ''cron.delete'', ''node.list'', ''node.invoke'', ''connect'']"

section \<open>Reading back\<close>

lemma map_of_skip_none [simp]:
  "map_of (skip_none k enc x @ m) j = (if j = k \<and> x \<noteq> None then map_option enc x else map_of m j)"
  by (cases x) (auto simp: skip_none_def)

lemma variant_tags:
  "variant_of ''token'' f = map_option AuthToken (Option.bind (f ''token'') as_str)"
  "variant_of ''password'' f = map_option AuthPassword (Option.bind (f ''password'') as_str)"
  "variant_of ''tailscale-whois'' f = Some TailscaleWhois"
  "variant_of ''device-token'' f = map_option DeviceToken (Option.bind (f ''device_token'') as_str)"
  "variant_of ''trusted-proxy'' f = map_option TrustedProxy (Option.bind (f ''forwarded_user'') as_str)"
  "variant_of ''none'' f = Some AuthNone"
  by (simp_all add: variant_of_def)

lemma auth_of_object:
  "map_of m ''mode'' = Some (JStr mode) \<Longrightarrow> auth_of_json (JObj m) = variant_of mode (map_of m)"
  by (simp add: auth_of_json_def)

lemma auth_roundtrip: "auth_of_json (auth_to_json a) = Some a"
  by (cases a) (simp_all add: auth_of_object variant_tags)

lemma client_info_roundtrip: "client_info_of_json (client_info_to_json c) = Some c"
proof (cases c)
  case (fields n v p)
  have [simp]: "field_opt m k as_str = Some x" if "m k = Some (or_null JStr x)" for m k x
    using that by (cases x) (simp_all add: field_opt_def or_null_def)
  show ?thesis by (simp add: fields client_info_to_json_def client_info_of_json_def fields_of_def)
qed

lemma connect_roundtrip: "connect_of_json (connect_to_json p) = Some p"
proof -
  have "client_info_to_json c \<noteq> JNull" for c by (cases c) (simp add: client_info_to_json_def)
  then show ?thesis
    by (cases "cp_client_info p")
      (simp_all add: connect_to_json_def connect_of_json_def serde_defs or_null_def auth_roundtrip client_info_roundtrip)
qed

text \<open>A payload or parameters that are \<open>null\<close> read as absent.\<close>

definition not_null :: "json option \<Rightarrow> json option" where
  "not_null p = (if p = Some JNull then None else p)"

lemma field_opt_skip [simp]: "(case p of None \<Rightarrow> Some None | Some v \<Rightarrow> if v = JNull then Some None else map_option Some (any_of v))
    = Some (not_null p)"
  by (cases p) (simp_all add: not_null_def any_of_def)

lemma error_roundtrip: "error_of_json (error_to_json e) = Some e"
  by (simp add: error_to_json_def error_of_json_def serde_defs)

lemma res_roundtrip: "res_of_json (res_to_json f) = Some (f\<lparr>res_payload := not_null (res_payload f)\<rparr>)"
proof -
  have "error_to_json e \<noteq> JNull" for e by (simp add: error_to_json_def)
  then show ?thesis
    by (cases "res_error f"; cases "res_payload f")
      (simp_all add: res_to_json_def res_of_json_def serde_defs skip_none_def error_roundtrip not_null_def)
qed

lemma version_roundtrip:
  assumes "\<forall>n. presence v = Some n \<longrightarrow> n < u64_size" "\<forall>n. health v = Some n \<longrightarrow> n < u64_size"
  shows "version_of_json (version_to_json v) = Some v"
  using assms
  by (cases v; cases "presence v"; cases "health v")
    (simp_all add: version_to_json_def version_of_json_def serde_defs skip_none_def)

lemma version_object [simp]: "version_to_json v \<noteq> JNull"
  by (simp add: version_to_json_def)

lemma event_roundtrip:
  assumes "\<forall>n. ev_seq f = Some n \<longrightarrow> n < u64_size"
    "\<forall>v n. ev_state_version f = Some v \<longrightarrow> presence v = Some n \<or> health v = Some n \<longrightarrow> n < u64_size"
  shows "event_of_json (event_to_json f) = Some (f\<lparr>ev_payload := not_null (ev_payload f)\<rparr>)"
proof (cases "ev_state_version f")
  case None
  with assms(1) show ?thesis
    by (cases "ev_seq f"; cases "ev_payload f")
      (simp_all add: event_to_json_def event_of_json_def serde_defs skip_none_def not_null_def)
next
  case (Some v)
  then have "version_of_json (version_to_json v) = Some v" using assms(2) by (simp add: version_roundtrip)
  with Some assms(1) show ?thesis
    by (cases "ev_seq f"; cases "ev_payload f")
      (simp_all add: event_to_json_def event_of_json_def serde_defs skip_none_def not_null_def)
qed

lemma inbound_of_frame:
  "inbound_of_json (JObj ((''type'', JStr t) # m)) =
     (if ''type'' \<in> fst ` set m then None else Some \<lparr> in_frame_type = t, in_rest = rev m \<rparr>)"
proof -
  have "filter (\<lambda>e. fst e \<noteq> ''type'') m = m" if "''type'' \<notin> fst ` set m"
    using that by (intro filter_True) (auto simp: image_iff)
  moreover have "filter (\<lambda>e. fst e = ''type'') m = [] \<longleftrightarrow> ''type'' \<notin> fst ` set m"
    by (auto simp: filter_empty_conv image_iff)
  ultimately show ?thesis
    by (cases "filter (\<lambda>e. fst e = ''type'') m") (auto simp: inbound_of_json_def)
qed

lemma req_roundtrip:
  assumes "req_frame_type r = ''req''"
  shows "Option.bind (inbound_of_json (req_to_json r)) as_req = Some (r\<lparr>req_params := not_null (req_params r)\<rparr>)"
proof -
  have "Option.bind (inbound_of_json (req_to_json r)) as_req = as_req \<lparr> in_frame_type = ''req'',
      in_rest = rev ([(''id'', JStr (req_id r)), (''method'', JStr (req_method r))] @ skip_none ''params'' (\<lambda>j. j) (req_params r)) \<rparr>"
    using assms by (cases "req_params r") (simp_all add: req_to_json_def inbound_of_frame skip_none_def)
  also have "\<dots> = Some (r\<lparr>req_params := not_null (req_params r)\<rparr>)"
    using assms by (cases "req_params r") (auto simp: as_req_def req_of_object_def skip_none_def not_null_def split: json.split)
  finally show ?thesis .
qed

lemma server_frames_inert:
  "res_frame_type r = ''res'' \<Longrightarrow> Option.bind (inbound_of_json (res_to_json r)) as_req = None"
  "ev_frame_type f = ''event'' \<Longrightarrow> Option.bind (inbound_of_json (event_to_json f)) as_req = None"
  by (auto simp: res_to_json_def event_to_json_def inbound_of_frame as_req_def)

text \<open>C22: The frames of the protocol read back. What a client puts into its credentials and its connect
  parameters is what the gateway reads, for every kind of credential; a request frame is read, through
  the loose inbound frame the gateway parses first, as the request it was made from; and the gateway's responses and
  events read back whole. The one loss is that parameters or a payload that are \<open>null\<close> read as absent.
  A response or an event sent back to the gateway is not taken for a request.\<close>
theorem wire_roundtrip:
  assumes "req_frame_type r = ''req''" "\<forall>n. ev_seq f = Some n \<longrightarrow> n < u64_size"
    "\<forall>v n. ev_state_version f = Some v \<longrightarrow> presence v = Some n \<or> health v = Some n \<longrightarrow> n < u64_size"
  shows "connect_of_json (connect_to_json p) = Some p
    \<and> Option.bind (inbound_of_json (req_to_json r)) as_req = Some (r\<lparr>req_params := not_null (req_params r)\<rparr>)
    \<and> res_of_json (res_to_json s) = Some (s\<lparr>res_payload := not_null (res_payload s)\<rparr>)
    \<and> event_of_json (event_to_json f) = Some (f\<lparr>ev_payload := not_null (ev_payload f)\<rparr>)
    \<and> (res_frame_type s = ''res'' \<longrightarrow> Option.bind (inbound_of_json (res_to_json s)) as_req = None)
    \<and> (ev_frame_type f = ''event'' \<longrightarrow> Option.bind (inbound_of_json (event_to_json f)) as_req = None)"
  using assms by (simp add: connect_roundtrip req_roundtrip res_roundtrip event_roundtrip server_frames_inert)

theorem wire_roundtrip_witness:
  "\<forall>p s. connect_of_json (connect_to_json p) = Some p
    \<and> Option.bind (inbound_of_json (req_to_json \<lparr> req_frame_type = ''req'', req_id = ''1'', req_method = ''ping'',
         req_params = Some JNull \<rparr>)) as_req
      = Some \<lparr> req_frame_type = ''req'', req_id = ''1'', req_method = ''ping'', req_params = None \<rparr>
    \<and> res_of_json (res_to_json s) = Some (s\<lparr>res_payload := not_null (res_payload s)\<rparr>)
    \<and> event_of_json (event_to_json (EventFrame_new ''tick'' (JObj []))) = Some (EventFrame_new ''tick'' (JObj []))"
  using wire_roundtrip [of "\<lparr> req_frame_type = ''req'', req_id = ''1'', req_method = ''ping'', req_params = Some JNull \<rparr>"
      "EventFrame_new ''tick'' (JObj [])"]
  by (simp add: not_null_def EventFrame_new_def)

end
