(* ===== verification/Configuration.thy ===== *)
theory Configuration
  imports Serde
begin

text \<open>
  Loading the configuration (\<open>crates/skynet-core/src/config.rs\<close>): what serde derives for its structs, with
  their defaults, and \<open>SkynetConfig::load\<close>. The value that figment merges from the file and the
  environment is a parameter, as is the text of an error. A table is an object; an array in the place of a table is
  not modelled (it reads as an error).
\<close>

section \<open>Reading the configuration\<close>

definition default_anthropic_base_url :: string where
  "default_anthropic_base_url = ''https://api.anthropic.com''"

definition default_openai_base_url :: string where
  "default_openai_base_url = ''https://api.openai.com''"

definition default_ollama_base_url :: string where
  "default_ollama_base_url = ''http://localhost:11434''"

definition default_model :: string where
  "default_model = ''claude-sonnet-4-6''"

definition table_of :: "json \<Rightarrow> (string \<rightharpoonup> json) option" where
  "table_of j = (case j of JObj m \<Rightarrow> Some (map_of m) | _ \<Rightarrow> None)"

definition auth_mode_of_json :: "json \<Rightarrow> auth_mode option" where
  "auth_mode_of_json j = Option.bind (as_str j) (\<lambda>s.
     if s = ''token'' then Some ModeToken
     else if s = ''password'' then Some ModePassword
     else if s = ''tailscale'' then Some ModeTailscale
     else if s = ''device-token'' then Some ModeDeviceToken
     else if s = ''trusted-proxy'' then Some ModeTrustedProxy
     else if s = ''none'' then Some ModeNone
     else None)"

definition auth_config_of_json :: "json \<Rightarrow> auth_config option" where
  "auth_config_of_json j = Option.bind (table_of j) (\<lambda>m.
     case (field_req m ''mode'' auth_mode_of_json, field_opt m ''token'' as_str, field_opt m ''password'' as_str) of
       (Some k, Some t, Some p) \<Rightarrow> Some \<lparr> auth_mode_of = k, auth_token = t, auth_password = p \<rparr>
     | _ \<Rightarrow> None)"

definition gateway_config_of_json :: "json \<Rightarrow> gateway_config option" where
  "gateway_config_of_json j = Option.bind (table_of j) (\<lambda>m.
     case (field_default m ''port'' DEFAULT_PORT u16_of, field_default m ''bind'' DEFAULT_BIND as_str,
           field_req m ''auth'' auth_config_of_json) of
       (Some n, Some b, Some a) \<Rightarrow> Some \<lparr> port = n, bind = b, auth = a \<rparr>
     | _ \<Rightarrow> None)"

definition agent_config_of_json :: "json \<Rightarrow> agent_config option" where
  "agent_config_of_json j = Option.bind (table_of j) (\<lambda>m.
     case (field_default m ''model'' default_model as_str, field_opt m ''soul_path'' as_str) of
       (Some x, Some s) \<Rightarrow> Some \<lparr> agent_model = x, soul_path = s \<rparr>
     | _ \<Rightarrow> None)"

definition database_path_of_json :: "string option \<Rightarrow> json \<Rightarrow> string option" where
  "database_path_of_json home j = Option.bind (table_of j) (\<lambda>m. field_default m ''path'' (default_db_path home) as_str)"

definition anthropic_config_of_json :: "json \<Rightarrow> anthropic_config option" where
  "anthropic_config_of_json j = Option.bind (table_of j) (\<lambda>m.
     case (field_req m ''api_key'' as_str, field_default m ''base_url'' default_anthropic_base_url as_str) of
       (Some k, Some u) \<Rightarrow> Some \<lparr> anthropic_api_key = k, anthropic_base_url = u \<rparr>
     | _ \<Rightarrow> None)"

definition openai_config_of_json :: "json \<Rightarrow> openai_provider_config option" where
  "openai_config_of_json j = Option.bind (table_of j) (\<lambda>m.
     case (field_req m ''api_key'' as_str, field_default m ''base_url'' default_openai_base_url as_str) of
       (Some k, Some u) \<Rightarrow> Some \<lparr> openai_api_key = k, openai_base_url = u \<rparr>
     | _ \<Rightarrow> None)"

definition ollama_config_of_json :: "json \<Rightarrow> ollama_config option" where
  "ollama_config_of_json j = Option.bind (table_of j) (\<lambda>m.
     map_option (\<lambda>u. \<lparr> ollama_base_url = u \<rparr>) (field_default m ''base_url'' default_ollama_base_url as_str))"

definition no_providers :: providers_config where
  "no_providers = \<lparr> anthropic = None, openai = None, ollama = None \<rparr>"

definition providers_config_of_json :: "json \<Rightarrow> providers_config option" where
  "providers_config_of_json j = Option.bind (table_of j) (\<lambda>m.
     case (field_opt m ''anthropic'' anthropic_config_of_json, field_opt m ''openai'' openai_config_of_json,
           field_opt m ''ollama'' ollama_config_of_json) of
       (Some a, Some p, Some l) \<Rightarrow> Some \<lparr> anthropic = a, openai = p, ollama = l \<rparr>
     | _ \<Rightarrow> None)"

definition telegram_config_of_json :: "json \<Rightarrow> string option" where
  "telegram_config_of_json j = Option.bind (table_of j) (\<lambda>m. field_req m ''bot_token'' as_str)"

definition discord_config_of_json :: "json \<Rightarrow> discord_config option" where
  "discord_config_of_json j = Option.bind (table_of j) (\<lambda>m.
     case (field_req m ''bot_token'' as_str, field_default m ''require_mention'' False as_bool,
           field_default m ''dm_allowed'' True as_bool) of
       (Some t, Some r, Some d) \<Rightarrow> Some \<lparr> discord_bot_token = t, require_mention = r, dm_allowed = d \<rparr>
     | _ \<Rightarrow> None)"

definition no_channels :: channels_config where
  "no_channels = \<lparr> telegram_bot_token = None, discord = None \<rparr>"

definition channels_config_of_json :: "json \<Rightarrow> channels_config option" where
  "channels_config_of_json j = Option.bind (table_of j) (\<lambda>m.
     case (field_opt m ''telegram'' telegram_config_of_json, field_opt m ''discord'' discord_config_of_json) of
       (Some t, Some d) \<Rightarrow> Some \<lparr> telegram_bot_token = t, discord = d \<rparr>
     | _ \<Rightarrow> None)"

definition webhook_mode_of_json :: "json \<Rightarrow> webhook_auth_mode option" where
  "webhook_mode_of_json j = Option.bind (as_str j) (\<lambda>s.
     if s = ''hmac-sha256'' then Some HmacSha256
     else if s = ''bearer-token'' then Some BearerToken
     else if s = ''none'' then Some WebhookNoAuth
     else None)"

definition webhook_source_of_json :: "json \<Rightarrow> webhook_source_config option" where
  "webhook_source_of_json j = Option.bind (table_of j) (\<lambda>m.
     case (field_req m ''name'' as_str, field_opt m ''secret'' as_str, field_req m ''auth_mode'' webhook_mode_of_json) of
       (Some n, Some s, Some k) \<Rightarrow> Some \<lparr> source_name = n, source_secret = s, source_auth_mode = k \<rparr>
     | _ \<Rightarrow> None)"

definition no_webhooks :: webhooks_config where
  "no_webhooks = \<lparr> webhooks_enabled = False, webhook_sources = [] \<rparr>"

definition webhooks_config_of_json :: "json \<Rightarrow> webhooks_config option" where
  "webhooks_config_of_json j = Option.bind (table_of j) (\<lambda>m.
     case (field_default m ''enabled'' False as_bool, field_default m ''sources'' [] (list_of webhook_source_of_json)) of
       (Some b, Some ss) \<Rightarrow> Some \<lparr> webhooks_enabled = b, webhook_sources = ss \<rparr>
     | _ \<Rightarrow> None)"

definition config_of_json :: "string option \<Rightarrow> json \<Rightarrow> skynet_config option" where
  "config_of_json home j = Option.bind (table_of j) (\<lambda>m.
     case (field_req m ''gateway'' gateway_config_of_json, field_req m ''agent'' agent_config_of_json,
           field_default m ''database'' (default_db_path home) (database_path_of_json home),
           field_default m ''providers'' no_providers providers_config_of_json,
           field_default m ''channels'' no_channels channels_config_of_json,
           field_default m ''webhooks'' no_webhooks webhooks_config_of_json) of
       (Some g, Some a, Some d, Some p, Some c, Some w) \<Rightarrow>
         Some \<lparr> gateway = g, agent = a, database_path = d, providers = p, channels = c, webhooks = w \<rparr>
     | _ \<Rightarrow> None)"

section \<open>Loading it\<close>

text \<open>\<open>merged path\<close> is the value figment makes of the file and the variables \<open>SKYNET_*\<close>, or its error;
  \<open>why\<close> is the text of serde's error.\<close>

definition load ::
    "string option \<Rightarrow> (json \<Rightarrow> string) \<Rightarrow> (string \<Rightarrow> string + json) \<Rightarrow> string option \<Rightarrow> skynet_error + skynet_config" where
  "load home why merged config_path =
     (case merged (case config_path of Some p \<Rightarrow> p | None \<Rightarrow> default_config_path home) of
        Inl e \<Rightarrow> Inl (Config e)
      | Inr v \<Rightarrow>
          (case config_of_json home v of
             None \<Rightarrow> Inl (Config (why v))
           | Some c \<Rightarrow> Inr c))"

text \<open>What \<open>main\<close> makes of it; \<open>env\<close> reads an environment variable.\<close>

definition startup_config ::
    "(string \<Rightarrow> string option) \<Rightarrow> (json \<Rightarrow> string) \<Rightarrow> (string \<Rightarrow> string + json) \<Rightarrow> skynet_config" where
  "startup_config env why merged =
     (case load (env ''HOME'') why merged (env ''SKYNET_CONFIG'') of
        Inr c \<Rightarrow> c
      | Inl _ \<Rightarrow> default_config (env ''HOME''))"

section \<open>Defaults\<close>

text \<open>A file that names only what is required, the authentication mode, gives the default configuration
  without its token.\<close>

definition minimal_config :: json where
  "minimal_config = JObj [(''gateway'', JObj [(''auth'', JObj [(''mode'', JStr ''token'')])]), (''agent'', JObj [])]"

lemma minimal_is_default:
  "config_of_json home minimal_config
     = Some (let c = default_config home in c\<lparr>gateway := gateway c\<lparr>auth := auth (gateway c)\<lparr>auth_token := None\<rparr>\<rparr>\<rparr>)"
  by (simp add: config_of_json_def minimal_config_def table_of_def serde_defs gateway_config_of_json_def
      auth_config_of_json_def auth_mode_of_json_def agent_config_of_json_def default_model_def no_providers_def
      no_channels_def no_webhooks_def default_config_def)

text \<open>A token that is not a text makes the whole configuration unreadable.\<close>

lemma token_not_text:
  assumes "map_of t ''gateway'' = Some (JObj g)" "map_of g ''auth'' = Some (JObj au)"
    "map_of au ''token'' = Some v" "v \<noteq> JNull" "as_str v = None"
  shows "config_of_json home (JObj t) = None"
proof -
  have "auth_config_of_json (JObj au) = None"
    using assms(3-) by (simp add: auth_config_of_json_def table_of_def field_opt_def split: option.split)
  then have "gateway_config_of_json (JObj g) = None"
    using assms(2) by (simp add: gateway_config_of_json_def table_of_def field_req_def split: option.split)
  then show ?thesis
    using assms(1) by (simp add: config_of_json_def table_of_def field_req_def)
qed

end
