(* ===== verification/Clients.thy ===== *)
theory Clients
  imports Chat AgentTools Serde
begin

text \<open>
  The clients of the language models (\<open>crates/skynet-agent/src/openai.rs\<close>, \<open>ollama.rs\<close>, \<open>anthropic.rs\<close>,
  \<open>anthropic_stream.rs\<close>) and the lines of a server-sent stream (\<open>stream.rs\<close>).

  The answer of the service is an argument: status, headers, body, and for a stream the chunks the
  network delivers. Reading JSON text is the parameter \<open>parse\<close>; what serde derives from the structs
  is written out (for objects). The receiver of a stream's events stays.
\<close>

section \<open>Lines of a stream\<close>

datatype sse_parsed = SseEvent string | SseData string

definition parse_sse_line :: "string \<Rightarrow> sse_parsed option" where
  "parse_sse_line l =
     (case strip_prefix ''event: '' l of
        Some event_type \<Rightarrow> Some (SseEvent event_type)
      | None \<Rightarrow> map_option SseData (strip_prefix ''data: '' l))"

text \<open>
  The loop the three clients share: a chunk that is not UTF-8 is skipped, the lines completed by a
  chunk are trimmed and handled until one ends the chunk, the rest waits in the buffer. A network
  error ends the loop.
\<close>

fun line_loop :: "(string \<Rightarrow> 's \<Rightarrow> 's) \<Rightarrow> (string \<Rightarrow> bool) \<Rightarrow> string list \<Rightarrow> 's \<Rightarrow> 's" where
  "line_loop step ends [] s = s"
| "line_loop step ends (l # ls) s =
     (let t = trim l in
      if t = [] then line_loop step ends ls s
      else if ends t then s
      else line_loop step ends ls (step t s))"

fun chunk_loop ::
    "(string \<Rightarrow> 's \<Rightarrow> 's) \<Rightarrow> (string \<Rightarrow> bool) \<Rightarrow> (string + string) list \<Rightarrow> string \<Rightarrow> 's \<Rightarrow> 's \<times> string option" where
  "chunk_loop step ends [] buf s = (s, None)"
| "chunk_loop step ends (Inl e # cs) buf s = (s, Some e)"
| "chunk_loop step ends (Inr bytes # cs) buf s =
     (if \<not> valid_utf8 bytes then chunk_loop step ends cs buf s
      else (let ls = split_on newline (buf @ bytes) in
        chunk_loop step ends cs (last ls) (line_loop step ends (butlast ls) s)))"

text \<open>What a client accumulates; \<open>sa_sent\<close> are the events sent.\<close>

record stream_acc =
  sa_model :: string
  sa_in :: nat
  sa_out :: nat
  sa_stop :: string
  sa_sent :: "stream_event list"

definition acc_new :: "string \<Rightarrow> stream_acc" where
  "acc_new m = \<lparr> sa_model = m, sa_in = 0, sa_out = 0, sa_stop = [], sa_sent = [] \<rparr>"

definition send_event :: "stream_event \<Rightarrow> 's stream_acc_scheme \<Rightarrow> 's stream_acc_scheme" where
  "send_event e s = s\<lparr>sa_sent := sa_sent s @ [e]\<rparr>"

text \<open>The events of a finished loop: an error instead of the completion if the network failed.\<close>

definition stream_events :: "'s stream_acc_scheme \<times> string option \<Rightarrow> stream_event list" where
  "stream_events r =
     (case r of
        (s, Some e) \<Rightarrow> sa_sent s @ [StreamError e]
      | (s, None) \<Rightarrow> sa_sent s @ [StreamDone (sa_model s) (sa_in s) (sa_out s) (sa_stop s)])"

section \<open>Answers\<close>

record http_reply =
  hr_status :: nat
  hr_retry_after :: "string option"
  hr_text :: string
  hr_json :: "string + json"
  hr_chunks :: "(string + string) list"

definition is_success :: "nat \<Rightarrow> bool" where
  "is_success status \<longleftrightarrow> 200 \<le> status \<and> status < 300"

section \<open>OpenAI\<close>

definition flat_messages :: "chat_request \<Rightarrow> json list" where
  "flat_messages req = JObj [(''role'', JStr ''system''), (''content'', JStr (cr_system req))]
     # map plain_message (cr_messages req)"

definition openai_body :: "chat_request \<Rightarrow> bool \<Rightarrow> json" where
  "openai_body req stream = JObj [(''model'', JStr (cr_model req)), (''messages'', JArr (flat_messages req)),
     (''max_tokens'', jnat (cr_max_tokens req)), (''stream'', JBool stream)]"

text \<open>The header counts seconds; the product wraps in a release build.\<close>

definition openai_check :: "http_reply \<Rightarrow> provider_error + unit" where
  "openai_check h =
     (if hr_status h = 429 then
        Inl (PRateLimited (or_default 5000
          (map_option (\<lambda>s. (s * 1000) mod u64_size) (Option.bind (hr_retry_after h) (parse_unsigned u64_size)))))
      else if \<not> is_success (hr_status h) then Inl (PApi (hr_status h) (hr_text h))
      else Inr ())"

definition openai_usage_of :: "json \<Rightarrow> (nat \<times> nat) option" where
  "openai_usage_of = both (need ''prompt_tokens'' u32_of) (need ''completion_tokens'' u32_of)"

definition openai_choice_of :: "json \<Rightarrow> (string option \<times> string option) option" where
  "openai_choice_of = both (need ''message'' (may ''content'' as_str)) (may ''finish_reason'' as_str)"

definition openai_api_response ::
    "json \<Rightarrow> (string \<times> (string option \<times> string option) list \<times> (nat \<times> nat) option) option" where
  "openai_api_response = both (need ''model'' as_str)
     (both (need ''choices'' (list_of openai_choice_of)) (may ''usage'' openai_usage_of))"

fun openai_parse_response ::
    "string \<times> (string option \<times> string option) list \<times> (nat \<times> nat) option \<Rightarrow> chat_response" where
  "openai_parse_response (model, choices, usage) =
     (let choice = (case choices of c # _ \<Rightarrow> Some c | [] \<Rightarrow> None) in
      \<lparr> rs_content = or_default [] (Option.bind choice fst), rs_model = model,
        rs_tokens_in = or_default 0 (map_option fst usage), rs_tokens_out = or_default 0 (map_option snd usage),
        rs_stop_reason = or_default [] (Option.bind choice snd), rs_tool_calls = [] \<rparr>)"

text \<open>\<open>sent\<close> is the outcome of the request itself: an error text or the answer.\<close>

definition parsed_reply :: "string \<Rightarrow> (json \<Rightarrow> 'a option) \<Rightarrow> http_reply \<Rightarrow> provider_error + 'a" where
  "parsed_reply bad dec h =
     (case hr_json h of
        Inl e \<Rightarrow> Inl (PParse e)
      | Inr j \<Rightarrow> (case dec j of None \<Rightarrow> Inl (PParse bad) | Some x \<Rightarrow> Inr x))"

definition openai_send :: "string \<Rightarrow> string + http_reply \<Rightarrow> provider_error + chat_response" where
  "openai_send bad sent =
     (case sent of
        Inl e \<Rightarrow> Inl (PHttp e)
      | Inr h \<Rightarrow>
          (case openai_check h of
             Inl e \<Rightarrow> Inl e
           | Inr _ \<Rightarrow> map_sum id openai_parse_response (parsed_reply bad openai_api_response h)))"

definition openai_delta_of :: "json \<Rightarrow> (string option \<times> string option) option" where
  "openai_delta_of = both (need ''delta'' (may ''content'' as_str)) (may ''finish_reason'' as_str)"

definition openai_stream_chunk :: "json \<Rightarrow> ((string option \<times> string option) list \<times> (nat \<times> nat) option) option" where
  "openai_stream_chunk = both (need ''choices'' (list_of openai_delta_of)) (may ''usage'' openai_usage_of)"

fun openai_choice_step :: "string option \<times> string option \<Rightarrow> stream_acc \<Rightarrow> stream_acc" where
  "openai_choice_step (content, finish_reason) s =
     (let s1 = (case finish_reason of Some r \<Rightarrow> if r \<noteq> [] then s\<lparr>sa_stop := r\<rparr> else s | None \<Rightarrow> s)
      in case content of Some c \<Rightarrow> if c \<noteq> [] then send_event (TextDelta c) s1 else s1 | None \<Rightarrow> s1)"

definition openai_data_step :: "(string \<Rightarrow> json option) \<Rightarrow> string \<Rightarrow> stream_acc \<Rightarrow> stream_acc" where
  "openai_data_step parse data s =
     (case Option.bind (parse data) openai_stream_chunk of
        None \<Rightarrow> s
      | Some (choices, usage) \<Rightarrow>
          fold openai_choice_step choices
            (case usage of Some (i, n) \<Rightarrow> s\<lparr>sa_in := i, sa_out := n\<rparr> | None \<Rightarrow> s))"

definition openai_line :: "(string \<Rightarrow> json option) \<Rightarrow> string \<Rightarrow> stream_acc \<Rightarrow> stream_acc" where
  "openai_line parse l s =
     (case parse_sse_line l of Some (SseData data) \<Rightarrow> openai_data_step parse data s | _ \<Rightarrow> s)"

definition openai_ends :: "string \<Rightarrow> bool" where
  "openai_ends l \<longleftrightarrow> (case parse_sse_line l of Some (SseData data) \<Rightarrow> trim data = ''[DONE]'' | _ \<Rightarrow> False)"

definition openai_stream_of :: "(string \<Rightarrow> json option) \<Rightarrow> string \<Rightarrow> (string + string) list \<Rightarrow> stream_event list" where
  "openai_stream_of parse model chunks =
     stream_events (chunk_loop (openai_line parse) openai_ends chunks [] (acc_new model))"

definition openai_send_stream ::
    "(string \<Rightarrow> json option) \<Rightarrow> chat_request \<Rightarrow> string + http_reply \<Rightarrow> stream_event list \<times> (provider_error + unit)" where
  "openai_send_stream parse req sent =
     (case sent of
        Inl e \<Rightarrow> ([], Inl (PHttp e))
      | Inr h \<Rightarrow>
          (case openai_check h of
             Inl e \<Rightarrow> ([], Inl e)
           | Inr _ \<Rightarrow> (openai_stream_of parse (cr_model req) (hr_chunks h), Inr ())))"

section \<open>Ollama\<close>

definition ollama_body :: "chat_request \<Rightarrow> bool \<Rightarrow> json" where
  "ollama_body req stream = JObj [(''model'', JStr (cr_model req)), (''messages'', JArr (flat_messages req)),
     (''stream'', JBool stream), (''options'', JObj [(''num_predict'', jnat (cr_max_tokens req))])]"

text \<open>A failed connection and a time-out are told apart from other transport errors.\<close>

datatype transport_error = NotReachable string | OtherTransport string

fun ollama_transport :: "transport_error \<Rightarrow> provider_error" where
  "ollama_transport (NotReachable e) = PUnavailable e"
| "ollama_transport (OtherTransport e) = PHttp e"

definition ollama_check :: "http_reply \<Rightarrow> provider_error + unit" where
  "ollama_check h = (if \<not> is_success (hr_status h) then Inl (PApi (hr_status h) (hr_text h)) else Inr ())"

definition message_of :: "json \<Rightarrow> string option" where
  "message_of = need ''message'' (need ''content'' as_str)"

definition ollama_api_response :: "json \<Rightarrow> (string \<times> string \<times> bool \<times> nat option \<times> nat option) option" where
  "ollama_api_response = both (need ''model'' as_str) (both message_of (both (need ''done'' as_bool)
     (both (may ''prompt_eval_count'' u32_of) (may ''eval_count'' u32_of))))"

fun ollama_parse_response :: "string \<times> string \<times> bool \<times> nat option \<times> nat option \<Rightarrow> chat_response" where
  "ollama_parse_response (model, content, finished, prompt_count, eval_count) =
     \<lparr> rs_content = content, rs_model = model, rs_tokens_in = or_default 0 prompt_count,
       rs_tokens_out = or_default 0 eval_count, rs_stop_reason = (if finished then ''stop'' else []),
       rs_tool_calls = [] \<rparr>"

definition ollama_send :: "string \<Rightarrow> transport_error + http_reply \<Rightarrow> provider_error + chat_response" where
  "ollama_send bad sent =
     (case sent of
        Inl e \<Rightarrow> Inl (ollama_transport e)
      | Inr h \<Rightarrow>
          (case ollama_check h of
             Inl e \<Rightarrow> Inl e
           | Inr _ \<Rightarrow> map_sum id ollama_parse_response (parsed_reply bad ollama_api_response h)))"

definition ollama_chunk_of ::
    "json \<Rightarrow> (string \<times> string \<times> bool \<times> string option \<times> nat option \<times> nat option) option" where
  "ollama_chunk_of = both (need ''model'' as_str) (both message_of (both (need ''done'' as_bool)
     (both (may ''done_reason'' as_str) (both (may ''prompt_eval_count'' u32_of) (may ''eval_count'' u32_of)))))"

definition ollama_line :: "(string \<Rightarrow> json option) \<Rightarrow> string \<Rightarrow> stream_acc \<Rightarrow> stream_acc" where
  "ollama_line parse l s =
     (case Option.bind (parse l) ollama_chunk_of of
        None \<Rightarrow> s
      | Some (model, content, finished, done_reason, prompt_count, eval_count) \<Rightarrow>
          (let s1 = (if sa_model s = [] then s\<lparr>sa_model := model\<rparr> else s) in
           if finished then
             s1\<lparr>sa_in := or_default 0 prompt_count, sa_out := or_default 0 eval_count,
                sa_stop := or_default ''stop'' done_reason\<rparr>
           else if content \<noteq> [] then send_event (TextDelta content) s1 else s1))"

definition never_ends :: "string \<Rightarrow> bool" where "never_ends l \<longleftrightarrow> False"

definition ollama_stream_of :: "(string \<Rightarrow> json option) \<Rightarrow> (string + string) list \<Rightarrow> stream_event list" where
  "ollama_stream_of parse chunks = stream_events (chunk_loop (ollama_line parse) never_ends chunks [] (acc_new []))"

definition ollama_send_stream ::
    "(string \<Rightarrow> json option) \<Rightarrow> transport_error + http_reply \<Rightarrow> stream_event list \<times> (provider_error + unit)" where
  "ollama_send_stream parse sent =
     (case sent of
        Inl e \<Rightarrow> ([], Inl (ollama_transport e))
      | Inr h \<Rightarrow>
          (case ollama_check h of
             Inl e \<Rightarrow> ([], Inl e)
           | Inr _ \<Rightarrow> (ollama_stream_of parse (hr_chunks h), Inr ())))"

section \<open>Anthropic\<close>

definition OAUTH_TOKEN_PREFIX :: string where "OAUTH_TOKEN_PREFIX = ''sk-ant-oat01-''"

definition apply_auth :: "string \<Rightarrow> (string \<times> string) list" where
  "apply_auth api_key =
     (if starts_with api_key OAUTH_TOKEN_PREFIX
      then [(''Authorization'', ''Bearer '' @ api_key), (''anthropic-beta'', ''oauth-2025-04-20'')]
      else [(''x-api-key'', api_key)])"

definition tool_json :: "tool_definition \<Rightarrow> json" where
  "tool_json t = JObj [(''name'', JStr (td_name t)), (''description'', JStr (td_description t)),
     (''input_schema'', td_input_schema t)]"

definition anthropic_messages :: "chat_request \<Rightarrow> json list" where
  "anthropic_messages req = strip_thinking_blocks
     (case cr_raw_messages req of Some raw \<Rightarrow> raw | None \<Rightarrow> map plain_message (cr_messages req))"

definition anthropic_system :: "chat_request \<Rightarrow> json" where
  "anthropic_system req =
     (case cr_system_prompt req of Some p \<Rightarrow> JArr (to_anthropic_blocks p) | None \<Rightarrow> JStr (cr_system req))"

text \<open>\<open>stream\<close> is false in the body the builder returns; the streaming call sets it.\<close>

definition anthropic_body :: "chat_request \<Rightarrow> bool \<Rightarrow> json" where
  "anthropic_body req stream = JObj
     ([(''model'', JStr (cr_model req)), (''max_tokens'', jnat (cr_max_tokens req)),
       (''system'', anthropic_system req), (''messages'', JArr (anthropic_messages req)), (''stream'', JBool stream)]
      @ (if cr_tools req = [] then [] else [(''tools'', JArr (map tool_json (cr_tools req)))])
      @ (case cr_thinking req of
           Some level \<Rightarrow> if level \<noteq> ThinkOff then [(''thinking'', JObj [(''type'', JStr ''enabled''),
               (''budget_tokens'', jnat (budget_tokens level))])] else []
         | None \<Rightarrow> []))"

definition anthropic_check :: "http_reply \<Rightarrow> provider_error + unit" where
  "anthropic_check h =
     (if hr_status h = 429 then
        Inl (PRateLimited (or_default 5000 (Option.bind (hr_retry_after h) (parse_unsigned u64_size))))
      else if \<not> is_success (hr_status h) then Inl (PApi (hr_status h) (hr_text h))
      else Inr ())"

datatype content_block = TextBlock string | ThinkingBlock string | ToolUseBlock string string json | UnknownBlock

definition content_block_of :: "json \<Rightarrow> content_block option" where
  "content_block_of j =
     (case need ''type'' as_str j of
        None \<Rightarrow> None
      | Some t \<Rightarrow>
          (if t = ''text'' then map_option TextBlock (need ''text'' as_str j)
           else if t = ''thinking'' then map_option ThinkingBlock (need ''thinking'' as_str j)
           else if t = ''tool_use'' then map_option (\<lambda>(i, n, inp). ToolUseBlock i n inp)
             (both (need ''id'' as_str) (both (need ''name'' as_str) (jget ''input'')) j)
           else Some UnknownBlock))"

definition anthropic_api_response ::
    "json \<Rightarrow> (string \<times> content_block list \<times> string option \<times> nat \<times> nat) option" where
  "anthropic_api_response = both (need ''model'' as_str) (both (need ''content'' (list_of content_block_of))
     (both (may ''stop_reason'' as_str)
       (need ''usage'' (both (need ''input_tokens'' u32_of) (need ''output_tokens'' u32_of)))))"

fun block_text :: "content_block \<Rightarrow> string" where
  "block_text (TextBlock t) = t"
| "block_text _ = []"

fun block_call :: "content_block \<Rightarrow> tool_call list" where
  "block_call (ToolUseBlock i n inp) = [\<lparr> call_id = i, call_name = n, call_input = inp \<rparr>]"
| "block_call _ = []"

fun anthropic_parse_response :: "string \<times> content_block list \<times> string option \<times> nat \<times> nat \<Rightarrow> chat_response" where
  "anthropic_parse_response (model, content, stop_reason, n_in, n_out) =
     \<lparr> rs_content = concat (map block_text content), rs_model = model, rs_tokens_in = n_in, rs_tokens_out = n_out,
       rs_stop_reason = or_default [] stop_reason, rs_tool_calls = concat (map block_call content) \<rparr>"

definition anthropic_send :: "string \<Rightarrow> string + http_reply \<Rightarrow> provider_error + chat_response" where
  "anthropic_send bad sent =
     (case sent of
        Inl e \<Rightarrow> Inl (PHttp e)
      | Inr h \<Rightarrow>
          (case anthropic_check h of
             Inl e \<Rightarrow> Inl e
           | Inr _ \<Rightarrow> map_sum id anthropic_parse_response (parsed_reply bad anthropic_api_response h)))"

text \<open>The state of the streaming parser.\<close>

record anthropic_acc = stream_acc +
  an_event :: string
  an_block_type :: string
  an_tool_id :: string
  an_tool_name :: string
  an_tool_json :: string

definition anthropic_new :: anthropic_acc where
  "anthropic_new = \<lparr> sa_model = [], sa_in = 0, sa_out = 0, sa_stop = [], sa_sent = [], an_event = [],
     an_block_type = [], an_tool_id = [], an_tool_name = [], an_tool_json = [] \<rparr>"

definition message_start_of :: "json \<Rightarrow> (string \<times> nat) option" where
  "message_start_of = need ''message'' (both (need ''model'' as_str) (need ''usage'' (need ''input_tokens'' u32_of)))"

definition block_start_of :: "json \<Rightarrow> (string \<times> string option \<times> string option) option" where
  "block_start_of = need ''content_block''
     (both (need ''type'' as_str) (both (may ''id'' as_str) (may ''name'' as_str)))"

definition block_delta_of :: "json \<Rightarrow> (string \<times> string option \<times> string option \<times> string option) option" where
  "block_delta_of = need ''delta'' (both (need ''type'' as_str)
     (both (may ''text'' as_str) (both (may ''thinking'' as_str) (may ''partial_json'' as_str))))"

definition message_delta_of :: "json \<Rightarrow> (string option \<times> nat) option" where
  "message_delta_of = both (need ''delta'' (may ''stop_reason'' as_str))
     (need ''usage'' (need ''output_tokens'' u32_of))"

definition delta_step :: "string \<times> string option \<times> string option \<times> string option \<Rightarrow> anthropic_acc \<Rightarrow> anthropic_acc" where
  "delta_step d s = (case d of (kind, text_part, thinking, partial) \<Rightarrow>
     (if kind = ''text_delta'' then (case text_part of Some t \<Rightarrow> send_event (TextDelta t) s | None \<Rightarrow> s)
      else if kind = ''thinking_delta'' then (case thinking of Some t \<Rightarrow> send_event (ThinkingDelta t) s | None \<Rightarrow> s)
      else if kind = ''input_json_delta'' then
        (case partial of Some p \<Rightarrow> s\<lparr>an_tool_json := an_tool_json s @ p\<rparr> | None \<Rightarrow> s)
      else s))"

definition block_stop :: "(string \<Rightarrow> json option) \<Rightarrow> anthropic_acc \<Rightarrow> anthropic_acc" where
  "block_stop parse s =
     (if an_block_type s = ''tool_use'' then
        send_event (ToolUse (an_tool_id s) (an_tool_name s) (or_default (JObj []) (parse (an_tool_json s))))
          (s\<lparr>an_tool_id := [], an_tool_name := [], an_tool_json := [], an_block_type := []\<rparr>)
      else s\<lparr>an_block_type := []\<rparr>)"

definition parse_data_block :: "(string \<Rightarrow> json option) \<Rightarrow> string \<Rightarrow> string \<Rightarrow> anthropic_acc \<Rightarrow> anthropic_acc" where
  "parse_data_block parse event_type data s =
     (if event_type = ''message_start'' then
        (case Option.bind (parse data) message_start_of of
           Some (m, n) \<Rightarrow> s\<lparr>sa_model := m, sa_in := n\<rparr> | None \<Rightarrow> s)
      else if event_type = ''content_block_start'' then
        (case Option.bind (parse data) block_start_of of
           Some (t, i, n) \<Rightarrow>
             (let s1 = s\<lparr>an_block_type := t\<rparr> in
              if t = ''tool_use'' then s1\<lparr>an_tool_id := or_default [] i, an_tool_name := or_default [] n, an_tool_json := []\<rparr>
              else s1)
         | None \<Rightarrow> s)
      else if event_type = ''content_block_delta'' then
        (case Option.bind (parse data) block_delta_of of Some d \<Rightarrow> delta_step d s | None \<Rightarrow> s)
      else if event_type = ''content_block_stop'' then block_stop parse s
      else if event_type = ''message_delta'' then
        (case Option.bind (parse data) message_delta_of of
           Some (reason, n) \<Rightarrow>
             (case reason of Some r \<Rightarrow> s\<lparr>sa_out := n, sa_stop := r\<rparr> | None \<Rightarrow> s\<lparr>sa_out := n\<rparr>)
         | None \<Rightarrow> s)
      else if event_type = ''error'' then send_event (StreamError data) s
      else s)"

definition anthropic_line :: "(string \<Rightarrow> json option) \<Rightarrow> string \<Rightarrow> anthropic_acc \<Rightarrow> anthropic_acc" where
  "anthropic_line parse l s =
     (case parse_sse_line l of
        Some (SseEvent ev) \<Rightarrow> s\<lparr>an_event := ev\<rparr>
      | Some (SseData data) \<Rightarrow> parse_data_block parse (an_event s) data s
      | None \<Rightarrow> s)"

definition anthropic_stream_of :: "(string \<Rightarrow> json option) \<Rightarrow> (string + string) list \<Rightarrow> stream_event list" where
  "anthropic_stream_of parse chunks =
     stream_events (chunk_loop (anthropic_line parse) never_ends chunks [] anthropic_new)"

definition anthropic_send_stream ::
    "(string \<Rightarrow> json option) \<Rightarrow> string + http_reply \<Rightarrow> stream_event list \<times> (provider_error + unit)" where
  "anthropic_send_stream parse sent =
     (case sent of
        Inl e \<Rightarrow> ([], Inl (PHttp e))
      | Inr h \<Rightarrow>
          (case anthropic_check h of
             Inl e \<Rightarrow> ([], Inl e)
           | Inr _ \<Rightarrow> (anthropic_stream_of parse (hr_chunks h), Inr ())))"

end
