(* ===== verification/ClientProps.thy ===== *)
theory ClientProps
  imports Clients ChatProps
begin

text \<open>
  What holds of the clients of the language models: how a stream is cut into chunks does not matter
  as long as every chunk is UTF-8, every stream ends once, a streamed tool call is put together
  from its pieces, and which part of a request reaches which service.
\<close>

section \<open>Chunks and lines\<close>

lemma split_on_nonempty [simp]: "split_on x s \<noteq> []"
  by (induction s) (auto split: list.split)

lemma split_on_append:
  "split_on x (a @ b) = butlast (split_on x a) @ split_on x (last (split_on x a) @ b)"
proof (induction a)
  case (Cons c a)
  show ?case
  proof (cases "c = x")
    case False
    obtain p ps where s: "split_on x a = p # ps" by (cases "split_on x a") auto
    show ?thesis
    proof (cases "ps = []")
      case True
      then show ?thesis using Cons False s by simp
    next
      case ps: False
      then obtain q qs where "split_on x (a @ b) = p # q # qs"
        using Cons s by (cases "butlast ps @ split_on x (last ps @ b)") auto
      then show ?thesis using Cons False s ps by auto
    qed
  qed (simp add: Cons)
qed simp

text \<open>Lines before the end of the stream: none of them ends its chunk early.\<close>

definition open_ended :: "(string \<Rightarrow> bool) \<Rightarrow> string list \<Rightarrow> bool" where
  "open_ended ends ls \<longleftrightarrow> (\<forall>l \<in> set (butlast ls). \<not> ends (trim l))"

lemma line_loop_append:
  "\<forall>l \<in> set ls. \<not> ends (trim l) \<Longrightarrow> line_loop step ends (ls @ ms) s = line_loop step ends ms (line_loop step ends ls s)"
  by (induction ls arbitrary: s) (auto simp: Let_def)

lemma line_loop_append_open:
  assumes "open_ended ends (ls @ ms)"
  shows "line_loop step ends (ls @ ms) s = line_loop step ends ms (line_loop step ends ls s)"
proof (cases "ms = []")
  case False
  then have "\<forall>l \<in> set ls. \<not> ends (trim l)" using assms by (simp add: open_ended_def butlast_append)
  then show ?thesis by (rule line_loop_append)
qed simp

lemma open_ended_suffix: "open_ended ends (ls @ ms) \<Longrightarrow> open_ended ends ms"
  by (cases "ms = []") (auto simp: open_ended_def butlast_append)

lemma chunk_loop_lines:
  assumes "list_all valid_utf8 bs" "open_ended ends (butlast (split_on newline (buf @ concat bs)))"
    and "newline \<notin> set buf"
  shows "chunk_loop step ends (map Inr bs) buf s =
    (line_loop step ends (butlast (split_on newline (buf @ concat bs))) s, None)"
  using assms
proof (induction bs arbitrary: buf s)
  case Nil
  have "newline \<notin> set b \<Longrightarrow> split_on newline b = [b]" for b by (induction b) auto
  then show ?case using Nil by simp
next
  case (Cons b bs)
  let ?ls = "split_on newline (buf @ b)"
  let ?rest = "split_on newline (last ?ls @ concat bs)"
  have all: "split_on newline (buf @ concat (b # bs)) = butlast ?ls @ ?rest"
    using split_on_append [of newline "buf @ b" "concat bs"] by simp
  have pieces: "p \<in> set (split_on newline s) \<Longrightarrow> newline \<notin> set p" for p s
    by (induction s arbitrary: p) (auto split: list.splits if_splits)
  have lines: "butlast (butlast ?ls @ ?rest) = butlast ?ls @ butlast ?rest" by (simp add: butlast_append)
  have opn: "open_ended ends (butlast ?ls @ butlast ?rest)" using Cons.prems(2) unfolding all lines .
  then have "chunk_loop step ends (map Inr bs) (last ?ls) (line_loop step ends (butlast ?ls) s)
      = (line_loop step ends (butlast ?rest) (line_loop step ends (butlast ?ls) s), None)"
    using opn Cons.prems(1) pieces [of "last ?ls" "buf @ b"]
    by (intro Cons.IH) (auto intro: open_ended_suffix)
  then show ?case using Cons.prems(1) line_loop_append_open [OF opn, of step s] unfolding all lines by (simp add: Let_def)
qed

lemma chunk_loop_filter:
  "chunk_loop step ends cs buf s = chunk_loop step ends (filter (case_sum (\<lambda>_. True) valid_utf8) cs) buf s"
  by (induction step ends cs buf s rule: chunk_loop.induct) (simp_all add: Let_def)

lemma never_ends_open [simp]: "open_ended never_ends ls"
  by (simp add: open_ended_def never_ends_def)

lemma chunk_loop_same:
  assumes "list_all valid_utf8 bs" "list_all valid_utf8 cs" "concat bs = concat cs"
    and "open_ended ends (butlast (split_on newline (concat bs)))"
  shows "chunk_loop step ends (map Inr bs) [] s = chunk_loop step ends (map Inr cs) [] s"
  using chunk_loop_lines [OF assms(1), of ends "[]" step s] chunk_loop_lines [OF assms(2), of ends "[]" step s] assms(3,4)
  by simp


definition json_lines :: "string \<Rightarrow> json option" where
  "json_lines s = (if s = ''A'' then Some (JObj [(''model'', JStr ''m''), (''message'', JObj [(''content'', JStr ''hi'')]),
       (''done'', JBool False)])
     else None)"


section \<open>How a stream ends\<close>

text \<open>A client whose lines send nothing but text.\<close>

locale text_client =
  fixes step :: "string \<Rightarrow> stream_acc \<Rightarrow> stream_acc"
  assumes sends_text: "\<exists>ts. sa_sent (step l s) = sa_sent s @ map TextDelta ts"
begin

lemma lines_send_text: "\<exists>ts. sa_sent (line_loop step ends ls s) = sa_sent s @ map TextDelta ts"
proof (induction ls arbitrary: s)
  case (Cons l ls)
  obtain ts where ts: "sa_sent (step (trim l) s) = sa_sent s @ map TextDelta ts" using sends_text by blast
  obtain us where "sa_sent (line_loop step ends ls (step (trim l) s)) = sa_sent (step (trim l) s) @ map TextDelta us"
    using Cons.IH by blast
  then have "sa_sent (line_loop step ends ls (step (trim l) s)) = sa_sent s @ map TextDelta (ts @ us)" using ts by simp
  moreover have "\<exists>ts. sa_sent s = sa_sent s @ map TextDelta ts" by (intro exI [of _ "[]"]) simp
  ultimately show ?case using Cons.IH [of s] by (simp only: line_loop.simps Let_def split: if_split) blast
qed (intro exI [of _ "[]"], simp)

lemma chunks_send_text: "\<exists>ts. sa_sent (fst (chunk_loop step ends cs buf s)) = sa_sent s @ map TextDelta ts"
proof (induction cs arbitrary: buf s)
  case Nil
  then show ?case by (intro exI [of _ "[]"]) simp
next
  case (Cons c cs)
  show ?case
  proof (cases c)
    case (Inl e)
    then show ?thesis by (intro exI [of _ "[]"]) simp
  next
    case (Inr bytes)
    let ?ls = "split_on newline (buf @ bytes)"
    obtain ts where "sa_sent (line_loop step ends (butlast ?ls) s) = sa_sent s @ map TextDelta ts"
      using lines_send_text by blast
    moreover obtain us where "sa_sent (fst (chunk_loop step ends cs (last ?ls) (line_loop step ends (butlast ?ls) s)))
        = sa_sent (line_loop step ends (butlast ?ls) s) @ map TextDelta us" using Cons.IH by blast
    ultimately have "sa_sent (fst (chunk_loop step ends cs (last ?ls) (line_loop step ends (butlast ?ls) s)))
        = sa_sent s @ map TextDelta (ts @ us)" by simp
    then show ?thesis using Inr Cons.IH [of buf s]
      by (cases "valid_utf8 bytes") (auto simp: Let_def simp del: map_append)
  qed
qed

end

fun net_error :: "(string + string) list \<Rightarrow> string option" where
  "net_error [] = None"
| "net_error (Inl e # cs) = Some e"
| "net_error (Inr b # cs) = net_error cs"

lemma chunk_loop_error: "snd (chunk_loop step ends cs buf s) = net_error cs"
  by (induction step ends cs buf s rule: chunk_loop.induct) (simp_all add: Let_def)

definition ends_with_final :: "(string + string) list \<Rightarrow> stream_event list \<Rightarrow> bool" where
  "ends_with_final cs es \<longleftrightarrow> (\<exists>ts final. es = map TextDelta ts @ [final]
     \<and> (case net_error cs of Some e \<Rightarrow> final = StreamError e | None \<Rightarrow> \<exists>m i n reason. final = StreamDone m i n reason))"

context text_client
begin

lemma stream_ends:
  assumes "sa_sent s = []"
  shows "ends_with_final cs (stream_events (chunk_loop step ends cs [] s))"
proof -
  obtain s' e where r: "chunk_loop step ends cs [] s = (s', e)" by (metis surj_pair)
  then have "net_error cs = e" using chunk_loop_error [of step ends cs "[]" s] by simp
  moreover obtain ts where "sa_sent s' = map TextDelta ts" using chunks_send_text [of ends cs "[]" s] assms r by auto
  ultimately show ?thesis using r by (cases e) (auto simp: ends_with_final_def stream_events_def)
qed

end

lemma openai_choices_send: "\<exists>ts. sa_sent (fold openai_choice_step ds s) = sa_sent s @ map TextDelta ts"
proof (induction ds arbitrary: s)
  case (Cons d ds)
  obtain ts where ts: "sa_sent (fold openai_choice_step ds (openai_choice_step d s))
      = sa_sent (openai_choice_step d s) @ map TextDelta ts" using Cons by blast
  have "\<exists>us. sa_sent (openai_choice_step d s) = sa_sent s @ map TextDelta us"
    by (cases d) (auto simp: send_event_def Let_def split: option.split intro: exI [of _ "[]"] exI [of _ "[_]"])
  then obtain us where "sa_sent (openai_choice_step d s) = sa_sent s @ map TextDelta us" by blast
  then show ?case using ts by (intro exI [of _ "us @ ts"]) simp
qed (intro exI [of _ "[]"], simp)

interpretation openai_client: text_client "openai_line parse"
proof
  fix l s
  show "\<exists>ts. sa_sent (openai_line parse l s) = sa_sent s @ map TextDelta ts"
  proof (cases "\<exists>data choices usage. parse_sse_line l = Some (SseData data)
      \<and> Option.bind (parse data) openai_stream_chunk = Some (choices, usage)")
    case True
    then obtain data choices usage where d: "parse_sse_line l = Some (SseData data)"
      "Option.bind (parse data) openai_stream_chunk = Some (choices, usage)" by blast
    obtain ts where "sa_sent (fold openai_choice_step choices (case usage of Some (i, n) \<Rightarrow> s\<lparr>sa_in := i, sa_out := n\<rparr> | None \<Rightarrow> s))
        = sa_sent (case usage of Some (i, n) \<Rightarrow> s\<lparr>sa_in := i, sa_out := n\<rparr> | None \<Rightarrow> s) @ map TextDelta ts"
      using openai_choices_send by blast
    moreover have "sa_sent (case usage of Some (i, n) \<Rightarrow> s\<lparr>sa_in := i, sa_out := n\<rparr> | None \<Rightarrow> s) = sa_sent s"
      by (auto split: option.split)
    ultimately show ?thesis using d by (auto simp: openai_line_def openai_data_step_def)
  next
    case False
    then have "openai_line parse l s = s"
      by (auto simp: openai_line_def openai_data_step_def split: option.splits sse_parsed.splits)
    then show ?thesis by (intro exI [of _ "[]"]) simp
  qed
qed

interpretation ollama_client: text_client "ollama_line parse"
proof
  fix l s
  show "\<exists>ts. sa_sent (ollama_line parse l s) = sa_sent s @ map TextDelta ts"
    by (auto simp: ollama_line_def send_event_def Let_def split: option.split
        intro: exI [of _ "[]"] exI [of _ "[_]"])
qed

text \<open>The streams of OpenAI and Ollama. Whatever the service sends, the events are text and then exactly
  one final event: the network's error if it failed, and otherwise the completion.\<close>
theorem flat_streams_end_once:
  "ends_with_final chunks (openai_stream_of parse model chunks) \<and> ends_with_final chunks (ollama_stream_of parse chunks)"
  unfolding openai_stream_of_def ollama_stream_of_def
  by (intro conjI openai_client.stream_ends ollama_client.stream_ends) (simp_all add: acc_new_def)

section \<open>Streamed tool calls\<close>

definition event_line :: "string \<Rightarrow> string" where "event_line e = ''event: '' @ e"
definition data_line :: "string \<Rightarrow> string" where "data_line d = ''data: '' @ d"

lemma parse_lines [simp]:
  "parse_sse_line (event_line e) = Some (SseEvent e)" "parse_sse_line (data_line d) = Some (SseData d)"
  by (simp_all add: parse_sse_line_def event_line_def data_line_def)

definition partial_of :: "(string \<Rightarrow> json option) \<Rightarrow> string \<Rightarrow> string option" where
  "partial_of parse d =
     (case Option.bind (parse d) block_delta_of of
        Some (kind, t, th, partial) \<Rightarrow> if kind = ''input_json_delta'' then Some (or_default [] partial) else None
      | None \<Rightarrow> None)"

lemma partial_step:
  assumes "partial_of parse d = Some p"
  shows "parse_data_block parse ''content_block_delta'' d s = s\<lparr>an_tool_json := an_tool_json s @ p\<rparr>"
proof -
  obtain t th q where d: "Option.bind (parse d) block_delta_of = Some (''input_json_delta'', t, th, q)" "p = or_default [] q"
    using assms unfolding partial_of_def by (cases "Option.bind (parse d) block_delta_of") (auto split: if_splits)
  show ?thesis by (cases q) (simp_all add: parse_data_block_def delta_step_def or_default_def d)
qed

lemma partials_fold:
  "map (partial_of parse) ds = map Some ps \<Longrightarrow> an_event s = ''content_block_delta'' \<Longrightarrow>
     fold (anthropic_line parse) (map data_line ds) s = s\<lparr>an_tool_json := an_tool_json s @ concat ps\<rparr>"
proof (induction ds arbitrary: ps s)
  case (Cons d ds)
  then obtain p qs where p: "ps = p # qs" "partial_of parse d = Some p" "map (partial_of parse) ds = map Some qs"
    by (cases ps) auto
  then show ?case using Cons.IH [OF p(3)] Cons.prems(2) partial_step [OF p(2)]
    by (simp add: anthropic_line_def)
qed simp


definition block_texts :: "string \<Rightarrow> json option" where
  "block_texts s = map_of
     [(''0'', JObj [(''content_block'', JObj [(''type'', JStr ''tool_use''), (''id'', JStr ''t''), (''name'', JStr ''bash'')])]),
      (''1'', JObj [(''delta'', JObj [(''type'', JStr ''input_json_delta''), (''partial_json'', JStr ''A'')])]),
      (''2'', JObj [(''delta'', JObj [(''type'', JStr ''input_json_delta''), (''partial_json'', JStr ''B'')])]),
      (''AB'', JArr [])] s"


section \<open>What reaches the service\<close>

text \<open>Which clients carry a conversation. The streaming turn of the gateway puts the conversation and the
  tools into the raw messages; Anthropic's body carries them, less the thinking blocks; the bodies
  for OpenAI and Ollama do not depend on them: the service is sent the system prompt alone.\<close>
theorem flat_clients_drop_conversation:
  "jget ''messages'' (anthropic_body (stream_request model p defs raw) stream) = Some (JArr (strip_thinking_blocks raw))
   \<and> jget ''messages'' (openai_body (stream_request model p defs raw) stream)
      = Some (JArr [JObj [(''role'', JStr ''system''), (''content'', JStr (to_plain_text p))]])
   \<and> openai_body (stream_request model p defs raw) stream = openai_body (stream_request model p [] []) stream
   \<and> ollama_body (stream_request model p defs raw) stream = ollama_body (stream_request model p [] []) stream"
  by (simp add: anthropic_body_def openai_body_def ollama_body_def stream_request_def anthropic_messages_def flat_messages_def)

end
