(* ===== verification/Startup.thy ===== *)
theory Startup
  imports Http Configuration Wire
begin

text \<open>
  The start of the gateway (\<open>crates/skynet-gateway/src/main.rs\<close>), its HTTP routes (\<open>app.rs\<close>), and how a client
  gets in: from the configuration that was loaded and the text of the first frame to the decision.
\<close>

section \<open>The steps of main\<close>

text \<open>The steps that can fail; one that does ends the program with its error.\<close>

datatype boot_step =
    OpenDatabase
  | SetPragmas
  | MigrateUsers
  | MigrateMemory
  | MigrateSessions
  | MigrateScheduler
  | OpenForUsers
  | OpenForMemory
  | OpenForSessions
  | OpenForHandle
  | BuildHandle
  | OpenForEngine
  | BuildEngine
  | ParseAddress string
  | BindListener string
  | ServeRouter

datatype boot_action =
    CreateDir string
  | Step boot_step
  | SpawnDeliveryRouter
  | SpawnDiscord discord_config
  | DropDeliveryReceiver
  | SpawnScheduler
  | SignalShutdown

text \<open>\<open>parent_of\<close> is \<open>Path::parent\<close>; whether the directory can be created is ignored.\<close>

definition ensure_parent_dir :: "(string \<Rightarrow> string option) \<Rightarrow> string \<Rightarrow> boot_action list" where
  "ensure_parent_dir parent_of path = (case parent_of path of Some d \<Rightarrow> [CreateDir d] | None \<Rightarrow> [])"

definition listen_address :: "skynet_config \<Rightarrow> string" where
  "listen_address c = bind (gateway c) @ '':'' @ show_nat (port (gateway c))"

definition table_steps :: "boot_step list" where
  "table_steps = [OpenDatabase, SetPragmas, MigrateUsers, MigrateMemory, MigrateSessions, MigrateScheduler,
     OpenForUsers, OpenForMemory, OpenForSessions, OpenForHandle, BuildHandle, OpenForEngine, BuildEngine]"

definition main_plan :: "(string \<Rightarrow> string option) \<Rightarrow> skynet_config \<Rightarrow> boot_action list" where
  "main_plan parent_of c =
     ensure_parent_dir parent_of (database_path c)
     @ map Step table_steps
     @ [SpawnDeliveryRouter,
        case discord (channels c) of Some d \<Rightarrow> SpawnDiscord d | None \<Rightarrow> DropDeliveryReceiver,
        SpawnScheduler, Step (ParseAddress (listen_address c)), Step (BindListener (listen_address c)),
        Step ServeRouter, SignalShutdown]"

text \<open>The actions done, the failed one included, and the error if there was one.\<close>

fun run_plan :: "(boot_step \<Rightarrow> string option) \<Rightarrow> boot_action list \<Rightarrow> boot_action list \<times> string option" where
  "run_plan fails [] = ([], None)"
| "run_plan fails (a # as) =
     (case (case a of Step s \<Rightarrow> fails s | _ \<Rightarrow> None) of
        Some e \<Rightarrow> ([a], Some e)
      | None \<Rightarrow> (let (acts, r) = run_plan fails as in (a # acts, r)))"

definition main_start ::
    "(string \<Rightarrow> string option) \<Rightarrow> (json \<Rightarrow> string) \<Rightarrow> (string \<Rightarrow> string + json) \<Rightarrow> (string \<Rightarrow> string option)
      \<Rightarrow> (boot_step \<Rightarrow> string option) \<Rightarrow> boot_action list \<times> string option" where
  "main_start env why merged parent_of fails = run_plan fails (main_plan parent_of (startup_config env why merged))"

section \<open>HTTP routes\<close>

datatype endpoint = UiPage | HealthCheck | WebSocketUpgrade | ChatCompletions | WebhookSource

definition routes :: "(string \<times> string \<times> endpoint) list" where
  "routes = [(''GET'', ''/'', UiPage), (''GET'', ''/health'', HealthCheck), (''GET'', ''/ws'', WebSocketUpgrade),
     (''POST'', ''/v1/chat/completions'', ChatCompletions), (''POST'', ''/webhooks/{source}'', WebhookSource)]"

section \<open>What was started\<close>

lemma run_plan_stops:
  "run_plan fails as = (acts, r) \<Longrightarrow>
     (r = None \<and> acts = as \<and> (\<forall>s. Step s \<in> set as \<longrightarrow> fails s = None))
   \<or> (\<exists>before s after e. as = before @ Step s # after \<and> acts = before @ [Step s] \<and> r = Some e \<and> fails s = Some e
        \<and> (\<forall>s. Step s \<in> set before \<longrightarrow> fails s = None))"
proof (induction fails as arbitrary: acts r rule: run_plan.induct)
  case (2 fails a as)
  show ?case
  proof (cases "case a of Step s \<Rightarrow> fails s | _ \<Rightarrow> None")
    case (Some e)
    then obtain s where "a = Step s" "fails s = Some e" by (cases a) simp_all
    then have "a # as = [] @ Step s # as \<and> acts = [] @ [Step s] \<and> r = Some e \<and> fails s = Some e"
      using 2(2) by simp
    then show ?thesis by fastforce
  next
    case None
    obtain acts' r' where l: "run_plan fails as = (acts', r')" by force
    then have d: "acts = a # acts'" "r = r'" using 2(2) None by simp_all
    have a: "\<forall>s. a = Step s \<longrightarrow> fails s = None" using None by auto
    from 2(1) [OF None l] show ?thesis
    proof (elim disjE exE conjE)
      fix before s after e
      assume "as = before @ Step s # after" "acts' = before @ [Step s]" "r' = Some e" "fails s = Some e"
        "\<forall>s. Step s \<in> set before \<longrightarrow> fails s = None"
      then have "a # as = (a # before) @ Step s # after \<and> acts = (a # before) @ [Step s] \<and> r = Some e \<and> fails s = Some e
          \<and> (\<forall>s. Step s \<in> set (a # before) \<longrightarrow> fails s = None)" using a d by auto
      then show ?thesis by blast
    qed (use a d in auto)
  qed
qed simp

lemma run_plan_subset: "set (fst (run_plan fails as)) \<subseteq> set as"
  using run_plan_stops [of fails as "fst (run_plan fails as)" "snd (run_plan fails as)"] by fastforce

lemma run_plan_append:
  "run_plan fails (xs @ ys) =
     (case run_plan fails xs of
        (acts, Some e) \<Rightarrow> (acts, Some e)
      | (acts, None) \<Rightarrow> (acts @ fst (run_plan fails ys), snd (run_plan fails ys)))"
proof (induction xs)
  case (Cons a xs)
  show ?case
  proof (cases "case a of Step s \<Rightarrow> fails s | _ \<Rightarrow> None")
    case None
    then show ?thesis
      by (cases "run_plan fails xs"; cases "snd (run_plan fails xs)")
        (simp_all add: Cons.IH split_beta Let_def)
  qed simp
qed (simp add: split_beta)

text \<open>Nothing that answers anybody is spawned before every table has been migrated.\<close>

lemma spawned_over_tables:
  assumes "main_start env why merged parent_of fails = (acts, r)" "SpawnDeliveryRouter \<in> set acts"
    "s \<in> set table_steps"
  shows "Step s \<in> set acts \<and> fails s = None"
proof -
  let ?c = "startup_config env why merged"
  define first where "first = ensure_parent_dir parent_of (database_path ?c) @ map Step table_steps"
  have out: "SpawnDeliveryRouter \<notin> set first" and s: "Step s \<in> set first"
    using assms(3) by (auto simp: first_def ensure_parent_dir_def split: option.split)
  obtain rest where plan: "main_plan parent_of ?c = first @ SpawnDeliveryRouter # rest"
    by (simp add: main_plan_def first_def)
  obtain acts1 r1 where r: "run_plan fails first = (acts1, r1)" by force
  have acts: "acts = (if r1 = None then acts1 @ fst (run_plan fails (SpawnDeliveryRouter # rest)) else acts1)"
    using assms(1) by (cases r1) (auto simp: main_start_def plan run_plan_append r simp del: run_plan.simps)
  from run_plan_stops [OF r] show ?thesis
  proof (elim disjE exE conjE)
    fix before s' after e
    assume "first = before @ Step s' # after" "acts1 = before @ [Step s']" "r1 = Some e"
    then show ?thesis using acts out assms(2) by auto
  next
    assume "r1 = None" "acts1 = first" "\<forall>s. Step s \<in> set first \<longrightarrow> fails s = None"
    then show ?thesis using acts s by auto
  qed
qed

section \<open>How a client gets in\<close>

text \<open>The readers of the gateway over the text form of JSON: \<open>parse\<close> is serde\_json's.\<close>

definition frame_of_text :: "(string \<Rightarrow> json option) \<Rightarrow> string \<Rightarrow> inbound_frame option" where
  "frame_of_text parse text_of = Option.bind (parse text_of) inbound_of_json"

definition server_hello :: hello_ok where
  "server_hello = \<lparr> ho_protocol = PROTOCOL_VERSION,
     ho_server = \<lparr> sv_name = ''skynet'', sv_version = ''0.2.0'', sv_node_id = ''primary'' \<rparr>,
     ho_features = \<lparr> streaming = True, multi_agent = False, persistent_users = False, cross_channel_memory = False,
       role_permissions = False, prompt_caching = False \<rparr>,
     ho_snapshot = JObj [], ho_policy = \<lparr> max_message_size = MAX_PAYLOAD_BYTES, rate_limit = None \<rparr> \<rparr>"

lemma hello_is_server_hello: "hello_ok_payload = hello_to_json server_hello"
  by (simp add: hello_ok_payload_def hello_to_json_def server_hello_def or_null_def jnat_def)

text \<open>The credentials a configuration admits.\<close>

definition admits :: "auth_config \<Rightarrow> auth_payload \<Rightarrow> bool" where
  "admits ac p =
     (case auth_mode_of ac of
        ModeNone \<Rightarrow> True
      | ModeToken \<Rightarrow> (\<exists>t. auth_token ac = Some t \<and> p = AuthToken t)
      | ModePassword \<Rightarrow> (\<exists>w. auth_password ac = Some w \<and> p = AuthPassword w)
      | _ \<Rightarrow> False)"

lemma verify_auth_iff: "verify_auth p c = Inr () \<longleftrightarrow> admits (auth (gateway c)) (cp_auth p)"
  by (auto simp: verify_auth_def admits_def Let_def split: auth_mode.split auth_payload.split)

definition connect_request :: "string \<Rightarrow> connect_params \<Rightarrow> json" where
  "connect_request rid p = req_to_json \<lparr> req_frame_type = ''req'', req_id = rid, req_method = ''connect'',
     req_params = Some (connect_to_json p) \<rparr>"

lemma connect_request_read:
  "parse msg = Some (connect_request rid p) \<Longrightarrow>
     \<exists>f. frame_of_text parse msg = Some f \<and> as_req f = Some \<lparr> req_frame_type = ''req'', req_id = rid,
       req_method = ''connect'', req_params = Some (connect_to_json p) \<rparr>"
proof -
  let ?r = "\<lparr> req_frame_type = ''req'', req_id = rid, req_method = ''connect'', req_params = Some (connect_to_json p) \<rparr>"
  assume "parse msg = Some (connect_request rid p)"
  moreover have "not_null (req_params ?r) = req_params ?r" by (simp add: not_null_def connect_to_json_def)
  ultimately show ?thesis using req_roundtrip [of ?r]
    by (auto simp: frame_of_text_def connect_request_def bind_eq_Some_conv)
qed

text \<open>C9: The handshake, from text to decision. A client that has not authenticated sends a text that reads as
  the \<open>connect\<close> request for its credentials: if the configuration admits them, the connection is
  authenticated and answered with the server's hello; if not, it is closed after one \<open>AUTH_FAILED\<close>
  under the request's identifier. The state of the gateway does not change, and nothing is routed.\<close>
theorem handshake_outcome:
  assumes "parse msg = Some (connect_request rid p)"
  shows "\<exists>reason. handle (frame_of_text parse) connect_of_json E tools_of msg (AwaitingConnect n) a =
    (if admits (auth (gateway (ap_config a))) (cp_auth p)
     then (stays Authenticated a)\<lparr>hd_sent := [OutRes (ResFrame_ok rid (hello_to_json server_hello))]\<rparr>
     else (stays Closing a)\<lparr>hd_sent := [OutRes (ResFrame_err rid ''AUTH_FAILED'' reason)]\<rparr>)"
proof -
  obtain f where f: "frame_of_text parse msg = Some f" "as_req f = Some \<lparr> req_frame_type = ''req'', req_id = rid,
       req_method = ''connect'', req_params = Some (connect_to_json p) \<rparr>"
    using connect_request_read [of parse, OF assms] by blast
  show ?thesis
    by (cases "verify_auth p (ap_config a)")
      (auto simp: handle_def f handle_auth_def connect_roundtrip hello_is_server_hello verify_auth_iff [symmetric])
qed

definition sample_login :: connect_params where
  "sample_login = \<lparr> cp_auth = AuthToken ''s'', cp_client_info = None \<rparr>"

theorem handshake_outcome_witness:
  "\<forall>E tools_of n a. \<exists>reason.
     handle (frame_of_text (\<lambda>_. Some (connect_request ''1'' sample_login))) connect_of_json E tools_of ''hi'' (AwaitingConnect n) a =
    (if admits (auth (gateway (ap_config a))) (AuthToken ''s'')
     then (stays Authenticated a)\<lparr>hd_sent := [OutRes (ResFrame_ok ''1'' (hello_to_json server_hello))]\<rparr>
     else (stays Closing a)\<lparr>hd_sent := [OutRes (ResFrame_err ''1'' ''AUTH_FAILED'' reason)]\<rparr>)"
proof -
  have "cp_auth sample_login = AuthToken ''s''" by (simp add: sample_login_def)
  note h = handshake_outcome [of "\<lambda>_. Some (connect_request ''1'' sample_login)" "''hi''", OF refl, unfolded this]
  show ?thesis by (intro allI) (rule h)
qed

text \<open>A token that is not a text makes the load fail, whatever else the sources hold.\<close>

definition token_unreadable :: "json \<Rightarrow> bool" where
  "token_unreadable doc = (\<exists>t g au v. doc = JObj t \<and> map_of t ''gateway'' = Some (JObj g) \<and>
     map_of g ''auth'' = Some (JObj au) \<and> map_of au ''token'' = Some v \<and> v \<noteq> JNull \<and> as_str v = None)"

lemma unreadable_starts_default:
  assumes "merged (case env ''SKYNET_CONFIG'' of Some p \<Rightarrow> p | None \<Rightarrow> default_config_path (env ''HOME'')) = Inr doc"
    "token_unreadable doc"
  shows "startup_config env why merged = default_config (env ''HOME'')"
proof -
  have "config_of_json (env ''HOME'') doc = None"
    using assms(2) by (auto simp: token_unreadable_def intro: token_not_text)
  then show ?thesis
    using assms(1) by (simp add: startup_config_def load_def)
qed

lemma default_port_text: "show_nat 18789 = ''18789''"
  by (simp add: show_nat.simps char_of_def bit_Suc_0_iff)

lemma default_start:
  assumes "c = default_config home"
  shows "admits (auth (gateway c)) q \<longleftrightarrow> q = AuthToken ''change-me''"
    and "listen_address c = ''127.0.0.1:18789''"
    and "discord (channels c) = None"
  using assms by (simp_all add: default_config_def admits_def listen_address_def DEFAULT_BIND_def DEFAULT_PORT_def default_port_text)

text \<open>C14: What an unreadable configuration does. If the file or a variable gives the token as anything but a
  text, a number for instance, the whole configuration is dropped and not only the token: whatever it
  said of addresses, credentials and channels, the gateway starts with the default configuration. It lets in exactly
  the clients that present the token \<open>change-me\<close>, listens on no other address than the default one, and
  starts no bot.\<close>
theorem config_fallback:
  assumes "merged (case env ''SKYNET_CONFIG'' of Some p \<Rightarrow> p | None \<Rightarrow> default_config_path (env ''HOME'')) = Inr doc"
    "token_unreadable doc"
  shows "(verify_auth p (startup_config env why merged) = Inr () \<longleftrightarrow> cp_auth p = AuthToken ''change-me'')
    \<and> (Step (BindListener addr) \<in> set (fst (main_start env why merged parent_of fails)) \<longrightarrow> addr = ''127.0.0.1:18789'')
    \<and> SpawnDiscord d \<notin> set (fst (main_start env why merged parent_of fails))"
proof -
  let ?c = "startup_config env why merged"
  note c = default_start [OF unreadable_starts_default [of merged, OF assms, of why]]
  have "set (fst (main_start env why merged parent_of fails)) \<subseteq> set (main_plan parent_of ?c)"
    by (simp add: main_start_def run_plan_subset)
  moreover have "Step (BindListener addr) \<in> set (main_plan parent_of ?c) \<longrightarrow> addr = ''127.0.0.1:18789''"
    by (auto simp: main_plan_def c table_steps_def ensure_parent_dir_def split: option.splits)
  moreover have "SpawnDiscord d \<notin> set (main_plan parent_of ?c)"
    by (auto simp: main_plan_def c ensure_parent_dir_def split: option.splits)
  ultimately show ?thesis using c(1) by (auto simp: verify_auth_iff)
qed

definition numeric_token :: json where
  "numeric_token = JObj [(''gateway'', JObj [(''bind'', JStr ''0.0.0.0''),
       (''auth'', JObj [(''mode'', JStr ''token''), (''token'', JInt 12345)])]), (''agent'', JObj [])]"

theorem config_fallback_witness:
  "(verify_auth \<lparr> cp_auth = AuthToken ''12345'', cp_client_info = None \<rparr>
       (startup_config (\<lambda>_. None) (\<lambda>_. []) (\<lambda>_. Inr numeric_token)) = Inr () \<longleftrightarrow> AuthToken ''12345'' = AuthToken ''change-me'')
   \<and> (\<forall>d. SpawnDiscord d \<notin> set (fst (main_start (\<lambda>_. None) (\<lambda>_. []) (\<lambda>_. Inr numeric_token)
       (\<lambda>_. None) (\<lambda>_. None))))"
proof -
  have "token_unreadable numeric_token" by (simp add: token_unreadable_def numeric_token_def)
  from config_fallback [of "\<lambda>_. Inr numeric_token" "\<lambda>_. None", OF _ this,
      of "\<lparr> cp_auth = AuthToken ''12345'', cp_client_info = None \<rparr>" "\<lambda>_. []" _ "\<lambda>_. None" "\<lambda>_. None"]
  show ?thesis by simp
qed

end
