(* ===== verification/Providers.thy ===== *)
theory Providers
  imports ClientProps Startup
begin

text \<open>
  The providers as the gateway builds them: a client's request bodies (\<open>Clients\<close>) put on the wire with
  its URL and headers (\<open>openai.rs\<close>, \<open>anthropic.rs\<close>, \<open>ollama.rs\<close>), the provider chosen by \<open>build_provider\<close>, and the agent
  and state made of it in \<open>main.rs\<close>.

  \<open>ex\<close> is the exchange of one POST request over the network: reqwest's, a parameter.
\<close>

section \<open>Requests\<close>

record http_request =
  rq_url :: string
  rq_headers :: "(string \<times> string) list"
  rq_body :: json

type_synonym 'w exchange = "http_request \<Rightarrow> 'w \<Rightarrow> 'w \<times> (transport_error + http_reply)"

definition API_VERSION :: string where "API_VERSION = ''2023-06-01''"

definition content_type :: "string \<times> string" where
  "content_type = (''content-type'', ''application/json'')"

definition anthropic_post :: "string \<Rightarrow> string \<Rightarrow> chat_request \<Rightarrow> bool \<Rightarrow> http_request" where
  "anthropic_post api_key base_url req stream =
     \<lparr> rq_url = base_url @ ''/v1/messages'',
       rq_headers = [(''anthropic-version'', API_VERSION), content_type] @ apply_auth api_key,
       rq_body = anthropic_body req stream \<rparr>"

definition openai_post :: "string \<Rightarrow> string \<Rightarrow> chat_request \<Rightarrow> bool \<Rightarrow> http_request" where
  "openai_post api_key base_url req stream =
     \<lparr> rq_url = base_url @ ''/v1/chat/completions'',
       rq_headers = [(''Authorization'', ''Bearer '' @ api_key), content_type],
       rq_body = openai_body req stream \<rparr>"

definition ollama_post :: "string \<Rightarrow> chat_request \<Rightarrow> bool \<Rightarrow> http_request" where
  "ollama_post base_url req stream =
     \<lparr> rq_url = base_url @ ''/api/chat'', rq_headers = [content_type], rq_body = ollama_body req stream \<rparr>"

section \<open>Providers\<close>

fun transport_text :: "transport_error \<Rightarrow> string" where
  "transport_text (NotReachable e) = e"
| "transport_text (OtherTransport e) = e"

text \<open>\<open>bad\<close> is the text of an error in the shape of an answer.\<close>

definition anthropic_provider ::
    "'w exchange \<Rightarrow> (string \<Rightarrow> json option) \<Rightarrow> string \<Rightarrow> string \<Rightarrow> string option \<Rightarrow> 'w llm_provider" where
  "anthropic_provider ex parse bad api_key base_url =
     (let base = or_default ''https://api.anthropic.com'' base_url in
      \<lparr> p_name = ''anthropic'',
        p_send = (\<lambda>req w. let (w', sent) = ex (anthropic_post api_key base req False) w
          in (w', anthropic_send bad (map_sum transport_text id sent))),
        p_send_stream = (\<lambda>req w. let (w', sent) = ex (anthropic_post api_key base req True) w
          in (w', anthropic_send_stream parse (map_sum transport_text id sent))) \<rparr>)"

definition openai_provider ::
    "'w exchange \<Rightarrow> (string \<Rightarrow> json option) \<Rightarrow> string \<Rightarrow> string \<Rightarrow> string option \<Rightarrow> 'w llm_provider" where
  "openai_provider ex parse bad api_key base_url =
     (let base = or_default ''https://api.openai.com'' base_url in
      \<lparr> p_name = ''openai'',
        p_send = (\<lambda>req w. let (w', sent) = ex (openai_post api_key base req False) w
          in (w', openai_send bad (map_sum transport_text id sent))),
        p_send_stream = (\<lambda>req w. let (w', sent) = ex (openai_post api_key base req True) w
          in (w', openai_send_stream parse req (map_sum transport_text id sent))) \<rparr>)"

definition ollama_provider ::
    "'w exchange \<Rightarrow> (string \<Rightarrow> json option) \<Rightarrow> string \<Rightarrow> string option \<Rightarrow> 'w llm_provider" where
  "ollama_provider ex parse bad base_url =
     (let base = or_default ''http://localhost:11434'' base_url in
      \<lparr> p_name = ''ollama'',
        p_send = (\<lambda>req w. let (w', sent) = ex (ollama_post base req False) w in (w', ollama_send bad sent)),
        p_send_stream = (\<lambda>req w. let (w', sent) = ex (ollama_post base req True) w
          in (w', ollama_send_stream parse sent)) \<rparr>)"

fun provider_of ::
    "'w exchange \<Rightarrow> (string \<Rightarrow> json option) \<Rightarrow> string \<Rightarrow> provider_choice \<Rightarrow> 'w llm_provider" where
  "provider_of ex parse bad (UseAnthropic key base) = anthropic_provider ex parse bad key base"
| "provider_of ex parse bad (UseOpenAi key base) = openai_provider ex parse bad key base"
| "provider_of ex parse bad (UseOllama base) = ollama_provider ex parse bad (Some base)"
| "provider_of ex parse bad UseNull = null_provider"

section \<open>The state of the gateway at its start\<close>

text \<open>\<open>udb\<close>, \<open>mdb\<close>, \<open>sess\<close> and \<open>js\<close> are the tables found in the database, \<open>x\<close> the rest of the world.\<close>

definition main_state ::
    "'x world exchange \<Rightarrow> (string \<Rightarrow> json option) \<Rightarrow> string \<Rightarrow> (string \<Rightarrow> string option) \<Rightarrow> (string \<Rightarrow> string option)
      \<Rightarrow> skynet_config \<Rightarrow> users_db \<Rightarrow> memory_db \<Rightarrow> sessions_db \<Rightarrow> job_row list \<Rightarrow> 'x \<Rightarrow> 'x app_state" where
  "main_state ex parse bad env_var read config udb mdb sess js x =
     (let provider = provider_of ex parse bad (build_provider env_var config);
          prompt = prompt_load read (soul_path (agent config));
          agent = agent_runtime_new provider prompt (agent_model (agent config))
      in app_state_new config agent (resolver_new udb) (memory_manager_new mdb) sess js manager_new x)"

section \<open>A turn that the model cannot see\<close>

definition no_tools :: "stream_event list \<Rightarrow> bool" where
  "no_tools es \<longleftrightarrow> (\<forall>e \<in> set es. \<forall>i n inp. e \<noteq> ToolUse i n inp)"

lemma recv_event_tools: "\<forall>i n inp. e \<noteq> ToolUse i n inp \<Longrightarrow> ts_iter_tools (recv_event rid e t) = ts_iter_tools t"
  by (cases e) simp_all

lemma recv_loop_tools: "no_tools es \<Longrightarrow> ts_iter_tools (fst (recv_loop rid es t)) = ts_iter_tools t"
proof (induction es arbitrary: t)
  case (Cons e es)
  then have "no_tools es" "ts_iter_tools (recv_event rid e t) = ts_iter_tools t"
    by (auto simp: no_tools_def intro: recv_event_tools)
  with Cons.IH show ?case by (cases e) simp_all
qed simp

lemma drain_tools: "no_tools es \<Longrightarrow> ts_iter_tools (drain rid es t) = ts_iter_tools t"
  by (induction es arbitrary: t) (auto simp: drain_def no_tools_def recv_event_tools)

lemma iteration_tools:
  assumes "no_tools es"
  shows "ts_iter_tools (fst (stream_iteration rid sel es result t)) = ts_iter_tools t"
proof -
  have part: "no_tools (take n es)" "no_tools (drop n es)" for n
    using assms by (auto simp: no_tools_def dest: in_set_takeD in_set_dropD)
  show ?thesis
  proof (cases sel)
    case None
    then show ?thesis using recv_loop_tools [OF assms] by (simp add: stream_iteration_def)
  next
    case (Some n)
    obtain t' err where t: "recv_loop rid (take n es) t = (t', err)" by force
    then have "ts_iter_tools t' = ts_iter_tools t" using recv_loop_tools [OF part(1), of rid n t] by simp
    with Some t show ?thesis
      using drain_tools [OF part(2), of rid n t'] by (auto simp: stream_iteration_def split: option.split sum.split)
  qed
qed

text \<open>Without tool calls a turn is one request.\<close>

lemma single_request_turn:
  assumes "p_send_stream p (mk_req raw) w = (w1, es, result)" "no_tools es"
  shows "stream_loop rid p mk_req run_round sel (Suc left) raw t w =
    (let (t1, err) = stream_iteration rid (sel 0) es result (t\<lparr>ts_iter_text := [], ts_iter_tools := []\<rparr>)
     in (w1, t1, Ret err))"
  using iteration_tools [OF assms(2), of rid "sel 0" result "t\<lparr>ts_iter_text := [], ts_iter_tools := []\<rparr>"] assms(1)
  by (simp add: split_beta Let_def)

lemma final_no_tools: "ends_with_final cs es \<Longrightarrow> no_tools es"
  by (auto simp: ends_with_final_def no_tools_def split: option.splits)

lemma openai_no_tools: "no_tools (fst (openai_send_stream parse req sent))"
  using final_no_tools [OF conjunct1 [OF flat_streams_end_once]]
  by (auto simp: openai_send_stream_def no_tools_def [of "[]"] split: sum.split)

lemma ollama_no_tools: "no_tools (fst (ollama_send_stream parse sent))"
  using final_no_tools [OF conjunct2 [OF flat_streams_end_once]]
  by (auto simp: ollama_send_stream_def no_tools_def [of "[]"] split: sum.split)

text \<open>The providers that build flat messages, and what they send for a streaming turn.\<close>

fun flat_post :: "provider_choice \<Rightarrow> string \<Rightarrow> system_prompt \<Rightarrow> http_request option" where
  "flat_post (UseOpenAi key base) model p =
     Some (openai_post key (or_default ''https://api.openai.com'' base) (stream_request model p [] []) True)"
| "flat_post (UseOllama base) model p = Some (ollama_post base (stream_request model p [] []) True)"
| "flat_post _ model p = None"

lemma flat_posts:
  "openai_post key base (stream_request model p defs raw) stream = openai_post key base (stream_request model p [] []) stream"
  "ollama_post base (stream_request model p defs raw) stream = ollama_post base (stream_request model p [] []) stream"
  by (simp_all add: openai_post_def ollama_post_def openai_body_def ollama_body_def flat_messages_def stream_request_def)

lemma openai_stream_model:
  "cr_model req = cr_model req' \<Longrightarrow> openai_send_stream parse req sent = openai_send_stream parse req' sent"
  by (simp add: openai_send_stream_def split: sum.split)

lemma flat_exchange:
  assumes "flat_post choice model p = Some rq" "ex rq w = (w', sent)"
  shows "\<exists>es result. no_tools es
    \<and> (\<forall>defs raw. p_send_stream (provider_of ex parse bad choice) (stream_request model p defs raw) w = (w', es, result))"
proof (cases choice)
  case (UseOpenAi key base)
  define r where "r = openai_send_stream parse (stream_request model p [] []) (map_sum transport_text id sent)"
  have "openai_send_stream parse (stream_request model p defs raw) (map_sum transport_text id sent) = r" for defs raw
    unfolding r_def by (rule openai_stream_model) (simp add: stream_request_def)
  moreover have "openai_post key (or_default ''https://api.openai.com'' base) (stream_request model p defs raw) True = rq" for defs raw
    using assms(1) UseOpenAi flat_posts(1) [of key _ model p defs raw True] by simp
  moreover have "no_tools (fst r)" unfolding r_def by (rule openai_no_tools)
  ultimately show ?thesis using UseOpenAi assms(2)
    by (intro exI [of _ "fst r"] exI [of _ "snd r"]) (simp add: openai_provider_def Let_def)
next
  case (UseOllama base)
  have "ollama_post base (stream_request model p defs raw) True = rq" for defs raw
    using assms(1) UseOllama flat_posts(2) [of base model p defs raw True] by simp
  then show ?thesis using UseOllama assms(2) ollama_no_tools [of parse sent]
    by (intro exI [of _ "fst (ollama_send_stream parse sent)"] exI [of _ "snd (ollama_send_stream parse sent)"])
      (simp add: ollama_provider_def or_default_def Let_def)
qed (use assms in simp_all)

text \<open>C10: A streaming turn with OpenAI or Ollama does not reach the model. Take a gateway whose provider is either,
  and two streaming turns that differ in the message and in the session, and with it in the history: the gateway makes
  one and the same request, whose messages are the system prompt alone, and streams one and the same answer to its
  client. Whatever the user said, the model was not told.\<close>
theorem flat_turn_blind:
  assumes "ar_provider (ap_agent a) = provider_of ex parse bad choice"
    "flat_post choice (chosen_model model a) (build_prompt (ar_prompt (ap_agent a)) ctx None) = Some rq"
  shows "let R = handle_streaming E tools msg rid ctx model key ch a;
             R' = handle_streaming E tools msg' rid ctx model key' ch' a
         in rp_res R = rp_res R' \<and> rp_events R = rp_events R'
          \<and> services (rp_app R) = snd (fst (ex rq (ap_world a))) \<and> services (rp_app R') = snd (fst (ex rq (ap_world a)))
          \<and> jget ''messages'' (rq_body rq) = Some (JArr [JObj [(''role'', JStr ''system''),
              (''content'', JStr (to_plain_text (build_prompt (ar_prompt (ap_agent a)) ctx None)))]])"
proof -
  let ?p = "build_prompt (ar_prompt (ap_agent a)) ctx None" and ?m = "chosen_model model a"
  obtain w' sent where e: "ex rq (ap_world a) = (w', sent)" by (metis surj_pair)
  obtain es result where x: "no_tools es"
    "\<And>defs raw. p_send_stream (ar_provider (ap_agent a)) (stream_request ?m ?p defs raw) (ap_world a) = (w', es, result)"
    using flat_exchange [of choice ?m ?p rq ex "ap_world a", OF assms(2) e, of parse bad] assms(1) by auto
  obtain t err where t: "stream_iteration rid (ce_select E 0) es result (turn_start\<lparr>ts_iter_text := [], ts_iter_tools := []\<rparr>) = (t, err)"
    by force
  have loop: "stream_loop rid (ar_provider (ap_agent a)) (stream_request ?m ?p (to_definitions tools)) (event_round rid tools)
      (ce_select E) MAX_ITERS raw turn_start (ap_world a) = (w', t, Ret err)" for raw
  proof -
    have n: "MAX_ITERS = Suc 9" by (simp add: MAX_ITERS_def)
    show ?thesis unfolding n
      by (subst single_request_turn [of "ar_provider (ap_agent a)" "stream_request ?m ?p (to_definitions tools)" _
          "ap_world a", OF x(2) x(1)]) (simp add: t)
  qed
  have messages: "jget ''messages'' (rq_body rq) = Some (JArr [JObj [(''role'', JStr ''system''), (''content'', JStr (to_plain_text ?p))]])"
    using assms(2) by (cases choice) (auto simp: openai_post_def ollama_post_def openai_body_def ollama_body_def
      flat_messages_def stream_request_def)
  show ?thesis
    using e messages
    by (cases err) (simp_all add: handle_streaming_def loop Let_def answer_def set_memory_def)
qed

definition blind_gateway :: "unit app_state" where
  "blind_gateway = sample_gateway\<lparr>ap_agent := (ap_agent sample_gateway)\<lparr>ar_provider :=
     provider_of (\<lambda>rq w. (w, Inr \<lparr> hr_status = 200, hr_retry_after = None, hr_text = [], hr_json = Inl [],
         hr_chunks = [Inr (''data: {}'' @ [newline])] \<rparr>))
       (\<lambda>_. Some (JObj [(''choices'', JArr [JObj [(''delta'', JObj [(''content'', JStr ''ok'')])]])])) [] (UseOpenAi ''k'' None)\<rparr>\<rparr>"

theorem flat_turn_blind_witness:
  "rp_res (handle_streaming sample_call [] ''hello'' ''1'' None None ''a'' ''web'' blind_gateway)
     = rp_res (handle_streaming sample_call [] ''stop everything'' ''1'' None None ''b'' ''web'' blind_gateway)"
proof -
  obtain ex parse where p: "ar_provider (ap_agent blind_gateway) = provider_of ex parse [] (UseOpenAi ''k'' None)"
    unfolding blind_gateway_def by simp
  show ?thesis
    using flat_turn_blind [OF p, of None None _ sample_call "[]" "''hello''" "''1''" "''a''" "''web''" "''stop everything''" "''b''" "''web''"]
    by (simp add: Let_def)
qed

end
