(* ===== verification/Invariants.thy ===== *)
theory Invariants
  imports ToolboxProps Http
begin

text \<open>
  The invariant of everything the gateway shares: the memory with its cache of contexts, the users with the
  resolver's cache, the jobs and the terminals. Every tool keeps it, so every turn does, on every channel; so do
  all methods, webhooks, completions and compactions.
\<close>

section \<open>The invariant\<close>

text \<open>\<open>rfc\<close> is the text of an instant, in which the expiry of memories is stored and compared.\<close>

definition world_ok :: "(int \<Rightarrow> string) \<Rightarrow> 'x world \<Rightarrow> bool" where
  "world_ok rfc w \<longleftrightarrow> memory_inv rfc (fst w) \<and> resolver_wf (sv_users (snd w)) \<and> unique_on jr_id (sv_jobs (snd w))
     \<and> term_wf (sv_terminal (snd w))"

definition keeps_ok :: "(int \<Rightarrow> string) \<Rightarrow> 'x world \<Rightarrow> 'x world \<Rightarrow> bool" where
  "keeps_ok rfc w w' \<longleftrightarrow> (world_ok rfc w \<longrightarrow> world_ok rfc w')"

interpretation kept_world: preserved "keeps_ok rfc"
  by unfold_locales (auto simp: keeps_ok_def)

text \<open>Writing other tables of the memory keeps what its contexts render.\<close>

lemma memory_inv_other:
  assumes "memory_inv rfc m" "t_memory db = t_memory (mm_db m)" "t_memory_seq db = t_memory_seq (mm_db m)"
  shows "memory_inv rfc (m\<lparr>mm_db := db\<rparr>)"
proof -
  have "context_true rfc db = context_true rfc (mm_db m)"
    by (rule ext, rule context_true_rows) (simp add: rows_of_def assms)
  then show ?thesis using assms by (simp add: memory_inv_def memory_wf_def)
qed

lemma memory_calls_inv:
  "memory_inv rfc m \<Longrightarrow> memory_inv rfc (fst (learn now m u cat k v c src))"
  "memory_inv rfc m \<Longrightarrow> memory_inv rfc (fst (forget m u cat k))"
  "memory_inv rfc m \<Longrightarrow> memory_inv rfc (fst (build_user_context rfc tie t1 t2 d m u))"
  using memory_inv_step [of rfc m "MLearn now u cat k v c src"] memory_inv_step [of rfc m "MForget u cat k"]
    memory_inv_step [of rfc m "MContext tie t1 t2 d u"] by simp_all

text \<open>The tables that a turn writes are not those of the memories.\<close>

definition same_memories :: "memory_db \<Rightarrow> memory_db \<Rightarrow> bool" where
  "same_memories db db' \<longleftrightarrow> t_memory db' = t_memory db \<and> t_memory_seq db' = t_memory_seq db"

lemma same_memories_saving:
  "same_memories db (save_message db msg)" "same_memories db (save_turns now sk ch content r db)"
  "same_memories db (log_calls tk sk ns db)" "same_memories db (fst (delete_turns db ids))"
  "same_memories db (save_stream now sk ch content t db)"
proof -
  show save: "same_memories db (save_message db msg)" for db msg
    by (simp add: same_memories_def memory_table_other)
  then show "same_memories db (save_turns now sk ch content r db)" "same_memories db (save_stream now sk ch content t db)"
    by (simp_all add: same_memories_def save_turns_def save_stream_def memory_table_other)
  show "same_memories db (log_calls tk sk ns db)"
    by (induction tk sk ns db rule: log_calls.induct) (simp_all add: same_memories_def memory_table_other)
  show "same_memories db (fst (delete_turns db ids))" by (simp add: same_memories_def memory_table_other)
qed

lemma same_memories_trans: "same_memories a b \<Longrightarrow> same_memories b c \<Longrightarrow> same_memories a c"
  by (simp add: same_memories_def)

lemma saved_ok: "same_memories (mm_db m) db \<Longrightarrow> keeps_ok rfc (m, v) (m\<lparr>mm_db := db\<rparr>, v)"
  by (auto simp: keeps_ok_def world_ok_def same_memories_def memory_inv_other)

section \<open>Tools\<close>

named_theorems keeping

lemma rest_ok: "fst w' = fst w \<Longrightarrow> sv_users (snd w') = sv_users (snd w) \<Longrightarrow> sv_jobs (snd w') = sv_jobs (snd w)
    \<Longrightarrow> sv_terminal (snd w') = sv_terminal (snd w) \<Longrightarrow> keeps_ok rfc w w'"
  by (simp add: keeps_ok_def world_ok_def)

lemma rest_bodies_ok [keeping]:
  "keeps_ok rfc w (fst (read_file_body V input w))" "keeps_ok rfc w (fst (write_file_body V input w))"
  "keeps_ok rfc w (fst (patch_file_body V input w))" "keeps_ok rfc w (fst (list_files_body V input w))"
  "keeps_ok rfc w (fst (search_files_body V input w))" "keeps_ok rfc w (fst (execute_command_body V input w))"
  "keeps_ok rfc w (fst (plugin_body dir M V input w))" "keeps_ok rfc w (fst (knowledge_search_body V input w))"
  by (rule rest_ok; simp add: file_bodies with_files_def execute_command_body_def plugin_body_def
      knowledge_search_body_def split_beta)+

lemma knowledge_write_ok [keeping]: "keeps_ok rfc w (fst (knowledge_write_body V input w))"
proof -
  have "\<exists>db. fst (knowledge_write_tool E input m) = m\<lparr>mm_db := db\<rparr> \<and> same_memories (mm_db m) db" for E m
    by (auto simp: knowledge_write_tool_def same_memories_def memory_table_other Let_def split: option.split
        intro: exI [of _ "mm_db m"])
  then obtain db where "fst (knowledge_write_tool (te_call V) input (fst w)) = (fst w)\<lparr>mm_db := db\<rparr>"
    "same_memories (mm_db (fst w)) db" by blast
  then show ?thesis using saved_ok [of "fst w" db rfc "snd w"] by (simp add: knowledge_write_body_def split_beta)
qed

text \<open>The shell tool works on the terminals through their own calls.\<close>

definition keeps_terms :: "bash_state \<Rightarrow> bash_state \<Rightarrow> bool" where
  "keeps_terms st st' \<longleftrightarrow> (term_wf (bh_terminal st) \<longrightarrow> term_wf (bh_terminal st'))"

interpretation kept_terms: preserved keeps_terms
  by unfold_locales (auto simp: keeps_terms_def)

named_theorems shell_keeping

lemma same_terms [shell_keeping]: "bh_terminal st' = bh_terminal st \<Longrightarrow> keeps_terms st st'"
  by (simp add: keeps_terms_def)

lemma arrive_wf: "term_wf m \<Longrightarrow> term_wf (arrive sid es m)"
proof (induction es arbitrary: m)
  case (Cons e es)
  then have "term_wf (term_step (\<lambda>s. s) (\<lambda>s. s) m (TReader sid e))" by (intro terminal.step_inv)
  with Cons.IH show ?case by (simp add: arrive_def)
qed (simp add: arrive_def)

lemma term_read_wf: "term_wf m \<Longrightarrow> term_read m sid = Ret (m', r) \<Longrightarrow> term_wf m'"
  using terminal.step_inv [of m "\<lambda>s. s" "\<lambda>s. s" "TRead sid"] by simp

lemma arrive_read_terms [shell_keeping]: "keeps_terms st (fst (arrive_read sid es st))"
  by (auto simp: arrive_read_def keeps_terms_def Let_def arrive_wf split: outcome.split
      dest: term_read_wf [OF arrive_wf])

lemma write_line_terms [shell_keeping]: "keeps_terms st (fst (write_line e sid s st))"
  by (auto simp: write_line_def keeps_terms_def split: sum.split)

lemma poll_terms [shell_keeping]: "keeps_terms st (fst (poll sen command sid es later buf st))"
proof (induction sen command sid es later buf st rule: poll.induct)
  case (1 sen command sid es later buf st)
  show ?case unfolding poll.simps [of sen command sid es later buf st]
    by (rule kept_terms.and_then_kept [OF arrive_read_terms]) (auto intro: shell_keeping 1 split: sum.split option.split list.split)
qed

lemma write_then_terms:
  assumes "\<And>st' r. keeps_terms st' (fst (k st' r))"
  shows "keeps_terms st (fst (case write_line e sid s st of (st', r) \<Rightarrow> k st' r))"
  using write_line_terms [of st e sid s] assms kept_terms.kept_trans
  by (cases "write_line e sid s st") auto

lemma create_terms: "keeps_terms st (st\<lparr>bh_terminal := fst (create_session es ed sid opened (bh_terminal st) sh dir)\<rparr>)"
  using terminal.step_inv [of "bh_terminal st" "\<lambda>s. s" "\<lambda>s. s" "TCreate es ed sid opened sh dir"]
  by (simp add: keeps_terms_def)

lemma ensure_terms [shell_keeping]: "keeps_terms st (fst (ensure_session E B st))"
proof -
  have "keeps_terms st (fst (open_session E B st))"
  proof (cases "create_session (ce_env_shell E) (ce_env_dir E) (be_sid B) (be_opened B) (bh_terminal st) (Some ''bash'') None")
    case (Pair m1 r)
    have m1: "keeps_terms st (st\<lparr>bh_terminal := m1\<rparr>)" using create_terms Pair by (metis fst_conv)
    show ?thesis
    proof (cases r)
      case (Inr sid)
      have "keeps_terms (st\<lparr>bh_terminal := m1\<rparr>) (fst (open_session E B st))"
        unfolding open_session_def Pair Inr prod.case sum.case Let_def
        by (rule kept_terms.and_then_kept [OF arrive_read_terms], rule write_then_terms)
          (auto intro!: kept_terms.and_then_kept [OF arrive_read_terms] intro: shell_keeping split: sum.split)
      then show ?thesis by (rule kept_terms.kept_trans [OF m1])
    qed (simp add: open_session_def Pair m1)
  qed
  then show ?thesis by (auto simp: ensure_session_def shell_keeping split: option.split)
qed

lemma run_terms [shell_keeping]: "keeps_terms st (fst (bash_run B sid command st))"
proof -
  let ?st1 = "st\<lparr>bh_session := map_option (\<lambda>s. s\<lparr>bs_startup := None\<rparr>) (bh_session st)\<rparr>"
  have "keeps_terms ?st1 (fst (bash_run B sid command st))"
    unfolding bash_run_def Let_def
    by (rule kept_terms.and_then_kept [OF arrive_read_terms], rule write_then_terms)
      (auto intro!: kept_terms.and_then_kept [OF poll_terms] intro: shell_keeping split: sum.split)
  then show ?thesis by (rule kept_terms.kept_trans [OF same_terms, rotated]) simp
qed

lemma bash_terms: "keeps_terms st (fst (bash_execute E B input st))"
  unfolding bash_execute_def
  by (auto simp: same_terms intro!: kept_terms.and_then_kept [OF ensure_terms] kept_terms.and_then_kept [OF run_terms]
      split: option.split sum.split)

lemma bash_ok [keeping]: "keeps_ok rfc w (fst (bash_body V input w))"
  using bash_terms [of "bash_state_of w" "te_call V" "te_bash V" input]
  by (simp add: bash_body_def split_beta put_bash_def bash_state_of_def keeps_terms_def keeps_ok_def world_ok_def)

text \<open>The jobs keep their identifiers apart.\<close>

lemma insert_unique:
  "unique_on jr_id js \<Longrightarrow> insert_job E jid now js name s action = Ret (js', r) \<Longrightarrow> unique_on jr_id js'"
  by (auto simp: insert_job_def bind_outcome_Ret_iff Let_def unique_on_append_row split: if_splits)

lemma remove_unique: "unique_on jr_id js \<Longrightarrow> remove_job js jid = (js', r) \<Longrightarrow> unique_on jr_id js'"
  by (auto simp: remove_job_def Let_def unique_on_delete split: if_splits)

lemma add_unique: "unique_on jr_id (fst st) \<Longrightarrow> unique_on jr_id (fst (fst (add_reminder E T input st)))"
  by (auto simp: add_reminder_def handle_add_job_def Let_def dest: insert_unique
      split: option.split outcome.split sum.split prod.split)

lemma removed_unique: "unique_on jr_id (fst st) \<Longrightarrow> unique_on jr_id (fst (fst (remove_reminder E input st)))"
  by (auto simp: remove_reminder_def dest: remove_unique split: option.split sum.split prod.split)

lemma reminder_unique:
  "unique_on jr_id (fst st) \<Longrightarrow> unique_on jr_id (fst (fst (reminder_execute E T input st)))"
  by (simp add: reminder_execute_def add_unique removed_unique list_reminders_def Let_def split: option.split)

lemma reminder_ok [keeping]: "keeps_ok rfc w (fst (reminder_body ch cid V input w))"
  using reminder_unique [of "(sv_jobs (snd w), sv_jobs_poisoned (snd w))"]
  by (simp add: reminder_body_def keeps_ok_def world_ok_def Let_def split_beta)

section \<open>Turns\<close>

lemma builtin_ok: "(d, body) \<in> set (builtin_bodies ch cid) \<Longrightarrow> keeps_ok rfc w (fst (body V input w))"
proof -
  have "\<forall>x \<in> set (builtin_bodies ch cid). keeps_ok rfc w (fst (snd x V input w))"
    unfolding builtin_bodies_def by (simp add: keeping)
  then show "(d, body) \<in> set (builtin_bodies ch cid) \<Longrightarrow> ?thesis" by force
qed

lemma execute_ok: "keeps_ok rfc w (fst (execute_tool (build_tools e plugins ch cid) c w))"
proof -
  have "keeps_ok rfc w (arrived V w)" for V and w :: "'a tool_world" by (rule rest_ok) (simp_all add: arrived_def)
  then have run: "keeps_ok rfc w (fst (run_body e body input w))"
    if "\<And>w i. keeps_ok rfc w (fst (body (e i) input w))" for body :: "'a tool_body" and input
    unfolding run_body_def Let_def using kept_world.kept_trans that by metis
  show ?thesis
  proof (cases rule: execute_cases [where e = e and plugins = plugins and ch = ch and cid = cid and c = c and w = w])
    case (builtin d body)
    then show ?thesis using run builtin_ok by metis
  next
    case (plugin dir M)
    then show ?thesis using run rest_bodies_ok(7) by metis
  qed (simp add: kept_world.kept_refl)
qed

lemma talk_ok: "keeps_ok rfc w (set_box (box w\<lparr>tb_model := y\<rparr>) w)"
  by (rule rest_ok) simp_all

interpretation ok_turn: guarded_turn "keeps_ok rfc" "lift_provider q" "build_tools e plugins ch cid"
  by unfold_locales (auto simp: lift_provider_def split_beta Let_def talk_ok execute_ok)

lemma tool_loop_ok:
  assumes "run_tool_loop (lift_provider q) req (build_tools e plugins ch cid) w = (w', sent, res)"
  shows "keeps_ok rfc w w'"
  using ok_turn.run_tool_loop_kept [where w = w and q = q and req = req and e = e and plugins = plugins and ch = ch and cid = cid]
  by (simp add: assms)

lemma stream_ok:
  assumes "stream_loop rid (lift_provider q) mk run_round sel n raw t w = (w', t', err)"
    "\<And>cs t w. keeps_ok rfc w (fst (run_round cs t w))"
  shows "keeps_ok rfc w w'"
  using ok_turn.stream_loop_kept [where run_round = run_round, OF assms(2), where rid = rid and q = q and mk_req = mk
      and sel = sel and left = n and raw = raw and t = t and w = w]
  by (simp add: assms(1))

lemma rounds_ok:
  "stream_loop rid (lift_provider q) mk (event_round rid' (build_tools e plugins ch cid)) sel n raw t w = (w', t', err)
    \<Longrightarrow> keeps_ok rfc w w'"
  "stream_loop rid (lift_provider q) mk (inline_round rid' (build_tools e plugins ch cid)) sel n raw t w = (w', t', err)
    \<Longrightarrow> keeps_ok rfc w w'"
  by (erule stream_ok, rule ok_turn.event_round_kept ok_turn.inline_round_kept)+

lemma set_db_ok: "keeps_ok rfc w (m, v) \<Longrightarrow> same_memories (mm_db m) db \<Longrightarrow> keeps_ok rfc w (m\<lparr>mm_db := db\<rparr>, v)"
  by (rule kept_world.kept_trans [OF _ saved_ok])

lemmas loops_ok = tool_loop_ok rounds_ok

lemma pipeline_ok:
  assumes "ar_provider a = lift_provider q"
  shows "keeps_ok rfc s (fst (process_message_non_streaming cutoff tk now a (build_tools e plugins ch cid) sk chan content uc mo s))"
proof -
  note saving = same_memories_saving(3) same_memories_trans [OF same_memories_saving(3,2)]
  show ?thesis
    unfolding process_message_non_streaming_def Let_def assms
    by (auto simp: saving dest: loops_ok intro!: set_db_ok split: prod.split outcome.split sum.split)
qed

lemma streaming_ok:
  assumes "ar_provider (ap_agent a) = lift_provider q"
  shows "keeps_ok rfc (ap_world a) (ap_world (rp_app (handle_streaming E (build_tools e plugins ch cid) msg rid uc mo sk chan a)))"
  unfolding handle_streaming_def Let_def assms
  by (auto simp: answer_def panic_reply_def set_memory_def same_memories_saving
      dest: loops_ok intro!: set_db_ok split: prod.split outcome.split option.split)

lemma inline_ok:
  assumes "ar_provider (ap_agent a) = lift_provider q"
  shows "keeps_ok rfc (ap_world a) (ap_world (rp_app (handle_streaming_inline E (build_tools e plugins ch cid) msg rid uc mo a)))"
  unfolding handle_streaming_inline_def Let_def assms
  by (auto simp: answer_def panic_reply_def dest: loops_ok split: prod.split outcome.split option.split)

section \<open>Methods\<close>

lemma users_ok: "world_ok (rfc :: int \<Rightarrow> string) (ap_world a) \<Longrightarrow> resolver_wf u \<Longrightarrow> world_ok rfc (ap_world (set_users u a))"
  by (simp add: world_ok_def set_users_def)

lemma memory_ok: "world_ok rfc (ap_world a) \<Longrightarrow> memory_inv rfc m \<Longrightarrow> world_ok rfc (ap_world (set_memory m a))"
  by (simp add: world_ok_def set_memory_def)

lemma jobs_ok: "world_ok rfc (ap_world a) \<Longrightarrow> unique_on jr_id js \<Longrightarrow> world_ok rfc (ap_world (set_jobs js a))"
  by (simp add: world_ok_def set_jobs_def)

lemma terminal_ok: "world_ok rfc (ap_world a) \<Longrightarrow> term_wf t \<Longrightarrow> world_ok rfc (ap_world (set_terminal t a))"
  by (simp add: world_ok_def set_terminal_def)

lemma context_ok:
  assumes "world_ok (ce_rfc E) (ap_world a)" "resolve_user_context E chan sender a = Ret (a', ctx)"
  shows "world_ok (ce_rfc E) (ap_world a') \<and> ap_agent a' = ap_agent a"
proof (cases "\<exists>c s. chan = Some c \<and> sender = Some s")
  case True
  then obtain c s where cs: "chan = Some c" "sender = Some s" by blast
  with assms(2) obtain u r where r: "resolve (ce_json E) (ce_mint E) (sv_users (services a)) c s = Ret (u, r)"
    by (auto simp: resolve_user_context_def bind_outcome_Ret_iff)
  then have "resolver_wf u" using resolve_wf [of "sv_users (services a)" "ce_json E" "ce_mint E" c s] assms(1)
    by (auto simp: world_ok_def)
  with assms(1) have u: "world_ok (ce_rfc E) (ap_world (set_users u a))" by (rule users_ok)
  then have "memory_inv (ce_rfc E) (memory (set_users u a))" by (simp add: world_ok_def)
  from memory_calls_inv(3) [OF this] show ?thesis
    using assms(2) r cs u memory_ok [OF u]
    by (cases r) (auto simp: resolve_user_context_def Let_def set_memory_def set_users_def split_beta)
qed (use assms in \<open>auto simp: resolve_user_context_def split: option.splits\<close>)

text \<open>A method keeps the invariant and the provider.\<close>

definition method_ok :: "(int \<Rightarrow> string) \<Rightarrow> 'x app_state \<Rightarrow> 'x app_state \<Rightarrow> bool" where
  "method_ok rfc a a' \<longleftrightarrow> keeps_ok rfc (ap_world a) (ap_world a') \<and> ar_provider (ap_agent a') = ar_provider (ap_agent a)"

interpretation kept_method: preserved "method_ok rfc"
  by unfold_locales (auto simp: method_ok_def keeps_ok_def)

named_theorems methods

lemma method_same [methods, simp]: "method_ok rfc a a"
  by (rule kept_method.kept_refl)

lemma method_parts:
  "memory_inv rfc (memory a) \<longrightarrow> memory_inv rfc m \<Longrightarrow> method_ok rfc a (set_memory m a)"
  "unique_on jr_id (sv_jobs (services a)) \<longrightarrow> unique_on jr_id js \<Longrightarrow> method_ok rfc a (set_jobs js a)"
  "term_wf (sv_terminal (services a)) \<longrightarrow> term_wf t \<Longrightarrow> method_ok rfc a (set_terminal t a)"
  "method_ok rfc a (poison_jobs a)"
  by (auto simp: method_ok_def keeps_ok_def world_ok_def set_memory_def set_jobs_def set_terminal_def poison_jobs_def)

lemma read_methods_ok [methods]:
  "method_ok rfc a (rp_app (handle_sessions_list params rid a))" "method_ok rfc a (rp_app (handle_sessions_get E params rid a))"
  "method_ok rfc a (rp_app (handle_memory_search E params rid a))" "method_ok rfc a (rp_app (handle_cron_list E rid a))"
  "method_ok rfc a (rp_app (handle_terminal_list rid a))" "method_ok rfc a (rp_app (handle_terminal_job_list rid a))"
  "method_ok rfc a (rp_app (handle_terminal_exec E params rid a))" "method_ok rfc a (rp_app (handle_terminal_write E params rid a))"
  "method_ok rfc a (rp_app (handle_terminal_job_status params rid a))"
  by (simp_all add: handle_sessions_list_def handle_sessions_get_def handle_memory_search_def handle_cron_list_def
      with_jobs_def handle_terminal_list_def handle_terminal_job_list_def handle_terminal_exec_def
      handle_terminal_write_def handle_terminal_job_status_def Let_def split: handler_splits)

lemma learn_method_ok [methods]: "method_ok rfc a (rp_app (handle_memory_learn E params rid a))"
  by (auto simp: handle_memory_learn_def Let_def split_beta memory_calls_inv intro!: method_parts split: option.split sum.split)

lemma forget_method_ok [methods]: "method_ok rfc a (rp_app (handle_memory_forget E params rid a))"
  by (auto simp: handle_memory_forget_def Let_def split_beta memory_calls_inv intro!: method_parts split: option.split sum.split)

lemma cron_methods_ok [methods]:
  "method_ok rfc a (rp_app (handle_cron_add E params rid a))" "method_ok rfc a (rp_app (handle_cron_remove E params rid a))"
  by (auto simp: handle_cron_add_def handle_cron_remove_def with_jobs_def handle_add_job_def Let_def
      intro!: method_parts intro: insert_unique remove_unique split: option.split sum.split outcome.split prod.split)

lemma terminal_calls_wf:
  "term_wf t \<Longrightarrow> term_wf (fst (create_session es ed sid opened t sh dir))" "term_wf t \<Longrightarrow> term_wf (fst (term_kill t sid))"
  "term_wf t \<Longrightarrow> term_wf (fst (exec_background ulow jid now t c))" "term_wf t \<Longrightarrow> term_wf (fst (job_kill t jid))"
  using terminal.step_inv [of t "\<lambda>s. s" "\<lambda>s. s" "TCreate es ed sid opened sh dir"]
    terminal.step_inv [of t "\<lambda>s. s" "\<lambda>s. s" "TKill sid"] exec_background_wf job_kill_wf by simp_all

lemma terminal_methods_ok [methods]:
  "method_ok rfc a (rp_app (handle_terminal_create E params rid a))" "method_ok rfc a (rp_app (handle_terminal_kill params rid a))"
  "method_ok rfc a (rp_app (handle_terminal_exec_bg E params rid a))" "method_ok rfc a (rp_app (handle_terminal_job_kill params rid a))"
  "method_ok rfc a (rp_app (handle_terminal_read params rid a))"
  by (auto simp: handle_terminal_create_def handle_terminal_kill_def handle_terminal_exec_bg_def handle_terminal_job_kill_def
      handle_terminal_read_def Let_def split_beta terminal_calls_wf intro!: method_parts intro: term_read_wf
      split: option.split outcome.split)

lemma model_ok: "ap_world a' = ap_world a \<Longrightarrow> ar_provider (ap_agent a') = ar_provider (ap_agent a) \<Longrightarrow> method_ok rfc a a'"
  by (simp add: method_ok_def keeps_ok_def)

lemma agent_model_ok [methods]: "method_ok rfc a (rp_app (handle_agent_model params rid a))"
  by (rule model_ok) (simp_all add: handle_agent_model_def app_set_model_def set_model_def Let_def split: option.split prod.split)

lemma slash_ok: "handle_slash_command ulow msg a = (a', r) \<Longrightarrow> method_ok rfc a a'"
  using slash_keeps [of ulow msg a] by (simp add: model_ok)

text \<open>A turn: the command, the context, and one of the three ways to answer.\<close>

lemma agent_kept:
  "ap_agent (rp_app (handle_streaming E tools msg rid uc mo sk chan a)) = ap_agent a"
  "ap_agent (rp_app (handle_non_streaming E tools msg rid uc mo sk chan a)) = ap_agent a"
  "ap_agent (rp_app (handle_streaming_inline E tools msg rid uc mo a)) = ap_agent a"
  by (simp_all add: handle_streaming_def handle_non_streaming_def handle_streaming_inline_def answer_def panic_reply_def
      set_memory_def Let_def split: outcome.split option.split sum.split prod.split)

lemma turns_ok:
  assumes "ar_provider (ap_agent a) = lift_provider q"
  shows "method_ok rfc a (rp_app (handle_streaming E (build_tools e plugins ch cid) msg rid uc mo sk chan a))"
    and "method_ok rfc a (rp_app (handle_streaming_inline E (build_tools e plugins ch cid) msg rid uc mo a))"
    and "method_ok rfc a (rp_app (handle_non_streaming E (build_tools e plugins ch cid) msg rid uc mo sk chan a))"
proof -
  show "method_ok rfc a (rp_app (handle_streaming E (build_tools e plugins ch cid) msg rid uc mo sk chan a))"
    "method_ok rfc a (rp_app (handle_streaming_inline E (build_tools e plugins ch cid) msg rid uc mo a))"
    using streaming_ok [OF assms] inline_ok [OF assms] by (simp_all add: method_ok_def agent_kept)
  have "ap_world (rp_app (handle_non_streaming E (build_tools e plugins ch cid) msg rid uc mo sk chan a))
      = fst (process_message_non_streaming (ce_cutoff E) (ce_tick E) (ce_now_str E) (ap_agent a)
          (build_tools e plugins ch cid) sk chan msg uc mo (ap_world a))"
    by (simp add: handle_non_streaming_def answer_def panic_reply_def split: prod.split outcome.split sum.split)
  then show "method_ok rfc a (rp_app (handle_non_streaming E (build_tools e plugins ch cid) msg rid uc mo sk chan a))"
    using pipeline_ok [OF assms] by (simp add: method_ok_def agent_kept)
qed

lemma chat_ok_methods:
  assumes "ar_provider (ap_agent a) = lift_provider q"
  shows "method_ok (ce_rfc E) a (rp_app (handle_chat_send E (\<lambda>ch. build_tools e plugins ch None) params rid a))"
    and "method_ok (ce_rfc E) a (rp_app (handle_chat_send_inline E (\<lambda>ch. build_tools e plugins ch None) params rid a))"
proof -
  have before: "method_ok (ce_rfc E) a a2 \<and> ar_provider (ap_agent a2) = lift_provider q"
    if "resolve_user_context E chan sender a1 = Ret (a2, uc)" "handle_slash_command (ce_ulow E) msg a = (a1, None)"
    for msg a1 a2 uc chan sender
    using slash_ok [OF that(2), of "ce_rfc E"] context_ok [of E a1, OF _ that(1)] assms slash_keeps [OF that(2)]
      context_confined [OF that(1), THEN conjunct2]
    by (auto simp: method_ok_def keeps_ok_def)
  show "method_ok (ce_rfc E) a (rp_app (handle_chat_send E (\<lambda>ch. build_tools e plugins ch None) params rid a))"
    by (auto simp: handle_chat_send_def Let_def dest!: before intro: slash_ok kept_method.kept_trans turns_ok
        split: option.split sum.split prod.split outcome.split)
  show "method_ok (ce_rfc E) a (rp_app (handle_chat_send_inline E (\<lambda>ch. build_tools e plugins ch None) params rid a))"
    by (auto simp: handle_chat_send_inline_def Let_def dest!: before intro: slash_ok kept_method.kept_trans turns_ok
        split: option.split sum.split prod.split outcome.split)
qed

lemma route_ok:
  assumes "ar_provider (ap_agent a) = lift_provider q"
  shows "method_ok (ce_rfc E) a (rp_app (route E (\<lambda>ch. build_tools e plugins ch None) m params rid a))"
  unfolding route_def by (simp add: methods chat_ok_methods(2) [OF assms])

section \<open>The other ways in\<close>

lemma talks_ok:
  assumes "ar_provider ag = lift_provider q"
  shows "keeps_ok rfc w (fst (p_send (ar_provider ag) req w))" "keeps_ok rfc w (fst (p_send_stream (ar_provider ag) req w))"
  using ok_turn.sends [of rfc w q req] ok_turn.streams [of rfc w q req] by (simp_all add: assms)

lemma webhook_ok:
  assumes "ar_provider (ap_agent a) = lift_provider q"
  shows "method_ok rfc a (fst (webhook_handler W source body a))"
proof -
  have "method_ok rfc a (fst (forward_to_agent W a source payload))" for payload
    using talks_ok(1) [OF assms] by (simp add: forward_to_agent_def chat_def method_ok_def split_beta Let_def)
  then show ?thesis
    by (auto simp: webhook_handler_def Let_def split: option.split sum.split prod.split) (metis fst_conv)+
qed

lemma completion_ok:
  assumes "ar_provider (ap_agent a) = lift_provider q"
  shows "method_ok rfc a (fst (chat_completions uuid req a))"
  using talks_ok [OF assms]
  by (auto simp: chat_completions_def openai_streaming_def openai_non_streaming_def chat_def chat_stream_def method_ok_def
      split_beta Let_def keeps_ok_def split: option.split)

lemma facts_inv: "memory_inv rfc m \<Longrightarrow> memory_inv rfc (learn_facts tk u fs m)"
  by (induction tk u fs m rule: learn_facts.induct) (auto simp: memory_calls_inv split: option.split)

lemma compaction_ok:
  assumes "ar_provider ag = lift_provider q"
  shows "keeps_ok rfc s (compact_session_if_needed upper parse tk ag sk s)"
proof -
  have applied: "memory_inv rfc (compact_apply parse tk sk old r m)" if "memory_inv rfc m" for old r m
    using facts_inv [OF that] same_memories_saving(4)
    by (auto simp: compact_apply_def Let_def that same_memories_def intro!: memory_inv_other split: sum.split option.split)
  have "keeps_ok rfc s (compact_apply parse tk sk old r (fst s'), snd s')"
    if "p_send (ar_provider ag) req s = (s', r)" for old req s' r
    using talks_ok(1) [OF assms, of rfc s req] that applied by (auto simp: keeps_ok_def world_ok_def)
  then show ?thesis by (auto simp: compact_session_if_needed_def kept_world.kept_refl split: option.split prod.split)
qed

lemma discord_ok:
  assumes "ar_provider ag = lift_provider q"
  shows "keeps_ok rfc s (fst (on_message cutoff tk now ag (build_tools e plugins ''discord'' cid) say h m s))"
proof -
  have "keeps_ok rfc s (fst (discord_process_message cutoff tk now ag (build_tools e plugins ''discord'' cid) say sk c s))" for sk c
    using pipeline_ok [OF assms, of rfc s] by (simp add: discord_process_message_def split_beta Let_def)
  then show ?thesis by (auto simp: on_message_def kept_world.kept_refl split: option.split)
qed

end
