(* ===== verification/Gateway.thy ===== *)
theory Gateway
  imports Invariants Providers
begin

text \<open>
  The gateway at work: the tasks that \<open>main.rs\<close> spawns over the one shared state, in any order. Any number of
  WebSocket connections, the Discord bot, webhooks, completions, compactions, the scheduler's engine, the delivery
  of fired jobs, and the threads and tasks of the terminals.

  A step is one iteration of one task: a call runs to its end before the next step, as the mutexes of the managers
  make most of them do.
\<close>

section \<open>The system\<close>

text \<open>\<open>gw_heard\<close> records the texts each connection received; \<open>gw_engine\<close> is the scheduler's task, which a panic
  ends for good; \<open>gw_fired\<close> and \<open>gw_proactive\<close> are the channels to the delivery router and to Discord.\<close>

datatype engine_task = Spawned | Running | Ended

record 'y gateway =
  gw_app :: "'y toolbox app_state"
  gw_conns :: "nat \<Rightarrow> 'y toolbox conn option"
  gw_heard :: "nat \<Rightarrow> string list"
  gw_engine :: engine_task
  gw_fired :: channel
  gw_proactive :: "reminder_delivery list"

definition outside :: "(int \<Rightarrow> string) \<Rightarrow> call_env \<Rightarrow> (string \<Rightarrow> 'y tool_world tool list) \<Rightarrow> bool" where
  "outside rfc E tools_of \<longleftrightarrow> ce_rfc E = rfc \<and> (\<exists>e plugins. tools_of = (\<lambda>ch. build_tools e plugins ch None))"

fun heard_text :: "conn_event \<Rightarrow> string option" where
  "heard_text (Received msg) = Some msg"
| "heard_text _ = None"

definition texts_of :: "conn_event list \<Rightarrow> string list" where
  "texts_of es = List.map_filter heard_text es"

text \<open>The engine works on the same table of jobs.\<close>

definition engine_of :: "'y gateway \<Rightarrow> engine" where
  "engine_of g = \<lparr> engine.jobs = sv_jobs (services (gw_app g)), fired_tx = Some (gw_fired g) \<rparr>"

definition put_engine :: "engine \<Rightarrow> 'y gateway \<Rightarrow> 'y gateway" where
  "put_engine st g = g\<lparr>gw_app := set_jobs (engine.jobs st) (gw_app g),
     gw_fired := (case fired_tx st of Some c \<Rightarrow> c | None \<Rightarrow> gw_fired g)\<rparr>"

text \<open>\<open>FIRED_CAPACITY\<close> is the capacity of both channels in \<open>main\<close>.\<close>

definition FIRED_CAPACITY :: nat where "FIRED_CAPACITY = 256"

definition gateway_start :: "'y toolbox app_state \<Rightarrow> 'y gateway" where
  "gateway_start a = \<lparr> gw_app = a, gw_conns = (\<lambda>_. None), gw_heard = (\<lambda>_. []), gw_engine = Spawned,
     gw_fired = \<lparr> ch_buf = [], ch_cap = FIRED_CAPACITY, ch_closed = False \<rparr>, gw_proactive = [] \<rparr>"

text \<open>Sending to a full channel waits; without Discord its receiver is dropped and the delivery with it.\<close>

definition has_room :: "'y gateway \<Rightarrow> bool" where
  "has_room g \<longleftrightarrow> discord (channels (ap_config (gw_app g))) = None \<or> length (gw_proactive g) < FIRED_CAPACITY"

inductive gateway_step ::
    "(string \<Rightarrow> inbound_frame option) \<Rightarrow> (json \<Rightarrow> connect_params option) \<Rightarrow> (int \<Rightarrow> string)
      \<Rightarrow> 'y gateway \<Rightarrow> 'y gateway \<Rightarrow> bool"
  for frame_of connect_of rfc g where
  connects: "gw_conns g i = None
    \<Longrightarrow> gateway_step frame_of connect_of rfc g
          (g\<lparr>gw_conns := (gw_conns g)(i \<mapsto> conn_start uuid t (gw_app g)), gw_heard := (gw_heard g)(i := [])\<rparr>)"
| client: "gw_conns g i = Some c \<Longrightarrow> ev \<noteq> OthersRun
    \<Longrightarrow> conn_step frame_of connect_of (outside rfc) (c\<lparr>cn_app := gw_app g\<rparr>) ev c'
    \<Longrightarrow> gateway_step frame_of connect_of rfc g
          (g\<lparr>gw_app := cn_app c', gw_conns := (gw_conns g)(i \<mapsto> c'),
             gw_heard := (gw_heard g)(i := gw_heard g i @ texts_of [ev])\<rparr>)"
| discord_message: "discord (channels (ap_config (gw_app g))) = Some d
    \<Longrightarrow> on_message cutoff tk now (ap_agent (gw_app g)) (build_tools e plugins ''discord'' (Some n)) say h m (ap_world (gw_app g))
          = (w, spawned, sent)
    \<Longrightarrow> gateway_step frame_of connect_of rfc g (g\<lparr>gw_app := (gw_app g)\<lparr>ap_world := w\<rparr>\<rparr>)"
| webhook: "webhook_handler W source body (gw_app g) = (a, r)
    \<Longrightarrow> gateway_step frame_of connect_of rfc g (g\<lparr>gw_app := a\<rparr>)"
| completion: "chat_completions uuid req (gw_app g) = (a, resp)
    \<Longrightarrow> gateway_step frame_of connect_of rfc g (g\<lparr>gw_app := a\<rparr>)"
| compaction: "compact_session_if_needed upper parse tk (ap_agent (gw_app g)) session_key (ap_world (gw_app g)) = w
    \<Longrightarrow> gateway_step frame_of connect_of rfc g (g\<lparr>gw_app := (gw_app g)\<lparr>ap_world := w\<rparr>\<rparr>)"
| engine_starts: "gw_engine g = Spawned
    \<Longrightarrow> gateway_step frame_of connect_of rfc g
          ((put_engine (mark_missed_on_startup S t (engine_of g)) g)\<lparr>gw_engine := Running\<rparr>)"
| ticks: "gw_engine g = Running \<Longrightarrow> tick S t (engine_of g) = Ret st
    \<Longrightarrow> gateway_step frame_of connect_of rfc g (put_engine st g)"
| tick_panics: "gw_engine g = Running \<Longrightarrow> tick S t (engine_of g) = Panic
    \<Longrightarrow> scan S (filter (due (rfc3339 (cal S) t)) (engine.jobs (engine_of g))) = before @ r # after
    \<Longrightarrow> process_all S t before (engine_of g) = Ret st \<Longrightarrow> process_due S t r st = Panic
    \<Longrightarrow> gateway_step frame_of connect_of rfc g ((put_engine st g)\<lparr>gw_engine := Ended\<rparr>)"
| delivers: "ch_buf (gw_fired g) = j # js \<Longrightarrow> deliver action_of E j (gw_app g) = (effects, ds, frames)
    \<Longrightarrow> has_room g \<or> ds = []
    \<Longrightarrow> gateway_step frame_of connect_of rfc g
          (g\<lparr>gw_fired := (gw_fired g)\<lparr>ch_buf := js\<rparr>,
             gw_proactive := gw_proactive g @ (if discord (channels (ap_config (gw_app g))) = None then [] else ds)\<rparr>)"
| announces: "gw_proactive g = d # ds \<Longrightarrow> gateway_step frame_of connect_of rfc g (g\<lparr>gw_proactive := ds\<rparr>)"
| terminal_reads: "gateway_step frame_of connect_of rfc g
    (g\<lparr>gw_app := set_terminal (term_step ulow strip (sv_terminal (services (gw_app g))) (TReader sid ev)) (gw_app g)\<rparr>)"
| background_ends: "gateway_step frame_of connect_of rfc g
    (g\<lparr>gw_app := set_terminal (term_step ulow strip (sv_terminal (services (gw_app g))) (TTaskDone cell child)) (gw_app g)\<rparr>)"

inductive gateway_run ::
    "(string \<Rightarrow> inbound_frame option) \<Rightarrow> (json \<Rightarrow> connect_params option) \<Rightarrow> (int \<Rightarrow> string)
      \<Rightarrow> 'y gateway \<Rightarrow> 'y gateway \<Rightarrow> bool"
  for frame_of connect_of rfc g0 where
  not_yet: "gateway_run frame_of connect_of rfc g0 g0"
| and_then_step: "gateway_run frame_of connect_of rfc g0 g \<Longrightarrow> gateway_step frame_of connect_of rfc g g'
    \<Longrightarrow> gateway_run frame_of connect_of rfc g0 g'"

section \<open>What no step changes\<close>

lemma discord_parts: "fixed_parts (a\<lparr>ap_world := w\<rparr>) = fixed_parts a"
  by (simp add: fixed_parts_def)

lemma http_fixed:
  "webhook_handler W source body a = (a', r) \<Longrightarrow> fixed_parts a' = fixed_parts a"
  "chat_completions uuid req a = (a', resp) \<Longrightarrow> fixed_parts a' = fixed_parts a"
  by (auto simp: webhook_handler_def forward_to_agent_def chat_completions_def openai_streaming_def
      openai_non_streaming_def Let_def split: option.splits sum.splits prod.splits if_splits)

lemma put_engine_simps [simp]:
  "fixed_parts (gw_app (put_engine st g)) = fixed_parts (gw_app g)" "gw_conns (put_engine st g) = gw_conns g"
  "gw_heard (put_engine st g) = gw_heard g" "gw_engine (put_engine st g) = gw_engine g"
  "gw_proactive (put_engine st g) = gw_proactive g" "ap_agent (gw_app (put_engine st g)) = ap_agent (gw_app g)"
  by (simp_all add: put_engine_def fixed_parts_def set_jobs_def)

text \<open>The configuration stays, the counter of events stays a 64-bit number, and no client enters the table.\<close>

definition steady :: "'x app_state \<Rightarrow> 'x app_state \<Rightarrow> bool" where
  "steady a a' \<longleftrightarrow> ap_config a' = ap_config a \<and> (seq_ok a \<longrightarrow> seq_ok a') \<and> set (ap_ws_clients a') \<subseteq> set (ap_ws_clients a)"

lemma steady_refl: "steady a a"
  by (simp add: steady_def)

lemma steady_trans: "steady a b \<Longrightarrow> steady b c \<Longrightarrow> steady a c"
  by (auto simp: steady_def)

lemma fixed_steady: "fixed_parts a' = fixed_parts a \<Longrightarrow> steady a a'"
  by (auto simp: fixed_parts_def steady_def seq_ok_def)

lemma step_steady: "gateway_step frame_of connect_of rfc g g' \<Longrightarrow> steady (gw_app g) (gw_app g')"
proof (induction rule: gateway_step.induct)
  case (client i c ev c')
  then show ?case using step_config [OF client(3)] step_clients [OF client(3)] by (simp add: steady_def)
qed (auto intro: fixed_steady http_fixed simp: discord_parts)

lemma run_steady: "gateway_run frame_of connect_of rfc g0 g \<Longrightarrow> steady (gw_app g0) (gw_app g)"
  by (induction rule: gateway_run.induct) (auto intro: steady_trans step_steady simp: steady_refl)

section \<open>The invariant of the gateway\<close>

lemma handle_ok:
  assumes "ar_provider (ap_agent a) = lift_provider q" "outside rfc E tools_of"
  shows "method_ok rfc a (hd_app (handle frame_of connect_of E tools_of msg st a))"
  using route_ok [OF assms(1), of E] assms(2)
  by (auto simp: outside_def handle_def handle_auth_def handle_method_def stays_def Let_def
      split: option.split conn_state.split sum.split)

lemma conn_step_ok:
  assumes "conn_step frame_of connect_of (outside rfc) c ev c'" "ev \<noteq> OthersRun"
    and "ar_provider (ap_agent (cn_app c)) = lift_provider q"
  shows "method_ok rfc (cn_app c) (cn_app c')"
  using assms
proof (induction rule: conn_step.induct)
  case (received c msg E tools_of)
  then show ?case by (simp add: after_handle_def handle_ok)
next
  case (tick_sent c a' n ts sent)
  then show ?case by (auto simp: next_seq_def method_ok_def keeps_ok_def)
next
  case (chat_runs i c E tools_of a' frames)
  then show ?case using chat_ok_methods(1) [of "cn_app c" q E]
    by (auto simp: handle_chat_send_task_def Let_def outside_def)
qed simp_all

lemma processed:
  "process_all S t rs st = Ret st' \<Longrightarrow> map jr_id (engine.jobs st') = map jr_id (engine.jobs st)
     \<and> (\<forall>c. fired_tx st = Some c \<longrightarrow> (\<exists>c'. fired_tx st' = Some c' \<and> ch_cap c' = ch_cap c
          \<and> (length (ch_buf c) \<le> ch_cap c \<longrightarrow> length (ch_buf c') \<le> ch_cap c)))"
proof (induction rs arbitrary: st)
  case (Cons r rs)
  from Cons.prems obtain st1 where st1: "process_due S t r st = Ret st1" "process_all S t rs st1 = Ret st'"
    by (auto simp: bind_outcome_Ret_iff)
  have "map jr_id (engine.jobs st1) = map jr_id (engine.jobs st)
     \<and> (\<forall>c. fired_tx st = Some c \<longrightarrow> (\<exists>c'. fired_tx st1 = Some c' \<and> ch_cap c' = ch_cap c
          \<and> (length (ch_buf c) \<le> ch_cap c \<longrightarrow> length (ch_buf c') \<le> ch_cap c)))"
    using st1(1) by (auto simp: process_due_def Let_def bind_outcome_Ret_iff map_tbl_update_key fired_row_def
        try_send_def split: option.splits)
  with Cons.IH [OF st1(2)] show ?case by auto
qed simp

lemma engine_ok:
  assumes "map jr_id (engine.jobs st) = map jr_id (engine.jobs (engine_of g))"
  shows "method_ok rfc (gw_app g) (gw_app (put_engine st g))"
  using assms by (auto simp: put_engine_def engine_of_def unique_on_def intro!: method_parts)

lemma terminal_ends:
  "method_ok rfc a (set_terminal (term_step ulow strip (sv_terminal (services a)) e) a)"
  by (rule method_parts(3), rule impI, rule terminal.step_inv)

lemma step_method_ok:
  "gateway_step frame_of connect_of rfc g g' \<Longrightarrow> ar_provider (ap_agent (gw_app g)) = lift_provider q
    \<Longrightarrow> method_ok rfc (gw_app g) (gw_app g')"
proof (induction rule: gateway_step.induct)
  case (client i c ev c')
  then show ?case using conn_step_ok [of frame_of connect_of rfc "c\<lparr>cn_app := gw_app g\<rparr>" ev c'] by simp
next
  case (discord_message d cutoff tk now e plugins n say h m w spawned sent)
  then show ?case
    using discord_ok [of "ap_agent (gw_app g)" q rfc "ap_world (gw_app g)" cutoff tk now e plugins "Some n" say h m]
    by (simp add: method_ok_def)
next
  case (webhook W source body a r)
  then show ?case using webhook_ok [of "gw_app g" q rfc W source body] by simp
next
  case (completion uuid req a resp)
  then show ?case using completion_ok [of "gw_app g" q rfc uuid req] by simp
next
  case (compaction upper parse tk session_key w)
  then show ?case using compaction_ok [of "ap_agent (gw_app g)" q rfc "ap_world (gw_app g)" upper parse tk session_key]
    by (simp add: method_ok_def)
next
  case (engine_starts S t)
  then show ?case by (simp add: engine_ok mark_missed_on_startup_def Let_def map_tbl_update_key)
next
  case (ticks S t st)
  then show ?case by (simp add: engine_ok tick_def processed)
next
  case (tick_panics S t before r after st)
  then show ?case by (simp add: engine_ok processed)
qed (simp_all add: terminal_ends del: term_step.simps)

definition queues_ok :: "'y gateway \<Rightarrow> bool" where
  "queues_ok g \<longleftrightarrow> ch_cap (gw_fired g) = FIRED_CAPACITY \<and> length (ch_buf (gw_fired g)) \<le> FIRED_CAPACITY
     \<and> length (gw_proactive g) \<le> FIRED_CAPACITY"

lemma put_engine_queues:
  assumes "process_all S t rs (engine_of g) = Ret st" "queues_ok g"
  shows "queues_ok (put_engine st g)"
proof -
  have "\<exists>c'. fired_tx st = Some c' \<and> ch_cap c' = ch_cap (gw_fired g)
      \<and> (length (ch_buf (gw_fired g)) \<le> ch_cap (gw_fired g) \<longrightarrow> length (ch_buf c') \<le> ch_cap (gw_fired g))"
    using processed [OF assms(1), THEN conjunct2] by (simp add: engine_of_def)
  then show ?thesis using assms(2) by (auto simp: queues_ok_def put_engine_def)
qed

lemma put_engine_same: "fired_tx st = Some (gw_fired g) \<Longrightarrow> gw_fired (put_engine st g) = gw_fired g"
  by (simp add: put_engine_def)

lemma deliver_single: "deliver action_of E j a = (effects, ds, frames) \<Longrightarrow> length ds \<le> 1"
  by (auto simp: deliver_def Let_def split: option.splits prod.splits if_splits)

lemma step_queues: "gateway_step frame_of connect_of rfc g g' \<Longrightarrow> queues_ok g \<Longrightarrow> queues_ok g'"
proof (induction rule: gateway_step.induct)
  case (engine_starts S t)
  then show ?case
    by (simp add: queues_ok_def put_engine_same mark_missed_on_startup_def engine_of_def Let_def)
next
  case (ticks S t st)
  then show ?case using put_engine_queues by (auto simp: tick_def)
next
  case (tick_panics S t before r after st)
  then show ?case using put_engine_queues [OF tick_panics(4)] by (simp add: queues_ok_def)
next
  case (delivers j js action_of E effects ds frames)
  then show ?case using deliver_single [OF delivers(2)] by (auto simp: queues_ok_def has_room_def)
qed (auto simp: queues_ok_def)

definition gateway_ok :: "(int \<Rightarrow> string) \<Rightarrow> 'y gateway \<Rightarrow> bool" where
  "gateway_ok rfc g \<longleftrightarrow> world_ok rfc (ap_world (gw_app g)) \<and> seq_ok (gw_app g) \<and> ap_ws_clients (gw_app g) = []
     \<and> queues_ok g"

text \<open>The exchange with a model over HTTP has a state of its own; the provider \<open>main\<close> chooses works through it alone.\<close>

definition lift_exchange :: "'y exchange \<Rightarrow> 'y tool_world exchange" where
  "lift_exchange ex = (\<lambda>rq w. let (y, sent) = ex rq (tb_model (box w)) in (set_box (box w\<lparr>tb_model := y\<rparr>) w, sent))"

lemma provider_of_lifted:
  "provider_of (lift_exchange ex) parse bad choice = lift_provider (provider_of ex parse bad choice)"
  by (cases choice)
    (simp_all add: anthropic_provider_def openai_provider_def ollama_provider_def null_provider_def lift_provider_def
      lift_exchange_def default_send_stream_def fun_eq_iff set_box_def split_beta Let_def)

lemma new_memory_inv: "memory_wf db \<Longrightarrow> memory_inv rfc (memory_manager_new db)"
  by (simp add: memory_inv_def memory_manager_new_def context_cache_wf_def user_contexts.agrees_def)

text \<open>C1: The invariant of the running gateway. Started as \<open>main\<close> starts it, with any configuration, on any tables
  that respect their keys, and whatever
  its clients, Discord, the webhooks, the scheduler, the model and the tools do, in any order: the tables
  of memories, users and jobs always respect their keys and foreign keys, every cached user context is
  what the memories would render now, every cached user is what the tables hold, the terminals' jobs and
  their tasks agree, the event counter is a 64-bit number, no client is in the broadcast table, and both
  delivery channels stay within their 256 places.\<close>
theorem gateway_invariant:
  assumes "gateway_run frame_of connect_of rfc (gateway_start
      (main_state (lift_exchange ex) parse bad env_var read cfg us ms ss js tb)) g"
    and "users_wf us" "foreign_keys us" "memory_wf ms" "unique_on jr_id js"
  shows "gateway_ok rfc g"
proof -
  let ?g0 = "gateway_start (main_state (lift_exchange ex) parse bad env_var read cfg us ms ss js tb)"
  let ?q = "provider_of ex parse bad (build_provider env_var cfg)"
  have started: "gateway_ok rfc ?g0" "ar_provider (ap_agent (gw_app ?g0)) = lift_provider ?q"
    using assms(2-5)
    by (simp_all add: gateway_ok_def gateway_start_def main_state_def app_state_new_def world_ok_def provider_of_lifted Let_def new_memory_inv
        resolver_wf_new term_wf_new seq_ok_def queues_ok_def agent_runtime_new_def)
  have "gateway_ok rfc g \<and> ar_provider (ap_agent (gw_app g)) = lift_provider ?q" using assms(1)
  proof (induction rule: gateway_run.induct)
    case (and_then_step g g')
    then show ?case
      using step_method_ok [OF and_then_step.hyps(2)] step_steady [OF and_then_step.hyps(2)] step_queues [OF and_then_step.hyps(2)]
      by (auto simp: gateway_ok_def method_ok_def keeps_ok_def steady_def)
  qed (simp add: started)
  then show ?thesis ..
qed

section \<open>Each connection among the others\<close>

lemma step_conns:
  "gateway_step frame_of connect_of rfc g g' \<Longrightarrow> gw_conns g' i = Some c' \<Longrightarrow>
     (gw_conns g i = Some c' \<and> gw_heard g' i = gw_heard g i)
   \<or> (\<exists>uuid t. c' = conn_start uuid t (gw_app g') \<and> gw_heard g' i = [])
   \<or> (\<exists>c ev. gw_conns g i = Some c \<and> conn_step frame_of connect_of (outside rfc) (c\<lparr>cn_app := gw_app g\<rparr>) ev c'
        \<and> gw_app g' = cn_app c' \<and> gw_heard g' i = gw_heard g i @ texts_of [ev])"
  by (induction rule: gateway_step.induct) (auto split: if_splits)

text \<open>What one connection sees of a run of the gateway is a run of that connection, in which every other
  task is one of its steps of the others.\<close>

lemma texts_append [simp]: "texts_of (es @ fs) = texts_of es @ texts_of fs"
  by (simp add: texts_of_def List.map_filter_def)

lemma conn_start_app [simp]: "(conn_start uuid t a)\<lparr>cn_app := a\<rparr> = conn_start uuid t a"
  by (simp add: conn_start_def)

lemma others_seen:
  assumes "steady (gw_app g) (gw_app g')" "seq_ok (gw_app g)"
  shows "conn_step frame_of connect_of met (c\<lparr>cn_app := gw_app g\<rparr>) OthersRun (c\<lparr>cn_app := gw_app g'\<rparr>)"
  using assms others_run [of "gw_app g'" "c\<lparr>cn_app := gw_app g\<rparr>" frame_of connect_of met]
  by (simp add: steady_def seq_ok_def)

lemma connection_seen:
  assumes "gateway_run frame_of connect_of rfc (gateway_start a) g" "gw_conns g i = Some c" "seq_ok a"
  shows "\<exists>uuid t a0 es. conn_run frame_of connect_of (outside rfc) (conn_start uuid t a0) es (c\<lparr>cn_app := gw_app g\<rparr>)
    \<and> ap_config a0 = ap_config a \<and> texts_of es = gw_heard g i"
  using assms(1,2)
proof (induction arbitrary: c rule: gateway_run.induct)
  case not_yet
  then show ?case by (simp add: gateway_start_def)
next
  case (and_then_step g g')
  have sq: "seq_ok (gw_app g)" and cfg: "ap_config (gw_app g') = ap_config a"
    using run_steady [OF and_then_step.hyps(1)] step_steady [OF and_then_step.hyps(2)] assms(3)
    by (simp_all add: steady_def gateway_start_def)
  consider (same) "gw_conns g i = Some c" "gw_heard g' i = gw_heard g i"
    | (new) uuid t where "c = conn_start uuid t (gw_app g')" "gw_heard g' i = []"
    | (own) c0 ev where "gw_conns g i = Some c0" "gw_app g' = cn_app c" "gw_heard g' i = gw_heard g i @ texts_of [ev]"
        "conn_step frame_of connect_of (outside rfc) (c0\<lparr>cn_app := gw_app g\<rparr>) ev c"
    using step_conns [OF and_then_step.hyps(2) and_then_step.prems] by blast
  then show ?case
  proof cases
    case same
    from and_then_step.IH [OF same(1)] obtain uuid t a0 es
      where es: "conn_run frame_of connect_of (outside rfc) (conn_start uuid t a0) es (c\<lparr>cn_app := gw_app g\<rparr>)"
        "ap_config a0 = ap_config a" "texts_of es = gw_heard g i" by blast
    from run_snoc [OF es(1) others_seen [OF step_steady [OF and_then_step.hyps(2)] sq]] es(2,3) same(2)
    show ?thesis by (intro exI [of _ uuid] exI [of _ t] exI [of _ a0] exI [of _ "es @ [OthersRun]"])
        (simp add: texts_of_def List.map_filter_def)
  next
    case new
    then have "texts_of [] = gw_heard g' i" by (simp add: texts_of_def List.map_filter_def)
    then show ?thesis using run_nil [of frame_of connect_of "outside rfc" c] cfg new(1) by fastforce
  next
    case own
    from and_then_step.IH [OF own(1)] obtain uuid t a0 es
      where es: "conn_run frame_of connect_of (outside rfc) (conn_start uuid t a0) es (c0\<lparr>cn_app := gw_app g\<rparr>)"
        "ap_config a0 = ap_config a" "texts_of es = gw_heard g i" by blast
    from run_snoc [OF es(1) own(4)] es(2,3) own(2,3)
    show ?thesis by (intro exI [of _ uuid] exI [of _ t] exI [of _ a0] exI [of _ "es @ [ev]"]) simp
  qed
qed

lemma texts_count: "length (filter is_text es) = length (texts_of es)"
  and texts_in: "Received msg \<in> set es \<Longrightarrow> msg \<in> set (texts_of es)"
proof -
  show "length (filter is_text es) = length (texts_of es)"
  proof (induction es)
    case (Cons e es)
    then show ?case by (cases e) (simp_all add: texts_of_def List.map_filter_def)
  qed (simp add: texts_of_def List.map_filter_def)
  show "Received msg \<in> set es \<Longrightarrow> msg \<in> set (texts_of es)"
    by (force simp: texts_of_def List.map_filter_def)
qed

text \<open>C6: Admission at the gateway. However the connections, Discord, the webhooks, the scheduler and the
  terminals interleave over the shared state, a connection that is authenticated, has had a method
  routed or has a chat task spawned has itself received, within the size limit, a text with credentials that the
  configuration the gateway started with accepts, and had fewer methods routed than texts received:
  what another client presented, and what any task did, never lets it in.\<close>
theorem gateway_admits:
  assumes "gateway_run frame_of connect_of rfc (gateway_start a) g" "seq_ok a"
    and "gw_conns g i = Some c" "cn_state c = Authenticated \<or> cn_routed c \<noteq> [] \<or> cn_tasks c \<noteq> []"
  shows "\<exists>msg \<in> set (gw_heard g i). accepts frame_of connect_of (ap_config a) msg
    \<and> length (cn_routed c) < length (gw_heard g i)"
proof -
  from connection_seen [OF assms(1,3,2)] obtain uuid t a0 es
    where es: "conn_run frame_of connect_of (outside rfc) (conn_start uuid t a0) es (c\<lparr>cn_app := gw_app g\<rparr>)"
      "ap_config a0 = ap_config a" "texts_of es = gw_heard g i" by blast
  from credentials_first [OF es(1)] assms(4) es(2) obtain before msg after
    where m: "es = before @ Received msg # after" "accepts frame_of connect_of (ap_config a) msg"
      "length (cn_routed c) \<le> length (filter is_text after)" by (auto simp: locked_out_def)
  from m(1) have "Received msg \<in> set es" by simp
  then have "msg \<in> set (gw_heard g i)" using texts_in es(3) by metis
  moreover have "length (cn_routed c) < length (gw_heard g i)"
  proof -
    have "length (gw_heard g i) = length (filter is_text es)" by (simp add: texts_count es(3))
    then show ?thesis using m(1,3) by simp
  qed
  ultimately show ?thesis using m(2) by blast
qed

section \<open>An example\<close>

definition sample_boot :: "nat toolbox app_state" where
  "sample_boot = main_state (lift_exchange (\<lambda>rq n. (Suc n, Inl (NotReachable ''refused'')))) (\<lambda>_. None) [] (\<lambda>_. None) (\<lambda>_. None)
     (default_config None) \<lparr>users = [], identities = [], foreign_keys = True\<rparr> init_db [] [] (box new_world)"

text \<open>A client connects and presents the default token; a second one connects.\<close>

lemma sample_gateway_run:
  "\<exists>g c. gateway_run sample_frames sample_connect (ce_rfc sample_call) (gateway_start sample_boot) g
     \<and> gw_conns g 0 = Some c \<and> cn_state c = Authenticated \<and> gw_heard g 0 = [''c''] \<and> gw_conns g 1 \<noteq> None"
proof -
  let ?f = sample_frames and ?k = sample_connect and ?r = "ce_rfc sample_call" and ?g0 = "gateway_start sample_boot"
  let ?c0 = "conn_start ''u'' 0 (gw_app ?g0)" and ?tools = "\<lambda>ch. build_tools (\<lambda>_. sample_env) [] ch None"
  obtain c1 where step: "conn_step ?f ?k (outside ?r) ?c0 (Received ''c'') c1" and auth: "cn_state c1 = Authenticated"
  proof
    let ?c1 = "after_handle (handle ?f ?k sample_call ?tools ''c'' (cn_state ?c0) (cn_app ?c0)) ?c0"
    have small: "length ''c'' \<le> MAX_PAYLOAD_BYTES" by (simp add: MAX_PAYLOAD_BYTES_def)
    show "cn_state ?c1 = Authenticated"
      by (simp add: after_handle_def handle_def handle_auth_def sample_frames_def request_def as_req_def jinsert_def
          req_of_object_def conn_start_def stays_def verify_auth_def gateway_start_def sample_boot_def main_state_def
          app_state_new_def default_config_def)
    show "conn_step ?f ?k (outside ?r) ?c0 (Received ''c'') ?c1"
      by (rule received [OF _ small]) (auto simp: conn_start_def outside_def)
  qed
  define g1 where "g1 = ?g0\<lparr>gw_conns := (gw_conns ?g0)(0 \<mapsto> ?c0), gw_heard := (gw_heard ?g0)(0 := [])\<rparr>"
  define g2 where "g2 = g1\<lparr>gw_app := cn_app c1, gw_conns := (gw_conns g1)(0 \<mapsto> c1),
    gw_heard := (gw_heard g1)(0 := gw_heard g1 0 @ texts_of [Received ''c''])\<rparr>"
  define g3 where "g3 = g2\<lparr>gw_conns := (gw_conns g2)(1 \<mapsto> conn_start ''v'' 5 (gw_app g2)), gw_heard := (gw_heard g2)(1 := [])\<rparr>"
  have "gateway_step ?f ?k ?r ?g0 g1" unfolding g1_def by (rule connects) (simp add: gateway_start_def)
  moreover have "gateway_step ?f ?k ?r g1 g2" unfolding g2_def
    by (rule client [of _ _ ?c0]) (use step in \<open>simp_all add: g1_def\<close>)
  moreover have "gateway_step ?f ?k ?r g2 g3" unfolding g3_def
    by (rule connects) (simp add: g2_def g1_def gateway_start_def)
  ultimately have "gateway_run ?f ?k ?r ?g0 g3"
    by (rule and_then_step [OF and_then_step [OF and_then_step [OF not_yet]]])
  then show ?thesis using auth
    by (intro exI [of _ g3] exI [of _ c1]) (simp add: g3_def g2_def g1_def texts_of_def List.map_filter_def)
qed

theorem gateway_invariant_witness:
  "\<exists>g. gw_heard g 0 = [''c''] \<and> gw_conns g 1 \<noteq> None \<and> gateway_ok (ce_rfc sample_call) (g :: nat gateway)"
proof -
  obtain g c where g: "gateway_run sample_frames sample_connect (ce_rfc sample_call) (gateway_start sample_boot) g"
    "gw_heard g 0 = [''c'']" "gw_conns g 1 \<noteq> None" using sample_gateway_run by blast
  have "users_wf \<lparr>users = [], identities = [], foreign_keys = True\<rparr>" by (simp add: users_wf_def)
  from gateway_invariant [OF g(1) [unfolded sample_boot_def] this] g(2,3) show ?thesis by (auto simp: memory_wf_init)
qed

theorem gateway_admits_witness:
  "\<exists>g c. gw_conns g 0 = Some c \<and> cn_state c = Authenticated \<and> gw_conns (g :: nat gateway) 1 \<noteq> None
     \<and> accepts sample_frames sample_connect (ap_config sample_boot) ''c'' \<and> cn_routed c = []"
proof -
  obtain g c where g: "gateway_run sample_frames sample_connect (ce_rfc sample_call) (gateway_start sample_boot) g"
    "gw_conns g 0 = Some c" "cn_state c = Authenticated" "gw_heard g 0 = [''c'']" "gw_conns g 1 \<noteq> None"
    using sample_gateway_run by blast
  have "seq_ok sample_boot" by (simp add: seq_ok_def sample_boot_def main_state_def app_state_new_def)
  from gateway_admits [OF g(1) this g(2)] g(2-5) show ?thesis by auto
qed

end
