(* ===== verification/Reminders.thy ===== *)
theory Reminders
  imports ToolboxProps Http SchedulerProps
begin

text \<open>
  A reminder's way through the program: from the tool call of a turn in Discord (\<open>AgentTools\<close>, \<open>Toolbox\<close>) over
  the table of jobs and the scheduler's ticks (\<open>Scheduler\<close>) to the channel of deliveries (\<open>Http\<close>).
\<close>

section \<open>One job of a tick\<close>

lemma fire_job_parts:
  "fire_job E t r = Some j \<Longrightarrow> j_id j = jr_id r \<and> j_action j = jr_action r"
  by (auto simp: fire_job_def fired_job_def split: option.splits outcome.splits)

lemma fired_once:
  "distinct (map jr_id rs) \<Longrightarrow> r \<in> set rs \<Longrightarrow> fire_job E t r = Some j
    \<Longrightarrow> filter (\<lambda>x. j_id x = jr_id r) (List.map_filter (fire_job E t) rs) = [j]"
proof (induction rs)
  case (Cons x rs)
  have none: "filter (\<lambda>y. j_id y = jr_id r) (List.map_filter (fire_job E t) ys) = []"
    if "jr_id r \<notin> jr_id ` set ys" for ys
    using that by (induction ys) (auto simp: map_filter_simps dest: fire_job_parts split: option.split)
  show ?case
  proof (cases "x = r")
    case True
    then show ?thesis using Cons.prems none [of rs] by (auto simp: map_filter_simps dest: fire_job_parts)
  next
    case False
    then have "r \<in> set rs" "jr_id x \<noteq> jr_id r" using Cons.prems by auto
    then show ?thesis using Cons by (auto simp: map_filter_simps dest: fire_job_parts split: option.split)
  qed
qed simp

lemma tick_sends:
  assumes "scan_ok E" "unique_on jr_id (engine.jobs st)" "\<forall>x \<in> set (due_rows E t st). no_panic E t x"
    and c: "fired_tx st = Some c" "\<not> ch_closed c" "length (ch_buf c) + length (due_rows E t st) \<le> ch_cap c"
    and r: "r \<in> set (due_rows E t st)" "fire_job E t r = Some j"
  shows "\<exists>st' c' fired. tick E t st = Ret st' \<and> fired_tx st' = Some c' \<and> ch_buf c' = ch_buf c @ fired
    \<and> filter (\<lambda>x. j_id x = jr_id r) fired = [j]"
proof -
  let ?rows = "scan E (due_rows E t st)" and ?fired = "List.map_filter (fire_job E t) (scan E (due_rows E t st))"
  have "length ?fired \<le> length ?rows" by (simp add: List.map_filter_def)
  moreover have "length ?rows = length (due_rows E t st)"
    using assms(1) by (metis scan_ok_def size_mset)
  ultimately have "take (ch_cap c - length (ch_buf c)) ?fired = ?fired" using c(3) by simp
  moreover have "filter (\<lambda>x. j_id x = jr_id r) ?fired = [j]"
    using fired_once [OF scan_due(2) [OF assms(1,2)]] scan_due(1) [OF assms(1,2)] r by blast
  ultimately show ?thesis using tick_rows [OF assms(1-3)] c(1,2) by (auto simp: send_all_open)
qed

section \<open>From the tool to the channel\<close>

lemma in_seconds:
  assumes "in_str ''recurring'' input = None" "in_str ''fire_at'' input = None"
    and "Option.bind (jget ''fire_in_seconds'' input) as_i64_json = Some secs" "0 < secs" "secs \<le> 9223372036854775"
    and "in_range (cal (ce_sched E)) (ce_now E + secs * second_ns)"
  shows "reminder_schedule E T input = Ret (Inr (Once (ce_now E + secs * second_ns)))"
  using assms by (simp add: reminder_schedule_def duration_seconds_def dt_add_def in_range_def)

lemma row_added:
  assumes "reminder_schedule E T input = Ret (Inr s)" "in_str ''action'' input = Some ''add''"
    and "non_empty (in_str ''message'' input) = Some msg" "\<not> snd st" "ce_id E \<notin> jr_id ` set (fst st)"
    and "compute_next_run (cal (ce_sched E)) s (ce_now E) = Ret n"
  shows "\<exists>r out. reminder_execute E T input st = ((fst st @ [r], False), Ret (ToolResult_success out))
    \<and> jr_id r = ce_id E \<and> jr_status r = ''pending'' \<and> jr_action r = rt_text T (action_added T input msg)
    \<and> jr_schedule r = senc (ce_sched E) s \<and> jr_next_run r = map_option (rfc3339 (cal (ce_sched E))) n
    \<and> jr_run_count r = 0 \<and> jr_max_runs r = None"
  using assms by (auto simp: reminder_execute_def add_reminder_def action_added_def handle_add_job_def insert_job_def Let_def)


section \<open>An example\<close>

text \<open>A reminder in five seconds, asked for at instant 0; a tick after four seconds, a restart, and a tick after six.\<close>

definition tea_env :: tool_env where
  "tea_env = ToolboxProps.sample_env\<lparr>te_call := sample_call\<lparr>ce_now := 0, ce_id := ''tea-1'', ce_sched := \<lparr> cal = sample_cal,
     senc = (\<lambda>_. ''in five''), sdec = (\<lambda>_. Some (Once 5000000000)), scan = rev \<rparr>\<rparr>\<rparr>"

definition tea :: json where
  "tea = JObj [(''action'', JStr ''add''), (''message'', JStr ''tea''), (''fire_in_seconds'', JInt 5)]"

definition tea_action :: "string \<Rightarrow> reminder_action option" where
  "tea_action s = Some \<lparr> ra_channel = ''discord'', ra_channel_id = Some 7, ra_message = s, ra_image_url = None,
     ra_bash_command = None \<rparr>"

lemma tea_fields:
  "in_str ''action'' tea = Some ''add''" "non_empty (in_str ''message'' tea) = Some ''tea''"
  "in_str ''recurring'' tea = None" "in_str ''fire_at'' tea = None" "in_str ''bash_command'' tea = None"
  "Option.bind (jget ''fire_in_seconds'' tea) as_i64_json = Some 5" "in_str ''image_url'' tea = None"
  by (simp_all add: tea_def in_str_def non_empty_def)

lemma tea_call:
  "ce_id (te_call tea_env) = ''tea-1''" "ce_now (te_call tea_env) = 0" "cal (ce_sched (te_call tea_env)) = sample_cal"
  "scan (ce_sched (te_call tea_env)) = rev" "te_text tea_env = ra_message"
  "sdec (ce_sched (te_call tea_env)) s = Some (Once 5000000000)"
  by (simp_all add: tea_env_def ToolboxProps.sample_env_def)

lemma tea_row:
  "\<exists>w' res r. reminder_body ''discord'' (Some 7) tea_env tea new_world = (w', res) \<and> sv_jobs (snd w') = [r]
     \<and> jr_status r = ''pending'' \<and> jr_next_run r = Some (unary 5000000000) \<and> jr_id r = ''tea-1''"
proof -
  let ?T = "\<lparr> rt_channel_name = ''discord'', rt_channel_id = Some 7, rt_time = te_time tea_env, rt_text = te_text tea_env \<rparr>"
  have sched: "reminder_schedule (te_call tea_env) ?T tea = Ret (Inr (Once 5000000000))"
    using in_seconds [of tea 5 "te_call tea_env" ?T] tea_fields by (simp add: tea_call in_range_def sample_cal_def)
  have n: "compute_next_run (cal (ce_sched (te_call tea_env))) (Once 5000000000) (ce_now (te_call tea_env)) = Ret (Some 5000000000)"
    by (simp add: compute_next_run_def tea_call)
  from row_added [OF sched tea_fields(1,2) _ _ n, of "([], False)"] show ?thesis
    by (auto simp: reminder_body_def new_world_def tea_call sample_cal_def)
qed


end
